(* ===== verification/Prelude.thy ===== *)
theory Prelude
  imports Complex_Main
begin

text \<open>
  Shared vocabulary of the development: the exceptions a handler can throw, results that are an
  exception or a value, loops over a list that stop at the first exception, the tables the
  persistence layer keeps, a decimal rendering of identifiers, and the two generic interfaces
  (transactional systems and status machines) that several components implement.
\<close>

named_theorems tx_simps \<open>what a handler that returned must have gone through\<close>
named_theorems table_simps \<open>what a table holds after an update\<close>

section \<open>Exceptions and results\<close>

text \<open>
  The HTTP exceptions of the framework carry the message of the source.  \<open>RecordNotFound\<close> is
  what \<open>findUniqueOrThrow\<close> and \<open>update\<close> throw for a missing row, \<open>UniqueViolation\<close> what
  \<open>create\<close> throws when a unique column already holds the value; \<open>ProviderError\<close> is an
  error of an external service.
\<close>

datatype exn =
    BadRequest string
  | NotFound string
  | Conflict string
  | Forbidden string
  | Unauthorized string
  | Unprocessable string
  | TooManyRequests string
  | BadGateway string
  | ServiceUnavailable string
  | RecordNotFound
  | UniqueViolation
  | ProviderError string

type_synonym 'a result = "exn + 'a"
type_synonym decimal = rat
type_synonym time = int

definition ebind :: "'a result \<Rightarrow> ('a \<Rightarrow> 'b result) \<Rightarrow> 'b result" where
  "ebind m f = (case m of Inl e \<Rightarrow> Inl e | Inr x \<Rightarrow> f x)"

definition require :: "bool \<Rightarrow> exn \<Rightarrow> 'a result \<Rightarrow> 'a result" where
  "require c e k = (if c then k else Inl e)"

definition orThrow :: "'a option \<Rightarrow> exn \<Rightarrow> 'a result" where
  "orThrow m e = (case m of None \<Rightarrow> Inl e | Some x \<Rightarrow> Inr x)"

lemma ebind_simps [simp]:
  "ebind (Inl e) f = Inl e"
  "ebind (Inr x) f = f x"
  by (simp_all add: ebind_def)

lemma ebind_Inr_iff [tx_simps]: "ebind m f = Inr y \<longleftrightarrow> (\<exists>x. m = Inr x \<and> f x = Inr y)"
  by (cases m) auto

lemma ebind_Inl_iff: "ebind m f = Inl e \<longleftrightarrow> m = Inl e \<or> (\<exists>x. m = Inr x \<and> f x = Inl e)"
  by (cases m) auto

lemma ebindE:
  assumes "ebind m f = Inr y"
  obtains x where "m = Inr x" "f x = Inr y"
  using assms by (auto simp: ebind_Inr_iff)

lemma require_Inr_iff [tx_simps]: "require c e k = Inr y \<longleftrightarrow> c \<and> k = Inr y"
  by (simp add: require_def)

lemma require_simps [simp]: "require True e k = k" "require False e k = Inl e"
  by (simp_all add: require_def)

lemma orThrow_Inr_iff [tx_simps]: "orThrow m e = Inr x \<longleftrightarrow> m = Some x"
  by (cases m) (simp_all add: orThrow_def)

lemma orThrow_simps [simp]: "orThrow None e = Inl e" "orThrow (Some x) e = Inr x"
  by (simp_all add: orThrow_def)

lemma if_Inr_iff [tx_simps]:
  "(if c then Inl e else k) = Inr y \<longleftrightarrow> \<not> c \<and> k = Inr y"
  "(if c then k else Inl e) = Inr y \<longleftrightarrow> c \<and> k = Inr y"
  by auto

subsection \<open>Loops\<close>

text \<open>\<open>eiter f xs s\<close> is \<open>for (const x of xs) await f(x)\<close> over the state \<open>s\<close>.\<close>

fun eiter :: "('a \<Rightarrow> 's \<Rightarrow> 's result) \<Rightarrow> 'a list \<Rightarrow> 's \<Rightarrow> 's result" where
  "eiter f [] s = Inr s"
| "eiter f (x # xs) s = ebind (f x s) (eiter f xs)"

text \<open>\<open>emap f xs\<close> is \<open>xs.map(f)\<close> for a callback that may throw.\<close>

fun emap :: "('a \<Rightarrow> 'b result) \<Rightarrow> 'a list \<Rightarrow> 'b list result" where
  "emap f [] = Inr []"
| "emap f (x # xs) = ebind (f x) (\<lambda>y. ebind (emap f xs) (\<lambda>ys. Inr (y # ys)))"

lemma eiter_append: "eiter f (xs @ ys) s = ebind (eiter f xs s) (eiter f ys)"
proof (induction xs arbitrary: s)
  case (Cons x xs)
  then show ?case by (cases "f x s") simp_all
qed simp

lemma eiter_invariant:
  assumes "eiter f xs s = Inr s'" and "P s"
    and "\<And>x t t'. x \<in> set xs \<Longrightarrow> P t \<Longrightarrow> f x t = Inr t' \<Longrightarrow> P t'"
  shows "P s'"
  using assms
proof (induction xs arbitrary: s)
  case (Cons x xs)
  from Cons.prems(1) obtain t where t: "f x s = Inr t" "eiter f xs t = Inr s'"
    by (auto simp: ebind_Inr_iff)
  have "P t" using Cons.prems(2,3) t(1) by auto
  then show ?case using Cons.IH [OF t(2)] Cons.prems(3) by auto
qed simp

lemma eiter_accumulates:
  fixes m :: "'s \<Rightarrow> 'c::comm_monoid_add"
  assumes "eiter f xs s = Inr s'"
    and "\<And>x t t'. x \<in> set xs \<Longrightarrow> f x t = Inr t' \<Longrightarrow> m t' = m t + g x"
  shows "m s' = m s + (\<Sum>x\<leftarrow>xs. g x)"
  using assms
proof (induction xs arbitrary: s)
  case (Cons x xs)
  from Cons.prems(1) obtain t where t: "f x s = Inr t" "eiter f xs t = Inr s'"
    by (auto simp: ebind_Inr_iff)
  have "m t = m s + g x" using Cons.prems(2) t(1) by simp
  moreover have "m s' = m t + (\<Sum>x\<leftarrow>xs. g x)" using Cons.IH [OF t(2)] Cons.prems(2) by simp
  ultimately show ?case by (simp add: add.assoc)
qed simp

lemma eiter_frame:
  assumes "eiter f xs s = Inr s'"
    and "\<And>x t t'. x \<in> set xs \<Longrightarrow> f x t = Inr t' \<Longrightarrow> g t' = g t"
  shows "g s' = g s"
  using eiter_invariant [where P = "\<lambda>t. g t = g s", OF assms(1)] assms(2) by simp

lemma emap_Inr_list_all2:
  "emap f xs = Inr ys \<longleftrightarrow> list_all2 (\<lambda>x y. f x = Inr y) xs ys"
proof (induction xs arbitrary: ys)
  case (Cons x xs)
  then show ?case by (cases ys) (auto simp: ebind_Inr_iff)
qed auto

lemma emap_all: "emap f xs = Inr ys \<Longrightarrow> (\<And>x y. f x = Inr y \<Longrightarrow> P y) \<Longrightarrow> \<forall>y \<in> set ys. P y"
  unfolding emap_Inr_list_all2 by (induction rule: list_all2_induct) auto

section \<open>Tables\<close>

text \<open>
  A table keeps its rows in insertion order, which is the order of the autoincrement
  identifiers, and the next identifier, which deletions never give back.  \<open>tfind\<close> is
  \<open>findUnique\<close>/\<open>findFirst\<close>, \<open>tfilter\<close> is \<open>findMany\<close>, \<open>tupdate\<close> is \<open>update\<close> and
  \<open>updateMany\<close>, \<open>tcount\<close> the number of rows they match, \<open>tdelete\<close> is \<open>deleteMany\<close> and
  \<open>tinsert\<close> is \<open>create\<close>, given the row as a function of its new identifier.
\<close>

record 'r table =
  rows :: "'r list"
  next_id :: nat

definition tempty :: "'r table" where
  "tempty = \<lparr>rows = [], next_id = 1\<rparr>"

definition tfind :: "('r \<Rightarrow> bool) \<Rightarrow> 'r table \<Rightarrow> 'r option" where
  "tfind P t = List.find P (rows t)"

definition tfilter :: "('r \<Rightarrow> bool) \<Rightarrow> 'r table \<Rightarrow> 'r list" where
  "tfilter P t = filter P (rows t)"

definition tcount :: "('r \<Rightarrow> bool) \<Rightarrow> 'r table \<Rightarrow> nat" where
  "tcount P t = length (filter P (rows t))"

definition tupdate :: "('r \<Rightarrow> bool) \<Rightarrow> ('r \<Rightarrow> 'r) \<Rightarrow> 'r table \<Rightarrow> 'r table" where
  "tupdate P f t = t\<lparr>rows := map (\<lambda>r. if P r then f r else r) (rows t)\<rparr>"

definition tdelete :: "('r \<Rightarrow> bool) \<Rightarrow> 'r table \<Rightarrow> 'r table" where
  "tdelete P t = t\<lparr>rows := filter (\<lambda>r. \<not> P r) (rows t)\<rparr>"

definition tinsert :: "(nat \<Rightarrow> 'r) \<Rightarrow> 'r table \<Rightarrow> 'r table" where
  "tinsert mk t = t\<lparr>rows := rows t @ [mk (next_id t)], next_id := Suc (next_id t)\<rparr>"

lemma rows_table [table_simps, simp]:
  "rows (tupdate P f t) = map (\<lambda>r. if P r then f r else r) (rows t)"
  "rows (tdelete P t) = filter (\<lambda>r. \<not> P r) (rows t)"
  "rows (tinsert mk t) = rows t @ [mk (next_id t)]"
  by (simp_all add: tupdate_def tdelete_def tinsert_def)

lemma next_id_table [table_simps, simp]:
  "next_id (tupdate P f t) = next_id t"
  "next_id (tdelete P t) = next_id t"
  "next_id (tinsert mk t) = Suc (next_id t)"
  by (simp_all add: tupdate_def tdelete_def tinsert_def)

lemma tupdate_column:
  "(\<And>r. P r \<Longrightarrow> g (f r) = g r) \<Longrightarrow> map g (rows (tupdate P f t)) = map g (rows t)"
  by auto

lemma tupdate_eqI:
  assumes "\<And>r. r \<in> set (rows t) \<Longrightarrow> P r = Q r \<and> (P r \<longrightarrow> f r = g r)"
  shows "tupdate P f t = tupdate Q g t"
proof -
  have "map (\<lambda>r. if P r then f r else r) (rows t) = map (\<lambda>r. if Q r then g r else r) (rows t)"
    using assms by auto
  then show ?thesis by (simp only: tupdate_def)
qed

lemma tfind_Some_iff:
  "tfind P t = Some r \<longleftrightarrow>
     (\<exists>i < length (rows t). P (rows t ! i) \<and> r = rows t ! i \<and> (\<forall>j < i. \<not> P (rows t ! j)))"
  by (auto simp: tfind_def find_Some_iff)

lemma tfind_SomeD: "tfind P t = Some r \<Longrightarrow> r \<in> set (rows t) \<and> P r"
  by (auto simp: tfind_Some_iff)

lemma tfind_key: "tfind (\<lambda>x. key x = k) t = Some r \<Longrightarrow> tfind (\<lambda>x. key x = key r) t = Some r"
  using tfind_SomeD [of "\<lambda>x. key x = k" t r] by simp

lemma tfind_None_iff: "tfind P t = None \<longleftrightarrow> (\<forall>r \<in> set (rows t). \<not> P r)"
  by (auto simp: tfind_def find_None_iff)

lemma find_map_key:
  assumes "\<And>r. P (f r) = P r"
  shows "List.find P (map f xs) = map_option f (List.find P xs)"
  using assms by (induction xs) auto

lemma tfind_tupdate [table_simps]:
  assumes "\<And>r. Q r \<Longrightarrow> P (f r) = P r"
  shows "tfind P (tupdate Q f t) = map_option (\<lambda>r. if Q r then f r else r) (tfind P t)"
  unfolding tfind_def rows_table by (rule find_map_key) (simp add: assms)

lemma tfind_tupdate_other [table_simps]:
  assumes "\<And>r. Q r \<Longrightarrow> \<not> P r \<and> \<not> P (f r)"
  shows "tfind P (tupdate Q f t) = tfind P t"
proof -
  have "map_option (\<lambda>r. if Q r then f r else r) (tfind P t) = tfind P t"
    using assms by (cases "tfind P t") (auto dest!: tfind_SomeD)
  then show ?thesis using assms by (subst tfind_tupdate) auto
qed

lemma tupdate_none: "tfind Q t = None \<Longrightarrow> tupdate Q f t = t"
  unfolding tupdate_def tfind_None_iff by (simp add: map_idI)

lemma find_append: "List.find P (xs @ ys) = (case List.find P xs of None \<Rightarrow> List.find P ys | s \<Rightarrow> s)"
  by (induction xs) auto

lemma tfind_tinsert [table_simps]:
  "tfind P (tinsert mk t) =
     (case tfind P t of None \<Rightarrow> (if P (mk (next_id t)) then Some (mk (next_id t)) else None)
      | Some r \<Rightarrow> Some r)"
  by (auto simp: tfind_def find_append split: option.split)

lemma tcount_zero_iff: "tcount P t = 0 \<longleftrightarrow> tfind P t = None"
  by (simp add: tcount_def tfind_None_iff filter_empty_conv)

lemma tcount_tinsert [table_simps]:
  "tcount P (tinsert mk t) = tcount P t + (if P (mk (next_id t)) then 1 else 0)"
  by (simp add: tcount_def)

lemma tcount_tupdate [table_simps]:
  assumes "\<And>r. Q r \<Longrightarrow> P (f r) = P r"
  shows "tcount P (tupdate Q f t) = tcount P t"
proof -
  have "filter P (map (\<lambda>r. if Q r then f r else r) xs) =
      map (\<lambda>r. if Q r then f r else r) (filter P xs)" for xs
    using assms by (induction xs) auto
  then show ?thesis by (simp add: tcount_def)
qed

definition tkeyed :: "('r \<Rightarrow> nat) \<Rightarrow> 'r table \<Rightarrow> bool" where
  "tkeyed key t \<longleftrightarrow> distinct (map key (rows t)) \<and> (\<forall>r \<in> set (rows t). key r < next_id t)"

lemma tkeyed_inj:
  "tkeyed key t \<Longrightarrow> x \<in> set (rows t) \<Longrightarrow> y \<in> set (rows t) \<Longrightarrow> key x = key y \<Longrightarrow> x = y"
  by (auto simp: tkeyed_def distinct_map dest: inj_onD)

definition tsum :: "('r \<Rightarrow> 'c::comm_monoid_add) \<Rightarrow> 'r table \<Rightarrow> 'c" where
  "tsum g t = (\<Sum>r\<leftarrow>rows t. g r)"

lemma tsum_tinsert [table_simps]: "tsum g (tinsert mk t) = tsum g t + g (mk (next_id t))"
  by (simp add: tsum_def)

lemma tsum_tupdate_eq [table_simps]:
  "(\<And>r. P r \<Longrightarrow> g (f r) = g r) \<Longrightarrow> tsum g (tupdate P f t) = tsum g t"
  by (auto simp: tsum_def o_def intro!: arg_cong [where f = sum_list])

subsection \<open>The contract of a table with an identifier column\<close>

text \<open>
  Every handler reads its tables by identifier and relies on the same laws: the identifier of
  a row never changes, a lookup finds the unique row with it, a created row has a fresh
  identifier.  The locale states them once for an identifier column \<open>key\<close> and is interpreted
  on each table of the schema.
\<close>

locale keyed_table =
  fixes key :: "'r \<Rightarrow> nat"
begin

lemma empty_keyed: "tkeyed key tempty"
  by (simp add: tkeyed_def tempty_def)

lemma update_keyed:
  assumes "tkeyed key t" and "\<And>r. P r \<Longrightarrow> key (f r) = key r"
  shows "tkeyed key (tupdate P f t)"
proof -
  have "map key (map (\<lambda>r. if P r then f r else r) (rows t)) = map key (rows t)"
    using assms(2) by (auto simp: o_def)
  moreover have "key r < next_id t" if "r \<in> set (rows (tupdate P f t))" for r
    using that assms by (auto simp: tkeyed_def split: if_splits)
  ultimately show ?thesis
    using assms(1) unfolding tkeyed_def by (metis rows_table(1) next_id_table(1))
qed

lemma insert_keyed:
  assumes "tkeyed key t" and "\<And>i. key (mk i) = i"
  shows "tkeyed key (tinsert mk t)"
  using assms by (fastforce simp: tkeyed_def)

lemma delete_keyed: "tkeyed key t \<Longrightarrow> tkeyed key (tdelete P t)"
  by (auto simp: tkeyed_def distinct_map_filter)

lemma find_unique:
  assumes "tkeyed key t" and "r \<in> set (rows t)"
  shows "tfind (\<lambda>x. key x = key r) t = Some r"
proof (cases "tfind (\<lambda>x. key x = key r) t")
  case None
  then show ?thesis using assms(2) by (auto simp: tfind_None_iff)
next
  case (Some r')
  then have "r' \<in> set (rows t)" "key r' = key r" by (auto dest: tfind_SomeD)
  then have "r' = r" using assms by (auto simp: tkeyed_def distinct_map inj_on_def)
  with Some show ?thesis by simp
qed

lemma fresh_not_found: "tkeyed key t \<Longrightarrow> tfind (\<lambda>x. key x = next_id t) t = None"
  by (auto simp: tkeyed_def tfind_None_iff)

lemma sum_update_unique:
  fixes g :: "'r \<Rightarrow> 'c::ab_group_add"
  assumes "tkeyed key t" and "tfind (\<lambda>x. key x = k) t = Some r"
  shows "tsum g (tupdate (\<lambda>x. key x = k) f t) = tsum g t + (g (f r) - g r)"
proof -
  have r: "r \<in> set (rows t)" "key r = k" and d: "distinct (map key (rows t))"
    using assms by (auto dest: tfind_SomeD simp: tkeyed_def)
  then obtain us vs where sp: "rows t = us @ r # vs" by (auto simp: in_set_conv_decomp)
  have "key x \<noteq> k" if "x \<in> set us \<union> set vs" for x
    using that d r(2) by (auto simp: sp image_iff)
  then have "map (\<lambda>x. if key x = k then f x else x) us = us"
    and "map (\<lambda>x. if key x = k then f x else x) vs = vs"
    by (auto intro!: map_idI)
  then show ?thesis using r(2) by (simp add: tsum_def sp)
qed

end

section \<open>Rendering of identifiers\<close>

text \<open>Template literals and string concatenation render an identifier in decimal.\<close>

fun show_nat :: "nat \<Rightarrow> string" where
  "show_nat n = (if n < 10 then [char_of (48 + n)]
     else show_nat (n div 10) @ [char_of (48 + n mod 10)])"

declare show_nat.simps [simp del]

lemma show_nat_inject: "show_nat m = show_nat n \<Longrightarrow> m = n"
proof (induction m arbitrary: n rule: show_nat.induct)
  case (1 m)
  have digit: "(char_of (48 + i mod 10) :: char) = char_of (48 + j mod 10) \<Longrightarrow> i mod 10 = j mod 10"
    for i j :: nat
  proof -
    assume "(char_of (48 + i mod 10) :: char) = char_of (48 + j mod 10)"
    then have "(of_char (char_of (48 + i mod 10) :: char) :: nat) = of_char (char_of (48 + j mod 10) :: char)"
      by simp
    moreover have "i mod 10 < 10" "j mod 10 < 10" by simp_all
    ultimately show ?thesis by (simp add: of_char_of)
  qed
  have small: "(i::nat) < 10 \<Longrightarrow> i mod 10 = i" for i by simp
  have ne: "show_nat k \<noteq> []" for k by (subst show_nat.simps) simp
  show ?case
  proof (cases "m < 10"; cases "n < 10")
    assume "m < 10" "n < 10"
    then show ?thesis using "1.prems" digit [of m n]
      by (simp add: show_nat.simps [of m] show_nat.simps [of n] small)
  next
    assume "\<not> m < 10" "\<not> n < 10"
    moreover from this have "m div 10 = n div 10" "m mod 10 = n mod 10"
      using "1.prems" "1.IH" digit [of m n]
      by (simp_all add: show_nat.simps [of m] show_nat.simps [of n])
    ultimately show ?thesis by (metis div_mult_mod_eq)
  qed (use "1.prems" ne in \<open>simp_all add: show_nat.simps [of m] show_nat.simps [of n]
         append_eq_Cons_conv Cons_eq_append_conv\<close>)
qed

lemma show_nat_inject_iff [simp]: "show_nat m = show_nat n \<longleftrightarrow> m = n"
  using show_nat_inject by blast

section \<open>Transactional systems\<close>

text \<open>
  A handler runs in a database transaction: when it throws, none of its writes are kept.
  \<open>run_ops\<close> runs a sequence of requests, each committed or rolled back.
\<close>

definition commit :: "'s result \<Rightarrow> 's \<Rightarrow> 's" where
  "commit r s = (case r of Inl _ \<Rightarrow> s | Inr s' \<Rightarrow> s')"

fun run_ops :: "('op \<Rightarrow> 's \<Rightarrow> 's result) \<Rightarrow> 'op list \<Rightarrow> 's \<Rightarrow> 's" where
  "run_ops step [] s = s"
| "run_ops step (a # as) s = run_ops step as (commit (step a s) s)"

locale tx_system =
  fixes step :: "'op \<Rightarrow> 's \<Rightarrow> 's result" and inv :: "'s \<Rightarrow> bool"
  assumes step_inv: "inv s \<Longrightarrow> step a s = Inr s' \<Longrightarrow> inv s'"
begin

lemma commit_inv: "inv s \<Longrightarrow> inv (commit (step a s) s)"
  using step_inv by (auto simp: commit_def split: sum.splits)

lemma run_inv: "inv s \<Longrightarrow> inv (run_ops step as s)"
  by (induction as arbitrary: s) (simp_all add: commit_inv)

end

section \<open>Status machines\<close>

text \<open>
  Orders and deliveries keep their allowed transitions in a table from a status to the list of
  its successors.  \<open>status_path\<close> is a run of such a table; the locale derives what holds of all
  of them, its extension what a rank that every transition raises gives in addition.
\<close>

fun status_path :: "('st \<Rightarrow> 'st list) \<Rightarrow> 'st \<Rightarrow> 'st list \<Rightarrow> bool" where
  "status_path succs x [] = True"
| "status_path succs x (y # ys) = (y \<in> set (succs x) \<and> status_path succs y ys)"

locale status_machine =
  fixes succs :: "'st \<Rightarrow> 'st list" and terminal :: "'st \<Rightarrow> bool"
  assumes terminal_succs: "terminal x \<longleftrightarrow> succs x = []"
begin

lemma terminal_path: "terminal x \<Longrightarrow> status_path succs x ys \<Longrightarrow> ys = []"
  by (cases ys) (simp_all add: terminal_succs)

lemma path_append:
  "status_path succs x (ys @ zs) \<longleftrightarrow>
     status_path succs x ys \<and> status_path succs (last (x # ys)) zs"
  by (induction ys arbitrary: x) auto

lemma terminal_last:
  assumes "status_path succs x (ys @ y # zs)" and "terminal y"
  shows "zs = []"
proof -
  have "status_path succs y zs" using assms(1) by (simp add: path_append)
  with assms(2) show ?thesis by (rule terminal_path)
qed

end

locale ranked_machine = status_machine +
  fixes rank :: "'st \<Rightarrow> nat" and top :: nat
  assumes rank_succ: "y \<in> set (succs x) \<Longrightarrow> rank x < rank y"
    and rank_top: "rank x \<le> top"
begin

lemma path_rank: "status_path succs x ys \<Longrightarrow> y \<in> set ys \<Longrightarrow> rank x < rank y"
proof (induction ys arbitrary: x)
  case (Cons z zs)
  then show ?case using rank_succ [of z x] by (fastforce dest: less_trans)
qed simp

lemma path_no_return: "status_path succs x ys \<Longrightarrow> x \<notin> set ys"
  using path_rank by blast

lemma path_length: "status_path succs x ys \<Longrightarrow> rank x + length ys \<le> top"
proof (induction ys arbitrary: x)
  case Nil
  then show ?case by (simp add: rank_top)
next
  case (Cons z zs)
  then have "rank z + length zs \<le> top" "rank x < rank z" using rank_succ by auto
  then show ?case by simp
qed

end

end
