(* ===== verification/Money.thy ===== *)
theory Money
  imports Prelude
begin

text \<open>
  Amounts of money (\<^verbatim>\<open>src/common/money.ts\<close>).  A \<open>Prisma.Decimal\<close> is modelled as an exact rational.
  Sums, differences and products of the two-digit columns of the schema stay within the
  precision of the decimal library, so they are exact there too; rounding to two digits is
  half-up away from zero, its documented default.  \<open>cents\<close> is the grid of the money columns.
\<close>

definition cents :: "decimal \<Rightarrow> bool" where
  "cents x \<longleftrightarrow> x * 100 \<in> \<int>"

definition toDecimalPlaces2 :: "decimal \<Rightarrow> decimal" where
  "toDecimalPlaces2 x =
     (if 0 \<le> x then of_int \<lfloor>x * 100 + 1 / 2\<rfloor> / 100 else - (of_int \<lfloor>- x * 100 + 1 / 2\<rfloor> / 100))"

definition toDecimalPlaces2Down :: "decimal \<Rightarrow> decimal" where
  "toDecimalPlaces2Down x =
     (if 0 \<le> x then of_int \<lfloor>x * 100\<rfloor> / 100 else - (of_int \<lfloor>- x * 100\<rfloor> / 100))"

definition money :: "decimal \<Rightarrow> decimal result" where
  "money v = require (\<not> v < 0) (BadRequest ''Amount must be a finite, non-negative number.'')
     (Inr (toDecimalPlaces2 v))"

definition max_safe_integer :: int where
  "max_safe_integer = 2 ^ 53 - 1"

definition kobo :: "decimal \<Rightarrow> int result" where
  "kobo v = ebind (money v) (\<lambda>m.
     require (\<lfloor>m * 100\<rfloor> \<le> max_safe_integer) (BadRequest ''Amount is too large.'')
       (Inr \<lfloor>m * 100\<rfloor>))"

section \<open>The grid of money amounts\<close>

lemma cents_of_int_div [simp]: "cents (of_int k / 100)"
  by (simp add: cents_def)

lemma centsE:
  assumes "cents x"
  obtains k where "x = of_int k / 100"
proof -
  from assms obtain k where "x * 100 = of_int k" by (auto simp: cents_def elim: Ints_cases)
  then have "x = of_int k / 100" by (simp add: field_simps)
  then show ?thesis by (rule that)
qed

lemma cents_0 [simp]: "cents 0"
  by (simp add: cents_def)

lemma cents_add [intro]: "cents x \<Longrightarrow> cents y \<Longrightarrow> cents (x + y)"
  by (simp add: cents_def distrib_right)

lemma cents_diff [intro]: "cents x \<Longrightarrow> cents y \<Longrightarrow> cents (x - y)"
  by (simp add: cents_def left_diff_distrib)

lemma cents_uminus [intro]: "cents x \<Longrightarrow> cents (- x)"
  by (simp add: cents_def)

lemma cents_mult_nat [intro]: "cents x \<Longrightarrow> cents (x * of_nat n)"
proof -
  assume "cents x"
  then have "(x * 100) * of_nat n \<in> \<int>" by (simp add: cents_def)
  then show ?thesis by (simp add: cents_def ac_simps)
qed

lemma cents_min [intro]: "cents x \<Longrightarrow> cents y \<Longrightarrow> cents (min x y)"
  by (simp add: min_def)

lemma cents_sum_list [intro]: "(\<And>x. x \<in> set xs \<Longrightarrow> cents (f x)) \<Longrightarrow> cents (\<Sum>x\<leftarrow>xs. f x)"
  by (induction xs) (auto intro!: cents_add)

section \<open>Rounding\<close>

text \<open>
  What the services rely on when they round an amount: the result is on the grid, an amount on
  the grid is unchanged, and rounding is monotone.  Both rounding modes of the code satisfy it.
\<close>

locale decimal_rounding =
  fixes rnd :: "decimal \<Rightarrow> decimal"
  assumes rnd_grid: "cents (rnd x)"
    and rnd_fix: "cents x \<Longrightarrow> rnd x = x"
    and rnd_mono: "x \<le> y \<Longrightarrow> rnd x \<le> rnd y"
begin

lemma rnd_le_grid: "x \<le> c \<Longrightarrow> cents c \<Longrightarrow> rnd x \<le> c"
  using rnd_mono [of x c] by (simp add: rnd_fix)

lemma rnd_ge_grid: "c \<le> x \<Longrightarrow> cents c \<Longrightarrow> c \<le> rnd x"
  using rnd_mono [of c x] by (simp add: rnd_fix)

lemma rnd_nonneg: "0 \<le> x \<Longrightarrow> 0 \<le> rnd x"
  by (rule rnd_ge_grid) simp_all

lemma rnd_min_grid: "cents c \<Longrightarrow> rnd (min x c) = min (rnd x) c"
  using rnd_mono [of x c] rnd_mono [of c x] by (auto simp: min_def rnd_fix antisym)

lemma rnd_idem: "rnd (rnd x) = rnd x"
  by (simp add: rnd_fix rnd_grid)

end

lemma toDecimalPlaces2_of_int: "toDecimalPlaces2 (of_int k / 100) = of_int k / 100"
proof -
  have "\<lfloor>(of_int j :: rat) + 1 / 2\<rfloor> = j" for j by linarith
  from this [of k] this [of "- k"] show ?thesis by (simp add: toDecimalPlaces2_def)
qed

lemma toDecimalPlaces2Down_of_int: "toDecimalPlaces2Down (of_int k / 100) = of_int k / 100"
  by (simp add: toDecimalPlaces2Down_def flip: of_int_minus)

lemma odd_extension_mono:
  fixes g :: "decimal \<Rightarrow> decimal"
  assumes "x \<le> y" and mono: "\<And>a b. 0 \<le> a \<Longrightarrow> a \<le> b \<Longrightarrow> g a \<le> g b" and pos: "\<And>a. 0 \<le> a \<Longrightarrow> 0 \<le> g a"
  shows "(if 0 \<le> x then g x else - g (- x)) \<le> (if 0 \<le> y then g y else - g (- y))"
proof (cases "0 \<le> x")
  case True
  then show ?thesis using assms(1) mono by simp
next
  case False
  then have "0 \<le> g (- x)" by (intro pos) simp
  then show ?thesis
    using False assms(1) mono [of "- y" "- x"] pos [of y] by auto
qed

lemma toDecimalPlaces2_mono: "x \<le> y \<Longrightarrow> toDecimalPlaces2 x \<le> toDecimalPlaces2 y"
  unfolding toDecimalPlaces2_def
proof (erule odd_extension_mono)
  show "of_int \<lfloor>a * 100 + 1 / 2\<rfloor> / 100 \<le> (of_int \<lfloor>b * 100 + 1 / 2\<rfloor> / 100 :: decimal)"
    if "a \<le> b" for a b :: decimal
    using that by (simp add: floor_mono)
  show "0 \<le> (of_int \<lfloor>a * 100 + 1 / 2\<rfloor> / 100 :: decimal)" if "0 \<le> a" for a :: decimal
  proof -
    have "0 \<le> \<lfloor>a * 100 + 1 / 2\<rfloor>" using that by simp
    then show ?thesis by simp
  qed
qed

lemma toDecimalPlaces2Down_mono: "x \<le> y \<Longrightarrow> toDecimalPlaces2Down x \<le> toDecimalPlaces2Down y"
  unfolding toDecimalPlaces2Down_def
  by (erule odd_extension_mono) (simp_all add: floor_mono)

interpretation half_up: decimal_rounding toDecimalPlaces2
proof
  show "cents (toDecimalPlaces2 x)" for x
    by (simp add: toDecimalPlaces2_def cents_uminus)
  show "toDecimalPlaces2 x = x" if "cents x" for x
  proof -
    from that obtain k where k: "x = of_int k / 100" by (rule centsE)
    show ?thesis unfolding k by (rule toDecimalPlaces2_of_int)
  qed
qed (rule toDecimalPlaces2_mono)

interpretation round_down: decimal_rounding toDecimalPlaces2Down
proof
  show "cents (toDecimalPlaces2Down x)" for x
    by (simp add: toDecimalPlaces2Down_def cents_uminus)
  show "toDecimalPlaces2Down x = x" if "cents x" for x
  proof -
    from that obtain k where k: "x = of_int k / 100" by (rule centsE)
    show ?thesis unfolding k by (rule toDecimalPlaces2Down_of_int)
  qed
qed (rule toDecimalPlaces2Down_mono)

lemma toDecimalPlaces2_error: "0 \<le> x \<Longrightarrow> \<bar>toDecimalPlaces2 x - x\<bar> \<le> 1 / 200"
proof -
  assume "0 \<le> x"
  moreover have "of_int \<lfloor>x * 100 + 1 / 2\<rfloor> \<le> x * 100 + 1 / 2"
    and "x * 100 + 1 / 2 < of_int \<lfloor>x * 100 + 1 / 2\<rfloor> + 1" by linarith+
  moreover from \<open>0 \<le> x\<close> have "toDecimalPlaces2 x = of_int \<lfloor>x * 100 + 1 / 2\<rfloor> / 100"
    by (simp only: toDecimalPlaces2_def if_True)
  ultimately show ?thesis by linarith
qed

lemma toDecimalPlaces2Down_le: "0 \<le> x \<Longrightarrow> toDecimalPlaces2Down x \<le> x"
  unfolding toDecimalPlaces2Down_def by (simp add: field_simps)

section \<open>money and kobo\<close>

lemma money_Inr_iff [tx_simps]: "money v = Inr m \<longleftrightarrow> 0 \<le> v \<and> m = toDecimalPlaces2 v"
  by (auto simp: money_def require_def)

lemma money_nonneg: "money v = Inr m \<Longrightarrow> 0 \<le> m"
  by (simp add: money_Inr_iff half_up.rnd_nonneg)

lemma money_cents: "money v = Inr m \<Longrightarrow> cents m"
  by (simp add: money_Inr_iff half_up.rnd_grid)

lemma money_fix [simp]: "0 \<le> v \<Longrightarrow> cents v \<Longrightarrow> money v = Inr v"
  by (simp add: money_Inr_iff half_up.rnd_fix)

lemma money_0 [simp]: "money 0 = Inr 0"
  by simp

lemma kobo_Inr_iff [tx_simps]:
  "kobo v = Inr k \<longleftrightarrow>
     0 \<le> v \<and> k = \<lfloor>toDecimalPlaces2 v * 100\<rfloor> \<and> k \<le> max_safe_integer"
  by (auto simp: kobo_def tx_simps)

lemma kobo_exact: "kobo v = Inr k \<Longrightarrow> of_int k / 100 = toDecimalPlaces2 v"
  using half_up.rnd_grid [of v] by (auto simp: kobo_Inr_iff cents_def elim!: Ints_cases)

end
