(* ===== verification/Schema.thy ===== *)
theory Schema
  imports Money
begin

text \<open>
  The persistent state: the enumerations and models of \<^verbatim>\<open>prisma/schema.prisma\<close> that the modelled
  services read or write, one record per model, and the database as a record of tables.
  Timestamps that no condition reads, images and free descriptive text are left out; an
  optional column is an \<open>option\<close>, a \<open>Decimal\<close> column a \<open>decimal\<close>, a \<open>DateTime\<close> column a
  number of milliseconds.  Every model has its identifier in the field that ends in \<open>_id\<close>.
\<close>

section \<open>Enumerations\<close>

datatype order_status =
  ORDER_RECEIVED | CONFIRMED | PREPARING | READY_FOR_PICKUP | RIDER_ASSIGNED
  | OUT_FOR_DELIVERY | PICKED_UP | DELIVERED | COMPLETED | CANCELLED

datatype delivery_status =
  D_PENDING | D_OFFERED | D_ASSIGNED | D_PICKED_UP | D_IN_TRANSIT | D_OUT_FOR_DELIVERY
  | D_ARRIVED_AT_CUSTOMER | D_DELIVERED | D_FAILED | D_CANCELLED

datatype payment_status = P_PENDING | P_PROCESSING | P_PAID | P_FAILED | P_REFUNDED | P_PARTIALLY_REFUNDED

datatype payment_method =
  CARD | BANK_TRANSFER | OPAY | WALLET | NEXTGEN_PURSE | EASYBUY | MAKOPA | WALLET_BNPL | KLUMP_BNPL

datatype payment_provider = PAYSTACK | MANUAL | KLUMP

datatype fulfillment_type = PICKUP | DELIVERY

datatype offer_status = OF_PENDING | OF_ACCEPTED | OF_DECLINED | OF_EXPIRED

datatype document_status = DOC_PENDING | DOC_APPROVED | DOC_REJECTED | DOC_EXPIRED

datatype refund_status = R_PENDING | R_PROCESSING | R_SUCCEEDED | R_FAILED | R_NEEDS_ATTENTION | R_MANUAL_REVIEW

datatype wallet_tx_type = CREDIT | DEBIT | HOLD | RELEASE | ADJUSTMENT

datatype withdrawal_status = W_PENDING | W_PROCESSING | W_PAID | W_FAILED | W_REJECTED

datatype user_status = ACTIVE | INACTIVE | SUSPENDED

datatype klump_status = K_PENDING | K_INITIATED | K_ABANDONED | K_SUCCESSFUL | K_FAILED

datatype review_status = RV_PENDING | RV_APPROVED | RV_REJECTED

datatype campaign_status = PC_DRAFT | PC_SCHEDULED | PC_SENDING | PC_SENT | PC_CANCELLED | PC_FAILED

datatype campaign_audience = ALL_USERS | CUSTOMERS | RIDERS | VENDORS | SELECTED_USERS | STORE_CUSTOMERS

datatype campaign_approval = AP_NOT_REQUIRED | AP_PENDING | AP_APPROVED | AP_REJECTED

datatype push_delivery_status = PD_PENDING | PD_DELIVERED | PD_FAILED | PD_SKIPPED

section \<open>Accounts, stores and products\<close>

record user =
  u_id :: nat
  u_email :: string
  u_firstName :: "string option"
  u_lastName :: "string option"
  u_phoneNumber :: "string option"
  u_status :: user_status
  u_passwordHash :: "string option"
  u_isEmailVerified :: bool

record address =
  ad_id :: nat
  ad_userId :: nat
  ad_label :: "string option"
  ad_state :: "string option"
  ad_city :: "string option"
  ad_address :: string
  ad_firstName :: "string option"
  ad_lastName :: "string option"
  ad_phone :: "string option"
  ad_email :: "string option"
  ad_isDefault :: bool

record store =
  st_id :: nat
  st_ownerUserId :: nat
  st_members :: "nat list"
  st_isActive :: bool
  st_city :: string
  st_state :: string
  st_location :: "(decimal \<times> decimal) option"

record product =
  p_id :: nat
  p_name :: string
  p_status :: bool
  p_barcode :: "string option"

record store_product =
  sp_id :: nat
  sp_storeId :: nat
  sp_productId :: nat
  sp_sku :: "string option"
  sp_barcode :: "string option"
  sp_price :: decimal
  sp_discountPrice :: "decimal option"
  sp_stockQuantity :: int
  sp_availability :: bool
  sp_isActive :: bool

section \<open>Cart, coupons and rewards\<close>

record cart =
  c_id :: nat
  c_userId :: nat
  c_currency :: string
  c_subtotal :: decimal
  c_totalItems :: nat

record cart_item =
  ci_id :: nat
  ci_cartId :: nat
  ci_storeProductId :: nat
  ci_quantity :: nat
  ci_unitPrice :: decimal

record cart_voucher =
  cv_id :: nat
  cv_cartId :: nat
  cv_voucherId :: string
  cv_userId :: nat

record cart_coupon =
  cc_id :: nat
  cc_cartId :: nat
  cc_couponId :: nat
  cc_userId :: nat

record coupon =
  cp_id :: nat
  cp_code :: string
  cp_type :: string
  cp_discountPercent :: "decimal option"
  cp_discountAmount :: "decimal option"
  cp_minimumOrderAmount :: decimal
  cp_maximumDiscount :: "decimal option"
  cp_usageLimit :: "nat option"
  cp_usedCount :: nat
  cp_isActive :: bool
  cp_startsAt :: time
  cp_expiresAt :: "time option"

record voucher =
  v_id :: string
  v_code :: string
  v_type :: string
  v_storeId :: "nat option"
  v_discountPercent :: "decimal option"
  v_discountAmount :: "decimal option"
  v_minimumOrderAmount :: decimal
  v_pointsCost :: int
  v_isActive :: bool
  v_startsAt :: time
  v_expiresAt :: "time option"

record user_voucher =
  uv_id :: nat
  uv_userId :: nat
  uv_voucherId :: string
  uv_status :: string

record cashback =
  cb_id :: nat
  cb_userId :: nat
  cb_orderId :: nat
  cb_percentage :: decimal
  cb_amount :: decimal
  cb_redeemedAmount :: decimal
  cb_status :: string

record reward_account =
  ra_id :: nat
  ra_userId :: nat
  ra_availablePoints :: int

record redemption =
  rd_id :: nat
  rd_userId :: nat
  rd_amount :: decimal
  rd_reference :: string

record referral =
  rl_id :: nat
  rl_referrerId :: nat
  rl_referredUserId :: nat
  rl_status :: string
  rl_rewardAmount :: decimal

section \<open>Orders and fulfilment\<close>

record order =
  o_id :: nat
  o_orderNumber :: string
  o_userId :: nat
  o_storeId :: nat
  o_fulfillmentType :: fulfillment_type
  o_currentStatus :: order_status
  o_customerName :: string
  o_customerEmail :: string
  o_customerPhone :: "string option"
  o_deliveryAddress :: "string option"
  o_deliveryLabel :: "string option"
  o_deliveryCity :: "string option"
  o_deliveryState :: "string option"
  o_currency :: string
  o_subtotal :: decimal
  o_shippingFee :: decimal
  o_discountAmount :: decimal
  o_shippingDiscount :: decimal
  o_total :: decimal
  o_updatedAt :: time

record order_item =
  oi_id :: nat
  oi_orderId :: nat
  oi_storeProductId :: nat
  oi_productId :: nat
  oi_productName :: string
  oi_productCode :: "string option"
  oi_quantity :: nat
  oi_unitPrice :: decimal
  oi_totalPrice :: decimal

record status_history =
  sh_id :: nat
  sh_orderId :: nat
  sh_fromStatus :: "order_status option"
  sh_toStatus :: order_status
  sh_changedById :: "nat option"
  sh_reason :: "string option"

record delivery =
  d_id :: nat
  d_orderId :: nat
  d_riderId :: "nat option"
  d_deliveryAddress :: string
  d_deliveryLabel :: "string option"
  d_deliveryCity :: "string option"
  d_deliveryState :: "string option"
  d_status :: delivery_status
  d_deliveryCodeHash :: "string option"
  d_deliveryCodeExpiresAt :: "time option"
  d_deliveryCodeAttempts :: nat
  d_assignedAt :: "time option"
  d_pickedUpAt :: "time option"
  d_arrivedAt :: "time option"
  d_deliveredAt :: "time option"

record delivery_offer =
  of_id :: nat
  of_deliveryId :: nat
  of_riderId :: nat
  of_status :: offer_status

record delivery_update =
  du_id :: nat
  du_deliveryId :: nat
  du_status :: delivery_status
  du_location :: "string option"
  du_note :: "string option"

record pickup =
  pk_id :: nat
  pk_orderId :: nat
  pk_stationId :: "nat option"
  pk_codeHash :: string
  pk_qrToken :: string
  pk_status :: string

record station =
  ps_id :: nat
  ps_name :: string
  ps_isActive :: bool

record qr_credential =
  qc_id :: nat
  qc_orderId :: nat
  qc_purpose :: string
  qc_tokenHash :: string
  qc_status :: string
  qc_expiresAt :: time
  qc_consumedById :: "nat option"

record item_scan =
  is_id :: nat
  is_orderItemId :: nat
  is_storeProductId :: nat
  is_actorId :: nat
  is_phase :: string
  is_barcode :: string
  is_quantity :: nat
  is_status :: string

record order_scan =
  os_id :: nat
  os_orderId :: nat
  os_credentialId :: "nat option"
  os_actorId :: nat
  os_purpose :: string
  os_outcome :: string
  os_failureReason :: "string option"

record order_return =
  rt_id :: nat
  rt_orderId :: nat
  rt_userId :: nat
  rt_reason :: string
  rt_items :: "(nat \<times> nat) list"
  rt_status :: string

record rider_profile =
  rp_id :: nat
  rp_userId :: nat
  rp_onboardingStatus :: string
  rp_isOnline :: bool
  rp_areaOfOperation :: "string option"
  rp_businessState :: "string option"
  rp_businessCity :: "string option"
  rp_emergencyContactName :: "string option"
  rp_emergencyContactPhone :: "string option"
  rp_location :: "(decimal \<times> decimal) option"
  rp_locationAccuracyM :: "decimal option"
  rp_locationUpdatedAt :: "time option"
  rp_rejectionReason :: "string option"
  rp_rejectedEvidence :: "(string \<times> nat) list option"
  rp_submissionAttempt :: nat

record rider_bank =
  rb_id :: nat
  rb_profileId :: nat
  rb_bankCode :: string
  rb_isPrimary :: bool
  rb_verificationStatus :: document_status
  rb_bankName :: string
  rb_accountNumber :: string
  rb_accountName :: string

text \<open>The evidence of a rider's application.\<close>

record rider_document =
  rdoc_id :: nat
  rdoc_riderId :: nat
  rdoc_type :: string
  rdoc_documentNumber :: "string option"
  rdoc_status :: document_status
  rdoc_rejectionReason :: "string option"
  rdoc_providerStatus :: "string option"

record rider_licence =
  lic_id :: nat
  lic_riderId :: nat
  lic_type :: string
  lic_number :: "string option"
  lic_documentUrl :: "string option"
  lic_status :: document_status
  lic_provider :: "string option"
  lic_providerReference :: "string option"
  lic_providerStatus :: "string option"
  lic_idempotencyKey :: "string option"

record liveness =
  lv_id :: nat
  lv_riderId :: nat
  lv_userId :: nat
  lv_reference :: "string option"
  lv_status :: document_status
  lv_confidenceScore :: "decimal option"

record vehicle =
  ve_id :: nat
  ve_riderId :: nat
  ve_type :: string
  ve_plateNumber :: string
  ve_ownershipType :: string
  ve_photoUrl :: "string option"
  ve_status :: string

record vehicle_document =
  vd_id :: nat
  vd_vehicleId :: nat
  vd_type :: string
  vd_documentNumber :: "string option"
  vd_status :: document_status
  vd_rejectionReason :: "string option"

record delivery_location =
  dl_id :: nat
  dl_deliveryId :: nat
  dl_riderId :: nat
  dl_position :: "decimal \<times> decimal"
  dl_accuracyM :: "decimal option"
  dl_recordedAt :: time

section \<open>Payments and ledgers\<close>

text \<open>The columns of \<open>Payment.metadata\<close> that the code reads.\<close>

record pay_meta =
  pm_purpose :: "string option"
  pm_userId :: "nat option"
  pm_initializingUntil :: "time option"
  pm_transferExpiresAt :: "time option"

definition no_meta :: pay_meta where
  "no_meta = \<lparr>pm_purpose = None, pm_userId = None, pm_initializingUntil = None,
     pm_transferExpiresAt = None\<rparr>"

record payment =
  pay_id :: nat
  pay_amount :: decimal
  pay_currency :: string
  pay_status :: payment_status
  pay_paymentMethod :: payment_method
  pay_provider :: payment_provider
  pay_transactionRef :: "string option"
  pay_providerRef :: "string option"
  pay_paymentUrl :: "string option"
  pay_metadata :: pay_meta
  pay_failureReason :: "string option"
  pay_createdAt :: time

text \<open>The checkout request (\<open>CreateCheckoutDto\<close>), kept in the snapshot of the payment group.\<close>

record checkout_input =
  in_cartId :: "nat option"
  in_fulfillmentType :: "fulfillment_type option"
  in_deliveryMethod :: "string option"
  in_addressId :: "nat option"
  in_address :: "(string \<times> string option \<times> string option \<times> string option) option"
  in_pickupStationId :: "nat option"
  in_paymentMethod :: "string option"

record payment_group =
  g_id :: nat
  g_userId :: nat
  g_activeCartId :: "nat option"
  g_cartSnapshot :: "(nat \<times> nat) list"
  g_snapshotInput :: checkout_input
  g_paymentMethod :: payment_method
  g_totalAmount :: decimal
  g_discountAmount :: decimal
  g_currency :: string
  g_paymentId :: "nat option"
  g_status :: payment_status

record allocation =
  al_id :: nat
  al_paymentGroupId :: nat
  al_orderId :: nat
  al_amount :: decimal

record webhook_event =
  we_id :: nat
  we_provider :: string
  we_eventId :: string
  we_eventType :: string
  we_processed :: bool
  we_errorMessage :: "exn option"
  we_paymentId :: "nat option"

record wallet =
  w_id :: nat
  w_userId :: nat
  w_balance :: decimal

record wallet_tx =
  wt_id :: nat
  wt_walletId :: nat
  wt_amount :: decimal
  wt_type :: wallet_tx_type
  wt_reference :: "string option"
  wt_description :: string

record store_wallet =
  sw_id :: nat
  sw_storeId :: nat
  sw_balance :: decimal

datatype settlement_note = Note string | Breakdown "decimal list"

record store_wallet_tx =
  swt_id :: nat
  swt_walletId :: nat
  swt_amount :: decimal
  swt_type :: wallet_tx_type
  swt_reference :: "string option"
  swt_orderId :: "nat option"
  swt_description :: settlement_note

record rider_earning =
  re_id :: nat
  re_riderId :: nat
  re_deliveryId :: nat
  re_amount :: decimal
  re_status :: string

record refund =
  rf_id :: nat
  rf_orderId :: nat
  rf_userId :: nat
  rf_paymentId :: nat
  rf_amount :: decimal
  rf_currency :: string
  rf_provider :: payment_provider
  rf_status :: refund_status
  rf_idempotencyKey :: string
  rf_providerRefundId :: "string option"
  rf_reason :: string
  rf_failureReason :: "string option"

record withdrawal =
  wd_id :: nat
  wd_ownerId :: nat
  wd_amount :: decimal
  wd_status :: withdrawal_status
  wd_mode :: string
  wd_bankName :: string
  wd_accountNumber :: string
  wd_accountName :: string

record funding_account =
  fa_id :: nat
  fa_userId :: nat
  fa_customerCode :: "string option"
  fa_accountNumber :: "string option"
  fa_accountName :: "string option"
  fa_bankName :: "string option"
  fa_bankSlug :: "string option"
  fa_currency :: string
  fa_assignedAt :: "time option"
  fa_status :: string
  fa_failureReason :: "string option"

record confirmation =
  ob_id :: nat
  ob_orderId :: nat
  ob_userId :: nat
  ob_status :: string
  ob_attempts :: nat
  ob_availableAt :: time
  ob_processingAt :: "time option"
  ob_lastError :: "exn option"

record platform_config =
  pc_id :: nat
  pc_key :: string
  pc_value :: decimal

text \<open>The terms a customer agreed to, the snapshot \<open>planSnapshot\<close> of an application.\<close>

record plan_terms =
  tm_provider :: string
  tm_label :: string
  tm_principal :: decimal
  tm_months :: nat
  tm_interestRate :: decimal
  tm_totalPayable :: decimal
  tm_monthlyAmount :: decimal
  tm_finalInstallment :: decimal
  tm_schedule :: "(nat \<times> decimal \<times> time \<times> string) list"

record bnpl_plan =
  bp_id :: nat
  bp_provider :: string
  bp_label :: string
  bp_months :: nat
  bp_interestRate :: decimal
  bp_isActive :: bool

text \<open>The quote of an application is only ever compared by its fingerprint, which stands for it;
  encrypted columns are lists of bytes.\<close>

record bnpl_application =
  ba_id :: nat
  ba_userId :: nat
  ba_cartId :: nat
  ba_activeCartId :: "nat option"
  ba_planId :: nat
  ba_status :: string
  ba_employerName :: string
  ba_monthlyIncome :: decimal
  ba_accountNumber :: "nat list"
  ba_accountLast4 :: string
  ba_bankName :: string
  ba_documentData :: "nat list"
  ba_documentName :: string
  ba_documentMime :: string
  ba_consentAt :: time
  ba_checkoutInput :: checkout_input
  ba_quoteFingerprint :: string
  ba_terms :: plan_terms
  ba_paymentGroupId :: "nat option"
  ba_reviewedById :: "nat option"
  ba_reviewReason :: "string option"
  ba_reviewedAt :: "time option"
  ba_confirmedAt :: "time option"

text \<open>What the customer's browser hands to the Klump widget (\<open>checkoutPayload\<close>).\<close>

record klump_payload =
  kp_amount :: int
  kp_currency :: string
  kp_firstName :: "string option"
  kp_lastName :: "string option"
  kp_email :: string
  kp_phone :: "string option"
  kp_redirectUrl :: "string option"
  kp_paymentGroupId :: nat
  kp_userId :: nat
  kp_items :: "(string \<times> int \<times> nat) list"
  kp_merchantReference :: "string option"

record klump_transaction =
  kt_id :: nat
  kt_userId :: nat
  kt_paymentGroupId :: nat
  kt_paymentId :: nat
  kt_merchantReference :: string
  kt_providerReference :: "string option"
  kt_status :: klump_status
  kt_isLive :: bool
  kt_checkoutPayload :: klump_payload
  kt_verifiedAt :: "time option"

record bnpl_installment =
  bi_id :: nat
  bi_applicationId :: nat
  bi_sequence :: nat
  bi_amount :: decimal
  bi_amountPaid :: decimal
  bi_status :: string
  bi_dueAt :: time

record bnpl_repayment =
  br_id :: nat
  br_installmentId :: nat
  br_userId :: nat
  br_amount :: decimal
  br_method :: payment_method
  br_status :: payment_status
  br_reference :: string

record notification =
  n_id :: nat
  n_recipientId :: nat
  n_type :: string
  n_title :: string
  n_eventKey :: "string option"
  n_isRead :: bool

record preference =
  np_id :: nat
  np_userId :: nat
  np_type :: string
  np_inApp :: bool
  np_email :: bool
  np_push :: bool

record device =
  dv_id :: nat
  dv_userId :: nat
  dv_token :: string
  dv_platform :: string
  dv_deviceId :: "string option"
  dv_enabled :: bool

record audit_log =
  au_id :: nat
  au_actorId :: "nat option"
  au_staffActorId :: "nat option"
  au_action :: string
  au_entity :: string
  au_entityId :: string

section \<open>Access control and sessions\<close>

record role =
  ro_id :: nat
  ro_name :: string
  ro_level :: nat
  ro_permissions :: "string list"

record user_role =
  ur_userId :: nat
  ur_roleId :: nat
  ur_expiresAt :: "time option"

record permission_override =
  po_id :: nat
  po_userId :: nat
  po_permissionKey :: string
  po_granted :: bool
  po_startsAt :: time
  po_expiresAt :: "time option"

record approval_policy =
  ap_id :: nat
  ap_actionKey :: string
  ap_initiatorPermissions :: "string list"
  ap_approverPermissions :: "string list"
  ap_enabled :: bool

record approval_request =
  aq_id :: nat
  aq_policyId :: nat
  aq_actionKey :: string
  aq_resourceType :: string
  aq_resourceId :: string
  aq_requestedById :: nat
  aq_decidedById :: "nat option"
  aq_status :: string

record admin_session =
  se_id :: nat
  se_userId :: nat
  se_sessionTokenHash :: string
  se_refreshRotatedAt :: "time option"
  se_ipAddress :: "string option"
  se_userAgent :: "string option"
  se_lastSeenAt :: time
  se_expiresAt :: time
  se_revokedAt :: "time option"

record otp_challenge =
  ot_id :: nat
  ot_userId :: nat
  ot_purpose :: string
  ot_target :: string
  ot_challengeKey :: string
  ot_codeHash :: string
  ot_expiresAt :: time
  ot_attempts :: nat
  ot_maxAttempts :: nat

record referral_profile =
  rc_userId :: nat
  rc_code :: string

record oauth_account =
  oa_id :: nat
  oa_userId :: nat
  oa_provider :: string
  oa_providerAccountId :: string

datatype staff_role =
  SUPER_ADMIN | OPERATIONS_ADMIN | FINANCE_ADMIN | RISK_COMPLIANCE_ADMIN | MERCHANT_ADMIN | CUSTOMER_SUPPORT_ADMIN
  | CREDIT_BNPL_ADMIN | AUDIT_OBSERVER_ADMIN | REGIONAL_ADMIN | COMPLIANCE_LEAD

record staff_user =
  sf_id :: nat
  sf_email :: string
  sf_firstName :: string
  sf_lastName :: string
  sf_phoneNumber :: "string option"
  sf_passwordHash :: string
  sf_role :: staff_role
  sf_status :: user_status
  sf_mustChangePassword :: bool
  sf_createdById :: "nat option"
  sf_lastLoginAt :: "time option"

record staff_session =
  ss_id :: nat
  ss_staffUserId :: nat
  ss_sessionTokenHash :: string
  ss_ipAddress :: "string option"
  ss_userAgent :: "string option"
  ss_lastSeenAt :: time
  ss_expiresAt :: time
  ss_revokedAt :: "time option"

section \<open>Merchants\<close>

record vendor_profile =
  vp_id :: nat
  vp_userId :: nat
  vp_state :: "string option"
  vp_city :: "string option"
  vp_documentReviewStatus :: review_status
  vp_onboardingStatus :: string

text \<open>
  The verification of a vendor's identity and of a vendor's business registration have the same
  columns here: the number that was checked, the answer of the provider and the decision.
\<close>

record vendor_check =
  vc_id :: nat
  vc_vendorProfileId :: nat
  vc_number :: string
  vc_providerStatus :: string
  vc_status :: document_status

record store_cac =
  sc_id :: nat
  sc_storeId :: nat
  sc_regNumber :: string
  sc_status :: document_status
  sc_rejectionReason :: "string option"
  sc_reviewedById :: "nat option"

record category =
  cg_id :: nat
  cg_name :: string
  cg_parentId :: "nat option"
  cg_level :: nat
  cg_isActive :: bool

section \<open>Outreach\<close>

record audience_filter =
  fl_userIds :: "nat list option"
  fl_state :: "string option"
  fl_city :: "string option"

record push_campaign =
  pc_id :: nat
  pc_title :: string
  pc_message :: string
  pc_includeInApp :: bool
  pc_audienceType :: campaign_audience
  pc_audienceFilter :: audience_filter
  pc_status :: campaign_status
  pc_approvalStatus :: campaign_approval
  pc_rejectionReason :: "string option"
  pc_scheduledAt :: "time option"
  pc_startedAt :: "time option"
  pc_sentAt :: "time option"
  pc_cancelledAt :: "time option"
  pc_totalRecipients :: nat
  pc_deliveredCount :: nat
  pc_failedCount :: nat
  pc_skippedCount :: nat
  pc_lastError :: "string option"
  pc_createdById :: "nat option"
  pc_createdByUserId :: "nat option"
  pc_storeId :: "nat option"
  pc_reviewedById :: "nat option"

record push_delivery =
  pd_id :: nat
  pd_campaignId :: nat
  pd_userId :: nat
  pd_status :: push_delivery_status
  pd_pushAttempted :: nat
  pd_pushSuccessful :: nat
  pd_pushFailed :: nat
  pd_errorMessage :: "string option"

record support_ticket =
  tk_id :: nat
  tk_ticketNumber :: string
  tk_userId :: nat
  tk_orderId :: "nat option"
  tk_deliveryId :: "nat option"
  tk_category :: string
  tk_subject :: string
  tk_status :: string

record support_reply =
  sr_id :: nat
  sr_ticketId :: nat
  sr_authorId :: "nat option"
  sr_body :: string

record conversation =
  cn_id :: nat
  cn_adminId :: "nat option"
  cn_participantId :: nat
  cn_storeId :: "nat option"
  cn_orderId :: "nat option"
  cn_lastMessageAt :: "time option"

record chat_message =
  cm_id :: nat
  cm_conversationId :: nat
  cm_senderId :: nat
  cm_body :: string

section \<open>The database\<close>

text \<open>
  The tables of five areas are grouped in a record of their own: what riders file and publish,
  lending, access control, merchants and outreach.  The keys the services set in Redis live beside
  the tables of access control, with the time each expires.  \<open>paymentOrders\<close> is the unique column
  \<open>Payment.orderId\<close>, as pairs of a payment and its order.
\<close>

record fleet_tables =
  riderDocuments :: "rider_document table"
  riderLicences :: "rider_licence table"
  livenessChecks :: "liveness table"
  vehicles :: "vehicle table"
  vehicleDocuments :: "vehicle_document table"
  deliveryLocations :: "delivery_location table"

record lending_tables =
  bnplPlans :: "bnpl_plan table"
  bnplApplications :: "bnpl_application table"
  klumpTransactions :: "klump_transaction table"

record access_tables =
  roles :: "role table"
  permissionKeys :: "string list"
  userRoles :: "user_role table"
  permissionOverrides :: "permission_override table"
  approvalPolicies :: "approval_policy table"
  approvalRequests :: "approval_request table"
  sessions :: "admin_session table"
  otpChallenges :: "otp_challenge table"
  referralProfiles :: "referral_profile table"
  oauthAccounts :: "oauth_account table"
  staffUsers :: "staff_user table"
  staffSessions :: "staff_session table"
  redis :: "(string \<times> time) list"

record merchant_tables =
  vendorProfiles :: "vendor_profile table"
  vendorNins :: "vendor_check table"
  vendorCacs :: "vendor_check table"
  storeCacs :: "store_cac table"
  categories :: "category table"

record outreach_tables =
  pushCampaigns :: "push_campaign table"
  pushDeliveries :: "push_delivery table"
  paymentOrders :: "(nat \<times> nat) list"
  supportTickets :: "support_ticket table"
  supportReplies :: "support_reply table"
  conversations :: "conversation table"
  chatMessages :: "chat_message table"

record db =
  users :: "user table"
  addresses :: "address table"
  stores :: "store table"
  products :: "product table"
  storeProducts :: "store_product table"
  carts :: "cart table"
  cartItems :: "cart_item table"
  cartVouchers :: "cart_voucher table"
  cartCoupons :: "cart_coupon table"
  coupons :: "coupon table"
  vouchers :: "voucher table"
  userVouchers :: "user_voucher table"
  cashbacks :: "cashback table"
  rewardAccounts :: "reward_account table"
  redemptions :: "redemption table"
  referrals :: "referral table"
  orders :: "order table"
  orderItems :: "order_item table"
  statusHistory :: "status_history table"
  deliveries :: "delivery table"
  deliveryOffers :: "delivery_offer table"
  deliveryUpdates :: "delivery_update table"
  pickups :: "pickup table"
  stations :: "station table"
  qrCredentials :: "qr_credential table"
  itemScans :: "item_scan table"
  orderScans :: "order_scan table"
  orderReturns :: "order_return table"
  riderProfiles :: "rider_profile table"
  riderBanks :: "rider_bank table"
  payments :: "payment table"
  groups :: "payment_group table"
  allocations :: "allocation table"
  webhookEvents :: "webhook_event table"
  wallets :: "wallet table"
  walletTxs :: "wallet_tx table"
  storeWallets :: "store_wallet table"
  storeWalletTxs :: "store_wallet_tx table"
  riderEarnings :: "rider_earning table"
  refunds :: "refund table"
  withdrawals :: "withdrawal table"
  storeWithdrawals :: "withdrawal table"
  fundingAccounts :: "funding_account table"
  confirmations :: "confirmation table"
  platformConfig :: "platform_config table"
  checkoutSettings :: "(decimal \<times> bool) option"
  installments :: "bnpl_installment table"
  repayments :: "bnpl_repayment table"
  notifications :: "notification table"
  preferences :: "preference table"
  devices :: "device table"
  auditLogs :: "audit_log table"
  fleet :: fleet_tables
  lending :: lending_tables
  access :: access_tables
  merchants :: merchant_tables
  outreach :: outreach_tables

definition empty_db :: db where
  "empty_db = \<lparr>
     users = tempty, addresses = tempty, stores = tempty, products = tempty,
     storeProducts = tempty, carts = tempty, cartItems = tempty, cartVouchers = tempty,
     cartCoupons = tempty, coupons = tempty, vouchers = tempty, userVouchers = tempty,
     cashbacks = tempty, rewardAccounts = tempty, redemptions = tempty, referrals = tempty,
     orders = tempty, orderItems = tempty, statusHistory = tempty, deliveries = tempty,
     deliveryOffers = tempty, deliveryUpdates = tempty, pickups = tempty, stations = tempty,
     qrCredentials = tempty, itemScans = tempty, orderScans = tempty, orderReturns = tempty,
     riderProfiles = tempty, riderBanks = tempty, payments = tempty, groups = tempty,
     allocations = tempty, webhookEvents = tempty, wallets = tempty, walletTxs = tempty,
     storeWallets = tempty, storeWalletTxs = tempty, riderEarnings = tempty, refunds = tempty,
     withdrawals = tempty, storeWithdrawals = tempty, fundingAccounts = tempty, confirmations = tempty,
     platformConfig = tempty, checkoutSettings = None, installments = tempty,
     repayments = tempty, notifications = tempty, preferences = tempty, devices = tempty, auditLogs = tempty,
     fleet = \<lparr>riderDocuments = tempty, riderLicences = tempty, livenessChecks = tempty, vehicles = tempty,
       vehicleDocuments = tempty, deliveryLocations = tempty\<rparr>,
     lending = \<lparr>bnplPlans = tempty, bnplApplications = tempty, klumpTransactions = tempty\<rparr>,
     access = \<lparr>roles = tempty, permissionKeys = [], userRoles = tempty, permissionOverrides = tempty,
       approvalPolicies = tempty, approvalRequests = tempty, sessions = tempty, otpChallenges = tempty,
       referralProfiles = tempty, oauthAccounts = tempty, staffUsers = tempty, staffSessions = tempty, redis = []\<rparr>,
     merchants = \<lparr>vendorProfiles = tempty, vendorNins = tempty, vendorCacs = tempty, storeCacs = tempty, categories = tempty\<rparr>,
     outreach = \<lparr>pushCampaigns = tempty, pushDeliveries = tempty, paymentOrders = [], supportTickets = tempty,
       supportReplies = tempty, conversations = tempty, chatMessages = tempty\<rparr>\<rparr>"

section \<open>Handlers\<close>

text \<open>
  A function that runs inside a transaction maps a database to an exception or to a value and
  the new database; \<open>transaction\<close> turns it into a handler, which keeps the old database when
  the function throws.  A handler that writes before it throws keeps its writes.
\<close>

type_synonym 'a tx = "db \<Rightarrow> ('a \<times> db) result"
type_synonym 'a handler = "db \<Rightarrow> 'a result \<times> db"

definition transaction :: "'a tx \<Rightarrow> 'a handler" where
  "transaction m s = (case m s of Inl e \<Rightarrow> (Inl e, s) | Inr (x, s') \<Rightarrow> (Inr x, s'))"

definition hbind :: "'a handler \<Rightarrow> ('a \<Rightarrow> 'b handler) \<Rightarrow> 'b handler" where
  "hbind m f s = (case m s of (Inl e, s') \<Rightarrow> (Inl e, s') | (Inr x, s') \<Rightarrow> f x s')"

definition hreturn :: "'a \<Rightarrow> 'a handler" where
  "hreturn x s = (Inr x, s)"

definition hthrow :: "exn \<Rightarrow> 'a handler" where
  "hthrow e s = (Inl e, s)"

lemma transaction_Inr: "m s = Inr (x, s') \<Longrightarrow> transaction m s = (Inr x, s')"
  by (simp add: transaction_def)

lemma transaction_Inl: "m s = Inl e \<Longrightarrow> transaction m s = (Inl e, s)"
  by (simp add: transaction_def)

lemma transaction_throws: "transaction m s = (Inl e, s') \<Longrightarrow> s' = s"
  by (auto simp: transaction_def split: sum.splits)

lemma transaction_iff [tx_simps]: "transaction m s = (Inr x, s') \<longleftrightarrow> m s = Inr (x, s')"
  by (auto simp: transaction_def split: sum.splits)

interpretation user_table: keyed_table u_id .
interpretation store_product_table: keyed_table sp_id .
interpretation cart_table: keyed_table c_id .
interpretation cart_item_table: keyed_table ci_id .
interpretation order_table: keyed_table o_id .
interpretation delivery_table: keyed_table d_id .
interpretation payment_table: keyed_table pay_id .
interpretation group_table: keyed_table g_id .
interpretation wallet_table: keyed_table w_id .
interpretation store_wallet_table: keyed_table sw_id .
interpretation earning_table: keyed_table re_id .
interpretation refund_table: keyed_table rf_id .
interpretation cashback_table: keyed_table cb_id .
interpretation credential_table: keyed_table qc_id .
interpretation rider_profile_table: keyed_table rp_id .
interpretation rider_bank_table: keyed_table rb_id .
interpretation klump_table: keyed_table kt_id .
interpretation application_table: keyed_table ba_id .
interpretation approval_table: keyed_table aq_id .
interpretation session_table: keyed_table se_id .
interpretation otp_table: keyed_table ot_id .
interpretation staff_session_table: keyed_table ss_id .
interpretation installment_table: keyed_table bi_id .
interpretation address_table: keyed_table ad_id .
interpretation vendor_table: keyed_table vp_id .
interpretation store_cac_table: keyed_table sc_id .
interpretation category_table: keyed_table cg_id .
interpretation campaign_table: keyed_table pc_id .
interpretation push_delivery_table: keyed_table pd_id .
interpretation ticket_table: keyed_table tk_id .
interpretation message_table: keyed_table cm_id .

end
