(* ===== verification/Handlers.thy ===== *)
theory Handlers
  imports Schema
begin

text \<open>
  The statements of a handler that is not one transaction: a step that may throw, a write that
  is kept at once, \<open>try ... catch\<close>, loops whose errors are collected, and the message of an
  exception.
\<close>

definition hlift :: "'a result \<Rightarrow> 'a handler" where
  "hlift r s = (r, s)"

definition hmodify :: "(db \<Rightarrow> db) \<Rightarrow> unit handler" where
  "hmodify f s = (Inr (), f s)"

definition hcatch :: "'a handler \<Rightarrow> (exn \<Rightarrow> 'a handler) \<Rightarrow> 'a handler" where
  "hcatch m f s = (case m s of (Inl e, s') \<Rightarrow> f e s' | (Inr x, s') \<Rightarrow> (Inr x, s'))"

text \<open>\<open>Promise.allSettled\<close> over the calls, one after the other, and a loop that logs errors.\<close>

fun hsettle :: "('a \<Rightarrow> 'b handler) \<Rightarrow> 'a list \<Rightarrow> db \<Rightarrow> db" where
  "hsettle f [] s = s"
| "hsettle f (x # xs) s = hsettle f xs (snd (f x s))"

text \<open>
  The message of an exception; those of the persistence layer are its own and stand for
  themselves.
\<close>

fun exn_message :: "exn \<Rightarrow> string" where
  "exn_message (BadRequest m) = m"
| "exn_message (NotFound m) = m"
| "exn_message (Conflict m) = m"
| "exn_message (Forbidden m) = m"
| "exn_message (Unauthorized m) = m"
| "exn_message (Unprocessable m) = m"
| "exn_message (TooManyRequests m) = m"
| "exn_message (BadGateway m) = m"
| "exn_message (ServiceUnavailable m) = m"
| "exn_message (ProviderError m) = m"
| "exn_message RecordNotFound = ''record not found''"
| "exn_message UniqueViolation = ''unique constraint failed''"

text \<open>A transaction that returns nothing.\<close>

definition transact :: "(db \<Rightarrow> db result) \<Rightarrow> unit handler" where
  "transact f = transaction (\<lambda>s. ebind (f s) (\<lambda>s'. Inr ((), s')))"

named_theorems handler_simps \<open>how the statements of a handler run\<close>

lemma hbind_run [handler_simps]: "hbind m f s = (case m s of (Inl e, s') \<Rightarrow> (Inl e, s') | (Inr x, s') \<Rightarrow> f x s')"
  by (simp add: hbind_def)

declare hreturn_def [handler_simps] hthrow_def [handler_simps] hlift_def [handler_simps] hmodify_def [handler_simps]

lemma transact_run [handler_simps]:
  "transact f s = (case f s of Inl e \<Rightarrow> (Inl e, s) | Inr s' \<Rightarrow> (Inr (), s'))"
  by (simp add: transact_def transaction_def split: sum.split)

lemma hbind_assoc: "hbind (hbind m f) g = hbind m (\<lambda>x. hbind (f x) g)"
  by (rule ext) (simp add: hbind_def split: sum.split prod.split)

lemma snd_hbind: "snd (hbind m f s) = (case m s of (Inl e, s') \<Rightarrow> s' | (Inr x, s') \<Rightarrow> snd (f x s'))"
  by (simp add: hbind_def split: sum.split prod.split)

text \<open>
  What every step of a handler keeps, the handler keeps.  \<open>hkeeps P m\<close> is closed under the
  statements; the components use it for their invariants and frames.
\<close>

definition hkeeps :: "(db \<Rightarrow> bool) \<Rightarrow> 'a handler \<Rightarrow> bool" where
  "hkeeps P m \<longleftrightarrow> (\<forall>s. P s \<longrightarrow> P (snd (m s)))"

named_theorems keeps_intros \<open>what keeps an invariant\<close>

lemma hkeepsD: "hkeeps P m \<Longrightarrow> P s \<Longrightarrow> P (snd (m s))"
  by (simp add: hkeeps_def)

lemma hkeepsI: "(\<And>s. P s \<Longrightarrow> P (snd (m s))) \<Longrightarrow> hkeeps P m"
  by (simp add: hkeeps_def)

lemma hkeeps_hbind [keeps_intros]: "hkeeps P m \<Longrightarrow> (\<And>x. hkeeps P (f x)) \<Longrightarrow> hkeeps P (hbind m f)"
  by (simp add: hkeeps_def hbind_def split: sum.split prod.split) (metis snd_conv)

lemma hkeeps_hcatch [keeps_intros]: "hkeeps P m \<Longrightarrow> (\<And>e. hkeeps P (h e)) \<Longrightarrow> hkeeps P (hcatch m h)"
  by (simp add: hkeeps_def hcatch_def split: sum.split prod.split) (metis snd_conv)

lemma hkeeps_basic [keeps_intros]: "hkeeps P (hreturn x)" "hkeeps P (hthrow e)" "hkeeps P (hlift r)"
  by (simp_all add: hkeeps_def hreturn_def hthrow_def hlift_def)

lemma hkeeps_if [keeps_intros]: "(c \<Longrightarrow> hkeeps P m) \<Longrightarrow> (\<not> c \<Longrightarrow> hkeeps P n) \<Longrightarrow> hkeeps P (if c then m else n)"
  by simp

lemma hkeeps_hmodify: "(\<And>s. P s \<Longrightarrow> P (f s)) \<Longrightarrow> hkeeps P (hmodify f)"
  by (simp add: hkeeps_def hmodify_def)

lemma hkeeps_transact: "(\<And>s s'. P s \<Longrightarrow> f s = Inr s' \<Longrightarrow> P s') \<Longrightarrow> hkeeps P (transact f)"
  by (simp add: hkeeps_def transact_run split: sum.split)

lemma hkeeps_transaction: "(\<And>s x s'. P s \<Longrightarrow> f s = Inr (x, s') \<Longrightarrow> P s') \<Longrightarrow> hkeeps P (transaction f)"
  by (simp add: hkeeps_def transaction_def split: sum.split prod.split)

lemma hsettle_keeps: "(\<And>x. x \<in> set xs \<Longrightarrow> hkeeps P (f x)) \<Longrightarrow> P s \<Longrightarrow> P (hsettle f xs s)"
  by (induction xs arbitrary: s) (simp_all add: hkeeps_def)

end
