(* ===== verification/Paystack.thy ===== *)
theory Paystack
  imports Money Strings
begin

text \<open>
  JSON values with the accessors the payment code uses on unknown payloads, and the client of
  the payment provider (\<^verbatim>\<open>src/payments/paystack.client.ts\<close>, \<^verbatim>\<open>src/payments/paystack-webhook.ts\<close>).
  The network is the parameter \<open>fetch\<close>: from the path segments, the method and the body of a
  request to a response or to the error of a request that got none.  Path segments are kept
  apart, which is what \<open>encodeURIComponent\<close> is for.
\<close>

section \<open>JSON\<close>

text \<open>Numbers in the payloads are identifiers and amounts in kobo, which are integers.\<close>

datatype json = JNull | JBool bool | JNum int | JStr string | JArr "json list" | JObj "(string \<times> json) list"

text \<open>\<open>v[k]\<close>; \<open>None\<close> is \<open>undefined\<close>, which is also what a value without fields gives.\<close>

fun jget :: "string \<Rightarrow> json \<Rightarrow> json option" where
  "jget k (JObj fs) = map_of fs k"
| "jget k _ = None"

text \<open>\<open>typeof v === 'string' ? v : undefined\<close>\<close>

fun jstring :: "json option \<Rightarrow> string option" where
  "jstring (Some (JStr x)) = Some x"
| "jstring _ = None"

text \<open>\<open>v && typeof v === 'object'\<close>\<close>

fun jobject :: "json option \<Rightarrow> json option" where
  "jobject (Some (JObj fs)) = Some (JObj fs)"
| "jobject (Some (JArr xs)) = Some (JArr xs)"
| "jobject _ = None"

text \<open>Whether a value counts as true in a condition.\<close>

fun jtruthy :: "json option \<Rightarrow> bool" where
  "jtruthy None = False"
| "jtruthy (Some JNull) = False"
| "jtruthy (Some (JBool b)) = b"
| "jtruthy (Some (JNum n)) = (n \<noteq> 0)"
| "jtruthy (Some (JStr x)) = (x \<noteq> [])"
| "jtruthy (Some _) = True"

text \<open>Reading a field of \<open>undefined\<close> or \<open>null\<close> throws.\<close>

definition fields_of :: "json option \<Rightarrow> json result" where
  "fields_of v = (case v of None \<Rightarrow> Inl (ProviderError ''Cannot read properties of undefined'')
     | Some JNull \<Rightarrow> Inl (ProviderError ''Cannot read properties of null'') | Some x \<Rightarrow> Inr x)"

text \<open>\<open>v ?? d\<close>\<close>

definition jor :: "json option \<Rightarrow> json \<Rightarrow> json" where
  "jor v d = (case v of None \<Rightarrow> d | Some JNull \<Rightarrow> d | Some x \<Rightarrow> x)"

definition show_int :: "int \<Rightarrow> string" where
  "show_int n = (if n < 0 then ''-'' @ show_nat (nat (- n)) else show_nat (nat n))"

fun str_join :: "string \<Rightarrow> string list \<Rightarrow> string" where
  "str_join sep [] = []"
| "str_join sep [x] = x"
| "str_join sep (x # y # ys) = x @ sep @ str_join sep (y # ys)"

text \<open>\<open>String(v)\<close>\<close>

fun js_String :: "json \<Rightarrow> string" where
  "js_String JNull = ''null''"
| "js_String (JBool b) = (if b then ''true'' else ''false'')"
| "js_String (JNum n) = show_int n"
| "js_String (JStr x) = x"
| "js_String (JArr xs) = str_join '','' (map (\<lambda>x. case x of JNull \<Rightarrow> [] | _ \<Rightarrow> js_String x) xs)"
| "js_String (JObj fs) = ''[object Object]''"

definition json_opt :: "string \<Rightarrow> json option \<Rightarrow> (string \<times> json) list" where
  "json_opt k v = (case v of None \<Rightarrow> [] | Some x \<Rightarrow> [(k, x)])"

lemma jget_json_opt:
  "map_of (json_opt k v @ fs) j = (if j = k \<and> v \<noteq> None then v else map_of fs j)"
  by (auto simp: json_opt_def split: option.splits)

section \<open>The client\<close>

datatype http_method = GET | POST

record http_response =
  hr_status :: nat
  hr_body :: json

type_synonym fetch = "http_method \<Rightarrow> string list \<Rightarrow> json \<Rightarrow> http_response result"

definition hr_ok :: "http_response \<Rightarrow> bool" where
  "hr_ok r \<longleftrightarrow> 200 \<le> hr_status r \<and> hr_status r < 300"

text \<open>What an answer of the provider counts as: its \<open>data\<close>, or the error with its message.\<close>

definition answer :: "string \<Rightarrow> http_response \<Rightarrow> json option result" where
  "answer dflt r =
     (if \<not> hr_ok r \<or> \<not> jtruthy (jget ''status'' (hr_body r))
      then Inl (ProviderError (case jget ''message'' (hr_body r) of
             Some (JStr m) \<Rightarrow> (if m = [] then dflt else m) | _ \<Rightarrow> dflt))
      else Inr (jget ''data'' (hr_body r)))"

definition request :: "fetch \<Rightarrow> http_method \<Rightarrow> string list \<Rightarrow> json \<Rightarrow> json option result" where
  "request fetch m path body = ebind (fetch m path body) (answer ''Paystack request failed.'')"

definition px_initialize :: "fetch \<Rightarrow> string \<Rightarrow> string \<Rightarrow> string \<Rightarrow> decimal \<Rightarrow> string list \<Rightarrow> json \<Rightarrow> json option result" where
  "px_initialize fetch callback reference email amount channels metadata =
     ebind (kobo amount) (\<lambda>k.
     ebind (fetch POST [''transaction'', ''initialize''] (JObj
       [(''reference'', JStr reference), (''email'', JStr email), (''amount'', JNum k),
        (''channels'', JArr (map JStr channels)), (''metadata'', metadata), (''currency'', JStr ''NGN''),
        (''callback_url'', JStr callback)]))
       (answer ''Paystack initialization failed.''))"

definition createBankTransferCharge :: "fetch \<Rightarrow> string \<Rightarrow> string \<Rightarrow> decimal \<Rightarrow> string \<Rightarrow> json \<Rightarrow> json option result" where
  "createBankTransferCharge fetch reference email amount accountExpiresAt metadata =
     ebind (kobo amount) (\<lambda>k.
     request fetch POST [''charge''] (JObj
       [(''reference'', JStr reference), (''email'', JStr email), (''amount'', JNum k), (''currency'', JStr ''NGN''),
        (''bank_transfer'', JObj [(''account_expires_at'', JStr accountExpiresAt)]), (''metadata'', metadata)]))"

definition createCustomer :: "fetch \<Rightarrow> string \<Rightarrow> string \<Rightarrow> string \<Rightarrow> string \<Rightarrow> nat \<Rightarrow> json option result" where
  "createCustomer fetch email firstName lastName phone userId =
     request fetch POST [''customer''] (JObj
       [(''email'', JStr email), (''first_name'', JStr firstName), (''last_name'', JStr lastName),
        (''phone'', JStr phone), (''metadata'', JObj [(''userId'', JNum (int userId))])])"

text \<open>\<open>Inr None\<close> is the \<open>null\<close> of an unknown customer.\<close>

definition findCustomer :: "fetch \<Rightarrow> string \<Rightarrow> json option result" where
  "findCustomer fetch emailOrCode =
     ebind (fetch GET [''customer'', emailOrCode] JNull) (\<lambda>r.
     if hr_status r = 404 then Inr None
     else answer ''Could not fetch Paystack customer.'' r)"

definition assignDedicatedAccount ::
    "fetch \<Rightarrow> string \<Rightarrow> string \<Rightarrow> string \<Rightarrow> string \<Rightarrow> string option \<Rightarrow> json result" where
  "assignDedicatedAccount fetch email firstName lastName phone preferredBank =
     ebind (request fetch POST [''dedicated_account'', ''assign''] (JObj
       ([(''email'', JStr email), (''first_name'', JStr firstName), (''last_name'', JStr lastName),
         (''phone'', JStr phone)] @ json_opt ''preferred_bank'' (map_option JStr preferredBank) @
        [(''country'', JStr ''NG'')])))
       (\<lambda>d. Inr (case d of None \<Rightarrow> JObj [] | Some JNull \<Rightarrow> JObj [] | Some v \<Rightarrow> v))"

definition requeryDedicatedAccount :: "fetch \<Rightarrow> string \<Rightarrow> string \<Rightarrow> string option \<Rightarrow> json option result" where
  "requeryDedicatedAccount fetch accountNumber providerSlug date =
     request fetch GET ([''dedicated_account'', ''requery'', accountNumber, providerSlug] @
       (case date of None \<Rightarrow> [] | Some [] \<Rightarrow> [] | Some d \<Rightarrow> [d])) JNull"

definition px_verify :: "fetch \<Rightarrow> string \<Rightarrow> json option result" where
  "px_verify fetch reference = request fetch GET [''transaction'', ''verify'', reference] JNull"

definition createRefund :: "fetch \<Rightarrow> string \<Rightarrow> decimal \<Rightarrow> string \<Rightarrow> string \<Rightarrow> string \<Rightarrow> json option result" where
  "createRefund fetch transaction amount currency customerNote merchantNote =
     ebind (kobo amount) (\<lambda>k.
     request fetch POST [''refund''] (JObj
       [(''transaction'', JStr transaction), (''amount'', JNum k), (''currency'', JStr currency),
        (''customer_note'', JStr customerNote), (''merchant_note'', JStr merchantNote)]))"

definition fetchRefund :: "fetch \<Rightarrow> string \<Rightarrow> json option result" where
  "fetchRefund fetch i = request fetch GET [''refund'', i] JNull"

definition retryRefundWithCustomerDetails :: "fetch \<Rightarrow> string \<Rightarrow> string \<Rightarrow> string \<Rightarrow> json option result" where
  "retryRefundWithCustomerDetails fetch i accountNumber bankId =
     request fetch POST [''refund'', ''retry_with_customer_details'', i] (JObj
       [(''refund_account_details'', JObj [(''currency'', JStr ''NGN''),
         (''account_number'', JStr accountNumber), (''bank_id'', JStr bankId)])])"

text \<open>Only a successful HTTP answer whose own status is true gets its data through.\<close>

lemma request_Inr:
  assumes "request fetch m path body = Inr d"
  obtains r where "fetch m path body = Inr r" "hr_ok r" "jtruthy (jget ''status'' (hr_body r))"
    "d = jget ''data'' (hr_body r)"
  using assms by (auto simp: request_def answer_def tx_simps split: if_splits)

section \<open>The webhook signature\<close>

text \<open>
  \<open>hmac\<close> stands for the hexadecimal HMAC-SHA-512 of the standard library, \<open>timingSafeEqual\<close>
  compares buffers of equal length.
\<close>

definition verifyPaystackWebhook :: "(string \<Rightarrow> string \<Rightarrow> string) \<Rightarrow> string option \<Rightarrow> string option \<Rightarrow> string \<Rightarrow> unit result" where
  "verifyPaystackWebhook hmac signature rawBody secret =
     (case (signature, rawBody) of
        (Some sig, Some body) \<Rightarrow>
          (if sig = [] then Inl (Unauthorized ''Invalid webhook request.'')
           else let expected = hmac secret body
                in if length expected \<noteq> length sig \<or> expected \<noteq> sig
                   then Inl (Unauthorized ''Invalid webhook signature.'') else Inr ())
      | _ \<Rightarrow> Inl (Unauthorized ''Invalid webhook request.''))"

lemma verifyPaystackWebhook_iff:
  "verifyPaystackWebhook hmac signature rawBody secret = Inr () \<longleftrightarrow>
     (\<exists>body. rawBody = Some body \<and> signature = Some (hmac secret body) \<and> hmac secret body \<noteq> [])"
  by (auto simp: verifyPaystackWebhook_def Let_def split: option.splits)

end
