(* ===== verification/Notifications.thy ===== *)
theory Notifications
  imports Schema
begin

text \<open>
  In-app notifications and the order-confirmation outbox
  (\<^verbatim>\<open>src/notifications/notifications.service.ts\<close>).  Push messages, e-mail and the socket gateway
  are external: whether a send succeeds is a parameter.  The outbox is the retry queue that
  \<open>completeGroup\<close> fills and a timer drains.
\<close>

section \<open>Preferences\<close>

text \<open>A missing preference row means that every channel is on.\<close>

definition preference_for :: "nat \<Rightarrow> string \<Rightarrow> db \<Rightarrow> preference option" where
  "preference_for uid typ s = tfind (\<lambda>p. np_userId p = uid \<and> np_type p = typ) (preferences s)"

definition inAppEnabled :: "nat \<Rightarrow> string \<Rightarrow> db \<Rightarrow> bool" where
  "inAppEnabled uid typ s = (case preference_for uid typ s of None \<Rightarrow> True | Some p \<Rightarrow> np_inApp p)"

definition pushEnabled :: "nat \<Rightarrow> string \<Rightarrow> db \<Rightarrow> bool" where
  "pushEnabled uid typ s = (case preference_for uid typ s of None \<Rightarrow> True | Some p \<Rightarrow> np_push p)"

definition emailEnabled :: "nat \<Rightarrow> string \<Rightarrow> db \<Rightarrow> bool" where
  "emailEnabled uid typ s = (case preference_for uid typ s of None \<Rightarrow> True | Some p \<Rightarrow> np_email p)"

definition updatePreference ::
    "nat \<Rightarrow> string \<Rightarrow> bool option \<Rightarrow> bool option \<Rightarrow> bool option \<Rightarrow> db \<Rightarrow> db" where
  "updatePreference uid typ inApp email push s =
     (let dflt = (\<lambda>new old. case new of None \<Rightarrow> old | Some v \<Rightarrow> v)
      in if preference_for uid typ s = None
         then s\<lparr>preferences := tinsert (\<lambda>i. \<lparr>np_id = i, np_userId = uid, np_type = typ,
                np_inApp = dflt inApp True, np_email = dflt email True, np_push = dflt push True\<rparr>)
                (preferences s)\<rparr>
         else s\<lparr>preferences := tupdate (\<lambda>p. np_userId p = uid \<and> np_type p = typ)
                (\<lambda>p. p\<lparr>np_inApp := dflt inApp (np_inApp p), np_email := dflt email (np_email p),
                  np_push := dflt push (np_push p)\<rparr>) (preferences s)\<rparr>)"

lemma preference_for_update:
  "preference_for v t (updatePreference u ty inApp email push s) =
     (if v = u \<and> t = ty
      then Some (case preference_for u ty s of
        None \<Rightarrow> \<lparr>np_id = next_id (preferences s), np_userId = u, np_type = ty,
                 np_inApp = inApp \<noteq> Some False, np_email = email \<noteq> Some False, np_push = push \<noteq> Some False\<rparr>
      | Some p \<Rightarrow> p\<lparr>np_inApp := (case inApp of None \<Rightarrow> np_inApp p | Some b \<Rightarrow> b),
                   np_email := (case email of None \<Rightarrow> np_email p | Some b \<Rightarrow> b),
                   np_push := (case push of None \<Rightarrow> np_push p | Some b \<Rightarrow> b)\<rparr>)
      else preference_for v t s)"
proof (cases "preference_for u ty s")
  case None
  then show ?thesis
    by (auto simp: updatePreference_def Let_def preference_for_def tfind_tinsert split: option.splits)
next
  case (Some p)
  then have "np_userId p = u" "np_type p = ty" by (auto simp: preference_for_def dest: tfind_SomeD)
  then show ?thesis
  proof (cases "v = u \<and> t = ty")
    case True
    with Some \<open>np_userId p = u\<close> \<open>np_type p = ty\<close> show ?thesis
      by (auto simp: updatePreference_def Let_def preference_for_def tfind_tupdate)
  next
    case False
    with Some show ?thesis
      by (auto simp: updatePreference_def Let_def preference_for_def intro!: tfind_tupdate_other)
  qed
qed

section \<open>The inbox\<close>

definition unreadCount :: "nat \<Rightarrow> db \<Rightarrow> nat" where
  "unreadCount uid s = tcount (\<lambda>n. n_recipientId n = uid \<and> \<not> n_isRead n) (notifications s)"

definition read_notification :: "nat \<Rightarrow> nat \<Rightarrow> unit handler" where
  "read_notification uid i s =
     (let P = (\<lambda>n. n_id n = i \<and> n_recipientId n = uid);
          s1 = s\<lparr>notifications := tupdate P (\<lambda>n. n\<lparr>n_isRead := True\<rparr>) (notifications s)\<rparr>
      in if tcount P (notifications s) = 0 then (Inl (NotFound ''Notification not found.''), s1)
         else (Inr (), s1))"

definition readAll :: "nat \<Rightarrow> db \<Rightarrow> nat \<times> db" where
  "readAll uid s =
     (let P = (\<lambda>n. n_recipientId n = uid \<and> \<not> n_isRead n)
      in (tcount P (notifications s),
          s\<lparr>notifications := tupdate P (\<lambda>n. n\<lparr>n_isRead := True\<rparr>) (notifications s)\<rparr>))"

lemma readAll_clears:
  "fst (readAll uid s) = unreadCount uid s \<and> unreadCount uid (snd (readAll uid s)) = 0 \<and>
   (v \<noteq> uid \<longrightarrow> unreadCount v (snd (readAll uid s)) = unreadCount v s)"
  by (auto simp: readAll_def unreadCount_def tcount_def filter_map o_def Let_def filter_empty_conv
      intro!: arg_cong [where f = length] filter_cong)

section \<open>Devices\<close>

definition registerDevice :: "nat \<Rightarrow> string \<Rightarrow> string \<Rightarrow> string option \<Rightarrow> db \<Rightarrow> db" where
  "registerDevice uid token platform deviceId s =
     (if tfind (\<lambda>d. dv_token d = token) (devices s) = None
      then s\<lparr>devices := tinsert (\<lambda>i. \<lparr>dv_id = i, dv_userId = uid, dv_token = token, dv_platform = platform,
             dv_deviceId = deviceId, dv_enabled = True\<rparr>) (devices s)\<rparr>
      else s\<lparr>devices := tupdate (\<lambda>d. dv_token d = token)
             (\<lambda>d. d\<lparr>dv_userId := uid, dv_platform := platform, dv_deviceId := (case deviceId of None \<Rightarrow> dv_deviceId d | Some x \<Rightarrow> Some x),
                dv_enabled := True\<rparr>) (devices s)\<rparr>)"

definition unregisterDevice :: "nat \<Rightarrow> nat \<Rightarrow> db \<Rightarrow> db" where
  "unregisterDevice uid i s = s\<lparr>devices := tupdate (\<lambda>d. dv_id d = i \<and> dv_userId d = uid)
     (\<lambda>d. d\<lparr>dv_enabled := False\<rparr>) (devices s)\<rparr>"

text \<open>
  The push service sends one message to the enabled devices of a user.  The messaging provider
  answers for each token, or the request fails as a whole (\<open>None\<close>), which is logged and
  counted; devices whose token it reports as gone are switched off.
\<close>

datatype fcm_answer = Accepted | Token_gone | Not_sent

record push_result =
  ps_enabled :: bool
  ps_attempted :: nat
  ps_successful :: nat
  ps_failed :: nat

type_synonym fcm_response = "(string \<Rightarrow> fcm_answer) option"

definition push_targets :: "nat \<Rightarrow> db \<Rightarrow> device list" where
  "push_targets uid s = tfilter (\<lambda>d. dv_userId d = uid \<and> dv_enabled d) (devices s)"

definition disableDevices :: "nat list \<Rightarrow> db \<Rightarrow> db" where
  "disableDevices ids s = (if ids = [] then s
     else s\<lparr>devices := tupdate (\<lambda>d. dv_id d \<in> set ids) (\<lambda>d. d\<lparr>dv_enabled := False\<rparr>) (devices s)\<rparr>)"

definition push_send :: "bool \<Rightarrow> fcm_response \<Rightarrow> nat \<Rightarrow> db \<Rightarrow> push_result \<times> db" where
  "push_send configured response uid s =
     (let ds = push_targets uid s
      in if \<not> configured then (\<lparr>ps_enabled = False, ps_attempted = 0, ps_successful = 0, ps_failed = 0\<rparr>, s)
         else if ds = [] then (\<lparr>ps_enabled = True, ps_attempted = 0, ps_successful = 0, ps_failed = 0\<rparr>, s)
         else case response of
           None \<Rightarrow> (\<lparr>ps_enabled = True, ps_attempted = length ds, ps_successful = 0, ps_failed = length ds\<rparr>, s)
         | Some answer \<Rightarrow>
             (\<lparr>ps_enabled = True, ps_attempted = length ds,
               ps_successful = length (filter (\<lambda>d. answer (dv_token d) = Accepted) ds),
               ps_failed = length (filter (\<lambda>d. answer (dv_token d) \<noteq> Accepted) ds)\<rparr>,
              disableDevices (map dv_id (filter (\<lambda>d. answer (dv_token d) = Token_gone) ds)) s))"

lemma push_send_frame: "snd (push_send c r uid s) = s\<lparr>devices := devices (snd (push_send c r uid s))\<rparr>"
  by (simp add: push_send_def disableDevices_def Let_def split: option.split)

text \<open>Every device that was tried is counted as reached or as failed, and only tokens that are gone are switched off.\<close>

lemma push_send_counts:
  "ps_successful (fst (push_send c r uid s)) + ps_failed (fst (push_send c r uid s)) = ps_attempted (fst (push_send c r uid s))"
  using sum_length_filter_compl by (auto simp: push_send_def Let_def split: option.split)

lemma push_send_keeps_live:
  assumes "d \<in> set (rows (devices s))" and "tkeyed dv_id (devices s)"
    and "case r of None \<Rightarrow> True | Some answer \<Rightarrow> dv_userId d \<noteq> uid \<or> answer (dv_token d) \<noteq> Token_gone"
  shows "d \<in> set (rows (devices (snd (push_send c r uid s))))"
proof -
  have "d \<in> set (rows (devices (disableDevices (map dv_id (filter (\<lambda>d. answer (dv_token d) = Token_gone) (push_targets uid s))) s)))"
    if "r = Some answer" for answer
  proof -
    have "dv_id d \<notin> set (map dv_id (filter (\<lambda>d. answer (dv_token d) = Token_gone) (push_targets uid s)))"
      using assms that tkeyed_inj [OF assms(2) assms(1)] by (auto simp: push_targets_def tfilter_def)
    then show ?thesis using assms(1) by (auto simp: disableDevices_def intro: rev_image_eqI)
  qed
  then show ?thesis using assms(1) by (auto simp: push_send_def Let_def split: option.split)
qed

section \<open>notifyUser\<close>

text \<open>
  \<open>push\<close> is the exception of a failing push message; an e-mail failure is logged only.  The
  in-app row is written before the push is sent.
\<close>

definition notifyUser :: "exn option \<Rightarrow> nat \<Rightarrow> string \<Rightarrow> string \<Rightarrow> string option \<Rightarrow> unit handler" where
  "notifyUser push uid typ title eventKey s =
     (if tfind (\<lambda>u. u_id u = uid) (users s) = None
      then (Inl (NotFound ''Notification recipient not found.''), s)
      else if eventKey \<noteq> None \<and> tfind (\<lambda>n. n_eventKey n = eventKey) (notifications s) \<noteq> None
      then (Inr (), s)
      else
        let s1 = (if inAppEnabled uid typ s
                  then s\<lparr>notifications := tinsert (\<lambda>i. \<lparr>n_id = i, n_recipientId = uid, n_type = typ,
                         n_title = title, n_eventKey = eventKey, n_isRead = False\<rparr>) (notifications s)\<rparr>
                  else s)
        in if pushEnabled uid typ s
           then (case push of Some e \<Rightarrow> (Inl e, s1) | None \<Rightarrow> (Inr (), s1))
           else (Inr (), s1))"

text \<open>
  The marketing variant of a push campaign: the event key names the campaign and the user, a
  test send has none, and the in-app row is an upsert.  The result tells whether a row is
  there, whether a push was attempted, and whether the user has opted out of both.
\<close>

record marketing_input =
  mk_userId :: nat
  mk_campaignId :: nat
  mk_title :: string
  mk_includeInApp :: bool
  mk_test :: bool

definition marketing_key :: "marketing_input \<Rightarrow> string option" where
  "marketing_key inp = (if mk_test inp then None
     else Some (''push-campaign:'' @ show_nat (mk_campaignId inp) @ '':'' @ show_nat (mk_userId inp)))"

definition marketing_row :: "marketing_input \<Rightarrow> nat \<Rightarrow> notification" where
  "marketing_row inp i = \<lparr>n_id = i, n_recipientId = mk_userId inp, n_type = ''MARKETING'',
     n_title = (if mk_test inp then ''[TEST] '' @ mk_title inp else mk_title inp),
     n_eventKey = marketing_key inp, n_isRead = False\<rparr>"

definition upsertMarketing :: "marketing_input \<Rightarrow> db \<Rightarrow> db" where
  "upsertMarketing inp s =
     (if marketing_key inp \<noteq> None \<and> tfind (\<lambda>n. n_eventKey n = marketing_key inp) (notifications s) \<noteq> None then s
      else s\<lparr>notifications := tinsert (marketing_row inp) (notifications s)\<rparr>)"

definition notifyMarketingUser ::
    "bool \<Rightarrow> fcm_response \<Rightarrow> marketing_input \<Rightarrow> (bool \<times> push_result \<times> bool) handler" where
  "notifyMarketingUser configured response inp s =
     (if tfind (\<lambda>u. u_id u = mk_userId inp) (users s) = None
      then (Inl (NotFound ''Notification recipient not found.''), s)
      else
        let inApp = (mk_includeInApp inp \<and> inAppEnabled (mk_userId inp) ''MARKETING'' s);
            pushOn = pushEnabled (mk_userId inp) ''MARKETING'' s;
            s1 = (if inApp then upsertMarketing inp s else s);
            (push, s2) = (if pushOn then push_send configured response (mk_userId inp) s1
              else (\<lparr>ps_enabled = configured, ps_attempted = 0, ps_successful = 0, ps_failed = 0\<rparr>, s1))
        in (Inr (inApp, push, \<not> inApp \<and> \<not> pushOn), s2))"

lemma notifyMarketingUser_frame:
  "snd (notifyMarketingUser c r inp s) = s\<lparr>notifications := notifications (snd (notifyMarketingUser c r inp s)),
     devices := devices (snd (notifyMarketingUser c r inp s))\<rparr>"
proof -
  have step: "s2 = s\<lparr>notifications := notifications s2, devices := devices s2\<rparr>"
    if "s1 = s\<lparr>notifications := n\<rparr>" "s2 = s1\<lparr>devices := d\<rparr>" for s1 s2 :: db and n d
    using that by simp
  define s1 where "s1 = (if mk_includeInApp inp \<and> inAppEnabled (mk_userId inp) ''MARKETING'' s then upsertMarketing inp s else s)"
  have s1: "s1 = s\<lparr>notifications := notifications s1\<rparr>" by (simp add: s1_def upsertMarketing_def)
  have "snd (notifyMarketingUser c r inp s) \<in> {s, s1, snd (push_send c r (mk_userId inp) s1)}"
    unfolding notifyMarketingUser_def Let_def s1_def [symmetric] by (simp split: prod.split)
  then show ?thesis
    using step [OF s1, of s1 "devices s1"] step [OF s1 push_send_frame [of c r "mk_userId inp" s1]] by auto
qed

text \<open>
  A user who has opted out of both channels gets nothing: no row is written and no device is
  tried.
\<close>

lemma notifyMarketingUser_opted_out:
  assumes "notifyMarketingUser c r inp s = (Inr (inApp, push, optedOut), s')" and "optedOut"
  shows "s' = s \<and> \<not> inApp \<and> ps_attempted push = 0"
  using assms by (auto simp: notifyMarketingUser_def Let_def split: if_splits prod.splits)

lemma notifyUser_frame:
  "snd (notifyUser push uid typ title k s) =
     s\<lparr>notifications := notifications (snd (notifyUser push uid typ title k s))\<rparr>"
  by (simp add: notifyUser_def Let_def split: option.split)

lemma notifyUser_tables [simp]:
  "orders (snd (notifyUser push uid typ title k s)) = orders s"
  "deliveries (snd (notifyUser push uid typ title k s)) = deliveries s"
  "storeProducts (snd (notifyUser push uid typ title k s)) = storeProducts s"
  "statusHistory (snd (notifyUser push uid typ title k s)) = statusHistory s"
  by (subst notifyUser_frame, simp)+

text \<open>
  A notification that carries an event key is stored at most once: however often the same
  event is announced, the number of rows with its key stays at one once there is one.
\<close>

theorem notifyUser_once:
  assumes "k \<noteq> None"
  shows "tcount (\<lambda>n. n_eventKey n = k) (notifications (snd (notifyUser push uid typ title k s)))
           \<le> max 1 (tcount (\<lambda>n. n_eventKey n = k) (notifications s))"
  using assms
  by (auto simp: notifyUser_def Let_def tcount_def tfind_None_iff filter_empty_conv split: option.split)

theorem notifyUser_once_witness:
  "tcount (\<lambda>n. n_eventKey n = Some ''order-status:1:PREPARING'')
     (notifications (snd (notifyUser None 7 ''ORDER_STATUS_UPDATE'' ''Order status updated''
        (Some ''order-status:1:PREPARING'') empty_db))) \<le> 1"
  using notifyUser_once [of "Some ''order-status:1:PREPARING''" None 7 "''ORDER_STATUS_UPDATE''"
      "''Order status updated''" empty_db]
  by (simp add: empty_db_def tcount_def tempty_def)

section \<open>The order-confirmation outbox\<close>

text \<open>
  One dispatch: the in-app row is an upsert on its event key, then the push and the e-mail are
  sent (\<open>push\<close> and \<open>mail\<close> give the exception of a failing send), then the job is closed.  A
  failing send leaves the in-app row behind.
\<close>

record outbox_env =
  env_now :: time
  env_push :: "nat \<Rightarrow> exn option"
  env_mail :: "nat \<Rightarrow> exn option"

definition upsertOrderPlaced :: "confirmation \<Rightarrow> db \<Rightarrow> db" where
  "upsertOrderPlaced job s =
     (let k = Some (''order-placed:'' @ show_nat (ob_orderId job))
      in if tfind (\<lambda>n. n_eventKey n = k) (notifications s) \<noteq> None then s
         else s\<lparr>notifications := tinsert (\<lambda>i.
                \<lparr>n_id = i, n_recipientId = ob_userId job, n_type = ''ORDER_PLACED'',
                 n_title = ''Order placed successfully'', n_eventKey = k,
                 n_isRead = False\<rparr>) (notifications s)\<rparr>)"

definition dispatchOrderConfirmation :: "outbox_env \<Rightarrow> nat \<Rightarrow> unit handler" where
  "dispatchOrderConfirmation env jobId s =
     (case tfind (\<lambda>j. ob_id j = jobId) (confirmations s) of
        None \<Rightarrow> (Inl RecordNotFound, s)
      | Some job \<Rightarrow>
          let s1 = (if inAppEnabled (ob_userId job) ''ORDER_PLACED'' s
                    then upsertOrderPlaced job s else s)
          in case (if pushEnabled (ob_userId job) ''ORDER_PLACED'' s then env_push env jobId else None) of
               Some e \<Rightarrow> (Inl e, s1)
             | None \<Rightarrow> (case (if emailEnabled (ob_userId job) ''ORDER_PLACED'' s then env_mail env jobId else None) of
                 Some e \<Rightarrow> (Inl e, s1)
               | None \<Rightarrow> (Inr (), s1\<lparr>confirmations := tupdate (\<lambda>j. ob_id j = ob_id job)
                    (\<lambda>j. j\<lparr>ob_status := ''PROCESSED'', ob_processingAt := None, ob_lastError := None\<rparr>)
                    (confirmations s1)\<rparr>)))"

definition delayMinutes :: "nat \<Rightarrow> nat" where
  "delayMinutes attempts = min 60 (2 ^ min attempts 6)"

definition claimable :: "time \<Rightarrow> confirmation \<Rightarrow> bool" where
  "claimable now j \<longleftrightarrow> ob_status j \<in> {''PENDING'', ''FAILED''} \<and> ob_availableAt j \<le> now"

definition processJob :: "outbox_env \<Rightarrow> nat \<Rightarrow> (nat \<times> nat) \<times> db \<Rightarrow> (nat \<times> nat) \<times> db" where
  "processJob env jobId = (\<lambda>((processed, failed), s).
     let P = (\<lambda>j. ob_id j = jobId \<and> claimable (env_now env) j);
         s1 = s\<lparr>confirmations := tupdate P (\<lambda>j. j\<lparr>ob_status := ''PROCESSING'',
                ob_processingAt := Some (env_now env), ob_attempts := ob_attempts j + 1\<rparr>)
                (confirmations s)\<rparr>
     in if tcount P (confirmations s) \<noteq> 1 then ((processed, failed), s1)
        else case dispatchOrderConfirmation env jobId s1 of
          (Inr _, s2) \<Rightarrow> ((processed + 1, failed), s2)
        | (Inl e, s2) \<Rightarrow>
            let attempts = (case tfind (\<lambda>j. ob_id j = jobId) (confirmations s2) of
                              None \<Rightarrow> 1 | Some j \<Rightarrow> ob_attempts j)
            in ((processed, failed + 1), s2\<lparr>confirmations := tupdate (\<lambda>j. ob_id j = jobId)
                 (\<lambda>j. j\<lparr>ob_status := ''FAILED'', ob_processingAt := None, ob_lastError := Some e,
                    ob_availableAt := env_now env + int (delayMinutes attempts) * 60000\<rparr>)
                 (confirmations s2)\<rparr>))"

text \<open>
  A drain of the queue: jobs that have been processing for more than ten minutes are given
  back, then at most 25 due jobs are claimed one by one.  The in-memory flag that keeps two
  drains of one process apart is the caller's.
\<close>

definition processOrderConfirmations :: "outbox_env \<Rightarrow> nat list \<Rightarrow> db \<Rightarrow> (nat \<times> nat) \<times> db" where
  "processOrderConfirmations env orderIds s =
     (let s1 = s\<lparr>confirmations := tupdate (\<lambda>j. ob_status j = ''PROCESSING'' \<and>
                   (case ob_processingAt j of None \<Rightarrow> False | Some t \<Rightarrow> t < env_now env - 600000))
                 (\<lambda>j. j\<lparr>ob_status := ''PENDING'', ob_processingAt := None\<rparr>) (confirmations s)\<rparr>;
          jobs = take 25 (tfilter (\<lambda>j. (orderIds \<noteq> [] \<longrightarrow> ob_orderId j \<in> set orderIds) \<and>
                   claimable (env_now env) j) (confirmations s1))
      in fold (\<lambda>j. processJob env (ob_id j)) jobs ((0, 0), s1))"

lemma delayMinutes_bounds: "1 \<le> delayMinutes a \<and> delayMinutes a \<le> 60"
  by (simp add: delayMinutes_def)

lemma dispatch_confirmations:
  "confirmations (snd (dispatchOrderConfirmation env jobId s)) =
     (if fst (dispatchOrderConfirmation env jobId s) = Inr ()
      then tupdate (\<lambda>j. ob_id j = jobId)
             (\<lambda>j. j\<lparr>ob_status := ''PROCESSED'', ob_processingAt := None, ob_lastError := None\<rparr>)
             (confirmations s)
      else confirmations s)"
proof (cases "tfind (\<lambda>j. ob_id j = jobId) (confirmations s)")
  case (Some job)
  then have "ob_id job = jobId" by (auto dest: tfind_SomeD)
  with Some show ?thesis
    by (auto simp: dispatchOrderConfirmation_def upsertOrderPlaced_def Let_def split: option.splits)
qed (simp add: dispatchOrderConfirmation_def)

definition job_processed :: "nat \<Rightarrow> db \<Rightarrow> bool" where
  "job_processed i s \<longleftrightarrow> (\<exists>j \<in> set (rows (confirmations s)). ob_id j = i \<and> ob_status j = ''PROCESSED'')"

interpretation confirmation_table: keyed_table ob_id .

lemma processJob_keeps_processed:
  assumes "tkeyed ob_id (confirmations s)"
  shows "tkeyed ob_id (confirmations (snd (processJob env i (c, s))))"
    and "job_processed k s \<Longrightarrow> job_processed k (snd (processJob env i (c, s)))"
proof -
  define P :: "confirmation \<Rightarrow> bool" where "P = (\<lambda>j. ob_id j = i \<and> claimable (env_now env) j)"
  define claim where "claim = (\<lambda>j::confirmation. j\<lparr>ob_status := ''PROCESSING'',
      ob_processingAt := Some (env_now env), ob_attempts := ob_attempts j + 1\<rparr>)"
  define s1 where "s1 = s\<lparr>confirmations := tupdate P claim (confirmations s)\<rparr>"
  obtain a b where c: "c = (a, b)" by (cases c)
  have k1: "tkeyed ob_id (confirmations s1)"
    using confirmation_table.update_keyed [OF assms, of P claim] by (simp add: s1_def claim_def)
  obtain r s2 where d: "dispatchOrderConfirmation env i s1 = (r, s2)" by fastforce
  have k2: "tkeyed ob_id (confirmations s2)"
    using k1 dispatch_confirmations [of env i s1] d
    by (auto simp: confirmation_table.update_keyed split: if_splits)
  have eq: "snd (processJob env i (c, s)) =
      (if tcount P (confirmations s) \<noteq> 1 then s1 else case r of Inr _ \<Rightarrow> s2 | Inl e \<Rightarrow>
        s2\<lparr>confirmations := tupdate (\<lambda>j. ob_id j = i) (\<lambda>j. j\<lparr>ob_status := ''FAILED'',
          ob_processingAt := None, ob_lastError := Some e, ob_availableAt := env_now env +
            int (delayMinutes (case tfind (\<lambda>j. ob_id j = i) (confirmations s2) of
                              None \<Rightarrow> 1 | Some j \<Rightarrow> ob_attempts j)) * 60000\<rparr>) (confirmations s2)\<rparr>)"
    using d by (auto simp: processJob_def c Let_def s1_def P_def claim_def split: sum.splits)
  show "tkeyed ob_id (confirmations (snd (processJob env i (c, s))))"
    unfolding eq using k1 k2 by (auto split: sum.splits intro!: confirmation_table.update_keyed)
  assume "job_processed k s"
  then obtain j where j: "j \<in> set (rows (confirmations s))" "ob_id j = k" "ob_status j = ''PROCESSED''"
    by (auto simp: job_processed_def)
  have nP: "\<not> P j" using j(3) by (simp add: P_def claimable_def)
  have j1: "j \<in> set (rows (confirmations s1))" using j nP by (force simp: s1_def)
  show "job_processed k (snd (processJob env i (c, s)))"
  proof (cases "tcount P (confirmations s) = 1")
    case False
    then show ?thesis using j j1 by (auto simp: eq job_processed_def)
  next
    case True
    then have "tfind P (confirmations s) \<noteq> None" using tcount_zero_iff [of P "confirmations s"] by auto
    then obtain j' where j': "j' \<in> set (rows (confirmations s))" "P j'"
      by (auto simp: tfind_None_iff)
    have "k \<noteq> i"
    proof
      assume "k = i"
      then have "j = j'" using j j' assms
        by (auto simp: P_def tkeyed_def distinct_map dest: inj_onD)
      with j' nP show False by simp
    qed
    then have "j \<in> set (rows (confirmations s2))"
      using j1 j(2) dispatch_confirmations [of env i s1] d by (auto split: if_splits)
    then show ?thesis using True j \<open>k \<noteq> i\<close> by (force simp: eq job_processed_def split: sum.splits)
  qed
qed

text \<open>
  Draining the outbox never reopens a confirmation that has been sent: whatever the
  providers answer, a job that is \<open>PROCESSED\<close> stays so, hence no confirmation is sent again.
\<close>

theorem processOrderConfirmations_keeps_processed:
  assumes "tkeyed ob_id (confirmations s)" and "job_processed k s"
  shows "job_processed k (snd (processOrderConfirmations env orderIds s))"
proof -
  have fold_keeps: "tkeyed ob_id (confirmations (snd (fold (\<lambda>j. processJob env (ob_id j)) js (c, t)))) \<and>
      job_processed k (snd (fold (\<lambda>j. processJob env (ob_id j)) js (c, t)))"
    if "tkeyed ob_id (confirmations t)" "job_processed k t" for js c t
    using that
  proof (induction js arbitrary: c t)
    case (Cons j js)
    obtain c' t' where p: "processJob env (ob_id j) (c, t) = (c', t')" by fastforce
    have "tkeyed ob_id (confirmations t')" "job_processed k t'"
      using processJob_keeps_processed(1) [OF Cons.prems(1), of env "ob_id j" c]
        processJob_keeps_processed(2) [OF Cons.prems(1), of k env "ob_id j" c] Cons.prems(2) p by auto
    then show ?case using Cons.IH p by simp
  qed simp
  define Q :: "confirmation \<Rightarrow> bool" where "Q = (\<lambda>j. ob_status j = ''PROCESSING'' \<and>
      (case ob_processingAt j of None \<Rightarrow> False | Some t \<Rightarrow> t < env_now env - 600000))"
  define s1 where "s1 = s\<lparr>confirmations := tupdate Q
      (\<lambda>j. j\<lparr>ob_status := ''PENDING'', ob_processingAt := None\<rparr>) (confirmations s)\<rparr>"
  have "tkeyed ob_id (confirmations s1)"
    using assms(1) by (auto simp: s1_def intro!: confirmation_table.update_keyed)
  moreover have "job_processed k s1"
    using assms(2) by (force simp: job_processed_def s1_def Q_def)
  ultimately show ?thesis
    using fold_keeps [of s1] unfolding processOrderConfirmations_def Let_def s1_def [symmetric, unfolded Q_def]
    by blast
qed

definition outbox_example :: db where
  "outbox_example = empty_db\<lparr>confirmations := \<lparr>rows =
     [\<lparr>ob_id = 1, ob_orderId = 5, ob_userId = 7, ob_status = ''PROCESSED'', ob_attempts = 1,
       ob_availableAt = 0, ob_processingAt = None, ob_lastError = None\<rparr>,
      \<lparr>ob_id = 2, ob_orderId = 6, ob_userId = 7, ob_status = ''FAILED'', ob_attempts = 3,
       ob_availableAt = 10, ob_processingAt = None, ob_lastError = None\<rparr>], next_id = 3\<rparr>\<rparr>"

theorem processOrderConfirmations_keeps_processed_witness:
  "tkeyed ob_id (confirmations outbox_example) \<and> job_processed 1 outbox_example \<and>
   job_processed 1 (snd (processOrderConfirmations
     \<lparr>env_now = 20, env_push = \<lambda>_. None, env_mail = \<lambda>_. Some (ProviderError ''smtp'')\<rparr> [] outbox_example))"
proof -
  have "tkeyed ob_id (confirmations outbox_example)" "job_processed 1 outbox_example"
    by (simp_all add: outbox_example_def tkeyed_def job_processed_def)
  then show ?thesis using processOrderConfirmations_keeps_processed by blast
qed

end
