(* ===== verification/Cart.thy ===== *)
theory Cart
  imports Schema Strings
begin

text \<open>
  The cart (\<^verbatim>\<open>src/cart/cart.service.ts\<close>) and coupons (\<^verbatim>\<open>src/cart/coupon.service.ts\<close>).  Every cart
  operation locks the cart of the user, changes its lines and recalculates the stored totals in
  one transaction.  The row locks serialise operations on one cart, so a sequence of
  operations is a sequence of committed transactions.
\<close>

section \<open>Reading the cart\<close>

definition items_of :: "nat \<Rightarrow> db \<Rightarrow> cart_item list" where
  "items_of cid s = tfilter (\<lambda>i. ci_cartId i = cid) (cartItems s)"

definition offer_of :: "nat \<Rightarrow> db \<Rightarrow> store_product option" where
  "offer_of spid s = tfind (\<lambda>p. sp_id p = spid) (storeProducts s)"

definition product_of :: "store_product \<Rightarrow> db \<Rightarrow> product option" where
  "product_of sp s = tfind (\<lambda>p. p_id p = sp_productId sp) (products s)"

definition store_of :: "store_product \<Rightarrow> db \<Rightarrow> store option" where
  "store_of sp s = tfind (\<lambda>p. st_id p = sp_storeId sp) (stores s)"

definition current_price :: "store_product \<Rightarrow> decimal" where
  "current_price sp = (case sp_discountPrice sp of Some d \<Rightarrow> d | None \<Rightarrow> sp_price sp)"

definition line_total :: "cart_item list \<Rightarrow> decimal" where
  "line_total items = (\<Sum>i\<leftarrow>items. ci_unitPrice i * of_nat (ci_quantity i))"

definition line_count :: "cart_item list \<Rightarrow> nat" where
  "line_count items = (\<Sum>i\<leftarrow>items. ci_quantity i)"

section \<open>Operations\<close>

definition validateQuantity :: "int \<Rightarrow> 'a result \<Rightarrow> 'a result" where
  "validateQuantity q k = require (q \<le> max_safe_integer \<and> 1 \<le> q)
     (BadRequest ''Quantity must be a positive integer.'') k"

definition lock :: "nat \<Rightarrow> cart tx" where
  "lock userId s = (case tfind (\<lambda>c. c_userId c = userId) (carts s) of
     Some c \<Rightarrow> Inr (c, s)
   | None \<Rightarrow>
       let mk = (\<lambda>i. \<lparr>c_id = i, c_userId = userId, c_currency = ''NGN'', c_subtotal = 0, c_totalItems = 0\<rparr>)
       in Inr (mk (next_id (carts s)), s\<lparr>carts := tinsert mk (carts s)\<rparr>))"

text \<open>What \<open>recalculate\<close> returns of the cart: the totals and each line with its total price.\<close>

record cart_view =
  vw_cartId :: nat
  vw_subtotal :: decimal
  vw_totalItems :: nat
  vw_lines :: "(cart_item \<times> decimal) list"

definition refresh_line :: "cart_item \<Rightarrow> db \<Rightarrow> db result" where
  "refresh_line item s = ebind (orThrow (offer_of (ci_storeProductId item) s) RecordNotFound) (\<lambda>sp.
     if ci_unitPrice item \<noteq> current_price sp
     then Inr (s\<lparr>cartItems := tupdate (\<lambda>i. ci_id i = ci_id item)
            (\<lambda>i. i\<lparr>ci_unitPrice := current_price sp\<rparr>) (cartItems s)\<rparr>)
     else Inr s)"

definition recalculate :: "nat \<Rightarrow> bool \<Rightarrow> cart_view tx" where
  "recalculate cartId refreshPrices s =
     ebind (orThrow (tfind (\<lambda>c. c_id c = cartId) (carts s)) RecordNotFound) (\<lambda>cart.
     ebind (if refreshPrices then eiter refresh_line (items_of cartId s) s else Inr s) (\<lambda>s1.
     let items = items_of cartId s1;
         subtotal = line_total items;
         totalItems = line_count items
     in Inr (\<lparr>vw_cartId = cartId, vw_subtotal = subtotal, vw_totalItems = totalItems,
              vw_lines = map (\<lambda>i. (i, ci_unitPrice i * of_nat (ci_quantity i))) items\<rparr>,
             s1\<lparr>carts := tupdate (\<lambda>c. c_id c = cartId)
               (\<lambda>c. c\<lparr>c_subtotal := subtotal, c_totalItems := totalItems\<rparr>) (carts s1)\<rparr>)))"

definition is_line :: "nat \<Rightarrow> nat \<Rightarrow> cart_item \<Rightarrow> bool" where
  "is_line cartId spid i \<longleftrightarrow> ci_cartId i = cartId \<and> ci_storeProductId i = spid"

definition addInTransaction :: "nat \<Rightarrow> nat \<Rightarrow> int \<Rightarrow> db \<Rightarrow> db result" where
  "addInTransaction cartId spid quantity s = validateQuantity quantity (
     ebind (orThrow (offer_of spid s) (NotFound ''Store product is not available.'')) (\<lambda>offer.
     ebind (orThrow (product_of offer s) RecordNotFound) (\<lambda>product.
     ebind (orThrow (store_of offer s) RecordNotFound) (\<lambda>store.
     require (sp_isActive offer \<and> sp_availability offer \<and> p_status product \<and> st_isActive store)
       (NotFound ''Store product is not available.'') (
     let existing = tfind (is_line cartId spid) (cartItems s);
         desired = (case existing of None \<Rightarrow> 0 | Some i \<Rightarrow> int (ci_quantity i)) + quantity;
         unitPrice = current_price offer
     in require (\<not> sp_stockQuantity offer < desired)
          (Conflict ''Requested quantity exceeds available stock'')
          (Inr (case existing of
             None \<Rightarrow> s\<lparr>cartItems := tinsert (\<lambda>i. \<lparr>ci_id = i, ci_cartId = cartId,
                 ci_storeProductId = spid, ci_quantity = nat quantity, ci_unitPrice = unitPrice\<rparr>)
                 (cartItems s)\<rparr>
           | Some _ \<Rightarrow> s\<lparr>cartItems := tupdate (is_line cartId spid)
                 (\<lambda>i. i\<lparr>ci_quantity := nat desired, ci_unitPrice := unitPrice\<rparr>) (cartItems s)\<rparr>)))))))"

definition add :: "nat \<Rightarrow> nat \<Rightarrow> int \<Rightarrow> cart_view tx" where
  "add userId spid quantity s = validateQuantity quantity (
     ebind (lock userId s) (\<lambda>(cart, s1).
     ebind (addInTransaction (c_id cart) spid quantity s1) (\<lambda>s2.
     recalculate (c_id cart) False s2)))"

text \<open>
  A product or a store-specific offer, as the request names it.  An identifier of zero is as
  good as none for \<open>productId\<close> and \<open>storeId\<close> where the code tests it for truth.
\<close>

definition addSelection :: "nat \<Rightarrow> nat option \<Rightarrow> nat option \<Rightarrow> nat option \<Rightarrow> int \<Rightarrow> cart_view tx" where
  "addSelection userId spid productId storeId quantity s = (case spid of
     Some i \<Rightarrow>
       ebind (orThrow (offer_of i s) (NotFound ''Store product not found.'')) (\<lambda>offer.
       require (\<not> (productId \<noteq> None \<and> productId \<noteq> Some (sp_productId offer) \<or>
                    storeId \<noteq> None \<and> storeId \<noteq> Some (sp_storeId offer)))
         (BadRequest ''Product and store do not match the selected offer.'')
         (add userId (sp_id offer) quantity s))
   | None \<Rightarrow>
       require (productId \<notin> {None, Some 0}) (BadRequest ''A product or store product ID is required.'') (
       let offers = take 2 (tfilter (\<lambda>sp. Some (sp_productId sp) = productId \<and>
             (storeId \<notin> {None, Some 0} \<longrightarrow> Some (sp_storeId sp) = storeId) \<and>
             sp_isActive sp \<and> sp_availability sp \<and>
             (case store_of sp s of None \<Rightarrow> False | Some st \<Rightarrow> st_isActive st) \<and>
             (case product_of sp s of None \<Rightarrow> False | Some p \<Rightarrow> p_status p)) (storeProducts s))
       in case offers of
            [] \<Rightarrow> Inl (NotFound ''Product is unavailable.'')
          | [offer] \<Rightarrow> add userId (sp_id offer) quantity s
          | _ \<Rightarrow> Inl (Conflict ''Choose a store-specific offer for this product.'')))"

definition updateQuantity :: "nat \<Rightarrow> nat \<Rightarrow> int \<Rightarrow> cart_view tx" where
  "updateQuantity userId spid quantity s = validateQuantity quantity (
     ebind (lock userId s) (\<lambda>(cart, s1).
     ebind (orThrow (tfind (is_line (c_id cart) spid) (cartItems s1))
       (NotFound ''Cart item not found.'')) (\<lambda>item.
     ebind (orThrow (offer_of (ci_storeProductId item) s1) RecordNotFound) (\<lambda>offer.
     require (\<not> (\<not> sp_isActive offer \<or> \<not> sp_availability offer \<or> sp_stockQuantity offer < quantity))
       (Conflict ''Requested quantity is unavailable'') (
     recalculate (c_id cart) False (s1\<lparr>cartItems := tupdate (\<lambda>i. ci_id i = ci_id item)
       (\<lambda>i. i\<lparr>ci_quantity := nat quantity, ci_unitPrice := current_price offer\<rparr>)
       (cartItems s1)\<rparr>))))))"

definition remove :: "nat \<Rightarrow> nat \<Rightarrow> cart_view tx" where
  "remove userId spid s = ebind (lock userId s) (\<lambda>(cart, s1).
     recalculate (c_id cart) False
       (s1\<lparr>cartItems := tdelete (is_line (c_id cart) spid) (cartItems s1)\<rparr>))"

definition clear :: "nat \<Rightarrow> cart_view tx" where
  "clear userId s = ebind (lock userId s) (\<lambda>(cart, s1).
     recalculate (c_id cart) False
       (s1\<lparr>cartItems := tdelete (\<lambda>i. ci_cartId i = c_id cart) (cartItems s1)\<rparr>))"

definition get_cart :: "nat \<Rightarrow> cart_view tx" where
  "get_cart userId s = ebind (lock userId s) (\<lambda>(cart, s1). recalculate (c_id cart) True s1)"

datatype cart_op =
    Get nat
  | Add nat nat int
  | AddSelection nat "nat option" "nat option" "nat option" int
  | UpdateQuantity nat nat int
  | Remove nat nat
  | Clear nat

definition cart_step :: "cart_op \<Rightarrow> db \<Rightarrow> db result" where
  "cart_step op s = ebind (case op of
       Get u \<Rightarrow> get_cart u s
     | Add u p q \<Rightarrow> add u p q s
     | AddSelection u i p st q \<Rightarrow> addSelection u i p st q s
     | UpdateQuantity u p q \<Rightarrow> updateQuantity u p q s
     | Remove u p \<Rightarrow> remove u p s
     | Clear u \<Rightarrow> clear u s) (\<lambda>(_, s'). Inr s')"

section \<open>Invariant\<close>

definition line_key :: "cart_item \<Rightarrow> nat \<times> nat" where
  "line_key i = (ci_cartId i, ci_storeProductId i)"

definition cart_rows_ok :: "db \<Rightarrow> bool" where
  "cart_rows_ok s \<longleftrightarrow>
     tkeyed c_id (carts s) \<and> distinct (map c_userId (rows (carts s))) \<and>
     tkeyed ci_id (cartItems s) \<and> distinct (map line_key (rows (cartItems s))) \<and>
     (\<forall>i \<in> set (rows (cartItems s)). 1 \<le> ci_quantity i \<and> ci_cartId i < next_id (carts s))"

definition totals_ok :: "db \<Rightarrow> cart \<Rightarrow> bool" where
  "totals_ok s c \<longleftrightarrow> c_subtotal c = line_total (items_of (c_id c) s) \<and>
     c_totalItems c = line_count (items_of (c_id c) s)"

definition cart_inv :: "db \<Rightarrow> bool" where
  "cart_inv s \<longleftrightarrow> cart_rows_ok s \<and> (\<forall>c \<in> set (rows (carts s)). totals_ok s c)"

text \<open>The invariant while a transaction works on the cart \<open>cid\<close>.\<close>

definition cart_inv_but :: "nat \<Rightarrow> db \<Rightarrow> bool" where
  "cart_inv_but cid s \<longleftrightarrow> cart_rows_ok s \<and>
     (\<forall>c \<in> set (rows (carts s)). c_id c \<noteq> cid \<longrightarrow> totals_ok s c) \<and> cid < next_id (carts s)"

lemma cart_inv_empty: "cart_inv empty_db"
  by (simp add: cart_inv_def cart_rows_ok_def empty_db_def tempty_def tkeyed_def)

lemma is_line_iff: "is_line c p i \<longleftrightarrow> line_key i = (c, p)"
  by (simp add: is_line_def line_key_def)

lemma totals_ok_cong: "items_of (c_id c) s' = items_of (c_id c) s \<Longrightarrow> totals_ok s' c = totals_ok s c"
  by (simp add: totals_ok_def)

lemma items_of_other:
  assumes "\<forall>i \<in> set (rows (cartItems s)). Q i \<longrightarrow> ci_cartId i = cid \<and> ci_cartId (f i) = cid" and "k \<noteq> cid"
  shows "items_of k (s\<lparr>cartItems := tupdate Q f (cartItems s)\<rparr>) = items_of k s"
proof -
  have "filter (\<lambda>i. ci_cartId i = k) (map (\<lambda>i. if Q i then f i else i) xs) =
      filter (\<lambda>i. ci_cartId i = k) xs"
    if "\<forall>i \<in> set xs. Q i \<longrightarrow> ci_cartId i = cid \<and> ci_cartId (f i) = cid" for xs
    using that assms(2) by (induction xs) auto
  then show ?thesis using assms(1) by (simp add: items_of_def tfilter_def)
qed

lemma lock_inv:
  assumes "cart_inv s" and "lock u s = Inr (cart, s1)"
  shows "cart_inv s1" and "c_id cart < next_id (carts s1)" and "cart_inv_but (c_id cart) s1"
    and "c_userId cart = u" and "cart \<in> set (rows (carts s1))" and "cartItems s1 = cartItems s"
    and "storeProducts s1 = storeProducts s"
proof -
  have new: "items_of (next_id (carts s)) s = []"
    using assms(1) by (auto simp: cart_inv_def cart_rows_ok_def items_of_def tfilter_def filter_empty_conv)
  show inv: "cart_inv s1"
  proof (cases "tfind (\<lambda>c. c_userId c = u) (carts s)")
    case None
    have "tkeyed c_id (carts s1)"
      using assms None by (auto simp: lock_def Let_def cart_inv_def cart_rows_ok_def
          intro!: cart_table.insert_keyed)
    moreover have "items_of k s1 = items_of k s" for k
      using assms None by (auto simp: lock_def Let_def items_of_def)
    ultimately show ?thesis using assms None new
      by (auto simp: lock_def Let_def cart_inv_def cart_rows_ok_def totals_ok_def line_total_def
          line_count_def tfind_None_iff less_Suc_eq)
  qed (use assms in \<open>auto simp: lock_def\<close>)
  show "c_userId cart = u" "cartItems s1 = cartItems s" "storeProducts s1 = storeProducts s"
    using assms(2) by (auto simp: lock_def Let_def split: option.splits dest: tfind_SomeD)
  show mem: "cart \<in> set (rows (carts s1))"
    using assms(2) by (auto simp: lock_def Let_def split: option.splits dest: tfind_SomeD)
  then show "c_id cart < next_id (carts s1)"
    using inv by (auto simp: cart_inv_def cart_rows_ok_def tkeyed_def)
  then show "cart_inv_but (c_id cart) s1" using inv by (auto simp: cart_inv_def cart_inv_but_def)
qed

lemma lines_update_but:
  assumes inv: "cart_inv_but cid s"
    and "\<forall>i \<in> set (rows (cartItems s)). Q i \<longrightarrow> ci_cartId i = cid"
    and f: "\<And>i. ci_id (f i) = ci_id i \<and> line_key (f i) = line_key i"
    and q: "\<And>i. i \<in> set (rows (cartItems s)) \<Longrightarrow> Q i \<Longrightarrow> 1 \<le> ci_quantity i \<Longrightarrow> 1 \<le> ci_quantity (f i)"
  shows "cart_inv_but cid (s\<lparr>cartItems := tupdate Q f (cartItems s)\<rparr>)"
proof -
  have key: "map line_key (rows (tupdate Q f (cartItems s))) = map line_key (rows (cartItems s))"
    using f by (intro tupdate_column) simp
  have cart: "ci_cartId (f i) = ci_cartId i" for i
    using f [of i] by (simp add: line_key_def)
  have other: "items_of k (s\<lparr>cartItems := tupdate Q f (cartItems s)\<rparr>) = items_of k s" if "k \<noteq> cid" for k
    using assms(2) cart that by (intro items_of_other) auto
  have "tkeyed ci_id (tupdate Q f (cartItems s))"
    using inv f by (auto simp: cart_inv_but_def cart_rows_ok_def intro!: cart_item_table.update_keyed)
  moreover have "1 \<le> ci_quantity i \<and> ci_cartId i < next_id (carts s)"
    if "i \<in> set (rows (tupdate Q f (cartItems s)))" for i
    using that inv q cart by (auto simp: cart_inv_but_def cart_rows_ok_def)
  ultimately show ?thesis
    using inv key other
    by (simp add: cart_inv_but_def cart_rows_ok_def totals_ok_def del: rows_table)
qed

lemma lines_delete_but:
  assumes inv: "cart_inv_but cid s" and "\<And>i. Q i \<Longrightarrow> ci_cartId i = cid"
  shows "cart_inv_but cid (s\<lparr>cartItems := tdelete Q (cartItems s)\<rparr>)"
proof -
  have "items_of k (s\<lparr>cartItems := tdelete Q (cartItems s)\<rparr>) = items_of k s" if "k \<noteq> cid" for k
    using assms(2) that by (auto simp: items_of_def tfilter_def intro!: filter_cong)
  moreover have "tkeyed ci_id (tdelete Q (cartItems s))"
    using inv by (simp add: cart_inv_but_def cart_rows_ok_def cart_item_table.delete_keyed)
  ultimately show ?thesis
    using inv by (auto simp: cart_inv_but_def cart_rows_ok_def totals_ok_def distinct_map_filter)
qed

lemma lines_insert_but:
  assumes inv: "cart_inv_but cid s" and new: "tfind (is_line cid p) (cartItems s) = None"
    and mk: "\<And>i. ci_id (mk i) = i \<and> line_key (mk i) = (cid, p) \<and> 1 \<le> ci_quantity (mk i)"
  shows "cart_inv_but cid (s\<lparr>cartItems := tinsert mk (cartItems s)\<rparr>)"
proof -
  have cart: "ci_cartId (mk i) = cid" for i using mk [of i] by (simp add: line_key_def)
  then have "items_of k (s\<lparr>cartItems := tinsert mk (cartItems s)\<rparr>) = items_of k s" if "k \<noteq> cid" for k
    using that by (simp add: items_of_def tfilter_def)
  moreover have "tkeyed ci_id (tinsert mk (cartItems s))"
    using inv mk by (auto simp: cart_inv_but_def cart_rows_ok_def intro!: cart_item_table.insert_keyed)
  moreover have "(cid, p) \<notin> line_key ` set (rows (cartItems s))"
    using new by (force simp: tfind_None_iff is_line_iff)
  ultimately show ?thesis
    using inv mk cart by (auto simp: cart_inv_but_def cart_rows_ok_def totals_ok_def)
qed

lemma refresh_line_frame:
  assumes "refresh_line item t = Inr t'"
  shows "map (\<lambda>i. (ci_id i, ci_cartId i)) (rows (cartItems t')) = map (\<lambda>i. (ci_id i, ci_cartId i)) (rows (cartItems t))"
    and "carts t' = carts t"
  using assms by (auto simp: refresh_line_def tx_simps split: if_splits)

lemma refresh_line_but:
  assumes "cart_inv_but cid t" and "refresh_line item t = Inr t'"
    and "\<forall>i \<in> set (rows (cartItems t)). ci_id i = ci_id item \<longrightarrow> ci_cartId i = cid"
  shows "cart_inv_but cid t'"
  using assms by (auto simp: refresh_line_def tx_simps line_key_def split: if_splits intro!: lines_update_but)

lemma refresh_all_but:
  assumes "cart_inv_but cid s" and "eiter refresh_line (items_of cid s) s = Inr s1"
  shows "cart_inv_but cid s1"
proof -
  let ?ids = "\<lambda>t. map (\<lambda>i. (ci_id i, ci_cartId i)) (rows (cartItems t))"
  have own: "ci_cartId i = cid" if "item \<in> set (items_of cid s)" "?ids t = ?ids s"
    "i \<in> set (rows (cartItems t))" "ci_id i = ci_id item" for item t i
  proof -
    have "(ci_id i, ci_cartId i) \<in> set (?ids s)" using that(2,3) by (metis (mono_tags, lifting) imageI list.set_map)
    then obtain j where j: "j \<in> set (rows (cartItems s))" "ci_id j = ci_id i" "ci_cartId j = ci_cartId i" by auto
    have "item \<in> set (rows (cartItems s))" "ci_cartId item = cid"
      using that(1) by (auto simp: items_of_def tfilter_def)
    with j that(4) have "j = item" using assms(1)
      by (auto simp: cart_inv_but_def cart_rows_ok_def tkeyed_def distinct_map inj_on_def)
    with j \<open>ci_cartId item = cid\<close> show ?thesis by simp
  qed
  have "cart_inv_but cid s1 \<and> ?ids s1 = ?ids s"
  proof (rule eiter_invariant [OF assms(2)])
    fix item t t'
    assume "item \<in> set (items_of cid s)" "cart_inv_but cid t \<and> ?ids t = ?ids s" "refresh_line item t = Inr t'"
    then show "cart_inv_but cid t' \<and> ?ids t' = ?ids s"
      using own refresh_line_but refresh_line_frame(1) by (metis (mono_tags, lifting))
  qed (simp add: assms(1))
  then show ?thesis by simp
qed

lemma recalculate_inv:
  assumes "cart_inv_but cid s" and "recalculate cid b s = Inr (v, s')"
  shows "cart_inv s'"
proof -
  obtain s1 where s1: "cart_inv_but cid s1"
    and s': "s' = s1\<lparr>carts := tupdate (\<lambda>c. c_id c = cid) (\<lambda>c. c\<lparr>c_subtotal := line_total (items_of cid s1),
       c_totalItems := line_count (items_of cid s1)\<rparr>) (carts s1)\<rparr>"
    using assms refresh_all_but by (auto simp: recalculate_def Let_def tx_simps split: if_splits)
  have items: "items_of k s' = items_of k s1" for k by (simp add: s' items_of_def)
  have "tkeyed c_id (carts s')"
    using s1 by (auto simp: s' cart_inv_but_def cart_rows_ok_def intro!: cart_table.update_keyed)
  moreover have "map c_userId (rows (carts s')) = map c_userId (rows (carts s1))"
    unfolding s' by (simp del: rows_table) (intro tupdate_column, simp)
  moreover have "totals_ok s' c" if "c \<in> set (rows (carts s'))" for c
    using that s1 by (auto simp: s' items cart_inv_but_def totals_ok_def items_of_def split: if_splits)
  moreover have "cartItems s' = cartItems s1" "next_id (carts s') = next_id (carts s1)"
    by (simp_all add: s')
  ultimately show ?thesis
    using s1 by (simp add: cart_inv_def cart_inv_but_def cart_rows_ok_def)
qed

lemma addInTransaction_but:
  assumes "cart_inv_but cid s" and "addInTransaction cid p q s = Inr s'"
  shows "cart_inv_but cid s'"
proof (cases "tfind (is_line cid p) (cartItems s)")
  case None
  then show ?thesis using assms
    by (auto simp: addInTransaction_def validateQuantity_def Let_def tx_simps line_key_def
        intro!: lines_insert_but [OF _ None])
next
  case (Some i)
  then show ?thesis using assms
    by (auto simp: addInTransaction_def validateQuantity_def Let_def tx_simps line_key_def is_line_def
        intro!: lines_update_but)
qed

lemma updateQuantity_inv:
  assumes "cart_inv s" and "updateQuantity u p q s = Inr (v, s')"
  shows "cart_inv s'"
proof -
  obtain cart s1 item offer where l: "lock u s = Inr (cart, s1)"
    and i: "tfind (is_line (c_id cart) p) (cartItems s1) = Some item" and q: "1 \<le> q"
    and r: "recalculate (c_id cart) False (s1\<lparr>cartItems := tupdate (\<lambda>i. ci_id i = ci_id item)
       (\<lambda>i. i\<lparr>ci_quantity := nat q, ci_unitPrice := current_price offer\<rparr>) (cartItems s1)\<rparr>) = Inr (v, s')"
    using assms(2) by (auto simp: updateQuantity_def validateQuantity_def tx_simps)
  have "item \<in> set (rows (cartItems s1))" "ci_cartId item = c_id cart"
    using i by (auto dest!: tfind_SomeD simp: is_line_def)
  then have "\<forall>i \<in> set (rows (cartItems s1)). ci_id i = ci_id item \<longrightarrow> ci_cartId i = c_id cart"
    using lock_inv(1) [OF assms(1) l]
    by (auto simp: cart_inv_def cart_rows_ok_def tkeyed_def distinct_map inj_on_def)
  then show ?thesis
    using q by (intro recalculate_inv [OF lines_update_but [OF lock_inv(3) [OF assms(1) l]] r])
      (auto simp: line_key_def)
qed

lemma add_inv:
  assumes "cart_inv s" and "add u p q s = Inr (v, s')"
  shows "cart_inv s'"
proof -
  obtain cart s1 s2 where l: "lock u s = Inr (cart, s1)"
    and a: "addInTransaction (c_id cart) p q s1 = Inr s2" and r: "recalculate (c_id cart) False s2 = Inr (v, s')"
    using assms(2) by (auto simp: add_def validateQuantity_def tx_simps)
  show ?thesis
    by (rule recalculate_inv [OF addInTransaction_but [OF lock_inv(3) [OF assms(1) l] a] r])
qed

lemma delete_lines_inv:
  assumes "cart_inv s" and "lock u s = Inr (cart, s1)" and "\<And>i. Q i \<Longrightarrow> ci_cartId i = c_id cart"
    and "recalculate (c_id cart) False (s1\<lparr>cartItems := tdelete Q (cartItems s1)\<rparr>) = Inr (v, s')"
  shows "cart_inv s'"
  by (rule recalculate_inv [OF lines_delete_but [OF lock_inv(3) [OF assms(1,2)] assms(3)] assms(4)])

lemma remove_inv: "cart_inv s \<Longrightarrow> remove u p s = Inr (v, s') \<Longrightarrow> cart_inv s'"
  by (auto simp: remove_def tx_simps is_line_def elim!: delete_lines_inv [rotated 3])

lemma clear_inv: "cart_inv s \<Longrightarrow> clear u s = Inr (v, s') \<Longrightarrow> cart_inv s'"
  by (auto simp: clear_def tx_simps elim!: delete_lines_inv [rotated 3])

lemma get_cart_inv: "cart_inv s \<Longrightarrow> get_cart u s = Inr (v, s') \<Longrightarrow> cart_inv s'"
  by (auto simp: get_cart_def tx_simps intro: recalculate_inv lock_inv(3))

lemma addSelection_add:
  assumes "addSelection u i p st q s = Inr (v, s')"
  obtains spid where "add u spid q s = Inr (v, s')"
  using assms
  by (auto simp: addSelection_def Let_def tx_simps split: option.splits list.splits)

interpretation cart_system: tx_system cart_step cart_inv
proof
  fix op s s'
  assume "cart_inv s" "cart_step op s = Inr s'"
  then show "cart_inv s'"
    by (cases op) (auto simp: cart_step_def tx_simps elim!: addSelection_add
        intro: get_cart_inv add_inv updateQuantity_inv remove_inv clear_inv)
qed

text \<open>
  (C25) The stored totals of every cart are those of its lines, a cart has one line per
  store product, no line has quantity zero and a user has one cart, after any sequence of cart
  requests, whichever of them fail.
\<close>

theorem cart_requests_keep_totals:
  assumes "cart_inv s" and "c \<in> set (rows (carts (run_ops cart_step ops s)))"
  shows "c_subtotal c = line_total (items_of (c_id c) (run_ops cart_step ops s)) \<and>
    c_totalItems c = line_count (items_of (c_id c) (run_ops cart_step ops s)) \<and>
    cart_inv (run_ops cart_step ops s)"
  using cart_system.run_inv [OF assms(1), of ops] assms(2) by (auto simp: cart_inv_def totals_ok_def)

text \<open>A small shop for the examples: one user, one store with two offers.\<close>

definition shop :: db where
  "shop = empty_db\<lparr>
     users := \<lparr>rows = [\<lparr>u_id = 7, u_email = ''ada@example.com'', u_firstName = Some ''Ada'',
       u_lastName = Some ''Obi'', u_phoneNumber = Some ''08030000000'', u_status = ACTIVE,
       u_passwordHash = None, u_isEmailVerified = True\<rparr>], next_id = 8\<rparr>,
     stores := \<lparr>rows = [\<lparr>st_id = 1, st_ownerUserId = 3, st_members = [4], st_isActive = True,
       st_city = ''Ikeja'', st_state = ''Lagos'', st_location = None\<rparr>], next_id = 2\<rparr>,
     products := \<lparr>rows = [\<lparr>p_id = 1, p_name = ''Rice'', p_status = True, p_barcode = Some ''600''\<rparr>,
       \<lparr>p_id = 2, p_name = ''Beans'', p_status = True, p_barcode = None\<rparr>], next_id = 3\<rparr>,
     storeProducts := \<lparr>rows = [
       \<lparr>sp_id = 1, sp_storeId = 1, sp_productId = 1, sp_sku = Some ''R1'', sp_barcode = None, sp_price = 250,
        sp_discountPrice = Some (199 / 2), sp_stockQuantity = 5, sp_availability = True, sp_isActive = True\<rparr>,
       \<lparr>sp_id = 2, sp_storeId = 1, sp_productId = 2, sp_sku = None, sp_barcode = None, sp_price = 40,
        sp_discountPrice = None, sp_stockQuantity = 3, sp_availability = True, sp_isActive = True\<rparr>],
       next_id = 3\<rparr>\<rparr>"

lemma shop_inv: "cart_inv shop"
  by (simp add: shop_def cart_inv_def cart_rows_ok_def empty_db_def tempty_def tkeyed_def)

theorem cart_requests_keep_totals_witness:
  "c_subtotal \<lparr>c_id = 1, c_userId = 7, c_currency = ''NGN'', c_subtotal = 239, c_totalItems = 3\<rparr> =
     line_total (items_of 1 (run_ops cart_step [Add 7 1 2, Add 7 1 9, Add 7 2 1] shop)) \<and>
   line_count (items_of 1 (run_ops cart_step [Add 7 1 2, Add 7 1 9, Add 7 2 1] shop)) = 3"
proof -
  have "\<lparr>c_id = 1, c_userId = 7, c_currency = ''NGN'', c_subtotal = 239, c_totalItems = 3\<rparr>
      \<in> set (rows (carts (run_ops cart_step [Add 7 1 2, Add 7 1 9, Add 7 2 1] shop)))"
    by code_simp
  from cart_requests_keep_totals [OF shop_inv this] show ?thesis by simp
qed

section \<open>What adding does\<close>

definition cart_quantity :: "nat \<Rightarrow> nat \<Rightarrow> db \<Rightarrow> int" where
  "cart_quantity userId spid s = (case tfind (\<lambda>c. c_userId c = userId) (carts s) of
     None \<Rightarrow> 0
   | Some c \<Rightarrow> (case tfind (is_line (c_id c) spid) (cartItems s) of
       None \<Rightarrow> 0 | Some i \<Rightarrow> int (ci_quantity i)))"

lemma lock_find:
  assumes "lock u s = Inr (cart, s1)"
  shows "tfind (\<lambda>c. c_userId c = u) (carts s1) = Some cart"
  using assms by (auto simp: lock_def Let_def tfind_tinsert split: option.splits)

lemma lock_quantity:
  assumes "cart_inv s" and "lock u s = Inr (cart, s1)"
  shows "cart_quantity u p s1 = cart_quantity u p s"
proof (cases "tfind (\<lambda>c. c_userId c = u) (carts s)")
  case None
  have "tfind (is_line (next_id (carts s)) p) (cartItems s) = None"
    using assms(1) by (auto simp: tfind_None_iff cart_inv_def cart_rows_ok_def is_line_def)
  then show ?thesis using assms(2) None
    by (auto simp: cart_quantity_def lock_def Let_def tfind_tinsert)
qed (use assms in \<open>auto simp: cart_quantity_def lock_def\<close>)

lemma recalculate_lines:
  "recalculate cid False s = Inr (v, s') \<Longrightarrow>
     cartItems s' = cartItems s \<and> storeProducts s' = storeProducts s \<and>
     cart_quantity u p s' = cart_quantity u p s"
  by (cases "tfind (\<lambda>c. c_userId c = u) (carts s)")
    (auto simp: recalculate_def Let_def tx_simps cart_quantity_def tfind_tupdate if_distrib [of c_id])

lemma addInTransaction_quantity:
  assumes "addInTransaction cid p q s = Inr s'"
  obtains offer line where "offer_of p s = Some offer" "1 \<le> q"
    "tfind (is_line cid p) (cartItems s') = Some line"
    "int (ci_quantity line) = (case tfind (is_line cid p) (cartItems s) of None \<Rightarrow> 0 | Some i \<Rightarrow> int (ci_quantity i)) + q"
    "ci_unitPrice line = current_price offer" "int (ci_quantity line) \<le> sp_stockQuantity offer"
    "carts s' = carts s"
proof (cases "tfind (is_line cid p) (cartItems s)")
  case None
  then show ?thesis using assms that
    by (auto simp: addInTransaction_def validateQuantity_def Let_def tx_simps tfind_tinsert is_line_def)
next
  case (Some i)
  then have "is_line cid p i" by (auto dest: tfind_SomeD)
  have "is_line cid p (x\<lparr>ci_quantity := a, ci_unitPrice := b\<rparr>) = is_line cid p x" for x a b
    by (simp add: is_line_def)
  then show ?thesis using assms that Some \<open>is_line cid p i\<close>
    by (auto simp: addInTransaction_def validateQuantity_def Let_def tx_simps tfind_tupdate)
qed

text \<open>
  A successful \<open>add\<close> raises the quantity of the offer in the user's cart by exactly the
  requested, positive amount, the new quantity is covered by the stock, and the line carries
  the current price of the offer.
\<close>

theorem add_quantity:
  assumes "cart_inv s" and "add u p q s = Inr (v, s')"
  shows "\<exists>offer cart line. offer_of p s = Some offer \<and>
    tfind (\<lambda>c. c_userId c = u) (carts s') = Some cart \<and>
    tfind (is_line (c_id cart) p) (cartItems s') = Some line \<and>
    1 \<le> q \<and> cart_quantity u p s' = cart_quantity u p s + q \<and>
    cart_quantity u p s' \<le> sp_stockQuantity offer \<and> ci_unitPrice line = current_price offer"
proof -
  obtain cart s1 s2 where l: "lock u s = Inr (cart, s1)"
    and a: "addInTransaction (c_id cart) p q s1 = Inr s2" and r: "recalculate (c_id cart) False s2 = Inr (v, s')"
    using assms(2) by (auto simp: add_def validateQuantity_def tx_simps)
  from a obtain offer line where o: "offer_of p s1 = Some offer" "1 \<le> q"
    "tfind (is_line (c_id cart) p) (cartItems s2) = Some line"
    "int (ci_quantity line) = (case tfind (is_line (c_id cart) p) (cartItems s1) of
        None \<Rightarrow> 0 | Some i \<Rightarrow> int (ci_quantity i)) + q"
    "ci_unitPrice line = current_price offer" "int (ci_quantity line) \<le> sp_stockQuantity offer"
    "carts s2 = carts s1" by (rule addInTransaction_quantity)
  note rl = recalculate_lines [OF r, of u p] and lf = lock_find [OF l]
  have q2: "cart_quantity u p s2 = int (ci_quantity line)"
    using o(3,7) lf by (simp add: cart_quantity_def)
  have q1: "cart_quantity u p s = int (ci_quantity line) - q"
    using lock_quantity [OF assms(1) l, of p] o(4) lf by (simp add: cart_quantity_def)
  obtain cart' where c': "tfind (\<lambda>c. c_userId c = u) (carts s') = Some cart'" "c_id cart' = c_id cart"
    using r lf o(7) by (auto simp: recalculate_def Let_def tx_simps tfind_tupdate)
  have "offer_of p s = Some offer"
    using o(1) lock_inv(7) [OF assms(1) l] by (simp add: offer_of_def)
  then show ?thesis
    using o(2,3,5,6) rl q1 q2 c' by (intro exI [of _ offer] exI [of _ cart'] exI [of _ line]) simp
qed

theorem add_quantity_witness:
  "cart_quantity 7 1 (snd (projr (add 7 1 2 shop))) = cart_quantity 7 1 shop + 2 \<and>
   \<not> isl (add 7 1 2 shop)"
proof -
  have ok: "\<not> isl (add 7 1 2 shop)" by code_simp
  then have "add 7 1 2 shop = Inr (fst (projr (add 7 1 2 shop)), snd (projr (add 7 1 2 shop)))"
    by (cases "add 7 1 2 shop") auto
  from add_quantity [OF shop_inv this] ok show ?thesis by blast
qed

section \<open>Coupons\<close>

definition coupon_live :: "time \<Rightarrow> coupon \<Rightarrow> bool" where
  "coupon_live now c \<longleftrightarrow> cp_isActive c \<and> cp_startsAt c \<le> now \<and>
     (case cp_expiresAt c of None \<Rightarrow> True | Some t \<Rightarrow> now < t)"

definition discount :: "coupon \<Rightarrow> decimal \<Rightarrow> decimal result" where
  "discount coupon subtotal =
     ebind (case (cp_type coupon = ''PERCENTAGE'', cp_discountPercent coupon) of
              (True, Some p) \<Rightarrow> Inr (subtotal * p / 100)
            | _ \<Rightarrow> money (case cp_discountAmount coupon of None \<Rightarrow> 0 | Some a \<Rightarrow> a)) (\<lambda>value0.
     let value1 = (case cp_maximumDiscount coupon of None \<Rightarrow> value0 | Some m \<Rightarrow> min value0 m)
     in money (min value1 subtotal))"

definition coupon_apply :: "time \<Rightarrow> nat \<Rightarrow> string \<Rightarrow> (string \<times> decimal \<times> nat) tx" where
  "coupon_apply now userId rawCode s =
     (let code = toUpperCase (trim rawCode) in
     ebind (case tfind (\<lambda>c. c_userId c = userId) (carts s) of
         None \<Rightarrow> Inl (BadRequest ''Cart is empty.'')
       | Some cart \<Rightarrow> if c_totalItems cart = 0 then Inl (BadRequest ''Cart is empty.'') else Inr cart) (\<lambda>cart.
     ebind (orThrow (tfind (\<lambda>c. cp_code c = code \<and> coupon_live now c) (coupons s))
       (NotFound ''Coupon is invalid or unavailable.'')) (\<lambda>coupon.
     require (case cp_usageLimit coupon of None \<Rightarrow> True | Some l \<Rightarrow> \<not> cp_usedCount coupon \<ge> l)
       (NotFound ''Coupon is invalid or unavailable.'') (
     require (\<not> c_subtotal cart < cp_minimumOrderAmount coupon)
       (BadRequest ''A minimum cart subtotal is required.'') (
     let s1 = (if tfind (\<lambda>a. cc_cartId a = c_id cart) (cartCoupons s) = None
               then s\<lparr>cartCoupons := tinsert (\<lambda>i. \<lparr>cc_id = i, cc_cartId = c_id cart,
                      cc_couponId = cp_id coupon, cc_userId = userId\<rparr>) (cartCoupons s)\<rparr>
               else s\<lparr>cartCoupons := tupdate (\<lambda>a. cc_cartId a = c_id cart)
                      (\<lambda>a. a\<lparr>cc_couponId := cp_id coupon, cc_userId := userId\<rparr>) (cartCoupons s)\<rparr>)
     in ebind (discount coupon (c_subtotal cart)) (\<lambda>d.
        Inr ((cp_code coupon, d, c_id cart), s1)))))))"

definition coupon_remove :: "nat \<Rightarrow> string \<Rightarrow> string tx" where
  "coupon_remove userId code s =
     ebind (orThrow (tfind (\<lambda>a. cc_userId a = userId \<and>
         (case tfind (\<lambda>c. cp_id c = cc_couponId a) (coupons s) of
            None \<Rightarrow> False | Some c \<Rightarrow> cp_code c = toUpperCase (trim code))) (cartCoupons s))
       (NotFound ''Applied coupon not found.'')) (\<lambda>application.
     Inr (toUpperCase (trim code),
          s\<lparr>cartCoupons := tdelete (\<lambda>a. cc_id a = cc_id application) (cartCoupons s)\<rparr>))"

text \<open>
  The discount of a coupon is a whole number of kobo between zero and the subtotal it is
  taken from, and within the coupon's cap; a percentage coupon without a cap takes its
  percentage, to half a kobo.
\<close>

theorem discount_bounds:
  assumes "discount coupon subtotal = Inr d" and "cents subtotal"
  shows "0 \<le> d \<and> d \<le> subtotal \<and> cents d \<and>
    (\<forall>m. cp_maximumDiscount coupon = Some m \<and> cents m \<longrightarrow> d \<le> m) \<and>
    (\<forall>p. cp_type coupon = ''PERCENTAGE'' \<and> cp_discountPercent coupon = Some p \<and>
       cp_maximumDiscount coupon = None \<and> p \<le> 100 \<longrightarrow> \<bar>d - subtotal * p / 100\<bar> \<le> 1 / 200)"
proof -
  obtain v where v: "money (min (case cp_maximumDiscount coupon of None \<Rightarrow> v | Some m \<Rightarrow> min v m) subtotal) = Inr d"
    and vp: "\<And>p. cp_type coupon = ''PERCENTAGE'' \<Longrightarrow> cp_discountPercent coupon = Some p \<Longrightarrow> v = subtotal * p / 100"
    using assms(1) by (force simp: discount_def Let_def ebind_Inr_iff)
  define w where "w = (case cp_maximumDiscount coupon of None \<Rightarrow> v | Some m \<Rightarrow> min v m)"
  have d: "d = toDecimalPlaces2 (min w subtotal)" and w: "0 \<le> min w subtotal"
    using v by (simp_all add: money_Inr_iff w_def)
  have m: "w \<le> m" if "cp_maximumDiscount coupon = Some m" for m using that by (simp add: w_def)
  have p: "w = subtotal * p / 100" if "cp_type coupon = ''PERCENTAGE''" "cp_discountPercent coupon = Some p"
      "cp_maximumDiscount coupon = None" for p using that vp by (simp add: w_def)
  have "d \<le> subtotal" unfolding d by (rule half_up.rnd_le_grid) (use assms(2) in auto)
  moreover have "d \<le> m" if "cp_maximumDiscount coupon = Some m" "cents m" for m
    unfolding d using m [OF that(1)] that(2) by (intro half_up.rnd_le_grid) auto
  moreover have "\<bar>d - subtotal * p / 100\<bar> \<le> 1 / 200"
    if "cp_type coupon = ''PERCENTAGE''" "cp_discountPercent coupon = Some p"
      "cp_maximumDiscount coupon = None" "p \<le> 100" for p
  proof -
    have "0 \<le> subtotal" using w by simp
    then have "subtotal * p \<le> subtotal * 100" using that(4) by (intro mult_left_mono) auto
    then have "min w subtotal = subtotal * p / 100" using p [OF that(1-3)] by simp
    then show ?thesis using toDecimalPlaces2_error [OF w] unfolding d by metis
  qed
  ultimately show ?thesis using half_up.rnd_nonneg [OF w] half_up.rnd_grid by (auto simp: d)
qed

definition ten_percent :: coupon where
  "ten_percent = \<lparr>cp_id = 1, cp_code = ''TEN'', cp_type = ''PERCENTAGE'', cp_discountPercent = Some 10,
     cp_discountAmount = None, cp_minimumOrderAmount = 0, cp_maximumDiscount = Some 20, cp_usageLimit = None,
     cp_usedCount = 0, cp_isActive = True, cp_startsAt = 0, cp_expiresAt = None\<rparr>"

theorem discount_bounds_witness: "discount ten_percent (19990 / 100) = Inr (1999 / 100) \<and> 1999 / 100 \<le> (20 :: decimal)"
proof -
  have d: "discount ten_percent (19990 / 100) = Inr (1999 / 100)" by code_simp
  have "cents (of_int 19990 / 100)" "cents (of_int 2000 / 100)" by (rule cents_of_int_div)+
  then show ?thesis using d discount_bounds [OF d] by (simp add: ten_percent_def)
qed

end
