(* ===== verification/Quote.thy ===== *)
theory Quote
  imports Cart
begin

text \<open>
  The checkout quote (\<open>quoteInTransaction\<close> of \<^verbatim>\<open>src/checkout/checkout.service.ts\<close>) and the checkout
  settings (\<^verbatim>\<open>src/checkout/checkout-settings.service.ts\<close>).  A quote splits the cart into one
  order per store, adds the delivery fee of each store and takes the applied voucher and coupon
  off.  The one inexact operation is the quotient that spreads a coupon over the orders: it is
  the parameter \<open>dec_div\<close>, and the only thing used of it is that the quotient of two
  non-negative decimals is not negative.
\<close>

section \<open>Checkout settings\<close>

definition settings :: "db \<Rightarrow> decimal \<times> bool" where
  "settings s = (case checkoutSettings s of None \<Rightarrow> (0, False) | Some dto \<Rightarrow> dto)"

definition audit :: "nat \<Rightarrow> string \<Rightarrow> string \<Rightarrow> string \<Rightarrow> db \<Rightarrow> db" where
  "audit actorId action entity entityId s =
     s\<lparr>auditLogs := tinsert (\<lambda>i. \<lparr>au_id = i, au_actorId = None, au_staffActorId = Some actorId, au_action = action,
        au_entity = entity, au_entityId = entityId\<rparr>) (auditLogs s)\<rparr>"

definition updateSettings :: "nat \<Rightarrow> decimal \<times> bool \<Rightarrow> (decimal \<times> bool) tx" where
  "updateSettings actorId dto s =
     Inr (dto, audit actorId ''CHECKOUT_SETTINGS_UPDATED'' ''PlatformConfig'' ''checkout_settings''
       (s\<lparr>checkoutSettings := Some dto\<rparr>))"

definition stations_list :: "bool \<Rightarrow> db \<Rightarrow> station list" where
  "stations_list includeInactive s = tfilter (\<lambda>st. includeInactive \<or> ps_isActive st) (stations s)"

definition createStation :: "nat \<Rightarrow> string \<Rightarrow> bool \<Rightarrow> station tx" where
  "createStation actorId name isActive s =
     (let mk = (\<lambda>i. \<lparr>ps_id = i, ps_name = name, ps_isActive = isActive\<rparr>); i = next_id (stations s)
      in Inr (mk i, audit actorId ''PICKUP_STATION_CREATED'' ''PickupStation'' (show_nat i)
           (s\<lparr>stations := tinsert mk (stations s)\<rparr>)))"

definition updateStation :: "nat \<Rightarrow> nat \<Rightarrow> string option \<Rightarrow> bool option \<Rightarrow> unit tx" where
  "updateStation actorId i name isActive s =
     require (tfind (\<lambda>st. ps_id st = i) (stations s) \<noteq> None) (NotFound ''Pickup station not found.'')
     (Inr ((), audit actorId ''PICKUP_STATION_UPDATED'' ''PickupStation'' (show_nat i)
        (s\<lparr>stations := tupdate (\<lambda>st. ps_id st = i)
           (\<lambda>st. st\<lparr>ps_name := (case name of None \<Rightarrow> ps_name st | Some n \<Rightarrow> n),
             ps_isActive := (case isActive of None \<Rightarrow> ps_isActive st | Some b \<Rightarrow> b)\<rparr>) (stations s)\<rparr>)))"

section \<open>The quote\<close>

record quote_address =
  qa_address :: string
  qa_label :: "string option"
  qa_state :: "string option"
  qa_city :: "string option"
  qa_firstName :: "string option"
  qa_lastName :: "string option"
  qa_phone :: "string option"
  qa_email :: "string option"

record quote_line =
  ql_cartItemId :: nat
  ql_storeProductId :: nat
  ql_productId :: nat
  ql_storeId :: nat
  ql_productName :: string
  ql_productCode :: "string option"
  ql_quantity :: nat
  ql_unitPrice :: decimal
  ql_totalPrice :: decimal

record quote_order =
  qo_storeId :: nat
  qo_items :: "quote_line list"
  qo_subtotal :: decimal
  qo_shippingFee :: decimal
  qo_discountAmount :: decimal
  qo_shippingDiscount :: decimal
  qo_total :: decimal

record quote =
  q_cartId :: nat
  q_currency :: string
  q_fulfillmentType :: fulfillment_type
  q_deliveryAddress :: "quote_address option"
  q_pickupStation :: "station option"
  q_subtotal :: decimal
  q_shippingFee :: decimal
  q_discountAmount :: decimal
  q_total :: decimal
  q_orders :: "quote_order list"
  q_paymentMethod :: string

text \<open>Optional request fields are tested for truth: a missing and an empty value are the same.\<close>

definition truthy_id :: "nat option \<Rightarrow> bool" where
  "truthy_id x \<longleftrightarrow> x \<noteq> None \<and> x \<noteq> Some 0"

definition truthy_str :: "string option \<Rightarrow> bool" where
  "truthy_str x \<longleftrightarrow> x \<noteq> None \<and> x \<noteq> Some ''''"

definition chooseFulfillment :: "checkout_input \<Rightarrow> fulfillment_type result" where
  "chooseFulfillment inp =
     ebind (orThrow (case in_fulfillmentType inp of
         Some f \<Rightarrow> Some f
       | None \<Rightarrow> if in_deliveryMethod inp = Some ''home_delivery'' then Some DELIVERY
                 else if in_deliveryMethod inp = Some ''store_pickup'' then Some PICKUP else None)
       (BadRequest ''Choose a delivery method.'')) (\<lambda>f.
     require (\<not> (in_fulfillmentType inp \<noteq> None \<and> truthy_str (in_deliveryMethod inp) \<and>
       (in_fulfillmentType inp = Some DELIVERY) \<noteq> (in_deliveryMethod inp = Some ''home_delivery'')))
       (BadRequest ''Conflicting delivery methods.'') (Inr f))"

definition or_else :: "'a option \<Rightarrow> 'a option \<Rightarrow> 'a option" where
  "or_else a b = (case a of None \<Rightarrow> b | Some x \<Rightarrow> Some x)"

definition resolveDestination ::
    "nat \<Rightarrow> user \<Rightarrow> fulfillment_type \<Rightarrow> checkout_input \<Rightarrow> db \<Rightarrow> (quote_address option \<times> station option) result" where
  "resolveDestination userId customer f inp s =
     (let typed = (case in_address inp of None \<Rightarrow> None
        | Some (a, label, state, city) \<Rightarrow> Some \<lparr>qa_address = a, qa_label = label, qa_state = state,
            qa_city = city, qa_firstName = u_firstName customer, qa_lastName = u_lastName customer,
            qa_phone = u_phoneNumber customer, qa_email = Some (u_email customer)\<rparr>)
      in if f = DELIVERY then
        require (\<not> truthy_id (in_pickupStationId inp))
          (BadRequest ''A pickup station cannot be used for home delivery.'') (
        ebind (if truthy_id (in_addressId inp)
          then ebind (orThrow (tfind (\<lambda>a. Some (ad_id a) = in_addressId inp \<and> ad_userId a = userId) (addresses s))
                 (NotFound ''Address not found.'')) (\<lambda>saved.
               Inr (Some \<lparr>qa_address = ad_address saved, qa_label = ad_label saved, qa_state = ad_state saved,
                 qa_city = ad_city saved, qa_firstName = or_else (ad_firstName saved) (u_firstName customer),
                 qa_lastName = or_else (ad_lastName saved) (u_lastName customer),
                 qa_phone = or_else (ad_phone saved) (u_phoneNumber customer),
                 qa_email = or_else (ad_email saved) (Some (u_email customer))\<rparr>))
          else Inr typed) (\<lambda>address.
        require (case address of None \<Rightarrow> False | Some a \<Rightarrow> trim (qa_address a) \<noteq> [])
          (BadRequest ''Delivery address is required.'') (Inr (address, None))))
      else
        require (\<not> (truthy_id (in_addressId inp) \<or> in_address inp \<noteq> None))
          (BadRequest ''An address cannot be used for store pickup.'') (
        require (truthy_id (in_pickupStationId inp)) (BadRequest ''Pickup station is required.'') (
        ebind (orThrow (tfind (\<lambda>st. Some (ps_id st) = in_pickupStationId inp \<and> ps_isActive st) (stations s))
          (NotFound ''Pickup station is unavailable.'')) (\<lambda>st. Inr (None, Some st)))))"

text \<open>A cart line with the rows its foreign keys lead to.\<close>

definition line_context :: "db \<Rightarrow> cart_item \<Rightarrow> (cart_item \<times> store_product \<times> product \<times> store) result" where
  "line_context s item =
     ebind (orThrow (offer_of (ci_storeProductId item) s) RecordNotFound) (\<lambda>sp.
     ebind (orThrow (product_of sp s) RecordNotFound) (\<lambda>p.
     ebind (orThrow (store_of sp s) RecordNotFound) (\<lambda>st. Inr (item, sp, p, st))))"

definition line_unavailable :: "cart_item \<times> store_product \<times> product \<times> store \<Rightarrow> bool" where
  "line_unavailable = (\<lambda>(item, sp, p, st).
     \<not> sp_isActive sp \<or> \<not> st_isActive st \<or> \<not> p_status p \<or> \<not> sp_availability sp \<or>
     sp_stockQuantity sp < int (ci_quantity item))"

definition quoteLine :: "cart_item \<times> store_product \<times> product \<times> store \<Rightarrow> quote_line result" where
  "quoteLine = (\<lambda>(item, sp, p, st).
     ebind (money (current_price sp)) (\<lambda>unitPrice.
     Inr \<lparr>ql_cartItemId = ci_id item, ql_storeProductId = ci_storeProductId item,
          ql_productId = sp_productId sp, ql_storeId = sp_storeId sp, ql_productName = p_name p,
          ql_productCode = sp_sku sp, ql_quantity = ci_quantity item, ql_unitPrice = unitPrice,
          ql_totalPrice = unitPrice * of_nat (ci_quantity item)\<rparr>))"

definition storeOrder :: "quote_line list \<Rightarrow> decimal \<Rightarrow> nat \<Rightarrow> quote_order" where
  "storeOrder items perStoreFee storeId =
     (let lines = filter (\<lambda>l. ql_storeId l = storeId) items;
          subtotal = (\<Sum>l\<leftarrow>lines. ql_totalPrice l)
      in \<lparr>qo_storeId = storeId, qo_items = lines, qo_subtotal = subtotal, qo_shippingFee = perStoreFee,
          qo_discountAmount = 0, qo_shippingDiscount = 0, qo_total = subtotal + perStoreFee\<rparr>)"

definition storeIds :: "quote_line list \<Rightarrow> nat list" where
  "storeIds items = sort (remdups (map ql_storeId items))"

definition voucher_valid :: "time \<Rightarrow> voucher \<Rightarrow> decimal \<Rightarrow> bool" where
  "voucher_valid now v gross \<longleftrightarrow> v_isActive v \<and> v_startsAt v \<le> now \<and>
     (case v_expiresAt v of None \<Rightarrow> True | Some t \<Rightarrow> now < t) \<and> v_minimumOrderAmount v \<le> gross"

definition voucherOrder :: "voucher \<Rightarrow> quote_order \<Rightarrow> quote_order result" where
  "voucherOrder v ord =
     (if truthy_id (v_storeId v) \<and> v_storeId v \<noteq> Some (qo_storeId ord) then Inr ord
      else if v_type v = ''FREE_SHIPPING''
      then Inr (ord\<lparr>qo_shippingDiscount := qo_shippingFee ord, qo_total := qo_subtotal ord\<rparr>)
      else ebind (case v_discountPercent v of
             Some p \<Rightarrow> Inr (qo_subtotal ord * p / 100)
           | None \<Rightarrow> money (case v_discountAmount v of None \<Rightarrow> 0 | Some a \<Rightarrow> a)) (\<lambda>raw.
           ebind (money (min raw (qo_subtotal ord))) (\<lambda>amount.
           Inr (ord\<lparr>qo_discountAmount := amount, qo_total := qo_total ord - amount\<rparr>))))"

definition applyVoucher :: "time \<Rightarrow> voucher option \<Rightarrow> decimal \<Rightarrow> quote_order list \<Rightarrow> quote_order list result" where
  "applyVoucher now applied gross os = (case applied of
     None \<Rightarrow> Inr os
   | Some v \<Rightarrow> require (voucher_valid now v gross) (Conflict ''Applied voucher is no longer eligible.'')
       (emap (voucherOrder v) os))"

definition coupon_valid :: "time \<Rightarrow> coupon \<Rightarrow> decimal \<Rightarrow> bool" where
  "coupon_valid now c gross \<longleftrightarrow> coupon_live now c \<and> cp_minimumOrderAmount c \<le> gross \<and>
     (case cp_usageLimit c of None \<Rightarrow> True | Some l \<Rightarrow> cp_usedCount c < l)"

definition couponTotal :: "coupon \<Rightarrow> decimal \<Rightarrow> quote_order list \<Rightarrow> decimal result" where
  "couponTotal c gross os =
     ebind (case (cp_type c = ''PERCENTAGE'', cp_discountPercent c) of
              (True, Some p) \<Rightarrow> Inr (gross * p / 100)
            | _ \<Rightarrow> money (case cp_discountAmount c of None \<Rightarrow> 0 | Some a \<Rightarrow> a)) (\<lambda>t0.
     let t1 = (case cp_maximumDiscount c of None \<Rightarrow> t0 | Some m \<Rightarrow> min t0 m)
     in money (min t1 (\<Sum>ord\<leftarrow>os. qo_total ord)))"

text \<open>The last order takes what remains; every other order its share by subtotal.\<close>

fun couponShares :: "(decimal \<Rightarrow> decimal \<Rightarrow> decimal) \<Rightarrow> decimal \<Rightarrow> decimal \<Rightarrow> decimal \<Rightarrow>
    quote_order list \<Rightarrow> quote_order list result" where
  "couponShares dec_div ctotal gross remaining [] = Inr []"
| "couponShares dec_div ctotal gross remaining (ord # os) =
     (let proportional = (if gross = 0 then 0 else dec_div (ctotal * qo_subtotal ord) gross)
      in ebind (money (min (min remaining (qo_total ord)) (if os = [] then remaining else proportional))) (\<lambda>amount.
         ebind (couponShares dec_div ctotal gross (remaining - amount) os) (\<lambda>rest.
         Inr (ord\<lparr>qo_discountAmount := qo_discountAmount ord + amount, qo_total := qo_total ord - amount\<rparr> # rest))))"

definition applyCoupon :: "(decimal \<Rightarrow> decimal \<Rightarrow> decimal) \<Rightarrow> time \<Rightarrow> coupon option \<Rightarrow> decimal \<Rightarrow>
    quote_order list \<Rightarrow> quote_order list result" where
  "applyCoupon dec_div now applied gross os = (case applied of
     None \<Rightarrow> Inr os
   | Some c \<Rightarrow> require (coupon_valid now c gross) (Conflict ''Applied coupon is no longer eligible.'') (
       ebind (couponTotal c gross os) (\<lambda>ctotal. couponShares dec_div ctotal gross ctotal os)))"

definition applied_voucher :: "nat \<Rightarrow> db \<Rightarrow> voucher option" where
  "applied_voucher cid s = (case tfind (\<lambda>a. cv_cartId a = cid) (cartVouchers s) of
     None \<Rightarrow> None | Some a \<Rightarrow> tfind (\<lambda>v. v_id v = cv_voucherId a) (vouchers s))"

definition applied_coupon :: "nat \<Rightarrow> db \<Rightarrow> coupon option" where
  "applied_coupon cid s = (case tfind (\<lambda>a. cc_cartId a = cid) (cartCoupons s) of
     None \<Rightarrow> None | Some a \<Rightarrow> tfind (\<lambda>c. cp_id c = cc_couponId a) (coupons s))"

definition priceOrders :: "(decimal \<Rightarrow> decimal \<Rightarrow> decimal) \<Rightarrow> time \<Rightarrow> voucher option \<Rightarrow> coupon option \<Rightarrow>
    quote_line list \<Rightarrow> decimal \<Rightarrow> (decimal \<times> quote_order list) result" where
  "priceOrders dec_div now voucher coupon items perStoreFee =
     (let os0 = map (storeOrder items perStoreFee) (storeIds items);
          gross = (\<Sum>ord\<leftarrow>os0. qo_subtotal ord)
      in ebind (applyVoucher now voucher gross os0) (\<lambda>os1.
         ebind (applyCoupon dec_div now coupon gross os1) (\<lambda>os. Inr (gross, os))))"

definition quoteInTransaction ::
    "(decimal \<Rightarrow> decimal \<Rightarrow> decimal) \<Rightarrow> time \<Rightarrow> nat \<Rightarrow> checkout_input \<Rightarrow> db \<Rightarrow> quote result" where
  "quoteInTransaction dec_div now userId inp s =
     ebind (chooseFulfillment inp) (\<lambda>f.
     ebind (orThrow (tfind (\<lambda>c. c_userId c = userId) (carts s)) (NotFound ''Cart not found.'')) (\<lambda>cart.
     require (in_cartId inp = None \<or> in_cartId inp = Some (c_id cart)) (NotFound ''Cart not found.'') (
     require (items_of (c_id cart) s \<noteq> []) (BadRequest ''Cart is empty.'') (
     require (c_currency cart = ''NGN'') (BadRequest ''Checkout currently supports NGN only.'') (
     ebind (orThrow (tfind (\<lambda>u. u_id u = userId) (users s)) RecordNotFound) (\<lambda>customer.
     ebind (resolveDestination userId customer f inp s) (\<lambda>(address, station).
     require (\<not> (f = DELIVERY \<and> \<not> snd (settings s)))
       (BadRequest ''Home delivery is not configured or is disabled.'') (
     ebind (emap (line_context s) (items_of (c_id cart) s)) (\<lambda>ctx.
     require (filter line_unavailable ctx = []) (Conflict ''Some items are unavailable'') (
     ebind (emap quoteLine ctx) (\<lambda>items.
     ebind (money (if f = DELIVERY then fst (settings s) else 0)) (\<lambda>perStoreFee.
     ebind (priceOrders dec_div now (applied_voucher (c_id cart) s) (applied_coupon (c_id cart) s) items perStoreFee)
       (\<lambda>(gross, os).
     let discountAmount = (\<Sum>ord\<leftarrow>os. qo_discountAmount ord + qo_shippingDiscount ord);
         shippingFee = perStoreFee * of_nat (length (storeIds items))
     in Inr \<lparr>q_cartId = c_id cart, q_currency = c_currency cart, q_fulfillmentType = f,
          q_deliveryAddress = address, q_pickupStation = station, q_subtotal = gross,
          q_shippingFee = shippingFee, q_discountAmount = discountAmount,
          q_total = gross + shippingFee - discountAmount, q_orders = os,
          q_paymentMethod = (case in_paymentMethod inp of None \<Rightarrow> ''card'' | Some m \<Rightarrow> m)\<rparr>)))))))))))))"

definition quote_handler ::
    "(decimal \<Rightarrow> decimal \<Rightarrow> decimal) \<Rightarrow> time \<Rightarrow> nat \<Rightarrow> checkout_input \<Rightarrow> quote tx" where
  "quote_handler dec_div now userId inp s =
     ebind (lock userId s) (\<lambda>(_, s1). ebind (quoteInTransaction dec_div now userId inp s1) (\<lambda>q. Inr (q, s1)))"

section \<open>Amounts of a quote\<close>

definition skeleton :: "quote_order \<Rightarrow> nat \<times> quote_line list \<times> decimal \<times> decimal" where
  "skeleton ord = (qo_storeId ord, qo_items ord, qo_subtotal ord, qo_shippingFee ord)"

definition quote_order_ok :: "quote_order \<Rightarrow> bool" where
  "quote_order_ok ord \<longleftrightarrow>
     cents (qo_subtotal ord) \<and> cents (qo_shippingFee ord) \<and> cents (qo_discountAmount ord) \<and>
     cents (qo_shippingDiscount ord) \<and> 0 \<le> qo_subtotal ord \<and> 0 \<le> qo_shippingFee ord \<and>
     0 \<le> qo_discountAmount ord \<and> 0 \<le> qo_shippingDiscount ord \<and> 0 \<le> qo_total ord \<and>
     qo_total ord = qo_subtotal ord + qo_shippingFee ord - qo_discountAmount ord - qo_shippingDiscount ord"

lemma quote_order_ok_total_cents: "quote_order_ok ord \<Longrightarrow> cents (qo_total ord)"
  by (auto simp: quote_order_ok_def)

lemma quote_order_ok_nonneg: "quote_order_ok ord \<Longrightarrow> 0 \<le> qo_total ord"
  by (simp add: quote_order_ok_def)

lemma quoteLine_amounts:
  "quoteLine c = Inr l \<Longrightarrow> 0 \<le> ql_unitPrice l \<and> cents (ql_unitPrice l) \<and>
     ql_totalPrice l = ql_unitPrice l * of_nat (ql_quantity l) \<and> 0 \<le> ql_totalPrice l \<and> cents (ql_totalPrice l)"
  by (cases c) (auto simp: quoteLine_def tx_simps half_up.rnd_nonneg half_up.rnd_grid
      cents_mult_nat)

lemma storeOrder_ok:
  assumes "\<forall>l \<in> set items. 0 \<le> ql_totalPrice l \<and> cents (ql_totalPrice l)" and "0 \<le> fee" and "cents fee"
  shows "quote_order_ok (storeOrder items fee i)" and "qo_discountAmount (storeOrder items fee i) = 0"
    and "qo_shippingDiscount (storeOrder items fee i) = 0"
  using assms by (auto simp: quote_order_ok_def storeOrder_def Let_def intro!: sum_list_nonneg add_nonneg_nonneg)

lemma voucherOrder_ok:
  assumes "voucherOrder v ord = Inr ord'" and ok: "quote_order_ok ord"
    and "qo_discountAmount ord = 0" and "qo_shippingDiscount ord = 0"
  shows "quote_order_ok ord' \<and> skeleton ord' = skeleton ord"
proof -
  have amount: "cents a \<and> 0 \<le> a \<and> a \<le> qo_subtotal ord" if "money (min r (qo_subtotal ord)) = Inr a" for a r
    using that ok half_up.rnd_le_grid [of "min r (qo_subtotal ord)" "qo_subtotal ord"]
    by (auto simp: quote_order_ok_def money_Inr_iff half_up.rnd_nonneg half_up.rnd_grid)
  show ?thesis
  proof (cases "truthy_id (v_storeId v) \<and> v_storeId v \<noteq> Some (qo_storeId ord) \<or> v_type v = ''FREE_SHIPPING''")
    case True
    then have "ord' = ord \<or> ord' = ord\<lparr>qo_shippingDiscount := qo_shippingFee ord, qo_total := qo_subtotal ord\<rparr>"
      using assms(1)
      by (cases "truthy_id (v_storeId v) \<and> v_storeId v \<noteq> Some (qo_storeId ord)") (simp_all add: voucherOrder_def)
    then show ?thesis using assms(2-4) by (auto simp: quote_order_ok_def skeleton_def)
  next
    case False
    then obtain r where "ebind (money (min r (qo_subtotal ord))) (\<lambda>amount.
        Inr (ord\<lparr>qo_discountAmount := amount, qo_total := qo_total ord - amount\<rparr>)) = Inr ord'"
      using assms(1) unfolding voucherOrder_def by (simp only: if_False de_Morgan_disj) (erule ebindE)
    then obtain a where "money (min r (qo_subtotal ord)) = Inr a"
      "ord' = ord\<lparr>qo_discountAmount := a, qo_total := qo_total ord - a\<rparr>"
      by (rule ebindE) (rule that, assumption, drule Inr_inject, erule sym)
    with amount [OF this(1)] show ?thesis using assms(2-4) by (auto simp: quote_order_ok_def skeleton_def)
  qed
qed

lemma applyVoucher_ok:
  assumes "applyVoucher now v gross os = Inr os'"
    and "\<forall>ord \<in> set os. quote_order_ok ord \<and> qo_discountAmount ord = 0 \<and> qo_shippingDiscount ord = 0"
  shows "(\<forall>ord \<in> set os'. quote_order_ok ord) \<and> map skeleton os' = map skeleton os"
proof -
  have "(\<forall>ord \<in> set os'. quote_order_ok ord) \<and> map skeleton os' = map skeleton os"
    if "list_all2 (\<lambda>x y. voucherOrder w x = Inr y) os os'" for w
    using that assms(2) by (induction rule: list_all2_induct) (auto dest: voucherOrder_ok)
  then show ?thesis using assms
    by (auto simp: applyVoucher_def tx_simps emap_Inr_list_all2 split: option.splits)
qed

lemma couponShares_ok:
  assumes "couponShares dd ct gross rem os = Inr os'" and "\<forall>ord \<in> set os. quote_order_ok ord"
    and "cents rem" and "0 \<le> rem"
  shows "(\<forall>ord \<in> set os'. quote_order_ok ord) \<and> map skeleton os' = map skeleton os \<and>
    (\<Sum>ord\<leftarrow>os'. qo_total ord) \<le> (\<Sum>ord\<leftarrow>os. qo_total ord) \<and>
    (\<Sum>ord\<leftarrow>os. qo_total ord) - (\<Sum>ord\<leftarrow>os'. qo_total ord) \<le> rem"
  using assms
proof (induction os arbitrary: rem os')
  case (Cons ord os)
  obtain x amount rest where x: "x \<le> min rem (qo_total ord)" and a: "money x = Inr amount"
    and rest: "couponShares dd ct gross (rem - amount) os = Inr rest"
    and os': "os' = ord\<lparr>qo_discountAmount := qo_discountAmount ord + amount, qo_total := qo_total ord - amount\<rparr> # rest"
    using Cons.prems(1) by (auto simp: Let_def ebind_Inr_iff intro: that [OF min.cobounded1])
  have ct: "cents (qo_total ord)" using Cons.prems(2) by (simp add: quote_order_ok_total_cents)
  have a1: "0 \<le> amount" "cents amount" "amount \<le> rem" "amount \<le> qo_total ord"
    using a x Cons.prems(3) ct
    by (auto simp: money_Inr_iff half_up.rnd_nonneg half_up.rnd_grid intro: half_up.rnd_le_grid)
  have IH: "(\<forall>ord \<in> set rest. quote_order_ok ord) \<and> map skeleton rest = map skeleton os \<and>
    (\<Sum>ord\<leftarrow>rest. qo_total ord) \<le> (\<Sum>ord\<leftarrow>os. qo_total ord) \<and>
    (\<Sum>ord\<leftarrow>os. qo_total ord) - (\<Sum>ord\<leftarrow>rest. qo_total ord) \<le> rem - amount"
    using Cons.IH [OF rest] Cons.prems(2,3) a1 by auto
  have "quote_order_ok (ord\<lparr>qo_discountAmount := qo_discountAmount ord + amount, qo_total := qo_total ord - amount\<rparr>)"
    using Cons.prems(2) a1 by (auto simp: quote_order_ok_def)
  moreover have "skeleton (ord\<lparr>qo_discountAmount := d, qo_total := t\<rparr>) = skeleton ord" for d t
    by (simp add: skeleton_def)
  ultimately show ?case using IH a1 by (auto simp: os')
qed simp

lemma couponTotal_bounds:
  assumes "couponTotal c gross os = Inr t"
  shows "0 \<le> t \<and> cents t \<and> (\<forall>m. cp_maximumDiscount c = Some m \<and> cents m \<longrightarrow> t \<le> m)"
proof -
  obtain v where v: "money (min (case cp_maximumDiscount c of None \<Rightarrow> v | Some m \<Rightarrow> min v m)
      (\<Sum>ord\<leftarrow>os. qo_total ord)) = Inr t"
    using assms by (force simp: couponTotal_def Let_def ebind_Inr_iff)
  then show ?thesis
    by (auto simp: money_Inr_iff half_up.rnd_nonneg half_up.rnd_grid intro!: half_up.rnd_le_grid)
qed

lemma applyCoupon_ok:
  assumes "applyCoupon dd now c gross os = Inr os'" and "\<forall>ord \<in> set os. quote_order_ok ord"
  shows "(\<forall>ord \<in> set os'. quote_order_ok ord) \<and> map skeleton os' = map skeleton os \<and>
    (\<forall>k m. c = Some k \<and> cp_maximumDiscount k = Some m \<and> cents m \<longrightarrow>
       (\<Sum>ord\<leftarrow>os. qo_total ord) - (\<Sum>ord\<leftarrow>os'. qo_total ord) \<le> m)"
proof (cases c)
  case None
  then show ?thesis using assms by (simp add: applyCoupon_def)
next
  case (Some k)
  then obtain t where t: "couponTotal k gross os = Inr t" "couponShares dd t gross t os = Inr os'"
    using assms(1) by (auto simp: applyCoupon_def tx_simps)
  have b: "0 \<le> t" "cents t" "cp_maximumDiscount k = Some m \<and> cents m \<Longrightarrow> t \<le> m" for m
    using couponTotal_bounds [OF t(1)] by auto
  show ?thesis
    using couponShares_ok [OF t(2) assms(2) b(2,1)] b(3) Some by (auto intro: order_trans)
qed

lemma money_ok: "money x = Inr m \<Longrightarrow> 0 \<le> m \<and> cents m"
  using money_nonneg money_cents by blast

text \<open>What the quote of a request consists of before its amounts are summed up.\<close>

lemma quote_linesE:
  assumes "quoteInTransaction dd now u inp s = Inr q"
  obtains cart ctx where
    "tfind (\<lambda>c. c_userId c = u) (carts s) = Some cart" "q_cartId q = c_id cart"
    "emap (line_context s) (items_of (c_id cart) s) = Inr ctx" "filter line_unavailable ctx = []"
    "\<not> isl (emap quoteLine ctx)" "map fst ctx = items_of (c_id cart) s" "q_currency q = ''NGN''"
proof -
  from assms obtain cart ctx where p:
    "tfind (\<lambda>c. c_userId c = u) (carts s) = Some cart" "q_cartId q = c_id cart"
    "emap (line_context s) (items_of (c_id cart) s) = Inr ctx" "filter line_unavailable ctx = []"
    "\<not> isl (emap quoteLine ctx)" "q_currency q = ''NGN''"
    by (auto simp: quoteInTransaction_def Let_def ebind_Inr_iff require_Inr_iff orThrow_Inr_iff)
  moreover have "map fst ctx = xs" if "emap (line_context s) xs = Inr ctx" for xs
    using that unfolding emap_Inr_list_all2
    by (induction rule: list_all2_induct) (auto simp: line_context_def tx_simps)
  ultimately show thesis using that by blast
qed

lemma quote_amountsE:
  assumes "quoteInTransaction dd now u inp s = Inr q"
  obtains ctx items fee v c where
    "emap quoteLine ctx = Inr items" "0 \<le> fee" "cents fee"
    "priceOrders dd now v c items fee = Inr (q_subtotal q, q_orders q)"
    "q_shippingFee q = fee * of_nat (length (storeIds items))"
  using assms
  by (auto simp: quoteInTransaction_def Let_def ebind_Inr_iff require_Inr_iff orThrow_Inr_iff
      dest!: money_ok)

lemma quote_sums:
  assumes "quoteInTransaction dd now u inp s = Inr q"
  shows "q_discountAmount q = (\<Sum>ord\<leftarrow>q_orders q. qo_discountAmount ord + qo_shippingDiscount ord)"
    and "q_total q = q_subtotal q + q_shippingFee q - q_discountAmount q"
  using assms by (auto simp: quoteInTransaction_def Let_def ebind_Inr_iff require_Inr_iff orThrow_Inr_iff)

lemma priceOrdersE:
  assumes "priceOrders dd now v c items fee = Inr (gross, os)"
  obtains os1 where "applyVoucher now v gross (map (storeOrder items fee) (storeIds items)) = Inr os1"
    "applyCoupon dd now c gross os1 = Inr os"
    "gross = (\<Sum>ord\<leftarrow>map (storeOrder items fee) (storeIds items). qo_subtotal ord)"
  using assms by (auto simp: priceOrders_def Let_def ebind_Inr_iff)

lemma quote_orders_ok:
  assumes "quoteInTransaction dd now u inp s = Inr q"
  shows "(\<forall>ord \<in> set (q_orders q). quote_order_ok ord) \<and>
    q_subtotal q = (\<Sum>ord\<leftarrow>q_orders q. qo_subtotal ord) \<and>
    q_shippingFee q = (\<Sum>ord\<leftarrow>q_orders q. qo_shippingFee ord)"
proof -
  from assms obtain ctx items fee v c where
    i: "emap quoteLine ctx = Inr items" and f: "0 \<le> fee" "cents fee"
    and p: "priceOrders dd now v c items fee = Inr (q_subtotal q, q_orders q)"
    and ship: "q_shippingFee q = fee * of_nat (length (storeIds items))"
    by (rule quote_amountsE)
  from p obtain os1 where
    v: "applyVoucher now v (q_subtotal q) (map (storeOrder items fee) (storeIds items)) = Inr os1"
    and c: "applyCoupon dd now c (q_subtotal q) os1 = Inr (q_orders q)"
    and sub: "q_subtotal q = (\<Sum>ord\<leftarrow>map (storeOrder items fee) (storeIds items). qo_subtotal ord)"
    by (rule priceOrdersE)
  have "\<forall>l \<in> set items. 0 \<le> ql_totalPrice l \<and> cents (ql_totalPrice l)"
    by (rule emap_all [OF i]) (blast dest: quoteLine_amounts)
  then have "\<forall>ord \<in> set (map (storeOrder items fee) (storeIds items)).
      quote_order_ok ord \<and> qo_discountAmount ord = 0 \<and> qo_shippingDiscount ord = 0"
    using f by (simp add: storeOrder_ok)
  from applyVoucher_ok [OF v this] applyCoupon_ok [OF c]
  have ok: "\<forall>ord \<in> set (q_orders q). quote_order_ok ord"
    and sk: "map skeleton (q_orders q) = map skeleton (map (storeOrder items fee) (storeIds items))" by auto
  have proj: "(\<Sum>x\<leftarrow>xs. g x) = (\<Sum>x\<leftarrow>ys. g x)"
    if "map skeleton xs = map skeleton ys" "\<And>x. g x = h (skeleton x)" for xs ys g and h :: "_ \<Rightarrow> decimal"
  proof -
    have "map g xs = map h (map skeleton xs)" "map g ys = map h (map skeleton ys)" using that(2) by simp_all
    then have "map g xs = map g ys" using that(1) by (simp only:)
    then show ?thesis by simp
  qed
  have "q_subtotal q = (\<Sum>ord\<leftarrow>q_orders q. qo_subtotal ord)"
    unfolding sub by (rule proj [OF sk [symmetric], where h = "\<lambda>(_, _, a, _). a"]) (simp add: skeleton_def)
  moreover have "(\<Sum>ord\<leftarrow>q_orders q. qo_shippingFee ord) = q_shippingFee q"
    unfolding ship by (subst proj [OF sk, where h = "\<lambda>(_, _, _, a). a"])
      (simp_all add: skeleton_def storeOrder_def Let_def o_def sum_list_triv)
  ultimately show ?thesis using ok by simp
qed

lemma quote_total_sum:
  assumes "quoteInTransaction dec_div now u inp s = Inr q"
  shows "q_total q = (\<Sum>ord\<leftarrow>q_orders q. qo_total ord)"
proof -
  have ok: "\<forall>ord \<in> set (q_orders q). quote_order_ok ord"
    and sub: "q_subtotal q = (\<Sum>ord\<leftarrow>q_orders q. qo_subtotal ord)"
    and ship: "q_shippingFee q = (\<Sum>ord\<leftarrow>q_orders q. qo_shippingFee ord)"
    using quote_orders_ok [OF assms] by auto
  have "(\<Sum>ord\<leftarrow>os. qo_total ord) = (\<Sum>ord\<leftarrow>os. qo_subtotal ord) + (\<Sum>ord\<leftarrow>os. qo_shippingFee ord) -
      (\<Sum>ord\<leftarrow>os. qo_discountAmount ord + qo_shippingDiscount ord)"
    if "\<forall>ord \<in> set os. quote_order_ok ord" for os
    using that
  proof (induction os)
    case (Cons a os)
    moreover have "qo_total a = qo_subtotal a + qo_shippingFee a - qo_discountAmount a - qo_shippingDiscount a"
      using Cons.prems by (simp add: quote_order_ok_def)
    ultimately show ?case by simp
  qed simp
  from this [OF ok] show ?thesis using quote_sums [OF assms] sub ship by simp
qed

text \<open>
  (C24) The amounts of a quote agree: its total is subtotal plus shipping minus discounts, it is
  the sum of the totals of the orders it is split into, every order's total is its own subtotal
  plus fee minus discounts, and no amount is negative, whatever voucher and coupon are applied
  and however the inexact quotient rounds.
\<close>

theorem quote_totals_agree:
  assumes "quoteInTransaction dec_div now userId inp s = Inr q"
  shows "q_total q = q_subtotal q + q_shippingFee q - q_discountAmount q \<and>
    q_total q = (\<Sum>ord\<leftarrow>q_orders q. qo_total ord) \<and> 0 \<le> q_total q \<and> cents (q_total q) \<and>
    (\<forall>ord \<in> set (q_orders q). 0 \<le> qo_total ord \<and> 0 \<le> qo_discountAmount ord \<and>
       qo_total ord = qo_subtotal ord + qo_shippingFee ord - qo_discountAmount ord - qo_shippingDiscount ord)"
proof -
  have ok: "\<forall>ord \<in> set (q_orders q). quote_order_ok ord" using quote_orders_ok [OF assms] by auto
  have "0 \<le> (\<Sum>ord\<leftarrow>q_orders q. qo_total ord)" "cents (\<Sum>ord\<leftarrow>q_orders q. qo_total ord)"
    using ok quote_order_ok_total_cents quote_order_ok_nonneg
    by (auto intro!: sum_list_nonneg cents_sum_list)
  moreover have "\<forall>ord \<in> set (q_orders q). 0 \<le> qo_total ord \<and> 0 \<le> qo_discountAmount ord \<and>
       qo_total ord = qo_subtotal ord + qo_shippingFee ord - qo_discountAmount ord - qo_shippingDiscount ord"
    using ok unfolding quote_order_ok_def by blast
  ultimately show ?thesis using quote_sums(2) [OF assms] quote_total_sum [OF assms] by metis
qed

text \<open>
  An example: the two lines of a cart with a ten percent coupon, delivered for a fee of 500.
\<close>

definition home_delivery :: checkout_input where
  "home_delivery = \<lparr>in_cartId = None, in_fulfillmentType = None, in_deliveryMethod = Some ''home_delivery'',
     in_addressId = None, in_address = Some (''1 Allen Avenue'', None, Some ''Lagos'', Some ''Ikeja''),
     in_pickupStationId = None, in_paymentMethod = Some ''wallet''\<rparr>"

definition shop_cart :: db where
  "shop_cart = (run_ops cart_step [Add 7 1 2, Add 7 2 1] shop)
     \<lparr>checkoutSettings := Some (500, True),
      coupons := \<lparr>rows = [ten_percent], next_id = 2\<rparr>,
      cartCoupons := \<lparr>rows = [\<lparr>cc_id = 1, cc_cartId = 1, cc_couponId = 1, cc_userId = 7\<rparr>], next_id = 2\<rparr>\<rparr>"

theorem quote_totals_agree_witness:
  "map_sum (\<lambda>e. e) q_total (quoteInTransaction (/) 0 7 home_delivery shop_cart) = Inr 719 \<and>
   (\<Sum>ord\<leftarrow>q_orders (projr (quoteInTransaction (/) 0 7 home_delivery shop_cart)). qo_total ord) = 719"
proof -
  have q: "map_sum (\<lambda>e. e) q_total (quoteInTransaction (/) 0 7 home_delivery shop_cart) = Inr 719"
    by code_simp
  then obtain q where "quoteInTransaction (/) 0 7 home_delivery shop_cart = Inr q" "q_total q = 719"
    by (cases "quoteInTransaction (/) 0 7 home_delivery shop_cart") auto
  with quote_totals_agree [OF this(1)] show ?thesis by simp
qed

end
