(* ===== verification/Refunds.thy ===== *)
theory Refunds
  imports Handlers Paystack Notifications Quote
begin

text \<open>
  Refunds (\<open>processRefund\<close> to \<open>resolveRefundAttention\<close> of \<^verbatim>\<open>src/payments/payments.service.ts\<close>).  A refund
  row is claimed before it is submitted to the provider, polled or told by a webhook how it
  ended, and can be retried after a failure.  These handlers are not transactions: what they
  have written when a later step throws stays written.
\<close>

section \<open>Definitions\<close>

record refund_env =
  rv_fetch :: fetch
  rv_push :: "exn option"

definition refund_row :: "nat \<Rightarrow> db \<Rightarrow> refund option" where
  "refund_row i s = tfind (\<lambda>r. rf_id r = i) (refunds s)"

definition updateRefund :: "nat \<Rightarrow> (refund \<Rightarrow> refund) \<Rightarrow> refund handler" where
  "updateRefund i f s = (case refund_row i s of None \<Rightarrow> (Inl RecordNotFound, s)
     | Some r \<Rightarrow> (Inr (f r), s\<lparr>refunds := tupdate (\<lambda>r. rf_id r = i) f (refunds s)\<rparr>))"

definition refunded_total :: "nat \<Rightarrow> db \<Rightarrow> decimal" where
  "refunded_total paymentId s =
     (\<Sum>r\<leftarrow>tfilter (\<lambda>r. rf_paymentId r = paymentId \<and> rf_status r = R_SUCCEEDED) (refunds s). rf_amount r)"

definition syncPaymentRefundStatus :: "nat \<Rightarrow> unit handler" where
  "syncPaymentRefundStatus paymentId s =
     (case tfind (\<lambda>p. pay_id p = paymentId) (payments s) of
        None \<Rightarrow> (Inl RecordNotFound, s)
      | Some payment \<Rightarrow> (Inr (), s\<lparr>payments := tupdate (\<lambda>p. pay_id p = paymentId)
          (\<lambda>p. p\<lparr>pay_status := if pay_amount payment \<le> refunded_total paymentId s
             then P_REFUNDED else P_PARTIALLY_REFUNDED\<rparr>) (payments s)\<rparr>))"

definition refundTitle :: "refund_status \<Rightarrow> string" where
  "refundTitle st = (case st of R_SUCCEEDED \<Rightarrow> ''Refund completed'' | R_MANUAL_REVIEW \<Rightarrow> ''Refund under review''
     | R_NEEDS_ATTENTION \<Rightarrow> ''Refund needs attention'' | R_FAILED \<Rightarrow> ''Refund failed''
     | _ \<Rightarrow> ''Refund processing'')"

definition notifyRefund :: "exn option \<Rightarrow> nat \<Rightarrow> unit handler" where
  "notifyRefund push i s = (case refund_row i s of
     None \<Rightarrow> (Inl RecordNotFound, s)
   | Some r \<Rightarrow> notifyUser push (rf_userId r)
       (if rf_status r = R_FAILED then ''PAYMENT_FAILED'' else ''ORDER_CANCELLED'')
       (refundTitle (rf_status r)) None s)"

definition providerStatus :: "json \<Rightarrow> string" where
  "providerStatus provider = toLowerCase (js_String (jor (jget ''status'' provider) (JStr ''processing'')))"

definition fetchedStatus :: "string \<Rightarrow> refund_status" where
  "fetchedStatus p = (if p = ''processed'' then R_SUCCEEDED else if p = ''failed'' then R_FAILED
     else if p = ''needs-attention'' then R_NEEDS_ATTENTION else R_PROCESSING)"

definition createdStatus :: "string \<Rightarrow> refund_status" where
  "createdStatus p = (if p = ''processed'' then R_SUCCEEDED
     else if p = ''needs-attention'' then R_NEEDS_ATTENTION else R_PROCESSING)"

definition webhookStatus :: "string \<Rightarrow> refund_status" where
  "webhookStatus eventType = (if eventType = ''refund.processed'' then R_SUCCEEDED
     else if eventType = ''refund.failed'' then R_FAILED
     else if eventType = ''refund.needs-attention'' then R_NEEDS_ATTENTION else R_PROCESSING)"

definition failure_reason :: "refund_status \<Rightarrow> json \<Rightarrow> string option" where
  "failure_reason st d = (if st = R_FAILED
     then Some (js_String (jor (jget ''reason'' d) (JStr ''Provider refund failed.''))) else None)"

definition reviewKlump :: "refund_env \<Rightarrow> refund \<Rightarrow> refund handler" where
  "reviewKlump env r =
     hbind (updateRefund (rf_id r) (\<lambda>x. x\<lparr>rf_status := R_MANUAL_REVIEW, rf_failureReason := Some
       ''Complete the customer refund in the Klump merchant dashboard, then record its reference here.''\<rparr>)) (\<lambda>updated.
     hbind (notifyRefund (rv_push env) (rf_id updated)) (\<lambda>_. hreturn updated))"

definition pollRefund :: "refund_env \<Rightarrow> refund \<Rightarrow> refund handler" where
  "pollRefund env r =
     (if \<not> truthy_str (rf_providerRefundId r) then hreturn r
      else hbind (hlift (ebind (fetchRefund (rv_fetch env) (the (rf_providerRefundId r))) fields_of)) (\<lambda>provider.
        let st = fetchedStatus (providerStatus provider)
        in hbind (updateRefund (rf_id r) (\<lambda>x. x\<lparr>rf_status := st, rf_failureReason := failure_reason st provider\<rparr>)) (\<lambda>updated.
           hbind (if st = R_SUCCEEDED then syncPaymentRefundStatus (rf_paymentId updated) else hreturn ()) (\<lambda>_.
           hbind (if st \<noteq> R_PROCESSING then notifyRefund (rv_push env) (rf_id updated) else hreturn ()) (\<lambda>_.
           hreturn updated)))))"

definition order_number :: "nat \<Rightarrow> db \<Rightarrow> string" where
  "order_number oid s = (case tfind (\<lambda>x. o_id x = oid) (orders s) of None \<Rightarrow> [] | Some x \<Rightarrow> o_orderNumber x)"

definition sendRefund :: "refund_env \<Rightarrow> refund \<Rightarrow> string \<Rightarrow> string \<Rightarrow> refund handler" where
  "sendRefund env r transactionRef orderNumber =
     hbind (hlift (ebind (createRefund (rv_fetch env) transactionRef (rf_amount r) (rf_currency r)
         (''Refund for '' @ orderNumber) (rf_idempotencyKey r)) fields_of)) (\<lambda>provider.
     let st = createdStatus (providerStatus provider)
     in hbind (updateRefund (rf_id r) (\<lambda>x. x\<lparr>rf_providerRefundId := map_option js_String (jget ''id'' provider),
          rf_status := st\<rparr>)) (\<lambda>updated.
        hbind (if st = R_SUCCEEDED then syncPaymentRefundStatus (rf_paymentId updated) else hreturn ()) (\<lambda>_.
        hbind (notifyRefund (rv_push env) (rf_id updated)) (\<lambda>_.
        hreturn updated))))"

definition refundFailed :: "refund_env \<Rightarrow> nat \<Rightarrow> exn \<Rightarrow> refund handler" where
  "refundFailed env i e =
     hbind (updateRefund i (\<lambda>x. x\<lparr>rf_status := R_FAILED, rf_failureReason := Some (exn_message e)\<rparr>)) (\<lambda>_.
     hbind (notifyRefund (rv_push env) i) (\<lambda>_. hthrow e))"

definition submitRefund :: "refund_env \<Rightarrow> refund \<Rightarrow> refund handler" where
  "submitRefund env r s =
     (case tfind (\<lambda>p. pay_id p = rf_paymentId r) (payments s) of
        None \<Rightarrow> (Inl RecordNotFound, s)
      | Some payment \<Rightarrow>
          if \<not> truthy_str (pay_transactionRef payment)
          then (Inl (Conflict ''The original payment reference is unavailable.''), s)
          else let P = (\<lambda>x. rf_id x = rf_id r \<and> rf_status x = R_PENDING)
               in if tcount P (refunds s) = 0 then (Inr r, s)
                  else hcatch (sendRefund env r (the (pay_transactionRef payment)) (order_number (rf_orderId r) s))
                         (refundFailed env (rf_id r))
                         (s\<lparr>refunds := tupdate P (\<lambda>x. x\<lparr>rf_status := R_PROCESSING, rf_failureReason := None\<rparr>) (refunds s)\<rparr>))"

definition processRefund :: "refund_env \<Rightarrow> nat \<Rightarrow> refund handler" where
  "processRefund env i s = (case refund_row i s of
     None \<Rightarrow> (Inl (NotFound ''Refund not found.''), s)
   | Some r \<Rightarrow>
       if rf_status r = R_SUCCEEDED \<or> rf_provider r = MANUAL then (Inr r, s)
       else if rf_provider r = KLUMP
       then (if rf_status r = R_MANUAL_REVIEW then (Inr r, s) else reviewKlump env r s)
       else if rf_status r = R_PROCESSING then pollRefund env r s
       else submitRefund env r s)"

definition webhook_refund :: "json \<Rightarrow> db \<Rightarrow> refund option" where
  "webhook_refund d s =
     (let providerId = map_option js_String (jget ''id'' d); merchantNote = jstring (jget ''merchant_note'' d)
      in tfind (\<lambda>r. (truthy_str providerId \<and> rf_providerRefundId r = providerId) \<or>
                    (truthy_str merchantNote \<and> Some (rf_idempotencyKey r) = merchantNote)) (refunds s))"

definition applyRefundWebhook :: "exn option \<Rightarrow> string \<Rightarrow> json \<Rightarrow> refund handler" where
  "applyRefundWebhook push eventType d s = (case webhook_refund d s of
     None \<Rightarrow> (Inl (NotFound ''Refund webhook does not match a known refund.''), s)
   | Some refund \<Rightarrow>
       let st = webhookStatus eventType; providerId = map_option js_String (jget ''id'' d)
       in hbind (updateRefund (rf_id refund) (\<lambda>x. x\<lparr>rf_status := st,
            rf_providerRefundId := (case providerId of None \<Rightarrow> rf_providerRefundId refund | Some p \<Rightarrow> Some p),
            rf_failureReason := failure_reason st d\<rparr>)) (\<lambda>updated.
          hbind (if st = R_SUCCEEDED then syncPaymentRefundStatus (rf_paymentId updated) else hreturn ()) (\<lambda>_.
          hbind (notifyRefund push (rf_id updated)) (\<lambda>_. hreturn updated))) s)"

definition retryRefund :: "refund_env \<Rightarrow> nat \<Rightarrow> refund handler" where
  "retryRefund env i s =
     (if (case refund_row i s of None \<Rightarrow> False | Some r \<Rightarrow> rf_provider r = KLUMP)
      then (Inl (Conflict ''Klump refunds must be completed through manual review.''), s)
      else let P = (\<lambda>r. rf_id r = i \<and> rf_status r = R_FAILED)
           in if tcount P (refunds s) = 0 then (Inl (Conflict ''Only failed refunds can be retried.''), s)
              else processRefund env i
                (s\<lparr>refunds := tupdate P (\<lambda>r. r\<lparr>rf_status := R_PENDING, rf_failureReason := None\<rparr>) (refunds s)\<rparr>))"

definition completeManualRefund :: "exn option \<Rightarrow> nat \<Rightarrow> string \<Rightarrow> nat \<Rightarrow> refund handler" where
  "completeManualRefund push i providerReference actorId s = (case refund_row i s of
     None \<Rightarrow> (Inl (NotFound ''Refund not found.''), s)
   | Some r \<Rightarrow>
       if rf_provider r \<noteq> KLUMP then (Inl (Conflict ''Only Klump refunds use this manual completion workflow.''), s)
       else if rf_status r = R_SUCCEEDED then (Inr r, s)
       else if rf_status r \<noteq> R_MANUAL_REVIEW
       then (Inl (Conflict ''Only a Klump refund under manual review can be completed.''), s)
       else hbind (hbind (updateRefund i (\<lambda>x. x\<lparr>rf_status := R_SUCCEEDED, rf_providerRefundId := Some providerReference,
                rf_failureReason := None\<rparr>)) (\<lambda>completed.
              hbind (hmodify (audit actorId ''KLUMP_REFUND_COMPLETED'' ''Refund'' (show_nat i))) (\<lambda>_. hreturn completed))) (\<lambda>updated.
            hbind (syncPaymentRefundStatus (rf_paymentId updated)) (\<lambda>_.
            hbind (notifyRefund push (rf_id updated)) (\<lambda>_. hreturn updated))) s)"

definition resolveRefundAttention :: "refund_env \<Rightarrow> nat \<Rightarrow> string \<Rightarrow> string \<Rightarrow> refund handler" where
  "resolveRefundAttention env i accountNumber bankId s = (case refund_row i s of
     None \<Rightarrow> (Inl (Conflict ''Only a refund needing attention can accept bank details.''), s)
   | Some r \<Rightarrow>
       if rf_status r \<noteq> R_NEEDS_ATTENTION \<or> \<not> truthy_str (rf_providerRefundId r)
       then (Inl (Conflict ''Only a refund needing attention can accept bank details.''), s)
       else hbind (hlift (retryRefundWithCustomerDetails (rv_fetch env) (the (rf_providerRefundId r)) accountNumber bankId)) (\<lambda>_.
            hbind (updateRefund i (\<lambda>x. x\<lparr>rf_status := R_PROCESSING, rf_failureReason := None\<rparr>)) (\<lambda>updated.
            hbind (notifyRefund (rv_push env) i) (\<lambda>_. hreturn updated))) s)"

section \<open>Frames\<close>

lemma refund_row_id: "refund_row i s = Some r \<Longrightarrow> rf_id r = i"
  by (auto simp: refund_row_def dest: tfind_SomeD)

lemma notifyUser_refund_tables [simp]:
  "refunds (snd (notifyUser push uid typ title k s)) = refunds s"
  "payments (snd (notifyUser push uid typ title k s)) = payments s"
  by (subst notifyUser_frame, simp)+

lemma notifyRefund_tables [simp]:
  "refunds (snd (notifyRefund push i s)) = refunds s"
  "payments (snd (notifyRefund push i s)) = payments s"
  by (simp_all add: notifyRefund_def split: option.split)

lemma syncPaymentRefundStatus_refunds [simp]: "refunds (snd (syncPaymentRefundStatus p s)) = refunds s"
  by (simp add: syncPaymentRefundStatus_def split: option.split)

text \<open>
  A handler that writes refund rows only through \<open>updateRefund\<close> keeps what these updates keep;
  the other steps of the refund handlers leave the table alone.
\<close>

definition refund_inv :: "(refund table \<Rightarrow> bool) \<Rightarrow> db \<Rightarrow> bool" where
  "refund_inv P s \<longleftrightarrow> P (refunds s)"

lemma keeps_refund_frames [keeps_intros]:
  "hkeeps (refund_inv P) (notifyRefund push i)" "hkeeps (refund_inv P) (syncPaymentRefundStatus p)"
  by (simp_all add: hkeeps_def refund_inv_def)

lemma keeps_audit [keeps_intros]: "hkeeps (refund_inv P) (hmodify (audit a b c d))"
  by (simp add: hkeeps_def hmodify_def audit_def refund_inv_def)

lemma keeps_updateRefund:
  "(\<And>t. P t \<Longrightarrow> P (tupdate (\<lambda>r. rf_id r = i) f t)) \<Longrightarrow> hkeeps (refund_inv P) (updateRefund i f)"
  by (simp add: hkeeps_def refund_inv_def updateRefund_def split: option.split)

text \<open>The rows other than the one a refund handler works on stay as they are.\<close>

definition row_is :: "nat \<Rightarrow> refund \<Rightarrow> refund table \<Rightarrow> bool" where
  "row_is k r t \<longleftrightarrow> tkeyed rf_id t \<and> tfind (\<lambda>x. rf_id x = k) t = Some r"

lemma row_is_update:
  assumes "row_is k r t" and "\<And>x. P x \<Longrightarrow> rf_id (f x) = rf_id x" and "\<not> P r"
  shows "row_is k r (tupdate P f t)"
proof -
  have r: "r \<in> set (rows t)" "rf_id r = k" using assms(1) by (auto simp: row_is_def dest: tfind_SomeD)
  have "rf_id x \<noteq> k" if "P x" "x \<in> set (rows t)" for x
    using that assms(1,3) r tkeyed_inj [of rf_id t x r] by (auto simp: row_is_def)
  then have eq: "tupdate P f t = tupdate (\<lambda>x. P x \<and> rf_id x \<noteq> k) f t" by (intro tupdate_eqI) auto
  show ?thesis using assms(1,2) unfolding eq
    by (auto simp: row_is_def intro!: refund_table.update_keyed trans [OF tfind_tupdate_other])
qed

lemma keeps_row [keeps_intros]:
  assumes "i \<noteq> k" and "\<And>x. rf_id (f x) = rf_id x"
  shows "hkeeps (refund_inv (row_is k r)) (updateRefund i f)"
  using assms by (intro keeps_updateRefund row_is_update) (auto simp: row_is_def dest: tfind_SomeD)

lemma keeps_other_rows:
  assumes "rf_id x \<noteq> k"
  shows "hkeeps (refund_inv (row_is k r)) (reviewKlump env x)"
    and "hkeeps (refund_inv (row_is k r)) (pollRefund env x)"
    and "hkeeps (refund_inv (row_is k r)) (submitRefund env x)"
proof -
  show "hkeeps (refund_inv (row_is k r)) (reviewKlump env x)"
    unfolding reviewKlump_def by (intro keeps_intros) (use assms in simp_all)
  show "hkeeps (refund_inv (row_is k r)) (pollRefund env x)"
    unfolding pollRefund_def Let_def by (intro keeps_intros) (use assms in simp_all)
  have "hkeeps (refund_inv (row_is k r)) (sendRefund env x t n)" for t n
    unfolding sendRefund_def Let_def by (intro keeps_intros) (use assms in simp_all)
  moreover have "hkeeps (refund_inv (row_is k r)) (refundFailed env (rf_id x) e)" for e
    unfolding refundFailed_def by (intro keeps_intros) (use assms in simp_all)
  ultimately have att: "hkeeps (refund_inv (row_is k r)) (hcatch (sendRefund env x t n) (refundFailed env (rf_id x)))" for t n
    by (intro keeps_intros)
  show "hkeeps (refund_inv (row_is k r)) (submitRefund env x)"
  proof (rule hkeepsI)
    fix s assume s: "refund_inv (row_is k r) s"
    let ?P = "\<lambda>y. rf_id y = rf_id x \<and> rf_status y = R_PENDING"
    have "refund_inv (row_is k r) (s\<lparr>refunds := tupdate ?P (\<lambda>y. y\<lparr>rf_status := R_PROCESSING, rf_failureReason := None\<rparr>) (refunds s)\<rparr>)"
    proof -
      have "rf_id r = k" using s by (auto simp: refund_inv_def row_is_def dest: tfind_SomeD)
      then show ?thesis using s assms by (auto simp: refund_inv_def intro!: row_is_update)
    qed
    from hkeepsD [OF att this] show "refund_inv (row_is k r) (snd (submitRefund env x s))"
      using s by (simp add: submitRefund_def Let_def split: option.split)
  qed
qed

section \<open>A completed refund stays completed\<close>

datatype refund_op = ProcessRefund nat | RetryRefund nat | CompleteManual nat string nat | ResolveAttention nat string string

fun refund_step :: "refund_env \<times> refund_op \<Rightarrow> refund handler" where
  "refund_step (env, ProcessRefund i) = processRefund env i"
| "refund_step (env, RetryRefund i) = retryRefund env i"
| "refund_step (env, CompleteManual i ref actor) = completeManualRefund (rv_push env) i ref actor"
| "refund_step (env, ResolveAttention i acc bank) = resolveRefundAttention env i acc bank"

lemma processRefund_keeps_success:
  assumes "rf_status r = R_SUCCEEDED"
  shows "hkeeps (refund_inv (row_is k r)) (processRefund env i)"
proof (rule hkeepsI)
  fix s assume s: "refund_inv (row_is k r) s"
  show "refund_inv (row_is k r) (snd (processRefund env i s))"
  proof (cases "refund_row i s")
    case (Some x)
    then have "rf_id x = i" by (rule refund_row_id)
    show ?thesis
    proof (cases "i = k")
      case True
      then have "x = r" using Some s by (simp add: refund_row_def refund_inv_def row_is_def)
      then show ?thesis using Some s assms by (simp add: processRefund_def)
    next
      case False
      with \<open>rf_id x = i\<close> have "rf_id x \<noteq> k" by simp
      from keeps_other_rows [OF this, of r env] show ?thesis
        using Some s by (simp add: processRefund_def hkeeps_def)
    qed
  qed (use s in \<open>simp add: processRefund_def\<close>)
qed

lemma retryRefund_keeps_success:
  assumes "rf_status r = R_SUCCEEDED"
  shows "hkeeps (refund_inv (row_is k r)) (retryRefund env i)"
proof (rule hkeepsI)
  fix s assume s: "refund_inv (row_is k r) s"
  have "refund_inv (row_is k r) (s\<lparr>refunds := tupdate (\<lambda>r. rf_id r = i \<and> rf_status r = R_FAILED)
      (\<lambda>r. r\<lparr>rf_status := R_PENDING, rf_failureReason := None\<rparr>) (refunds s)\<rparr>)"
    using s assms by (auto simp: refund_inv_def intro!: row_is_update)
  from hkeepsD [OF processRefund_keeps_success [OF assms] this]
  show "refund_inv (row_is k r) (snd (retryRefund env i s))"
    using s by (simp add: retryRefund_def Let_def split: option.split)
qed

lemma refund_step_keeps_success:
  assumes "rf_status r = R_SUCCEEDED"
  shows "hkeeps (refund_inv (row_is k r)) (refund_step x)"
proof (cases x rule: refund_step.cases)
  case (3 env i ref actor)
  show ?thesis
  proof (rule hkeepsI)
    fix s assume s: "refund_inv (row_is k r) s"
    show "refund_inv (row_is k r) (snd (refund_step x s))"
    proof (cases "i = k")
      case True
      then show ?thesis using s assms
        by (simp add: 3 completeManualRefund_def refund_row_def refund_inv_def row_is_def)
    next
      case False
      have "hkeeps (refund_inv (row_is k r)) (hbind (hbind (updateRefund i (\<lambda>x. x\<lparr>rf_status := R_SUCCEEDED,
            rf_providerRefundId := Some ref, rf_failureReason := None\<rparr>)) (\<lambda>completed.
          hbind (hmodify (audit actor ''KLUMP_REFUND_COMPLETED'' ''Refund'' (show_nat i))) (\<lambda>_. hreturn completed))) (\<lambda>updated.
        hbind (syncPaymentRefundStatus (rf_paymentId updated)) (\<lambda>_.
        hbind (notifyRefund (rv_push env) (rf_id updated)) (\<lambda>_. hreturn updated))))"
        by (intro keeps_intros) (use False in simp_all)
      from hkeepsD [OF this s] show ?thesis
        using s by (simp add: 3 completeManualRefund_def split: option.split)
    qed
  qed
next
  case (4 env i acc bank)
  show ?thesis
  proof (rule hkeepsI)
    fix s assume s: "refund_inv (row_is k r) s"
    show "refund_inv (row_is k r) (snd (refund_step x s))"
    proof (cases "i = k")
      case True
      then show ?thesis using s assms
        by (simp add: 4 resolveRefundAttention_def refund_row_def refund_inv_def row_is_def)
    next
      case False
      have "hkeeps (refund_inv (row_is k r)) (hbind (hlift a) (\<lambda>_.
          hbind (updateRefund i (\<lambda>x. x\<lparr>rf_status := R_PROCESSING, rf_failureReason := None\<rparr>)) (\<lambda>updated.
          hbind (notifyRefund (rv_push env) i) (\<lambda>_. hreturn updated))))" for a :: "json option result"
        by (intro keeps_intros) (use False in simp_all)
      from hkeepsD [OF this s] show ?thesis
        using s by (simp add: 4 resolveRefundAttention_def split: option.split)
    qed
  qed
qed (simp_all add: processRefund_keeps_success [OF assms] retryRefund_keeps_success [OF assms])


section \<open>A refund is submitted once\<close>

lemma notify_then: "snd (hbind (notifyRefund push i) (\<lambda>_. hreturn u) s) = snd (notifyRefund push i s)"
  by (simp add: snd_hbind hreturn_def split: prod.split sum.split)

lemma updateRefund_then:
  "refund_row i s = Some r \<Longrightarrow>
     hbind (updateRefund i f) k s = k (f r) (s\<lparr>refunds := tupdate (\<lambda>r. rf_id r = i) f (refunds s)\<rparr>)"
  by (simp add: hbind_def updateRefund_def)

definition not_pending :: "nat \<Rightarrow> refund table \<Rightarrow> bool" where
  "not_pending i t \<longleftrightarrow> tkeyed rf_id t \<and> (\<forall>r \<in> set (rows t). rf_id r = i \<longrightarrow> rf_status r \<noteq> R_PENDING)"

lemma not_pending_update:
  assumes "tkeyed rf_id t" and "\<And>x. P x \<Longrightarrow> rf_id (f x) = rf_id x" and "\<And>x. P x \<Longrightarrow> rf_status (f x) \<noteq> R_PENDING"
    and "\<And>x. x \<in> set (rows t) \<Longrightarrow> rf_id x = i \<Longrightarrow> rf_status x = R_PENDING \<Longrightarrow> P x"
  shows "not_pending i (tupdate P f t)"
  using assms by (auto simp: not_pending_def refund_table.update_keyed)

lemma keeps_not_pending [keeps_intros]:
  assumes "\<And>x. rf_id (f x) = rf_id x" and "\<And>x. rf_status (f x) \<noteq> R_PENDING"
  shows "hkeeps (refund_inv (not_pending i)) (updateRefund i f)"
  using assms by (intro keeps_updateRefund not_pending_update) (auto simp: not_pending_def)

lemma status_not_pending [simp]:
  "fetchedStatus p \<noteq> R_PENDING" "createdStatus p \<noteq> R_PENDING"
  by (simp_all add: fetchedStatus_def createdStatus_def)

lemma processRefund_leaves_pending:
  assumes "tkeyed rf_id (refunds s)" and "refund_row i s = Some r"
  shows "not_pending i (refunds (snd (processRefund env i s))) \<or> snd (processRefund env i s) = s \<and>
    (rf_provider r \<noteq> PAYSTACK \<or> \<not> (\<exists>p. tfind (\<lambda>p. pay_id p = rf_paymentId r) (payments s) = Some p \<and> truthy_str (pay_transactionRef p)))"
proof -
  have [simp]: "rf_id r = i" by (rule refund_row_id [OF assms(2)])
  have uniq: "x = r" if "x \<in> set (rows (refunds s))" "rf_id x = i" for x
    using that assms tkeyed_inj [of rf_id "refunds s" x r] by (auto simp: refund_row_def dest: tfind_SomeD)
  have start: "not_pending i (refunds s)" if "rf_status r \<noteq> R_PENDING"
    using that assms(1) uniq by (auto simp: not_pending_def)
  have review: "not_pending i (refunds (snd (reviewKlump env r s)))"
    using assms by (auto simp: reviewKlump_def updateRefund_then notify_then intro!: not_pending_update)
  have poll: "hkeeps (refund_inv (not_pending i)) (pollRefund env r)"
    unfolding pollRefund_def Let_def by (intro keeps_intros | simp)+
  have send: "hkeeps (refund_inv (not_pending i)) (hcatch (sendRefund env r t n) (refundFailed env i))" for t n
    unfolding sendRefund_def refundFailed_def Let_def by (intro keeps_intros | simp)+
  have claim: "refund_inv (not_pending i) (s\<lparr>refunds := tupdate (\<lambda>x. rf_id x = i \<and> rf_status x = R_PENDING)
      (\<lambda>x. x\<lparr>rf_status := R_PROCESSING, rf_failureReason := None\<rparr>) (refunds s)\<rparr>)"
    using assms(1) by (auto simp: refund_inv_def intro!: not_pending_update)
  show ?thesis
  proof (cases "rf_status r = R_PENDING \<and> rf_provider r = PAYSTACK")
    case True
    have "tcount (\<lambda>x. rf_id x = i \<and> rf_status x = R_PENDING) (refunds s) \<noteq> 0"
      using True assms(2) by (auto simp: tcount_zero_iff tfind_None_iff refund_row_def dest!: tfind_SomeD)
    then show ?thesis using True assms(2) hkeepsD [OF send claim]
      by (auto simp: processRefund_def submitRefund_def refund_inv_def Let_def split: option.splits)
  next
    case False
    have "rf_provider r = PAYSTACK" if "rf_provider r \<noteq> MANUAL" "rf_provider r \<noteq> KLUMP"
      using that by (cases "rf_provider r") auto
    with False show ?thesis
      using assms(2) start review hkeepsD [OF poll, of s] uniq
      by (auto simp: processRefund_def submitRefund_def refund_inv_def Let_def tcount_zero_iff tfind_None_iff split: option.splits)
  qed
qed

lemma submitRefund_idle:
  assumes "not_pending i (refunds s)" and "rf_id r = i"
  shows "submitRefund env r s = submitRefund env' r s"
proof -
  have "tcount (\<lambda>x. rf_id x = rf_id r \<and> rf_status x = R_PENDING) (refunds s) = 0"
    using assms by (auto simp: tcount_zero_iff tfind_None_iff not_pending_def)
  then show ?thesis by (simp add: submitRefund_def Let_def split: option.split)
qed

lemma processRefund_idle:
  assumes "\<And>m path body. path \<noteq> [''refund''] \<Longrightarrow> rv_fetch env m path body = rv_fetch env' m path body"
    and "rv_push env = rv_push env'"
    and "\<And>r. refund_row i s = Some r \<Longrightarrow> rf_provider r \<noteq> PAYSTACK \<or> submitRefund env r s = submitRefund env' r s"
  shows "processRefund env i s = processRefund env' i s"
proof (cases "refund_row i s")
  case (Some r)
  have "pollRefund env r = pollRefund env' r"
  proof -
    have fetch: "fetchRefund (rv_fetch env) x = fetchRefund (rv_fetch env') x" for x
      unfolding fetchRefund_def request_def by (subst assms(1)) simp_all
    show ?thesis unfolding pollRefund_def assms(2) fetch ..
  qed
  moreover have "reviewKlump env r = reviewKlump env' r" using assms(2) by (simp add: reviewKlump_def)
  moreover have "rf_provider r = PAYSTACK" if "rf_provider r \<noteq> MANUAL" "rf_provider r \<noteq> KLUMP"
    using that by (cases "rf_provider r") auto
  ultimately show ?thesis using assms(3) [OF Some] Some by (auto simp: processRefund_def)
qed (simp add: processRefund_def)

text \<open>
  (C11) Processing a refund twice submits it at most once: after one processing run, whatever it
  returned, a second run does not depend on what the provider would answer to a new refund
  request, so it sends none.
\<close>

theorem processRefund_submits_once:
  assumes "tkeyed rf_id (refunds s)"
    and "\<And>m path body. path \<noteq> [''refund''] \<Longrightarrow> rv_fetch env m path body = rv_fetch env' m path body"
    and "rv_push env = rv_push env'"
  shows "processRefund env i (snd (processRefund env0 i s)) = processRefund env' i (snd (processRefund env0 i s))"
proof (cases "refund_row i s")
  case None
  then show ?thesis by (simp add: processRefund_def)
next
  case (Some r)
  show ?thesis
  proof (rule processRefund_idle [OF assms(2,3)])
    fix r' assume r': "refund_row i (snd (processRefund env0 i s)) = Some r'"
    then have "rf_id r' = i" by (rule refund_row_id)
    with processRefund_leaves_pending [OF assms(1) Some, of env0] r' Some
    show "rf_provider r' \<noteq> PAYSTACK \<or> submitRefund env r' (snd (processRefund env0 i s)) = submitRefund env' r' (snd (processRefund env0 i s))"
      using submitRefund_idle [of i "snd (processRefund env0 i s)" r' env env']
      by (auto simp: submitRefund_def split: option.splits)
  qed
qed

section \<open>The payment follows its refunds\<close>

lemma sync_then:
  assumes "hbind (syncPaymentRefundStatus pid) k s = (Inr u, s')"
    and "\<And>t. payments (snd (k () t)) = payments t" and "\<And>t. refunds (snd (k () t)) = refunds t"
  shows "\<exists>p. tfind (\<lambda>p. pay_id p = pid) (payments s') = Some p \<and>
    pay_status p = (if pay_amount p \<le> refunded_total pid s' then P_REFUNDED else P_PARTIALLY_REFUNDED)"
proof -
  obtain p where p: "tfind (\<lambda>p. pay_id p = pid) (payments s) = Some p"
    using assms(1) by (auto simp: hbind_def syncPaymentRefundStatus_def split: option.splits)
  define t where "t = s\<lparr>payments := tupdate (\<lambda>p. pay_id p = pid)
    (\<lambda>x. x\<lparr>pay_status := if pay_amount p \<le> refunded_total pid s then P_REFUNDED else P_PARTIALLY_REFUNDED\<rparr>) (payments s)\<rparr>"
  have "s' = snd (k () t)" using assms(1) p by (simp add: hbind_def syncPaymentRefundStatus_def t_def)
  then have "payments s' = payments t" "refunds s' = refunds t" using assms(2,3) by simp_all
  moreover have "refunded_total pid t = refunded_total pid s" by (simp add: t_def refunded_total_def)
  ultimately show ?thesis using p
    by (auto simp: t_def tfind_tupdate refunded_total_def dest: tfind_SomeD)
qed

text \<open>
  (C13) Whenever a webhook completes a refund, the payment of the refund is \<open>REFUNDED\<close> exactly
  when the completed refunds cover its amount and \<open>PARTIALLY_REFUNDED\<close> otherwise.
\<close>

theorem refund_webhook_updates_payment:
  assumes "applyRefundWebhook push ''refund.processed'' d s = (Inr u, s')"
  shows "rf_status u = R_SUCCEEDED \<and> (\<exists>p. tfind (\<lambda>p. pay_id p = rf_paymentId u) (payments s') = Some p \<and>
    pay_status p = (if pay_amount p \<le> refunded_total (rf_paymentId u) s' then P_REFUNDED else P_PARTIALLY_REFUNDED))"
proof -
  obtain r where r: "webhook_refund d s = Some r"
    using assms by (auto simp: applyRefundWebhook_def split: option.splits)
  then have "\<exists>x. refund_row (rf_id r) s = Some x"
    by (auto simp: webhook_refund_def refund_row_def Let_def tfind_None_iff dest!: tfind_SomeD simp flip: not_None_eq)
  then obtain x where x: "refund_row (rf_id r) s = Some x" ..
  let ?k = "\<lambda>u _. hbind (notifyRefund push (rf_id u)) (\<lambda>_. hreturn u)"
  obtain u0 t where u0: "rf_status u0 = R_SUCCEEDED" "hbind (syncPaymentRefundStatus (rf_paymentId u0)) (?k u0) t = (Inr u, s')"
    using assms r x that [of "x\<lparr>rf_status := R_SUCCEEDED, rf_providerRefundId := _, rf_failureReason := _\<rparr>"]
    by (auto simp: applyRefundWebhook_def updateRefund_then webhookStatus_def Let_def)
  have "payments (snd (?k u0 () t)) = payments t" "refunds (snd (?k u0 () t)) = refunds t" for t
    by (simp_all add: notify_then)
  from sync_then [OF u0(2) this] have "\<exists>p. tfind (\<lambda>p. pay_id p = rf_paymentId u0) (payments s') = Some p \<and>
    pay_status p = (if pay_amount p \<le> refunded_total (rf_paymentId u0) s' then P_REFUNDED else P_PARTIALLY_REFUNDED)" .
  moreover have "u = u0" using u0(2) by (auto simp: hbind_def hreturn_def split: prod.splits sum.splits)
  ultimately show ?thesis using u0(1) by simp
qed

section \<open>Examples\<close>

definition refund_example :: refund where
  "refund_example = \<lparr>rf_id = 1, rf_orderId = 3, rf_userId = 7, rf_paymentId = 2, rf_amount = 500, rf_currency = ''NGN'',
     rf_provider = PAYSTACK, rf_status = R_PENDING, rf_idempotencyKey = ''ORDER-REFUND-3'', rf_providerRefundId = None,
     rf_reason = ''changed my mind'', rf_failureReason = None\<rparr>"

definition refund_db :: db where
  "refund_db = empty_db\<lparr>
     users := \<lparr>rows = [\<lparr>u_id = 7, u_email = ''ada@example.com'', u_firstName = None, u_lastName = None,
       u_phoneNumber = None, u_status = ACTIVE, u_passwordHash = None, u_isEmailVerified = True\<rparr>], next_id = 8\<rparr>,
     payments := \<lparr>rows = [\<lparr>pay_id = 2, pay_amount = 500, pay_currency = ''NGN'', pay_status = P_PAID,
       pay_paymentMethod = CARD, pay_provider = PAYSTACK, pay_transactionRef = Some ''PUR-1'', pay_providerRef = None,
       pay_paymentUrl = None, pay_metadata = no_meta, pay_failureReason = None, pay_createdAt = 0\<rparr>], next_id = 3\<rparr>,
     refunds := \<lparr>rows = [refund_example], next_id = 2\<rparr>\<rparr>"

text \<open>A provider that accepts every request with the status \<open>st\<close> of the refund.\<close>

definition answering :: "string \<Rightarrow> refund_env" where
  "answering st = \<lparr>rv_fetch = (\<lambda>_ _ _. Inr \<lparr>hr_status = 200, hr_body = JObj [(''status'', JBool True),
     (''data'', JObj [(''id'', JNum 91), (''status'', JStr st)])]\<rparr>), rv_push = None\<rparr>"

definition unreachable :: refund_env where
  "unreachable = (answering '''')\<lparr>rv_fetch := (\<lambda>m path b. if path = [''refund''] then Inl (ProviderError ''timeout'')
     else rv_fetch (answering '''') m path b)\<rparr>"

abbreviation "refund_done \<equiv> snd (processRefund (answering ''processed'') 1 refund_db)"

definition refund_done_row :: refund where
  "refund_done_row = refund_example\<lparr>rf_status := R_SUCCEEDED, rf_providerRefundId := Some ''91''\<rparr>"

lemma refund_done_facts:
  "tkeyed rf_id (refunds refund_done)" "refund_row 1 refund_done = Some refund_done_row"
  "rf_status refund_done_row = R_SUCCEEDED" "tkeyed rf_id (refunds refund_db)"
  by code_simp+


theorem processRefund_submits_once_witness:
  "processRefund unreachable 1 refund_done = processRefund (answering '''') 1 refund_done \<and>
   fst (processRefund unreachable 1 refund_db) = Inl (ProviderError ''timeout'')"
proof
  show "processRefund unreachable 1 refund_done = processRefund (answering '''') 1 refund_done"
    by (rule processRefund_submits_once [OF refund_done_facts(4)]) (simp_all add: unreachable_def answering_def)
  show "fst (processRefund unreachable 1 refund_db) = Inl (ProviderError ''timeout'')" by code_simp
qed

definition note_event :: json where
  "note_event = JObj [(''id'', JNum 91), (''merchant_note'', JStr ''ORDER-REFUND-3'')]"

abbreviation "refund_event \<equiv> applyRefundWebhook None ''refund.processed'' note_event refund_db"

theorem refund_webhook_updates_payment_witness:
  "rf_status (projr (fst refund_event)) = R_SUCCEEDED \<and>
   map_option pay_status (tfind (\<lambda>p. pay_id p = 2) (payments (snd refund_event))) = Some P_REFUNDED"
proof -
  have "\<not> isl (fst refund_event)" by code_simp
  then have "refund_event = (Inr (projr (fst refund_event)), snd refund_event)" by (simp add: prod_eq_iff sum.collapse(2))
  from refund_webhook_updates_payment [OF this] have "rf_status (projr (fst refund_event)) = R_SUCCEEDED" ..
  moreover have "map_option pay_status (tfind (\<lambda>p. pay_id p = 2) (payments (snd refund_event))) = Some P_REFUNDED" by code_simp
  ultimately show ?thesis by simp
qed

text \<open>
  A webhook is applied whatever the status of the refund is: a late \<open>refund.failed\<close> reopens a
  refund that has been paid out, and the retry that is then allowed submits it a second time.
\<close>

lemma refund_webhook_reopens:
  "let s1 = snd (applyRefundWebhook None ''refund.failed'' note_event refund_done);
       s2 = snd (retryRefund (answering ''pending'') 1 s1)
   in refund_row 1 refund_done = Some refund_done_row \<and>
      map_option rf_status (refund_row 1 s1) = Some R_FAILED \<and>
      map_option rf_status (refund_row 1 s2) = Some R_PROCESSING \<and>
      \<not> isl (fst (retryRefund (answering ''pending'') 1 s1))"
  by code_simp

end
