(* ===== verification/Ledger.thy ===== *)
theory Ledger
  imports Schema
begin

text \<open>
  Wallets of users and of stores.  Every service that moves money does it in the same three
  database steps, in one order or another: it finds or creates the wallet row, it changes its
  balance, and it appends a transaction row.  The contract behind them is that a balance is the
  sum of the effects of the wallet's transactions.  The locale \<open>ledger\<close> states what the steps do
  to that contract, including between the two steps, when a wallet is off by an amount; it is
  interpreted on the user wallets and on the store wallets.
\<close>

section \<open>The contract\<close>

definition ledger_sum :: "('t \<Rightarrow> nat) \<Rightarrow> ('t \<Rightarrow> decimal) \<Rightarrow> nat \<Rightarrow> 't table \<Rightarrow> decimal" where
  "ledger_sum acct effect k ts = (\<Sum>t\<leftarrow>rows ts. if acct t = k then effect t else 0)"

definition ledger_off :: "('w \<Rightarrow> nat) \<Rightarrow> ('w \<Rightarrow> decimal) \<Rightarrow> ('t \<Rightarrow> nat) \<Rightarrow> ('t \<Rightarrow> decimal) \<Rightarrow>
    nat \<Rightarrow> decimal \<Rightarrow> 'w table \<Rightarrow> 't table \<Rightarrow> bool" where
  "ledger_off wid bal acct effect k d ws ts \<longleftrightarrow>
     tkeyed wid ws \<and> (\<forall>t \<in> set (rows ts). acct t < next_id ws) \<and>
     (\<forall>w \<in> set (rows ws). bal w = ledger_sum acct effect (wid w) ts + (if wid w = k then d else 0))"

locale ledger =
  fixes wid :: "'w \<Rightarrow> nat" and bal :: "'w \<Rightarrow> decimal" and set_bal :: "decimal \<Rightarrow> 'w \<Rightarrow> 'w"
    and acct :: "'t \<Rightarrow> nat" and effect :: "'t \<Rightarrow> decimal"
  assumes wid_set: "wid (set_bal b w) = wid w" and bal_set: "bal (set_bal b w) = b"
begin

lemma off_other: "ledger_off wid bal acct effect k 0 ws ts \<Longrightarrow> ledger_off wid bal acct effect k' 0 ws ts"
  by (simp add: ledger_off_def)

lemma sum_post:
  "ledger_sum acct effect k (tinsert mk ts) =
     ledger_sum acct effect k ts + (if acct (mk (next_id ts)) = k then effect (mk (next_id ts)) else 0)"
  by (simp add: ledger_sum_def)

lemma sum_fresh: "\<forall>t \<in> set (rows ts). acct t < n \<Longrightarrow> ledger_sum acct effect n ts = 0"
  unfolding ledger_sum_def by (subst map_cong [OF refl, of _ _ "\<lambda>_. 0"]) auto

lemma post_off:
  assumes "ledger_off wid bal acct effect k d ws ts"
    and "acct (mk (next_id ts)) = k" and "effect (mk (next_id ts)) = e" and "k < next_id ws"
  shows "ledger_off wid bal acct effect k (d - e) ws (tinsert mk ts)"
  using assms by (auto simp: ledger_off_def sum_post)

lemma add_off:
  assumes "ledger_off wid bal acct effect k d ws ts"
  shows "ledger_off wid bal acct effect k (d + a) (tupdate (\<lambda>w. wid w = k) (\<lambda>w. set_bal (bal w + a) w) ws) ts"
proof -
  have "tkeyed wid (tupdate (\<lambda>w. wid w = k) (\<lambda>w. set_bal (bal w + a) w) ws)"
    using assms by (auto simp: ledger_off_def wid_set intro!: keyed_table.update_keyed)
  then show ?thesis using assms by (auto simp: ledger_off_def bal_set wid_set)
qed

lemma open_off:
  assumes "ledger_off wid bal acct effect k d ws ts" and "\<And>i. wid (mk i) = i" and "k < next_id ws"
    and "\<And>i. bal (mk i) = 0"
  shows "ledger_off wid bal acct effect k d (tinsert mk ws) ts"
proof -
  have "ledger_sum acct effect (next_id ws) ts = 0"
    using assms(1) by (simp add: ledger_off_def sum_fresh)
  moreover have "tkeyed wid (tinsert mk ws)"
    using assms by (auto simp: ledger_off_def intro!: keyed_table.insert_keyed)
  ultimately show ?thesis using assms by (auto simp: ledger_off_def less_Suc_eq)
qed

lemma open_with_off:
  assumes "ledger_off wid bal acct effect k 0 ws ts" and "\<And>i. wid (mk i) = i" and "\<And>i. bal (mk i) = a"
  shows "ledger_off wid bal acct effect (next_id ws) a (tinsert mk ws) ts"
proof -
  have "ledger_sum acct effect (next_id ws) ts = 0"
    using assms(1) by (simp add: ledger_off_def sum_fresh)
  moreover have "tkeyed wid (tinsert mk ws)" "\<forall>w \<in> set (rows ws). wid w \<noteq> next_id ws"
    using assms by (auto simp: ledger_off_def tkeyed_def intro!: keyed_table.insert_keyed)
  ultimately show ?thesis using assms by (auto simp: ledger_off_def less_Suc_eq)
qed

end

section \<open>User wallets\<close>

fun tx_effect :: "wallet_tx_type \<Rightarrow> decimal \<Rightarrow> decimal" where
  "tx_effect CREDIT a = a"
| "tx_effect RELEASE a = a"
| "tx_effect ADJUSTMENT a = a"
| "tx_effect DEBIT a = - a"
| "tx_effect HOLD a = 0"

definition upsertWallet :: "nat \<Rightarrow> db \<Rightarrow> wallet \<times> db" where
  "upsertWallet userId s = (case tfind (\<lambda>w. w_userId w = userId) (wallets s) of
     Some w \<Rightarrow> (w, s)
   | None \<Rightarrow> let mk = (\<lambda>i. \<lparr>w_id = i, w_userId = userId, w_balance = 0\<rparr>)
            in (mk (next_id (wallets s)), s\<lparr>wallets := tinsert mk (wallets s)\<rparr>))"

text \<open>\<open>upsert({ create: { balance: a }, update: { balance: { increment: a } } })\<close>\<close>

definition upsertCredit :: "nat \<Rightarrow> decimal \<Rightarrow> db \<Rightarrow> nat \<times> db" where
  "upsertCredit userId a s = (case tfind (\<lambda>w. w_userId w = userId) (wallets s) of
     Some w \<Rightarrow> (w_id w, s\<lparr>wallets := tupdate (\<lambda>x. w_id x = w_id w)
                 (\<lambda>x. x\<lparr>w_balance := w_balance x + a\<rparr>) (wallets s)\<rparr>)
   | None \<Rightarrow> (next_id (wallets s), s\<lparr>wallets := tinsert
                 (\<lambda>i. \<lparr>w_id = i, w_userId = userId, w_balance = a\<rparr>) (wallets s)\<rparr>))"

definition incrementWallet :: "nat \<Rightarrow> decimal \<Rightarrow> db \<Rightarrow> db" where
  "incrementWallet k a s = s\<lparr>wallets := tupdate (\<lambda>w. w_id w = k)
     (\<lambda>w. w\<lparr>w_balance := w_balance w + a\<rparr>) (wallets s)\<rparr>"

text \<open>\<open>updateMany({ where: { userId, balance: { gte: a } }, data: { balance: { decrement: a } } })\<close>\<close>

definition debitWallet :: "nat \<Rightarrow> decimal \<Rightarrow> db \<Rightarrow> nat \<times> db" where
  "debitWallet userId a s =
     (let P = (\<lambda>w. w_userId w = userId \<and> a \<le> w_balance w)
      in (tcount P (wallets s),
          s\<lparr>wallets := tupdate P (\<lambda>w. w\<lparr>w_balance := w_balance w - a\<rparr>) (wallets s)\<rparr>))"

definition createWalletTx :: "nat \<Rightarrow> decimal \<Rightarrow> wallet_tx_type \<Rightarrow> string \<Rightarrow> string \<Rightarrow> db \<Rightarrow> db result" where
  "createWalletTx k a typ ref desc s =
     require (tfind (\<lambda>t. wt_reference t = Some ref) (walletTxs s) = None) UniqueViolation
       (Inr (s\<lparr>walletTxs := tinsert (\<lambda>i. \<lparr>wt_id = i, wt_walletId = k, wt_amount = a, wt_type = typ,
          wt_reference = Some ref, wt_description = desc\<rparr>) (walletTxs s)\<rparr>))"

definition wallet_effect :: "wallet_tx \<Rightarrow> decimal" where
  "wallet_effect t = tx_effect (wt_type t) (wt_amount t)"

interpretation user_ledger: ledger w_id w_balance "\<lambda>b w. w\<lparr>w_balance := b\<rparr>" wt_walletId wallet_effect
  by unfold_locales simp_all

abbreviation "wallet_off k d s \<equiv>
  ledger_off w_id w_balance wt_walletId wallet_effect k d (wallets s) (walletTxs s) \<and>
  distinct (map w_userId (rows (wallets s))) \<and> k < next_id (wallets s)"

definition wallet_ok :: "db \<Rightarrow> bool" where
  "wallet_ok s \<longleftrightarrow> ledger_off w_id w_balance wt_walletId wallet_effect 0 0 (wallets s) (walletTxs s) \<and>
     distinct (map w_userId (rows (wallets s))) \<and> 0 < next_id (wallets s)"

lemma wallet_ok_off: "wallet_ok s \<Longrightarrow> k < next_id (wallets s) \<Longrightarrow> wallet_off k 0 s"
  using user_ledger.off_other by (auto simp: wallet_ok_def)

lemma wallet_off_ok: "wallet_off k 0 s \<Longrightarrow> wallet_ok s"
  using user_ledger.off_other by (auto simp: wallet_ok_def)

lemma wallet_ok_balance:
  "wallet_ok s \<Longrightarrow> w \<in> set (rows (wallets s)) \<Longrightarrow>
     w_balance w = ledger_sum wt_walletId wallet_effect (w_id w) (walletTxs s)"
  by (simp add: wallet_ok_def ledger_off_def)

lemma wallet_ok_cong: "wallets s' = wallets s \<Longrightarrow> walletTxs s' = walletTxs s \<Longrightarrow> wallet_ok s' = wallet_ok s"
  by (simp add: wallet_ok_def)

lemma wallet_ok_empty: "wallet_ok empty_db"
  by (simp add: wallet_ok_def ledger_off_def empty_db_def tempty_def tkeyed_def)

lemma upsertWallet_ok:
  assumes "wallet_ok s" and "upsertWallet u s = (w, s1)"
  shows "wallet_off (w_id w) 0 s1" and "w \<in> set (rows (wallets s1))" and "w_userId w = u"
    and "walletTxs s1 = walletTxs s"
proof -
  show "w \<in> set (rows (wallets s1))" "w_userId w = u" "walletTxs s1 = walletTxs s"
    using assms(2) by (auto simp: upsertWallet_def Let_def split: option.splits dest: tfind_SomeD)
  show "wallet_off (w_id w) 0 s1"
  proof (cases "tfind (\<lambda>w. w_userId w = u) (wallets s)")
    case None
    have "ledger_off w_id w_balance wt_walletId wallet_effect 0 0
        (tinsert (\<lambda>i. \<lparr>w_id = i, w_userId = u, w_balance = 0\<rparr>) (wallets s)) (walletTxs s)"
      using assms(1) by (intro user_ledger.open_off) (auto simp: wallet_ok_def)
    moreover have "u \<notin> w_userId ` set (rows (wallets s))" using None by (auto simp: tfind_None_iff)
    ultimately have "wallet_ok s1" using None assms
      by (auto simp: upsertWallet_def Let_def wallet_ok_def)
    then show ?thesis using None assms(2)
      by (intro wallet_ok_off) (auto simp: upsertWallet_def Let_def)
  next
    case (Some x)
    then have "x \<in> set (rows (wallets s))" by (auto dest: tfind_SomeD)
    then show ?thesis using Some assms
      by (intro wallet_ok_off) (auto simp: upsertWallet_def wallet_ok_def ledger_off_def tkeyed_def)
  qed
qed

lemma incrementWallet_off: "wallet_off k d s \<Longrightarrow> wallet_off k (d + a) (incrementWallet k a s)"
  using user_ledger.add_off [of k d "wallets s" "walletTxs s" a]
    tupdate_column [of "\<lambda>w. w_id w = k" w_userId "\<lambda>w. w\<lparr>w_balance := w_balance w + a\<rparr>" "wallets s"]
  by (simp add: incrementWallet_def del: rows_table)

lemma createWalletTx_off:
  "wallet_off k d s \<Longrightarrow> createWalletTx k a typ ref desc s = Inr s' \<Longrightarrow> wallet_off k (d - tx_effect typ a) s'"
  by (auto simp: createWalletTx_def tx_simps wallet_effect_def intro!: user_ledger.post_off)

lemma upsertCredit_off:
  assumes "wallet_ok s" and "upsertCredit u a s = (k, s1)"
  shows "wallet_off k a s1"
proof (cases "tfind (\<lambda>w. w_userId w = u) (wallets s)")
  case None
  have "ledger_off w_id w_balance wt_walletId wallet_effect (next_id (wallets s)) a
      (tinsert (\<lambda>i. \<lparr>w_id = i, w_userId = u, w_balance = a\<rparr>) (wallets s)) (walletTxs s)"
    using assms(1) by (intro user_ledger.open_with_off) (auto simp: wallet_ok_def)
  moreover have "u \<notin> w_userId ` set (rows (wallets s))" using None by (auto simp: tfind_None_iff)
  ultimately show ?thesis using None assms by (auto simp: upsertCredit_def wallet_ok_def)
next
  case (Some w)
  then have "w \<in> set (rows (wallets s))" by (auto dest: tfind_SomeD)
  then have "wallet_off (w_id w) 0 s"
    using assms(1) by (intro wallet_ok_off) (auto simp: wallet_ok_def ledger_off_def tkeyed_def)
  from incrementWallet_off [OF this, of a] show ?thesis
    using Some assms(2) by (auto simp: upsertCredit_def incrementWallet_def)
qed

lemma debitWallet_off:
  assumes "wallet_ok s" and "debitWallet u a s = (n, s1)" and "n \<noteq> 0"
  obtains w where "tfind (\<lambda>w. w_userId w = u) (wallets s) = Some w" "a \<le> w_balance w"
    "tfind (\<lambda>w. w_userId w = u) (wallets s1) = Some (w\<lparr>w_balance := w_balance w - a\<rparr>)"
    "wallet_off (w_id w) (- a) s1"
proof -
  let ?P = "\<lambda>w. w_userId w = u \<and> a \<le> w_balance w"
  obtain w where w: "w \<in> set (rows (wallets s))" "w_userId w = u" "a \<le> w_balance w"
    using assms(2,3) tcount_zero_iff [of ?P "wallets s"] by (auto simp: debitWallet_def tfind_None_iff)
  have uniq: "x = w" if "x \<in> set (rows (wallets s))" "w_userId x = u \<or> w_id x = w_id w" for x
    using that w assms(1)
    by (auto simp: wallet_ok_def ledger_off_def tkeyed_def distinct_map dest: inj_onD)
  have "tupdate ?P (\<lambda>x. x\<lparr>w_balance := w_balance x - a\<rparr>) (wallets s) =
      tupdate (\<lambda>x. w_id x = w_id w) (\<lambda>x. x\<lparr>w_balance := w_balance x + - a\<rparr>) (wallets s)"
    using uniq w by (intro tupdate_eqI) auto
  then have s1: "s1 = incrementWallet (w_id w) (- a) s"
    using assms(2) by (auto simp: debitWallet_def incrementWallet_def Let_def)
  have f: "tfind (\<lambda>w. w_userId w = u) (wallets s) = Some w"
    using uniq w by (metis (mono_tags, lifting) not_None_eq option.collapse tfind_None_iff tfind_SomeD)
  moreover have "tfind (\<lambda>w. w_userId w = u) (wallets s1) = Some (w\<lparr>w_balance := w_balance w - a\<rparr>)"
    using f by (simp add: s1 incrementWallet_def tfind_tupdate)
  moreover have "wallet_off (w_id w) 0 s"
    using assms(1) w by (intro wallet_ok_off) (auto simp: wallet_ok_def ledger_off_def tkeyed_def)
  from incrementWallet_off [OF this, of "- a"] have "wallet_off (w_id w) (- a) s1" by (simp add: s1)
  ultimately show thesis using that w(3) by blast
qed

lemma wallet_found_off:
  assumes "wallet_ok s" and "tfind P (wallets s) = Some w"
  shows "wallet_off (w_id w) 0 s"
  using assms by (intro wallet_ok_off) (auto simp: wallet_ok_def ledger_off_def tkeyed_def dest!: tfind_SomeD)

definition user_balance :: "nat \<Rightarrow> db \<Rightarrow> decimal" where
  "user_balance userId s = (case tfind (\<lambda>w. w_userId w = userId) (wallets s) of
     None \<Rightarrow> 0 | Some w \<Rightarrow> w_balance w)"

text \<open>The balance of every user after the row of one user's wallet changed.\<close>

lemma user_balance_update:
  assumes "wallet_ok s" and "tfind (\<lambda>w. w_userId w = u) (wallets s) = Some w"
    and "wallets s' = tupdate (\<lambda>x. w_id x = w_id w) (\<lambda>x. x\<lparr>w_balance := w_balance x + a\<rparr>) (wallets s)"
  shows "user_balance v s' = user_balance v s + (if v = u then a else 0)"
proof -
  have w: "w \<in> set (rows (wallets s))" "w_userId w = u" using assms(2) by (auto dest: tfind_SomeD)
  have "w_id x = w_id w \<longleftrightarrow> v = u" if "tfind (\<lambda>w. w_userId w = v) (wallets s) = Some x" for x
  proof -
    have x: "x \<in> set (rows (wallets s))" "w_userId x = v" using that by (auto dest: tfind_SomeD)
    show ?thesis using x w assms(1)
      by (auto simp: wallet_ok_def ledger_off_def tkeyed_def distinct_map dest: inj_onD)
  qed
  then show ?thesis using assms(2)
    by (auto simp: user_balance_def assms(3) tfind_tupdate split: option.split)
qed

section \<open>Store wallets\<close>

definition upsertStoreWallet :: "nat \<Rightarrow> db \<Rightarrow> store_wallet \<times> db" where
  "upsertStoreWallet storeId s = (case tfind (\<lambda>w. sw_storeId w = storeId) (storeWallets s) of
     Some w \<Rightarrow> (w, s)
   | None \<Rightarrow> let mk = (\<lambda>i. \<lparr>sw_id = i, sw_storeId = storeId, sw_balance = 0\<rparr>)
            in (mk (next_id (storeWallets s)), s\<lparr>storeWallets := tinsert mk (storeWallets s)\<rparr>))"

definition incrementStoreWallet :: "nat \<Rightarrow> decimal \<Rightarrow> db \<Rightarrow> db" where
  "incrementStoreWallet k a s = s\<lparr>storeWallets := tupdate (\<lambda>w. sw_id w = k)
     (\<lambda>w. w\<lparr>sw_balance := sw_balance w + a\<rparr>) (storeWallets s)\<rparr>"

definition createStoreWalletTx ::
    "nat \<Rightarrow> decimal \<Rightarrow> wallet_tx_type \<Rightarrow> string \<Rightarrow> nat option \<Rightarrow> settlement_note \<Rightarrow> db \<Rightarrow> db result" where
  "createStoreWalletTx k a typ ref orderId desc s =
     require (tfind (\<lambda>t. swt_reference t = Some ref) (storeWalletTxs s) = None) UniqueViolation
       (Inr (s\<lparr>storeWalletTxs := tinsert (\<lambda>i. \<lparr>swt_id = i, swt_walletId = k, swt_amount = a, swt_type = typ,
          swt_reference = Some ref, swt_orderId = orderId, swt_description = desc\<rparr>) (storeWalletTxs s)\<rparr>))"

definition store_effect :: "store_wallet_tx \<Rightarrow> decimal" where
  "store_effect t = tx_effect (swt_type t) (swt_amount t)"

interpretation store_ledger: ledger sw_id sw_balance "\<lambda>b w. w\<lparr>sw_balance := b\<rparr>" swt_walletId store_effect
  by unfold_locales simp_all

abbreviation "store_wallet_off k d s \<equiv>
  ledger_off sw_id sw_balance swt_walletId store_effect k d (storeWallets s) (storeWalletTxs s) \<and>
  distinct (map sw_storeId (rows (storeWallets s))) \<and> k < next_id (storeWallets s)"

definition store_wallet_ok :: "db \<Rightarrow> bool" where
  "store_wallet_ok s \<longleftrightarrow>
     ledger_off sw_id sw_balance swt_walletId store_effect 0 0 (storeWallets s) (storeWalletTxs s) \<and>
     distinct (map sw_storeId (rows (storeWallets s))) \<and> 0 < next_id (storeWallets s)"

lemma store_wallet_ok_off: "store_wallet_ok s \<Longrightarrow> k < next_id (storeWallets s) \<Longrightarrow> store_wallet_off k 0 s"
  using store_ledger.off_other by (auto simp: store_wallet_ok_def)

lemma store_wallet_off_ok: "store_wallet_off k 0 s \<Longrightarrow> store_wallet_ok s"
  using store_ledger.off_other by (auto simp: store_wallet_ok_def)

lemma store_wallet_ok_balance:
  "store_wallet_ok s \<Longrightarrow> w \<in> set (rows (storeWallets s)) \<Longrightarrow>
     sw_balance w = ledger_sum swt_walletId store_effect (sw_id w) (storeWalletTxs s)"
  by (simp add: store_wallet_ok_def ledger_off_def)

lemma store_wallet_ok_cong:
  "storeWallets s' = storeWallets s \<Longrightarrow> storeWalletTxs s' = storeWalletTxs s \<Longrightarrow>
     store_wallet_ok s' = store_wallet_ok s"
  by (simp add: store_wallet_ok_def)

lemma store_wallet_ok_empty: "store_wallet_ok empty_db"
  by (simp add: store_wallet_ok_def ledger_off_def empty_db_def tempty_def tkeyed_def)

lemma store_wallet_found_off:
  assumes "store_wallet_ok s" and "tfind P (storeWallets s) = Some w"
  shows "store_wallet_off (sw_id w) 0 s"
  using assms by (intro store_wallet_ok_off)
    (auto simp: store_wallet_ok_def ledger_off_def tkeyed_def dest!: tfind_SomeD)

lemma upsertStoreWallet_ok:
  assumes "store_wallet_ok s" and "upsertStoreWallet u s = (w, s1)"
  shows "store_wallet_off (sw_id w) 0 s1" and "w \<in> set (rows (storeWallets s1))" and "sw_storeId w = u"
    and "storeWalletTxs s1 = storeWalletTxs s"
proof -
  show "w \<in> set (rows (storeWallets s1))" "sw_storeId w = u" "storeWalletTxs s1 = storeWalletTxs s"
    using assms(2) by (auto simp: upsertStoreWallet_def Let_def split: option.splits dest: tfind_SomeD)
  show "store_wallet_off (sw_id w) 0 s1"
  proof (cases "tfind (\<lambda>w. sw_storeId w = u) (storeWallets s)")
    case None
    have "ledger_off sw_id sw_balance swt_walletId store_effect 0 0
        (tinsert (\<lambda>i. \<lparr>sw_id = i, sw_storeId = u, sw_balance = 0\<rparr>) (storeWallets s)) (storeWalletTxs s)"
      using assms(1) by (intro store_ledger.open_off) (auto simp: store_wallet_ok_def)
    moreover have "u \<notin> sw_storeId ` set (rows (storeWallets s))" using None by (auto simp: tfind_None_iff)
    ultimately have "store_wallet_ok s1" using None assms
      by (auto simp: upsertStoreWallet_def Let_def store_wallet_ok_def)
    then show ?thesis using None assms(2)
      by (intro store_wallet_ok_off) (auto simp: upsertStoreWallet_def Let_def)
  next
    case (Some x)
    then show ?thesis using store_wallet_found_off [OF assms(1) Some] assms(2)
      by (auto simp: upsertStoreWallet_def)
  qed
qed

lemma incrementStoreWallet_off:
  "store_wallet_off k d s \<Longrightarrow> store_wallet_off k (d + a) (incrementStoreWallet k a s)"
  using store_ledger.add_off [of k d "storeWallets s" "storeWalletTxs s" a]
    tupdate_column [of "\<lambda>w. sw_id w = k" sw_storeId "\<lambda>w. w\<lparr>sw_balance := sw_balance w + a\<rparr>" "storeWallets s"]
  by (simp add: incrementStoreWallet_def del: rows_table)

lemma createStoreWalletTx_off:
  "store_wallet_off k d s \<Longrightarrow> createStoreWalletTx k a typ ref oid desc s = Inr s' \<Longrightarrow>
     store_wallet_off k (d - tx_effect typ a) s'"
  by (auto simp: createStoreWalletTx_def tx_simps store_effect_def intro!: store_ledger.post_off)

end
