(* ===== verification/Settlements.thy ===== *)
theory Settlements
  imports Ledger
begin

text \<open>
  Settlement of paid orders (\<^verbatim>\<open>src/settlements/settlements.service.ts\<close>): the store's share of a paid
  order goes to the store wallet, the delivery fee is held for the rider and released on
  delivery.  All three functions run inside the transaction of their caller.  \<open>cfg\<close> stands for
  the environment configuration, read when the platform configuration has no row for a rate.
\<close>

definition DEFAULTS :: "string \<Rightarrow> decimal" where
  "DEFAULTS key = (if key = ''vat_rate'' then 75 / 1000 else 5 / 100)"

definition getRate :: "(string \<Rightarrow> decimal option) \<Rightarrow> string \<Rightarrow> db \<Rightarrow> decimal result" where
  "getRate cfg key s =
     (let rate = (case tfind (\<lambda>c. pc_key c = key) (platformConfig s) of
          Some row \<Rightarrow> pc_value row
        | None \<Rightarrow> (case cfg key of Some v \<Rightarrow> v | None \<Rightarrow> DEFAULTS key))
      in require (\<not> (rate < 0 \<or> 1 < rate)) (BadRequest ''Invalid settlement rate configuration.'') (Inr rate))"

definition order_funded :: "nat \<Rightarrow> db \<Rightarrow> bool" where
  "order_funded orderId s \<longleftrightarrow> tfind (\<lambda>al. al_orderId al = orderId \<and>
     (case tfind (\<lambda>g. g_id g = al_paymentGroupId al) (groups s) of
        None \<Rightarrow> False
      | Some g \<Rightarrow> g_status g = P_PAID \<or>
          (case g_paymentId g of None \<Rightarrow> False
           | Some p \<Rightarrow> tfind (\<lambda>x. pay_id x = p \<and> pay_status x = P_PAID) (payments s) \<noteq> None)))
     (allocations s) \<noteq> None"

definition settlement_ref :: "order \<Rightarrow> string" where
  "settlement_ref ord = ''ORDER-'' @ o_orderNumber ord"

definition hold_ref :: "nat \<Rightarrow> string" where
  "hold_ref deliveryId = ''DELIVERY-HOLD-'' @ show_nat deliveryId"

definition release_ref :: "nat \<Rightarrow> string" where
  "release_ref deliveryId = ''DELIVERY-RELEASE-'' @ show_nat deliveryId"

definition holdRiderEarning :: "nat \<Rightarrow> db \<Rightarrow> db result" where
  "holdRiderEarning deliveryId s =
     (case tfind (\<lambda>d. d_id d = deliveryId) (deliveries s) of
        None \<Rightarrow> Inr s
      | Some delivery \<Rightarrow> (case d_riderId delivery of
          None \<Rightarrow> Inr s
        | Some rider \<Rightarrow>
            ebind (orThrow (tfind (\<lambda>x. o_id x = d_orderId delivery) (orders s)) RecordNotFound) (\<lambda>ord.
            if o_shippingFee ord \<le> 0 then Inr s
            else if \<not> order_funded (d_orderId delivery) s then Inr s
            else if tfind (\<lambda>e. re_deliveryId e = deliveryId) (riderEarnings s) \<noteq> None then Inr s
            else case tfind (\<lambda>p. rp_userId p = rider) (riderProfiles s) of
              None \<Rightarrow> Inr s
            | Some profile \<Rightarrow>
                let (wallet, s1) = upsertWallet rider s;
                    s2 = s1\<lparr>riderEarnings := tinsert (\<lambda>i. \<lparr>re_id = i, re_riderId = rp_id profile,
                      re_deliveryId = deliveryId, re_amount = o_shippingFee ord, re_status = ''HELD''\<rparr>)
                      (riderEarnings s1)\<rparr>
                in createWalletTx (w_id wallet) (o_shippingFee ord) HOLD
                     (hold_ref deliveryId)
                     (''Delivery fee held for order '' @ o_orderNumber ord) s2)))"

definition settleOrder :: "(string \<Rightarrow> decimal option) \<Rightarrow> nat \<Rightarrow> db \<Rightarrow> db result" where
  "settleOrder cfg orderId s =
     ebind (orThrow (tfind (\<lambda>x. o_id x = orderId) (orders s)) RecordNotFound) (\<lambda>ord.
     let reference = settlement_ref ord
     in if tfind (\<lambda>t. swt_reference t = Some reference) (storeWalletTxs s) \<noteq> None then Inr s
     else
       ebind (getRate cfg ''vat_rate'' s) (\<lambda>vatRate.
       ebind (getRate cfg ''service_charge_rate'' s) (\<lambda>serviceChargeRate.
       ebind (getRate cfg ''platform_fee_rate'' s) (\<lambda>platformFeeRate.
       require (\<not> 1 < vatRate + serviceChargeRate + platformFeeRate)
         (BadRequest ''Settlement deductions exceed the order subtotal.'') (
       ebind (money (o_subtotal ord * vatRate)) (\<lambda>vatAmt.
       ebind (money (o_subtotal ord * serviceChargeRate)) (\<lambda>serviceChargeAmt.
       ebind (money (o_subtotal ord * platformFeeRate)) (\<lambda>platformFeeAmt.
       let storeAmt = o_subtotal ord - vatAmt - serviceChargeAmt - platformFeeAmt
       in require (\<not> storeAmt < 0) (BadRequest ''Settlement deductions exceed the order subtotal.'') (
       let (wallet, s1) = upsertStoreWallet (o_storeId ord) s
       in ebind (createStoreWalletTx (sw_id wallet) storeAmt CREDIT reference (Some orderId)
            (Breakdown [o_subtotal ord, vatRate, vatAmt, serviceChargeRate, serviceChargeAmt,
               platformFeeRate, platformFeeAmt, storeAmt]) s1) (\<lambda>s2.
       let s3 = incrementStoreWallet (sw_id wallet) storeAmt s2
       in case tfind (\<lambda>d. d_orderId d = orderId) (deliveries s3) of
            None \<Rightarrow> Inr s3
          | Some delivery \<Rightarrow> holdRiderEarning (d_id delivery) s3))))))))))"

definition releaseRiderEarning :: "nat \<Rightarrow> db \<Rightarrow> db result" where
  "releaseRiderEarning deliveryId s =
     (case tfind (\<lambda>e. re_deliveryId e = deliveryId) (riderEarnings s) of
        None \<Rightarrow> Inr s
      | Some earning \<Rightarrow>
          if re_status earning = ''RELEASED'' then Inr s
          else
            let P = (\<lambda>e. re_id e = re_id earning \<and> re_status e = ''HELD'');
                s1 = s\<lparr>riderEarnings := tupdate P (\<lambda>e. e\<lparr>re_status := ''RELEASED''\<rparr>) (riderEarnings s)\<rparr>
            in if tcount P (riderEarnings s) = 0 then Inr s1
               else
                 ebind (orThrow (tfind (\<lambda>p. rp_id p = re_riderId earning) (riderProfiles s1)) RecordNotFound) (\<lambda>profile.
                 ebind (orThrow (tfind (\<lambda>w. w_userId w = rp_userId profile) (wallets s1)) RecordNotFound) (\<lambda>wallet.
                 ebind (createWalletTx (w_id wallet) (re_amount earning) RELEASE
                   (release_ref deliveryId) ''Delivery fee released'' s1) (\<lambda>s2.
                 Inr (incrementWallet (w_id wallet) (re_amount earning) s2)))))"

section \<open>What the functions leave alone\<close>

definition settlement_frame :: "db \<Rightarrow> db \<Rightarrow> bool" where
  "settlement_frame s s' \<longleftrightarrow>
     s' = s\<lparr>wallets := wallets s', walletTxs := walletTxs s', storeWallets := storeWallets s',
       storeWalletTxs := storeWalletTxs s', riderEarnings := riderEarnings s'\<rparr>"

lemma settlement_frameD:
  assumes "settlement_frame s s'"
  shows "orders s' = orders s" "orderItems s' = orderItems s" "storeProducts s' = storeProducts s"
    "deliveries s' = deliveries s" "groups s' = groups s" "payments s' = payments s"
    "allocations s' = allocations s" "statusHistory s' = statusHistory s" "confirmations s' = confirmations s"
    "refunds s' = refunds s" "carts s' = carts s" "cartItems s' = cartItems s" "coupons s' = coupons s"
    "platformConfig s' = platformConfig s" "riderProfiles s' = riderProfiles s" "pickups s' = pickups s"
    "notifications s' = notifications s" "users s' = users s"
  by (subst assms [unfolded settlement_frame_def], simp)+

lemma upsertWallet_frame: "upsertWallet u s = (w, s1) \<Longrightarrow> s1 = s\<lparr>wallets := wallets s1\<rparr>"
  by (auto simp: upsertWallet_def Let_def split: option.splits)

lemma createWalletTx_frame: "createWalletTx k a ty r d s = Inr s1 \<Longrightarrow> s1 = s\<lparr>walletTxs := walletTxs s1\<rparr>"
  by (auto simp: createWalletTx_def tx_simps)

lemma upsertStoreWallet_frame: "upsertStoreWallet u s = (w, s1) \<Longrightarrow> s1 = s\<lparr>storeWallets := storeWallets s1\<rparr>"
  by (auto simp: upsertStoreWallet_def Let_def split: option.splits)

lemma createStoreWalletTx_frame:
  "createStoreWalletTx k a ty r oid d s = Inr s1 \<Longrightarrow> s1 = s\<lparr>storeWalletTxs := storeWalletTxs s1\<rparr>"
  by (auto simp: createStoreWalletTx_def tx_simps)

lemma settlement_frame_refl [simp]: "settlement_frame s s"
  by (simp add: settlement_frame_def)

lemma settlement_frame_trans: "settlement_frame a b \<Longrightarrow> settlement_frame b c \<Longrightarrow> settlement_frame a c"
proof -
  assume "settlement_frame a b" "settlement_frame b c"
  then obtain ws ts sws sts es ws' ts' sws' sts' es' where
    "b = a\<lparr>wallets := ws, walletTxs := ts, storeWallets := sws, storeWalletTxs := sts, riderEarnings := es\<rparr>"
    "c = b\<lparr>wallets := ws', walletTxs := ts', storeWallets := sws', storeWalletTxs := sts', riderEarnings := es'\<rparr>"
    unfolding settlement_frame_def by blast
  then show "settlement_frame a c" by (simp add: settlement_frame_def)
qed

text \<open>The cases in which \<open>holdRiderEarning\<close> does anything.\<close>

lemma holdRiderEarning_cases [consumes 1, case_names skip hold]:
  assumes "holdRiderEarning did s = Inr s'"
  obtains (skip) "s' = s"
    | (hold) ord :: order and rider and profile :: rider_profile and w s1 desc where "upsertWallet rider s = (w, s1)"
      "tfind (\<lambda>e. re_deliveryId e = did) (riderEarnings s) = None" "\<not> o_shippingFee ord \<le> 0"
      "createWalletTx (w_id w) (o_shippingFee ord) HOLD (hold_ref did) desc
         (s1\<lparr>riderEarnings := tinsert (\<lambda>i. \<lparr>re_id = i, re_riderId = rp_id profile, re_deliveryId = did,
           re_amount = o_shippingFee ord, re_status = ''HELD''\<rparr>) (riderEarnings s1)\<rparr>) = Inr s'"
proof (cases "s' = s")
  case False
  then obtain delivery rider where "tfind (\<lambda>d. d_id d = did) (deliveries s) = Some delivery"
    "d_riderId delivery = Some rider"
    using assms by (auto simp: holdRiderEarning_def split: option.splits)
  moreover from this obtain ord where "tfind (\<lambda>x. o_id x = d_orderId delivery) (orders s) = Some ord"
    using assms by (auto simp: holdRiderEarning_def tx_simps)
  moreover from calculation False obtain profile where "tfind (\<lambda>p. rp_userId p = rider) (riderProfiles s) = Some profile"
    "\<not> o_shippingFee ord \<le> 0" "tfind (\<lambda>e. re_deliveryId e = did) (riderEarnings s) = None"
    "order_funded (d_orderId delivery) s"
    using assms by (auto simp: holdRiderEarning_def split: if_splits option.splits)
  moreover obtain w s1 where "upsertWallet rider s = (w, s1)" by fastforce
  ultimately show thesis using assms
    by (intro hold [of rider w s1 ord "''Delivery fee held for order '' @ o_orderNumber ord" profile])
      (simp_all add: holdRiderEarning_def)
qed

lemma holdRiderEarning_frame: "holdRiderEarning did s = Inr s' \<Longrightarrow> settlement_frame s s'"
proof (erule holdRiderEarning_cases)
  fix ord rider profile w s1 desc e
  assume u: "upsertWallet rider s = (w, s1)" and "createWalletTx (w_id w) (o_shippingFee ord) HOLD
    (hold_ref did) desc (s1\<lparr>riderEarnings := tinsert e (riderEarnings s1)\<rparr>) = Inr s'"
  then obtain ws ts where "s1 = s\<lparr>wallets := ws\<rparr>"
    "s' = s1\<lparr>riderEarnings := tinsert e (riderEarnings s1), walletTxs := ts\<rparr>"
    using createWalletTx_frame upsertWallet_frame by metis
  then show ?thesis by (simp add: settlement_frame_def)
qed simp

lemma holdRiderEarning_wallet_ok:
  assumes "holdRiderEarning did s = Inr s'" and "wallet_ok s"
  shows "wallet_ok s'"
  using assms(1)
proof (cases rule: holdRiderEarning_cases)
  case (hold ord rider profile w s1 desc)
  have "wallet_off (w_id w) 0 s1" by (rule upsertWallet_ok [OF assms(2) hold(1)])
  then have "wallet_off (w_id w) 0 (s1\<lparr>riderEarnings := x\<rparr>)" for x by simp
  from createWalletTx_off [OF this hold(4)] show ?thesis by (intro wallet_off_ok [of "w_id w"]) simp
qed (simp add: assms(2))

lemma holdRiderEarning_again:
  assumes "holdRiderEarning did s = Inr s'" and "s' \<noteq> s"
  shows "tfind (\<lambda>e. re_deliveryId e = did) (riderEarnings s') \<noteq> None"
  using assms(1)
proof (cases rule: holdRiderEarning_cases)
  case (hold ord rider profile w s1 desc)
  from createWalletTx_frame [OF hold(4)] upsertWallet_frame [OF hold(1)] hold(2)
  have "riderEarnings s' = tinsert (\<lambda>i. \<lparr>re_id = i, re_riderId = rp_id profile, re_deliveryId = did,
           re_amount = o_shippingFee ord, re_status = ''HELD''\<rparr>) (riderEarnings s1)"
    by (metis (no_types, lifting) db.select_convs db.surjective db.update_convs)
  then show ?thesis by (auto simp: tfind_tinsert split: option.splits)
qed (simp add: assms(2))

section \<open>The split of a settled order\<close>

text \<open>
  A settlement that is not a repetition: the rates, the amounts and the rows it writes.
\<close>

lemma settleOrder_cases [consumes 1, case_names repeated settle]:
  assumes "settleOrder cfg oid s = Inr s'"
  obtains (repeated) ord :: order where "tfind (\<lambda>x. o_id x = oid) (orders s) = Some ord" "s' = s"
      "tfind (\<lambda>t. swt_reference t = Some (settlement_ref ord)) (storeWalletTxs s) \<noteq> None"
    | (settle) ord :: order and vr sr fr v c f w s1 s2 where "tfind (\<lambda>x. o_id x = oid) (orders s) = Some ord"
      "tfind (\<lambda>t. swt_reference t = Some (settlement_ref ord)) (storeWalletTxs s) = None"
      "0 \<le> vr \<and> 0 \<le> sr \<and> 0 \<le> fr \<and> vr + sr + fr \<le> 1"
      "money (o_subtotal ord * vr) = Inr v" "money (o_subtotal ord * sr) = Inr c"
      "money (o_subtotal ord * fr) = Inr f" "0 \<le> o_subtotal ord - v - c - f"
      "upsertStoreWallet (o_storeId ord) s = (w, s1)"
      "createStoreWalletTx (sw_id w) (o_subtotal ord - v - c - f) CREDIT (settlement_ref ord) (Some oid)
         (Breakdown [o_subtotal ord, vr, v, sr, c, fr, f, o_subtotal ord - v - c - f]) s1 = Inr s2"
      "(case tfind (\<lambda>d. d_orderId d = oid) (deliveries (incrementStoreWallet (sw_id w) (o_subtotal ord - v - c - f) s2)) of
            None \<Rightarrow> Inr (incrementStoreWallet (sw_id w) (o_subtotal ord - v - c - f) s2)
          | Some delivery \<Rightarrow> holdRiderEarning (d_id delivery)
              (incrementStoreWallet (sw_id w) (o_subtotal ord - v - c - f) s2)) = Inr s'"
proof -
  obtain ord where o: "tfind (\<lambda>x. o_id x = oid) (orders s) = Some ord"
    using assms by (auto simp: settleOrder_def tx_simps)
  show thesis
  proof (cases "tfind (\<lambda>t. swt_reference t = Some (settlement_ref ord)) (storeWalletTxs s)")
    case (Some t)
    then show thesis using o assms by (intro repeated) (auto simp: settleOrder_def)
  next
    case None
    obtain w s1 where u: "upsertStoreWallet (o_storeId ord) s = (w, s1)" by fastforce
    from assms obtain vr sr fr v c f where
      r: "getRate cfg ''vat_rate'' s = Inr vr" "getRate cfg ''service_charge_rate'' s = Inr sr"
        "getRate cfg ''platform_fee_rate'' s = Inr fr" "\<not> 1 < vr + sr + fr"
      and m: "money (o_subtotal ord * vr) = Inr v" "money (o_subtotal ord * sr) = Inr c"
        "money (o_subtotal ord * fr) = Inr f" "\<not> o_subtotal ord - v - c - f < 0"
      by (simp add: settleOrder_def Let_def o None ebind_Inr_iff require_Inr_iff) blast
    from assms obtain s2 where
      t: "createStoreWalletTx (sw_id w) (o_subtotal ord - v - c - f) CREDIT (settlement_ref ord) (Some oid)
         (Breakdown [o_subtotal ord, vr, v, sr, c, fr, f, o_subtotal ord - v - c - f]) s1 = Inr s2"
      and d: "(case tfind (\<lambda>d. d_orderId d = oid) (deliveries (incrementStoreWallet (sw_id w) (o_subtotal ord - v - c - f) s2)) of
            None \<Rightarrow> Inr (incrementStoreWallet (sw_id w) (o_subtotal ord - v - c - f) s2)
          | Some delivery \<Rightarrow> holdRiderEarning (d_id delivery)
              (incrementStoreWallet (sw_id w) (o_subtotal ord - v - c - f) s2)) = Inr s'"
      by (simp add: settleOrder_def Let_def o None r m u ebind_Inr_iff require_Inr_iff) blast
    have "0 \<le> vr \<and> 0 \<le> sr \<and> 0 \<le> fr \<and> vr + sr + fr \<le> 1" using r by (auto simp: getRate_def Let_def tx_simps)
    then show thesis using m by (intro settle [OF o None _ m(1-3) _ u t d]) simp_all
  qed
qed

lemma settle_tail_frame:
  assumes "(case x of None \<Rightarrow> Inr t | Some d \<Rightarrow> holdRiderEarning (d_id d) t) = Inr s'"
  shows "settlement_frame t s'" "storeWallets s' = storeWallets t" "storeWalletTxs s' = storeWalletTxs t"
    "wallet_ok t \<Longrightarrow> wallet_ok s'"
proof -
  consider "s' = t" | i where "holdRiderEarning i t = Inr s'"
    using assms by (cases x) auto
  then have *: "settlement_frame t s' \<and> storeWallets s' = storeWallets t \<and> storeWalletTxs s' = storeWalletTxs t
      \<and> (wallet_ok t \<longrightarrow> wallet_ok s')"
  proof cases
    case 2
    have "storeWallets s' = storeWallets t \<and> storeWalletTxs s' = storeWalletTxs t"
      using 2
    proof (cases rule: holdRiderEarning_cases)
      case (hold ord rider profile w s1 desc)
      then obtain ws ts e where "s1 = t\<lparr>wallets := ws\<rparr>" "s' = s1\<lparr>riderEarnings := e, walletTxs := ts\<rparr>"
        using createWalletTx_frame upsertWallet_frame by metis
      then show ?thesis by simp
    qed simp
    then show ?thesis using holdRiderEarning_frame [OF 2] holdRiderEarning_wallet_ok [OF 2] by simp
  qed simp
  then show "settlement_frame t s'" "storeWallets s' = storeWallets t" "storeWalletTxs s' = storeWalletTxs t"
    "wallet_ok t \<Longrightarrow> wallet_ok s'" by simp_all
qed

lemma settleOrder_frame:
  assumes "settleOrder cfg oid s = Inr s'"
  shows "settlement_frame s s'"
  using assms
proof (cases rule: settleOrder_cases)
  case (settle ord vr sr fr v c f w s1 s2)
  let ?t = "incrementStoreWallet (sw_id w) (o_subtotal ord - v - c - f) s2"
  obtain sws sts where "s1 = s\<lparr>storeWallets := sws\<rparr>" "s2 = s1\<lparr>storeWalletTxs := sts\<rparr>"
    using upsertStoreWallet_frame [OF settle(8)] createStoreWalletTx_frame [OF settle(9)] by metis
  then have "settlement_frame s ?t" by (simp add: settlement_frame_def incrementStoreWallet_def)
  then show ?thesis using settle_tail_frame(1) [OF settle(10)] by (rule settlement_frame_trans)
qed simp

lemma settleOrder_wallets_ok:
  assumes "settleOrder cfg oid s = Inr s'"
  shows "wallet_ok s \<Longrightarrow> wallet_ok s'" and "store_wallet_ok s \<Longrightarrow> store_wallet_ok s'"
proof -
  have "(wallet_ok s \<longrightarrow> wallet_ok s') \<and> (store_wallet_ok s \<longrightarrow> store_wallet_ok s')"
    using assms
  proof (cases rule: settleOrder_cases)
    case (settle ord vr sr fr v c f w s1 s2)
    let ?a = "o_subtotal ord - v - c - f"
    let ?t = "incrementStoreWallet (sw_id w) ?a s2"
    obtain sws sts where fr: "s1 = s\<lparr>storeWallets := sws\<rparr>" "s2 = s1\<lparr>storeWalletTxs := sts\<rparr>"
      using upsertStoreWallet_frame [OF settle(8)] createStoreWalletTx_frame [OF settle(9)] by metis
    have "wallet_ok ?t = wallet_ok s" by (rule wallet_ok_cong) (simp_all add: incrementStoreWallet_def fr)
    moreover have "store_wallet_ok s'" if ok: "store_wallet_ok s"
    proof -
      have "store_wallet_off (sw_id w) 0 s1" by (rule upsertStoreWallet_ok [OF ok settle(8)])
      from incrementStoreWallet_off [OF createStoreWalletTx_off [OF this settle(9)], of ?a]
      have "store_wallet_ok ?t" by (intro store_wallet_off_ok [of "sw_id w"]) simp
      then show ?thesis using settle_tail_frame(2,3) [OF settle(10)] store_wallet_ok_cong by blast
    qed
    ultimately show ?thesis using settle_tail_frame(4) [OF settle(10)] by blast
  qed simp
  then show "wallet_ok s \<Longrightarrow> wallet_ok s'" "store_wallet_ok s \<Longrightarrow> store_wallet_ok s'" by simp_all
qed

definition store_balance :: "nat \<Rightarrow> db \<Rightarrow> decimal" where
  "store_balance storeId s = (case tfind (\<lambda>w. sw_storeId w = storeId) (storeWallets s) of
     None \<Rightarrow> 0 | Some w \<Rightarrow> sw_balance w)"

lemma upsertStoreWallet_find:
  "upsertStoreWallet u s = (w, s1) \<Longrightarrow> tfind (\<lambda>w. sw_storeId w = u) (storeWallets s1) = Some w \<and>
     sw_balance w = store_balance u s"
  by (auto simp: upsertStoreWallet_def store_balance_def Let_def tfind_tinsert split: option.splits)

lemma settleOrder_split_ref:
  assumes "settleOrder cfg oid s = Inr s'" and "tfind (\<lambda>x. o_id x = oid) (orders s) = Some ord"
  shows "\<exists>t. tfind (\<lambda>t. swt_reference t = Some (settlement_ref ord)) (storeWalletTxs s') = Some t"
  using assms(1)
proof (cases rule: settleOrder_cases)
  case (settle ord' vr sr fr v c f w s1 s2)
  then show ?thesis using assms(2) settle_tail_frame(3) [OF settle(10)]
    by (auto simp: createStoreWalletTx_def tx_simps incrementStoreWallet_def tfind_tinsert)
qed (use assms(2) in auto)


text \<open>
  Settlement is idempotent: settling the same order again, which happens when a payment
  is confirmed by both the callback and the webhook, changes nothing.
\<close>

theorem settleOrder_idempotent:
  assumes "settleOrder cfg oid s = Inr s'"
  shows "settleOrder cfg oid s' = Inr s'"
  using assms
proof (cases rule: settleOrder_cases)
  case (repeated ord)
  then show ?thesis by (simp add: settleOrder_def)
next
  case (settle ord vr sr fr v c f w s1 s2)
  obtain t where "tfind (\<lambda>t. swt_reference t = Some (settlement_ref ord)) (storeWalletTxs s') = Some t"
    using settleOrder_split_ref [OF assms settle(1)] by blast
  then show ?thesis using settle(1) settlement_frameD(1) [OF settleOrder_frame [OF assms]]
    by (simp add: settleOrder_def Let_def)
qed

text \<open>Neither a hold nor a settlement moves money between user wallets.\<close>

lemma holdRiderEarning_user_balance:
  assumes "holdRiderEarning did s = Inr s'"
  shows "user_balance v s' = user_balance v s"
  using assms
proof (cases rule: holdRiderEarning_cases)
  case (hold ord rider profile w s1 desc)
  have "wallets s' = wallets s1" using hold(4) by (auto simp: createWalletTx_def tx_simps)
  moreover have "user_balance v s1 = user_balance v s"
    using hold(1) by (auto simp: upsertWallet_def Let_def user_balance_def tfind_tinsert
        split: option.splits if_splits)
  ultimately show ?thesis by (simp add: user_balance_def)
qed simp

lemma settleOrder_user_balance:
  assumes "settleOrder cfg oid s = Inr s'"
  shows "user_balance v s' = user_balance v s"
  using assms
proof (cases rule: settleOrder_cases)
  case (settle ord vr sr fr v' c f w s1 s2)
  let ?t = "incrementStoreWallet (sw_id w) (o_subtotal ord - v' - c - f) s2"
  have "wallets ?t = wallets s"
    using settle(8,9) by (auto simp: incrementStoreWallet_def createStoreWalletTx_def upsertStoreWallet_def Let_def tx_simps
        split: option.splits)
  then have "user_balance v ?t = user_balance v s" by (simp add: user_balance_def)
  moreover have "user_balance v s' = user_balance v ?t"
    using settle(10) holdRiderEarning_user_balance by (auto split: option.splits)
  ultimately show ?thesis by simp
qed simp

section \<open>The release of a delivery fee\<close>

lemma releaseRiderEarning_cases [consumes 1, case_names skip release]:
  assumes "releaseRiderEarning did s = Inr s'"
  obtains (skip) "s' = s"
      "\<forall>e. tfind (\<lambda>e. re_deliveryId e = did) (riderEarnings s) = Some e \<longrightarrow>
         re_status e = ''RELEASED'' \<or> tcount (\<lambda>x. re_id x = re_id e \<and> re_status x = ''HELD'') (riderEarnings s) = 0"
    | (release) e :: rider_earning and profile :: rider_profile and w s1 s2 where
      "tfind (\<lambda>e. re_deliveryId e = did) (riderEarnings s) = Some e" "re_status e \<noteq> ''RELEASED''"
      "tcount (\<lambda>x. re_id x = re_id e \<and> re_status x = ''HELD'') (riderEarnings s) \<noteq> 0"
      "s1 = s\<lparr>riderEarnings := tupdate (\<lambda>x. re_id x = re_id e \<and> re_status x = ''HELD'')
         (\<lambda>e. e\<lparr>re_status := ''RELEASED''\<rparr>) (riderEarnings s)\<rparr>"
      "tfind (\<lambda>p. rp_id p = re_riderId e) (riderProfiles s) = Some profile"
      "tfind (\<lambda>w. w_userId w = rp_userId profile) (wallets s) = Some w"
      "createWalletTx (w_id w) (re_amount e) RELEASE (release_ref did) ''Delivery fee released'' s1 = Inr s2"
      "s' = incrementWallet (w_id w) (re_amount e) s2"
proof (cases "tfind (\<lambda>e. re_deliveryId e = did) (riderEarnings s)")
  case None
  then show thesis using assms by (intro skip) (auto simp: releaseRiderEarning_def)
next
  case (Some e)
  let ?P = "\<lambda>x. re_id x = re_id e \<and> re_status x = ''HELD''"
  show thesis
  proof (cases "re_status e = ''RELEASED'' \<or> tcount ?P (riderEarnings s) = 0")
    case True
    have "s' = s"
    proof (cases "re_status e = ''RELEASED''")
      case False
      with True have n: "tcount ?P (riderEarnings s) = 0" by simp
      then have "tupdate ?P f (riderEarnings s) = riderEarnings s" for f
        by (intro tupdate_none) (simp add: tcount_zero_iff)
      with n False Some assms show ?thesis by (simp add: releaseRiderEarning_def Let_def)
    qed (use assms Some in \<open>simp add: releaseRiderEarning_def\<close>)
    then show thesis using True Some by (intro skip) auto
  next
    case False
    define s1 where "s1 = s\<lparr>riderEarnings := tupdate ?P (\<lambda>e. e\<lparr>re_status := ''RELEASED''\<rparr>) (riderEarnings s)\<rparr>"
    from assms False obtain profile w s2 where
      "tfind (\<lambda>p. rp_id p = re_riderId e) (riderProfiles s1) = Some profile"
      "tfind (\<lambda>w. w_userId w = rp_userId profile) (wallets s1) = Some w"
      "createWalletTx (w_id w) (re_amount e) RELEASE (release_ref did) ''Delivery fee released'' s1 = Inr s2"
      "s' = incrementWallet (w_id w) (re_amount e) s2"
      by (auto simp: releaseRiderEarning_def Some s1_def [symmetric] Let_def ebind_Inr_iff orThrow_Inr_iff)
    then show thesis using False Some by (intro release [of e s1 profile w s2]) (auto simp: s1_def)
  qed
qed

lemma releaseRiderEarning_frame:
  assumes "releaseRiderEarning did s = Inr s'"
  shows "settlement_frame s s'" and "storeWallets s' = storeWallets s" and "storeWalletTxs s' = storeWalletTxs s"
proof -
  have "settlement_frame s s' \<and> storeWallets s' = storeWallets s \<and> storeWalletTxs s' = storeWalletTxs s"
    using assms
  proof (cases rule: releaseRiderEarning_cases)
    case (release e profile w s1 s2)
    obtain ts where "s2 = s1\<lparr>walletTxs := ts\<rparr>" by (rule that [OF createWalletTx_frame [OF release(7)]])
    then show ?thesis using release(4,8) by (simp add: settlement_frame_def incrementWallet_def)
  qed simp
  then show "settlement_frame s s'" "storeWallets s' = storeWallets s" "storeWalletTxs s' = storeWalletTxs s"
    by simp_all
qed

lemma releaseRiderEarning_wallet_ok:
  assumes "releaseRiderEarning did s = Inr s'" and ok: "wallet_ok s"
  shows "wallet_ok s'"
  using assms(1)
proof (cases rule: releaseRiderEarning_cases)
  case (release e profile w s1 s2)
  have "wallet_off (w_id w) 0 s" by (rule wallet_found_off [OF ok release(6)])
  then have "wallet_off (w_id w) 0 s1" by (simp add: release(4))
  from incrementWallet_off [OF createWalletTx_off [OF this release(7)], of "re_amount e"]
  show ?thesis by (intro wallet_off_ok [of "w_id w"]) (simp add: release(8))
qed (simp add: ok)

text \<open>
  A held delivery fee is paid to its rider exactly once: the release credits the wallet of
  the rider's user with the held amount, no other wallet changes, and any further release of
  the same delivery changes nothing.
\<close>

theorem releaseRiderEarning_pays_once:
  assumes "releaseRiderEarning did s = Inr s'" and ok: "wallet_ok s"
    and "tfind (\<lambda>e. re_deliveryId e = did) (riderEarnings s) = Some e" and "re_status e = ''HELD''"
    and "tfind (\<lambda>p. rp_id p = re_riderId e) (riderProfiles s) = Some profile"
  shows "user_balance (rp_userId profile) s' = user_balance (rp_userId profile) s + re_amount e \<and>
    (\<forall>u. u \<noteq> rp_userId profile \<longrightarrow> user_balance u s' = user_balance u s) \<and>
    releaseRiderEarning did s' = Inr s'"
  using assms(1)
proof (cases rule: releaseRiderEarning_cases)
  case skip
  moreover have "e \<in> set (rows (riderEarnings s))" using assms(3) by (auto dest: tfind_SomeD)
  ultimately show ?thesis using assms(3,4) by (auto simp: tcount_def filter_empty_conv)
next
  case (release e' profile' w s1 s2)
  have [simp]: "e' = e" "profile' = profile" using release assms(3,5) by auto
  have ws: "wallets s' = tupdate (\<lambda>x. w_id x = w_id w) (\<lambda>x. x\<lparr>w_balance := w_balance x + re_amount e\<rparr>) (wallets s)"
    using release(4,7,8) by (auto simp: createWalletTx_def tx_simps incrementWallet_def)
  have es: "riderEarnings s' = riderEarnings s1"
    using release(7,8) by (auto simp: createWalletTx_def tx_simps incrementWallet_def)
  have "re_deliveryId e = did" using assms(3) by (auto dest: tfind_SomeD)
  then have "tfind (\<lambda>e. re_deliveryId e = did) (riderEarnings s') = Some (e\<lparr>re_status := ''RELEASED''\<rparr>)"
    using assms(3,4) by (simp add: es release(4) tfind_tupdate)
  then have "releaseRiderEarning did s' = Inr s'" by (simp add: releaseRiderEarning_def)
  then show ?thesis
    using release(6) user_balance_update [OF ok, of "rp_userId profile" w] ws by simp
qed

definition held_fee :: rider_earning where
  "held_fee = \<lparr>re_id = 1, re_riderId = 4, re_deliveryId = 9, re_amount = 500, re_status = ''HELD''\<rparr>"

definition rider_ade :: rider_profile where
  "rider_ade = \<lparr>rp_id = 4, rp_userId = 12, rp_onboardingStatus = ''APPROVED'', rp_isOnline = True,
     rp_areaOfOperation = None, rp_businessState = None, rp_businessCity = None, rp_emergencyContactName = None, rp_emergencyContactPhone = None,
     rp_location = None, rp_locationAccuracyM = None, rp_locationUpdatedAt = None, rp_rejectionReason = None,
     rp_rejectedEvidence = None, rp_submissionAttempt = 1\<rparr>"

definition rider_example :: db where
  "rider_example = empty_db\<lparr>riderEarnings := \<lparr>rows = [held_fee], next_id = 2\<rparr>,
     riderProfiles := \<lparr>rows = [rider_ade], next_id = 5\<rparr>,
     wallets := \<lparr>rows = [\<lparr>w_id = 1, w_userId = 12, w_balance = 0\<rparr>], next_id = 2\<rparr>\<rparr>"

theorem releaseRiderEarning_pays_once_witness:
  "\<not> isl (releaseRiderEarning 9 rider_example) \<and>
   user_balance 12 (projr (releaseRiderEarning 9 rider_example)) = user_balance 12 rider_example + 500"
proof -
  have ok: "\<not> isl (releaseRiderEarning 9 rider_example)" by code_simp
  then have r: "releaseRiderEarning 9 rider_example = Inr (projr (releaseRiderEarning 9 rider_example))"
    by (cases "releaseRiderEarning 9 rider_example") auto
  have w: "wallet_ok rider_example"
    by (simp add: rider_example_def wallet_ok_def ledger_off_def ledger_sum_def tkeyed_def empty_db_def tempty_def)
  have e: "tfind (\<lambda>e. re_deliveryId e = 9) (riderEarnings rider_example) = Some held_fee"
    "tfind (\<lambda>p. rp_id p = re_riderId held_fee) (riderProfiles rider_example) = Some rider_ade"
    by (simp_all add: rider_example_def held_fee_def rider_ade_def tfind_def)
  have "re_status held_fee = ''HELD''" by (simp add: held_fee_def)
  from releaseRiderEarning_pays_once [OF r w e(1) this e(2)] ok show ?thesis
    by (simp add: held_fee_def rider_ade_def)
qed

text \<open>An example order of 10000 that is settled at the default rates, 0.825 of it to the store.\<close>

definition settled_order :: order where
  "settled_order = \<lparr>o_id = 5, o_orderNumber = ''PUR-1'', o_userId = 7, o_storeId = 1, o_fulfillmentType = PICKUP,
     o_currentStatus = CONFIRMED, o_customerName = ''Ada'', o_customerEmail = ''ada@example.com'',
     o_customerPhone = None, o_deliveryAddress = None, o_deliveryLabel = None, o_deliveryCity = None,
     o_deliveryState = None, o_currency = ''NGN'', o_subtotal = 10000, o_shippingFee = 0, o_discountAmount = 0,
     o_shippingDiscount = 0, o_total = 10000, o_updatedAt = 0\<rparr>"

definition settle_example :: db where
  "settle_example = empty_db\<lparr>orders := \<lparr>rows = [settled_order], next_id = 6\<rparr>\<rparr>"

lemma settle_example_run: "\<not> isl (settleOrder (\<lambda>_. None) 5 settle_example)"
  by code_simp

lemma settle_example_result:
  "settleOrder (\<lambda>_. None) 5 settle_example = Inr (projr (settleOrder (\<lambda>_. None) 5 settle_example))"
  using settle_example_run by (cases "settleOrder (\<lambda>_. None) 5 settle_example") auto


theorem settleOrder_idempotent_witness:
  "settleOrder (\<lambda>_. None) 5 (projr (settleOrder (\<lambda>_. None) 5 settle_example)) =
     Inr (projr (settleOrder (\<lambda>_. None) 5 settle_example))"
  by (rule settleOrder_idempotent [OF settle_example_result])

end
