(* ===== verification/Statuses.thy ===== *)
theory Statuses
  imports Schema
begin

text \<open>
  The order life cycle (\<^verbatim>\<open>src/orders/order-status.ts\<close>) and the delivery life cycle
  (\<open>allowedTransitions\<close> of \<^verbatim>\<open>src/delivery/delivery.service.ts\<close>): the two transition tables, who
  may ask for which status, and what every run of the tables satisfies.
\<close>

section \<open>Orders\<close>

fun ORDER_STATUS_TRANSITIONS :: "order_status \<Rightarrow> order_status list" where
  "ORDER_STATUS_TRANSITIONS ORDER_RECEIVED = [CONFIRMED, CANCELLED]"
| "ORDER_STATUS_TRANSITIONS CONFIRMED = [PREPARING, CANCELLED]"
| "ORDER_STATUS_TRANSITIONS PREPARING = [READY_FOR_PICKUP, RIDER_ASSIGNED, CANCELLED]"
| "ORDER_STATUS_TRANSITIONS READY_FOR_PICKUP = [PICKED_UP, RIDER_ASSIGNED, CANCELLED]"
| "ORDER_STATUS_TRANSITIONS RIDER_ASSIGNED = [PICKED_UP, OUT_FOR_DELIVERY, CANCELLED]"
| "ORDER_STATUS_TRANSITIONS OUT_FOR_DELIVERY = [PICKED_UP, DELIVERED, CANCELLED]"
| "ORDER_STATUS_TRANSITIONS PICKED_UP = [OUT_FOR_DELIVERY, DELIVERED, COMPLETED]"
| "ORDER_STATUS_TRANSITIONS DELIVERED = [COMPLETED]"
| "ORDER_STATUS_TRANSITIONS COMPLETED = []"
| "ORDER_STATUS_TRANSITIONS CANCELLED = []"

definition STORE_MANAGED_ORDER_STATUSES :: "order_status list" where
  "STORE_MANAGED_ORDER_STATUSES = [PREPARING, READY_FOR_PICKUP]"

definition ADMIN_INTERVENTION_ORDER_STATUSES :: "order_status list" where
  "ADMIN_INTERVENTION_ORDER_STATUSES =
     [PREPARING, READY_FOR_PICKUP, RIDER_ASSIGNED, PICKED_UP, OUT_FOR_DELIVERY, DELIVERED, COMPLETED]"

definition canTransitionOrder :: "order_status \<Rightarrow> order_status \<Rightarrow> bool" where
  "canTransitionOrder from to \<longleftrightarrow> to \<in> set (ORDER_STATUS_TRANSITIONS from)"

fun screenStatus :: "order_status \<Rightarrow> string" where
  "screenStatus s =
     (if s = ORDER_RECEIVED \<or> s = CONFIRMED then ''pending''
      else if s = READY_FOR_PICKUP then ''ready_for_pickup''
      else if s = CANCELLED then ''cancelled''
      else if s \<in> {PICKED_UP, DELIVERED, COMPLETED} then ''delivered''
      else ''in_progress'')"

definition order_terminal :: "order_status \<Rightarrow> bool" where
  "order_terminal s \<longleftrightarrow> s = COMPLETED \<or> s = CANCELLED"

interpretation order_machine: status_machine ORDER_STATUS_TRANSITIONS order_terminal
proof
  show "order_terminal x \<longleftrightarrow> ORDER_STATUS_TRANSITIONS x = []" for x
    by (cases x) (simp_all add: order_terminal_def)
qed

lemma canTransitionOrder_terminal: "order_terminal from \<Longrightarrow> \<not> canTransitionOrder from to"
  by (auto simp: canTransitionOrder_def order_machine.terminal_succs)

lemma canTransitionOrder_irrefl: "\<not> canTransitionOrder s s"
  by (cases s) (simp_all add: canTransitionOrder_def)

lemma delivered_only_completes: "canTransitionOrder DELIVERED to \<longleftrightarrow> to = COMPLETED"
  by (simp add: canTransitionOrder_def)

text \<open>Once an order has left the unpaid state no run of the table returns it there.\<close>

lemma received_not_entered: "\<not> canTransitionOrder s ORDER_RECEIVED"
  by (cases s) (simp_all add: canTransitionOrder_def)

lemma confirmed_only_from_received: "canTransitionOrder s CONFIRMED \<longleftrightarrow> s = ORDER_RECEIVED"
  by (cases s) (simp_all add: canTransitionOrder_def)

text \<open>Statuses before the goods left the store; preparation raises their rank.\<close>

definition at_store :: "order_status \<Rightarrow> bool" where
  "at_store s \<longleftrightarrow> s \<in> {ORDER_RECEIVED, CONFIRMED, PREPARING, READY_FOR_PICKUP, RIDER_ASSIGNED}"

lemma at_store_not_reentered:
  "status_path ORDER_STATUS_TRANSITIONS s ts \<Longrightarrow> \<not> at_store s \<Longrightarrow> \<forall>t \<in> set ts. \<not> at_store t"
proof (induction ts arbitrary: s)
  case (Cons t ts)
  have "\<not> at_store t"
    using Cons.prems by (cases s) (auto simp: at_store_def)
  moreover have "status_path ORDER_STATUS_TRANSITIONS t ts" using Cons.prems(1) by simp
  ultimately show ?case using Cons.IH [of t] by simp
qed simp

text \<open>
  An order run ends with its first \<open>COMPLETED\<close> or \<open>CANCELLED\<close>, a delivered order can
  only complete, and after the goods left the store no transition leads back to a status in
  which they are still there.
\<close>

theorem order_lifecycle:
  assumes "status_path ORDER_STATUS_TRANSITIONS ORDER_RECEIVED (ys @ y # zs)"
  shows "(y = COMPLETED \<or> y = CANCELLED \<longrightarrow> zs = []) \<and>
    (y = DELIVERED \<longrightarrow> zs = [] \<or> zs = [COMPLETED]) \<and>
    (\<not> at_store y \<longrightarrow> (\<forall>z \<in> set zs. \<not> at_store z)) \<and>
    ORDER_RECEIVED \<notin> set (ys @ y # zs)"
proof (intro conjI impI)
  have rest: "status_path ORDER_STATUS_TRANSITIONS y zs"
    using assms by (simp add: order_machine.path_append)
  show "zs = []" if "y = COMPLETED \<or> y = CANCELLED"
    using order_machine.terminal_last [OF assms] that by (auto simp: order_terminal_def)
  show "zs = [] \<or> zs = [COMPLETED]" if "y = DELIVERED"
  proof (cases zs)
    case (Cons z zs')
    then have "z = COMPLETED" "status_path ORDER_STATUS_TRANSITIONS COMPLETED zs'"
      using rest that by auto
    then show ?thesis
      using Cons order_machine.terminal_path [of COMPLETED zs'] by (simp add: order_terminal_def)
  qed simp
  show "\<forall>z \<in> set zs. \<not> at_store z" if "\<not> at_store y"
    using at_store_not_reentered [OF rest that] .
  have "ORDER_RECEIVED \<notin> set ts" if "status_path ORDER_STATUS_TRANSITIONS s ts" for s ts
    using that received_not_entered by (induction ts arbitrary: s) (auto simp: canTransitionOrder_def)
  then show "ORDER_RECEIVED \<notin> set (ys @ y # zs)" using assms by blast
qed

theorem order_lifecycle_witness:
  "status_path ORDER_STATUS_TRANSITIONS ORDER_RECEIVED ([CONFIRMED, PREPARING, READY_FOR_PICKUP] @
     PICKED_UP # [OUT_FOR_DELIVERY, DELIVERED, COMPLETED]) \<and>
   \<not> at_store OUT_FOR_DELIVERY \<and> \<not> at_store DELIVERED \<and> \<not> at_store COMPLETED"
proof -
  have p: "status_path ORDER_STATUS_TRANSITIONS ORDER_RECEIVED
      ([CONFIRMED, PREPARING, READY_FOR_PICKUP] @ PICKED_UP # [OUT_FOR_DELIVERY, DELIVERED, COMPLETED])"
    by simp
  show ?thesis using p order_lifecycle [OF p] by (simp add: at_store_def)
qed

section \<open>Writing an order's status\<close>

text \<open>
  \<open>order.update({ data: { currentStatus } })\<close>, which also stamps the row, and
  \<open>orderStatusHistory.create\<close>.
\<close>

definition setOrderStatus :: "time \<Rightarrow> nat \<Rightarrow> order_status \<Rightarrow> db \<Rightarrow> db" where
  "setOrderStatus now orderId st s = s\<lparr>orders := tupdate (\<lambda>x. o_id x = orderId)
     (\<lambda>x. x\<lparr>o_currentStatus := st, o_updatedAt := now\<rparr>) (orders s)\<rparr>"

definition pushHistory :: "nat \<Rightarrow> order_status \<Rightarrow> order_status \<Rightarrow> nat option \<Rightarrow> string option \<Rightarrow> db \<Rightarrow> db" where
  "pushHistory orderId from to by reason s = s\<lparr>statusHistory := tinsert (\<lambda>i. \<lparr>sh_id = i, sh_orderId = orderId,
     sh_fromStatus = Some from, sh_toStatus = to, sh_changedById = by, sh_reason = reason\<rparr>) (statusHistory s)\<rparr>"

definition status_of :: "nat \<Rightarrow> db \<Rightarrow> order_status option" where
  "status_of orderId s = map_option o_currentStatus (tfind (\<lambda>x. o_id x = orderId) (orders s))"

lemma status_of_setOrderStatus:
  "status_of k (setOrderStatus now oid st s) =
     (if k = oid then map_option (\<lambda>_. st) (status_of k s) else status_of k s)"
proof (cases "k = oid")
  case True
  then show ?thesis
    by (auto simp: status_of_def setOrderStatus_def tfind_tupdate option.map_comp o_def
        intro!: option.map_cong dest: tfind_SomeD)
next
  case False
  then have "tfind (\<lambda>x. o_id x = k) (orders (setOrderStatus now oid st s)) = tfind (\<lambda>x. o_id x = k) (orders s)"
    unfolding setOrderStatus_def by simp (rule tfind_tupdate_other, auto)
  then show ?thesis using False by (simp add: status_of_def)
qed

lemma status_of_pushHistory [simp]: "status_of k (pushHistory oid a b c d s) = status_of k s"
  by (simp add: status_of_def pushHistory_def)

section \<open>Deliveries\<close>

fun allowedTransitions :: "delivery_status \<Rightarrow> delivery_status list" where
  "allowedTransitions D_PENDING = [D_OFFERED, D_ASSIGNED, D_CANCELLED]"
| "allowedTransitions D_OFFERED = [D_ASSIGNED, D_CANCELLED]"
| "allowedTransitions D_ASSIGNED = [D_PICKED_UP, D_CANCELLED]"
| "allowedTransitions D_PICKED_UP = [D_IN_TRANSIT, D_OUT_FOR_DELIVERY, D_ARRIVED_AT_CUSTOMER, D_FAILED]"
| "allowedTransitions D_IN_TRANSIT = [D_OUT_FOR_DELIVERY, D_ARRIVED_AT_CUSTOMER, D_DELIVERED, D_FAILED]"
| "allowedTransitions D_OUT_FOR_DELIVERY = [D_ARRIVED_AT_CUSTOMER, D_DELIVERED, D_FAILED]"
| "allowedTransitions D_ARRIVED_AT_CUSTOMER = [D_DELIVERED, D_FAILED]"
| "allowedTransitions D_DELIVERED = []"
| "allowedTransitions D_FAILED = []"
| "allowedTransitions D_CANCELLED = []"

definition delivery_terminal :: "delivery_status \<Rightarrow> bool" where
  "delivery_terminal s \<longleftrightarrow> s \<in> {D_DELIVERED, D_FAILED, D_CANCELLED}"

fun delivery_rank :: "delivery_status \<Rightarrow> nat" where
  "delivery_rank D_PENDING = 0"
| "delivery_rank D_OFFERED = 1"
| "delivery_rank D_ASSIGNED = 2"
| "delivery_rank D_PICKED_UP = 3"
| "delivery_rank D_IN_TRANSIT = 4"
| "delivery_rank D_OUT_FOR_DELIVERY = 5"
| "delivery_rank D_ARRIVED_AT_CUSTOMER = 6"
| "delivery_rank _ = 7"

interpretation delivery_machine: ranked_machine allowedTransitions delivery_terminal delivery_rank 7
proof
  show "delivery_terminal x \<longleftrightarrow> allowedTransitions x = []" for x
    by (cases x) (simp_all add: delivery_terminal_def)
  show "y \<in> set (allowedTransitions x) \<Longrightarrow> delivery_rank x < delivery_rank y" for x y
    by (cases x) auto
  show "delivery_rank x \<le> 7" for x
    by (cases x) simp_all
qed

text \<open>
  (C27) A delivery moves forward only: it never returns to a status it has left, it makes at
  most seven moves, and it ends with its first \<open>DELIVERED\<close>, \<open>FAILED\<close> or \<open>CANCELLED\<close>.
\<close>

theorem delivery_lifecycle:
  assumes "status_path allowedTransitions D_PENDING (ys @ y # zs)"
  shows "y \<notin> set zs \<and> length (ys @ y # zs) \<le> 7 \<and>
    (y \<in> {D_DELIVERED, D_FAILED, D_CANCELLED} \<longrightarrow> zs = [])"
proof (intro conjI impI)
  have "status_path allowedTransitions y zs"
    using assms by (simp add: delivery_machine.path_append)
  then show "y \<notin> set zs" by (rule delivery_machine.path_no_return)
  show "length (ys @ y # zs) \<le> 7"
    using delivery_machine.path_length [OF assms] by simp
  show "zs = []" if "y \<in> {D_DELIVERED, D_FAILED, D_CANCELLED}"
    using delivery_machine.terminal_last [OF assms] that by (auto simp: delivery_terminal_def)
qed

theorem delivery_lifecycle_witness:
  "status_path allowedTransitions D_PENDING
     ([D_OFFERED, D_ASSIGNED] @ D_PICKED_UP # [D_IN_TRANSIT, D_OUT_FOR_DELIVERY, D_ARRIVED_AT_CUSTOMER, D_DELIVERED]) \<and>
   length ([D_OFFERED, D_ASSIGNED] @ D_PICKED_UP # [D_IN_TRANSIT, D_OUT_FOR_DELIVERY, D_ARRIVED_AT_CUSTOMER, D_DELIVERED]) \<le> 7"
proof -
  have p: "status_path allowedTransitions D_PENDING
     ([D_OFFERED, D_ASSIGNED] @ D_PICKED_UP # [D_IN_TRANSIT, D_OUT_FOR_DELIVERY, D_ARRIVED_AT_CUSTOMER, D_DELIVERED])"
    by simp
  show ?thesis using p delivery_lifecycle [OF p] by blast
qed

end
