(* ===== verification/PaymentGroups.thy ===== *)
theory PaymentGroups
  imports Settlements Statuses Cart
begin

text \<open>
  What a checkout payment group goes through (\<^verbatim>\<open>src/payments/payments.service.ts\<close>): \<open>completeGroup\<close>
  confirms and settles its orders, empties the cart of what was bought and spends the voucher
  and the coupon; \<open>failGroup\<close> cancels its orders and gives the stock back.  Both run inside the
  transaction of their caller.
\<close>

section \<open>Completing a group\<close>

definition groupOrders :: "nat \<Rightarrow> db \<Rightarrow> order list result" where
  "groupOrders gid s = emap (\<lambda>al. orThrow (tfind (\<lambda>x. o_id x = al_orderId al) (orders s)) RecordNotFound)
     (tfilter (\<lambda>al. al_paymentGroupId al = gid) (allocations s))"

definition upsertConfirmation :: "time \<Rightarrow> nat \<Rightarrow> nat \<Rightarrow> db \<Rightarrow> db" where
  "upsertConfirmation now orderId userId s =
     (if tfind (\<lambda>j. ob_orderId j = orderId) (confirmations s) \<noteq> None then s
      else s\<lparr>confirmations := tinsert (\<lambda>i. \<lparr>ob_id = i, ob_orderId = orderId, ob_userId = userId,
             ob_status = ''PENDING'', ob_attempts = 0, ob_availableAt = now, ob_processingAt = None,
             ob_lastError = None\<rparr>) (confirmations s)\<rparr>)"

definition confirmOrder :: "(string \<Rightarrow> decimal option) \<Rightarrow> time \<Rightarrow> nat \<Rightarrow> order \<Rightarrow> db \<Rightarrow> db result" where
  "confirmOrder cfg now userId ord s =
     ebind (if o_currentStatus ord = ORDER_RECEIVED
            then settleOrder cfg (o_id ord)
              (pushHistory (o_id ord) ORDER_RECEIVED CONFIRMED None
                 (Some ''Payment or approved financing confirmed.'')
                 (setOrderStatus now (o_id ord) CONFIRMED s))
            else if o_currentStatus ord = CANCELLED
            then Inl (Conflict ''Cancelled order cannot be finalized as paid.'')
            else Inr s) (\<lambda>s1.
     Inr (upsertConfirmation now (o_id ord) userId s1))"

definition consumeLine :: "nat \<Rightarrow> nat \<times> nat \<Rightarrow> db \<Rightarrow> db" where
  "consumeLine cartId = (\<lambda>(cartItemId, quantity) s.
     case tfind (\<lambda>i. ci_id i = cartItemId \<and> ci_cartId i = cartId) (cartItems s) of
       None \<Rightarrow> s
     | Some item \<Rightarrow>
         if ci_quantity item \<le> quantity
         then s\<lparr>cartItems := tdelete (\<lambda>i. ci_id i = ci_id item) (cartItems s)\<rparr>
         else s\<lparr>cartItems := tupdate (\<lambda>i. ci_id i = ci_id item)
                (\<lambda>i. i\<lparr>ci_quantity := ci_quantity i - quantity\<rparr>) (cartItems s)\<rparr>)"

definition spendVoucher :: "nat \<Rightarrow> nat \<Rightarrow> db \<Rightarrow> db" where
  "spendVoucher userId cartId s = (case tfind (\<lambda>a. cv_cartId a = cartId) (cartVouchers s) of
     None \<Rightarrow> s
   | Some a \<Rightarrow> s\<lparr>
       userVouchers := tupdate (\<lambda>v. uv_userId v = userId \<and> uv_voucherId v = cv_voucherId a \<and> uv_status v = ''CLAIMED'')
         (\<lambda>v. v\<lparr>uv_status := ''REDEEMED''\<rparr>) (userVouchers s),
       cartVouchers := tdelete (\<lambda>x. cv_cartId x = cartId) (cartVouchers s)\<rparr>)"

definition spendCoupon :: "nat \<Rightarrow> db \<Rightarrow> db result" where
  "spendCoupon cartId s = (case tfind (\<lambda>a. cc_cartId a = cartId) (cartCoupons s) of
     None \<Rightarrow> Inr s
   | Some a \<Rightarrow>
       ebind (orThrow (tfind (\<lambda>c. cp_id c = cc_couponId a) (coupons s)) RecordNotFound) (\<lambda>_.
       Inr (s\<lparr>coupons := tupdate (\<lambda>c. cp_id c = cc_couponId a) (\<lambda>c. c\<lparr>cp_usedCount := cp_usedCount c + 1\<rparr>) (coupons s),
              cartCoupons := tdelete (\<lambda>x. cc_cartId x = cartId) (cartCoupons s)\<rparr>)))"

definition emptyCart :: "nat \<Rightarrow> (nat \<times> nat) list \<Rightarrow> db \<Rightarrow> db result" where
  "emptyCart userId snapshot s = (case tfind (\<lambda>c. c_userId c = userId) (carts s) of
     None \<Rightarrow> Inr s
   | Some cart \<Rightarrow>
       ebind (recalculate (c_id cart) False (fold (consumeLine (c_id cart)) snapshot s)) (\<lambda>(_, s1).
       spendCoupon (c_id cart) (spendVoucher userId (c_id cart) s1)))"

definition completeGroup :: "(string \<Rightarrow> decimal option) \<Rightarrow> time \<Rightarrow> nat \<Rightarrow> db \<Rightarrow> db result" where
  "completeGroup cfg now gid s =
     ebind (orThrow (tfind (\<lambda>g. g_id g = gid) (groups s)) RecordNotFound) (\<lambda>g.
     ebind (groupOrders gid s) (\<lambda>ords.
     if g_status g = P_PAID \<and> g_activeCartId g = None then Inr s
     else require (g_status g \<noteq> P_FAILED) (Conflict ''Cannot pay a released checkout.'') (
     ebind (eiter (confirmOrder cfg now (g_userId g)) ords s) (\<lambda>s1.
     ebind (emptyCart (g_userId g) (g_cartSnapshot g) s1) (\<lambda>s2.
     Inr (s2\<lparr>groups := tupdate (\<lambda>g. g_id g = gid) (\<lambda>g. g\<lparr>g_status := P_PAID, g_activeCartId := None\<rparr>)
       (groups s2)\<rparr>))))))"

section \<open>Releasing a group\<close>

definition order_lines :: "nat \<Rightarrow> db \<Rightarrow> order_item list" where
  "order_lines orderId s = tfilter (\<lambda>i. oi_orderId i = orderId) (orderItems s)"

definition restockItem :: "order_item \<Rightarrow> db \<Rightarrow> db result" where
  "restockItem item s =
     require (tfind (\<lambda>p. sp_id p = oi_storeProductId item) (storeProducts s) \<noteq> None) RecordNotFound
     (Inr (s\<lparr>storeProducts := tupdate (\<lambda>p. sp_id p = oi_storeProductId item)
        (\<lambda>p. p\<lparr>sp_stockQuantity := sp_stockQuantity p + int (oi_quantity item)\<rparr>) (storeProducts s)\<rparr>))"

text \<open>The writes that take an order out of fulfilment, shared with the cancellation of paid orders.\<close>

definition cancelFulfilment :: "nat \<Rightarrow> db \<Rightarrow> db" where
  "cancelFulfilment orderId s = s\<lparr>
     deliveries := tupdate (\<lambda>d. d_orderId d = orderId) (\<lambda>d. d\<lparr>d_status := D_CANCELLED\<rparr>) (deliveries s),
     pickups := tupdate (\<lambda>p. pk_orderId p = orderId) (\<lambda>p. p\<lparr>pk_status := ''cancelled''\<rparr>) (pickups s),
     qrCredentials := tupdate (\<lambda>q. qc_orderId q = orderId \<and> qc_status q = ''ACTIVE'')
       (\<lambda>q. q\<lparr>qc_status := ''REVOKED''\<rparr>) (qrCredentials s)\<rparr>"

definition releaseOrder :: "time \<Rightarrow> order \<times> order_item list \<Rightarrow> db \<Rightarrow> db result" where
  "releaseOrder now = (\<lambda>(ord, items) s.
     require (o_currentStatus ord = ORDER_RECEIVED) (Conflict ''Order cannot be released automatically.'') (
     ebind (eiter restockItem items s) (\<lambda>s1.
     Inr (pushHistory (o_id ord) ORDER_RECEIVED CANCELLED None
       (Some ''Payment failed or unpaid checkout cancelled.'')
       (cancelFulfilment (o_id ord) (setOrderStatus now (o_id ord) CANCELLED s1))))))"

definition failGroup :: "time \<Rightarrow> nat \<Rightarrow> db \<Rightarrow> db result" where
  "failGroup now gid s =
     ebind (orThrow (tfind (\<lambda>g. g_id g = gid) (groups s)) RecordNotFound) (\<lambda>g.
     ebind (groupOrders gid s) (\<lambda>ords.
     if g_status g = P_FAILED then Inr s
     else require (g_status g \<noteq> P_PAID) (Conflict ''Paid checkouts require the refund workflow.'') (
     ebind (eiter (releaseOrder now) (map (\<lambda>x. (x, order_lines (o_id x) s)) ords) s) (\<lambda>s1.
     Inr (s1\<lparr>groups := tupdate (\<lambda>g. g_id g = gid) (\<lambda>g. g\<lparr>g_status := P_FAILED, g_activeCartId := None\<rparr>)
       (groups s1)\<rparr>)))))"

section \<open>Payment rows\<close>

text \<open>\<open>payment.create\<close>; the transaction reference is a unique column.\<close>

definition createPayment :: "decimal \<Rightarrow> string \<Rightarrow> payment_status \<Rightarrow> payment_method \<Rightarrow> payment_provider \<Rightarrow>
    string \<Rightarrow> string option \<Rightarrow> string option \<Rightarrow> pay_meta \<Rightarrow> time \<Rightarrow> payment tx" where
  "createPayment amount currency st method provider ref providerRef url meta now s =
     (let mk = (\<lambda>i. \<lparr>pay_id = i, pay_amount = amount, pay_currency = currency, pay_status = st,
            pay_paymentMethod = method, pay_provider = provider, pay_transactionRef = Some ref,
            pay_providerRef = providerRef, pay_paymentUrl = url, pay_metadata = meta,
            pay_failureReason = None, pay_createdAt = now\<rparr>)
      in require (tfind (\<lambda>p. pay_transactionRef p = Some ref) (payments s) = None) UniqueViolation
           (Inr (mk (next_id (payments s)), s\<lparr>payments := tinsert mk (payments s)\<rparr>)))"

definition updatePayment :: "nat \<Rightarrow> (payment \<Rightarrow> payment) \<Rightarrow> db \<Rightarrow> db" where
  "updatePayment i f s = s\<lparr>payments := tupdate (\<lambda>p. pay_id p = i) f (payments s)\<rparr>"

section \<open>Stock\<close>

definition stock :: "nat \<Rightarrow> db \<Rightarrow> int" where
  "stock k s = (case tfind (\<lambda>p. sp_id p = k) (storeProducts s) of None \<Rightarrow> 0 | Some p \<Rightarrow> sp_stockQuantity p)"

definition line_quantity :: "nat \<Rightarrow> order_item list \<Rightarrow> int" where
  "line_quantity k items = (\<Sum>i\<leftarrow>items. if oi_storeProductId i = k then int (oi_quantity i) else 0)"

lemma stock_cong: "storeProducts s' = storeProducts s \<Longrightarrow> stock k s' = stock k s"
  by (simp add: stock_def)

lemma stock_update:
  assumes "tfind (\<lambda>p. sp_id p = j) (storeProducts s) \<noteq> None"
  shows "stock k (s\<lparr>storeProducts := tupdate (\<lambda>p. sp_id p = j)
      (\<lambda>p. p\<lparr>sp_stockQuantity := sp_stockQuantity p + q\<rparr>) (storeProducts s)\<rparr>) = stock k s + (if k = j then q else 0)"
proof (cases "k = j")
  case True
  then show ?thesis using assms
    by (auto simp: stock_def tfind_tupdate split: option.splits dest: tfind_SomeD)
next
  case False
  then have "tfind (\<lambda>p. sp_id p = k) (tupdate (\<lambda>p. sp_id p = j)
      (\<lambda>p. p\<lparr>sp_stockQuantity := sp_stockQuantity p + q\<rparr>) (storeProducts s)) = tfind (\<lambda>p. sp_id p = k) (storeProducts s)"
    by (intro tfind_tupdate_other) auto
  then show ?thesis using False by (simp add: stock_def)
qed

lemma restockItem_stock:
  "restockItem item s = Inr s' \<Longrightarrow>
     stock k s' = stock k s + (if oi_storeProductId item = k then int (oi_quantity item) else 0)"
  by (auto simp: restockItem_def tx_simps stock_update)

lemma restock_all:
  assumes "eiter restockItem items s = Inr s'"
  shows "stock k s' = stock k s + line_quantity k items"
  unfolding line_quantity_def
  by (rule eiter_accumulates [OF assms]) (rule restockItem_stock)

lemma restock_frame:
  assumes "eiter restockItem items s = Inr s'"
  obtains sps where "s' = s\<lparr>storeProducts := sps\<rparr>"
proof -
  have "\<exists>sps. s' = s\<lparr>storeProducts := sps\<rparr>"
  proof (rule eiter_invariant [OF assms])
    show "\<exists>sps. s = s\<lparr>storeProducts := sps\<rparr>" by (rule exI [of _ "storeProducts s"]) simp
  qed (auto simp: restockItem_def tx_simps)
  then show thesis using that by blast
qed

lemma releaseOrder_effect:
  assumes "releaseOrder now (ord, items) s = Inr s'"
  shows "stock k s' = stock k s + line_quantity k items"
    and "status_of j s' = (if j = o_id ord then map_option (\<lambda>_. CANCELLED) (status_of j s) else status_of j s)"
    and "groups s' = groups s" and "allocations s' = allocations s" and "orderItems s' = orderItems s"
    and "map o_id (rows (orders s')) = map o_id (rows (orders s))"
    and "wallets s' = wallets s" and "walletTxs s' = walletTxs s" and "storeWallets s' = storeWallets s"
    and "storeWalletTxs s' = storeWalletTxs s"
proof -
  obtain s1 where r: "eiter restockItem items s = Inr s1"
    and s': "s' = pushHistory (o_id ord) ORDER_RECEIVED CANCELLED None
       (Some ''Payment failed or unpaid checkout cancelled.'')
       (cancelFulfilment (o_id ord) (setOrderStatus now (o_id ord) CANCELLED s1))"
    using assms by (auto simp: releaseOrder_def tx_simps)
  obtain sps where s1: "s1 = s\<lparr>storeProducts := sps\<rparr>" by (rule restock_frame [OF r])
  note defs = s' pushHistory_def cancelFulfilment_def setOrderStatus_def
  show "stock k s' = stock k s + line_quantity k items"
    using restock_all [OF r, of k] by (simp add: defs stock_def)
  have "status_of j (cancelFulfilment (o_id ord) t) = status_of j t" for t
    by (simp add: status_of_def cancelFulfilment_def)
  moreover have "status_of j s1 = status_of j s" by (simp add: status_of_def s1)
  ultimately show "status_of j s' = (if j = o_id ord then map_option (\<lambda>_. CANCELLED) (status_of j s) else status_of j s)"
    by (auto simp: s' status_of_setOrderStatus)
  show "map o_id (rows (orders s')) = map o_id (rows (orders s))"
    by (simp add: defs s1 del: rows_table) (intro tupdate_column, simp)
  show "groups s' = groups s" "allocations s' = allocations s" "orderItems s' = orderItems s"
    "wallets s' = wallets s" "walletTxs s' = walletTxs s" "storeWallets s' = storeWallets s"
    "storeWalletTxs s' = storeWalletTxs s" by (simp_all add: defs s1)
qed

lemma release_all:
  assumes "eiter (releaseOrder now) xs s = Inr s'"
  shows "stock k s' = stock k s + (\<Sum>x\<leftarrow>xs. line_quantity k (snd x)) \<and>
    status_of j s' = (if j \<in> o_id ` fst ` set xs then map_option (\<lambda>_. CANCELLED) (status_of j s) else status_of j s) \<and>
    groups s' = groups s \<and> allocations s' = allocations s \<and>
    map o_id (rows (orders s')) = map o_id (rows (orders s)) \<and> wallets s' = wallets s \<and>
    walletTxs s' = walletTxs s \<and> storeWallets s' = storeWallets s \<and> storeWalletTxs s' = storeWalletTxs s \<and>
    (\<forall>x \<in> set xs. o_currentStatus (fst x) = ORDER_RECEIVED)"
  using assms
proof (induction xs arbitrary: s)
  case (Cons x xs)
  obtain ord items where x: "x = (ord, items)" by (cases x)
  from Cons.prems obtain t where t: "releaseOrder now (ord, items) s = Inr t" "eiter (releaseOrder now) xs t = Inr s'"
    by (auto simp: x ebind_Inr_iff)
  have "o_currentStatus ord = ORDER_RECEIVED" using t(1) by (simp add: releaseOrder_def tx_simps)
  then show ?case using Cons.IH [OF t(2)] releaseOrder_effect [OF t(1)]
    by (auto simp: x option.map_comp o_def)
qed simp

lemma groupOrders_present:
  assumes "groupOrders gid s = Inr ords" and "allocations s' = allocations s"
    and "set (map o_id (rows (orders s))) = set (map o_id (rows (orders s')))"
  obtains ords' where "groupOrders gid s' = Inr ords'"
proof -
  have "\<exists>ys. list_all2 (\<lambda>al y. tfind (\<lambda>x. o_id x = al_orderId al) (orders s') = Some y) xs ys"
    if "list_all2 (\<lambda>al y. tfind (\<lambda>x. o_id x = al_orderId al) (orders s) = Some y) xs zs" for xs zs
    using that
  proof (induction rule: list_all2_induct)
    case (Cons al xs y zs)
    have "al_orderId al \<in> set (map o_id (rows (orders s)))" using Cons(1) by (force dest!: tfind_SomeD)
    then have "tfind (\<lambda>x. o_id x = al_orderId al) (orders s') \<noteq> None"
      using assms(3) by (auto simp: tfind_None_iff)
    then show ?case using Cons(3) by (auto intro: list_all2_Cons [THEN iffD2])
  qed simp
  then show thesis using assms(1,2) that by (auto simp: groupOrders_def emap_Inr_list_all2 orThrow_Inr_iff)
qed

lemma groupOrders_found:
  assumes "groupOrders gid s = Inr ords" and "ord \<in> set ords"
  shows "tfind (\<lambda>x. o_id x = o_id ord) (orders s) = Some ord"
proof -
  have "\<forall>x \<in> set ords. tfind (\<lambda>y. o_id y = o_id x) (orders s) = Some x"
    using assms(1) unfolding groupOrders_def
    by (rule emap_all) (simp add: orThrow_Inr_iff tfind_key)
  then show ?thesis using assms(2) by blast
qed

lemma failGroup_steps:
  assumes "failGroup now gid s = Inr s'" and "tfind (\<lambda>g. g_id g = gid) (groups s) = Some g"
    and "g_status g \<noteq> P_FAILED" and "groupOrders gid s = Inr ords"
  obtains s1 where "eiter (releaseOrder now) (map (\<lambda>x. (x, order_lines (o_id x) s)) ords) s = Inr s1"
    "s' = s1\<lparr>groups := tupdate (\<lambda>g. g_id g = gid) (\<lambda>g. g\<lparr>g_status := P_FAILED, g_activeCartId := None\<rparr>) (groups s1)\<rparr>"
  using assms by (auto simp: failGroup_def tx_simps)

lemma failGroup_stock:
  assumes "failGroup now gid s = Inr s'" and "tfind (\<lambda>g. g_id g = gid) (groups s) = Some g"
    and "g_status g \<noteq> P_FAILED" and "groupOrders gid s = Inr ords"
  shows "stock k s' = stock k s + (\<Sum>ord\<leftarrow>ords. line_quantity k (order_lines (o_id ord) s))"
proof -
  obtain s1 where "eiter (releaseOrder now) (map (\<lambda>x. (x, order_lines (o_id x) s)) ords) s = Inr s1"
    and s': "s' = s1\<lparr>groups := tupdate (\<lambda>g. g_id g = gid) (\<lambda>g. g\<lparr>g_status := P_FAILED, g_activeCartId := None\<rparr>) (groups s1)\<rparr>"
    by (rule failGroup_steps [OF assms])
  from release_all [OF this(1), of k] show ?thesis by (simp add: s' stock_def o_def)
qed

text \<open>
  (C9) Releasing an unpaid checkout returns to every store product exactly the quantities its
  orders had reserved, cancels each of its orders (all of them still unpaid), touches no
  wallet, and releasing it again changes nothing.
\<close>

theorem failGroup_releases:
  assumes "failGroup now gid s = Inr s'" and "tfind (\<lambda>g. g_id g = gid) (groups s) = Some g"
    and "g_status g \<noteq> P_FAILED" and "groupOrders gid s = Inr ords"
  shows "stock k s' = stock k s + (\<Sum>ord\<leftarrow>ords. line_quantity k (order_lines (o_id ord) s)) \<and>
    (\<forall>ord \<in> set ords. o_currentStatus ord = ORDER_RECEIVED \<and> status_of (o_id ord) s' = Some CANCELLED) \<and>
    wallets s' = wallets s \<and> storeWallets s' = storeWallets s \<and> failGroup now gid s' = Inr s'"
proof -
  obtain s1 where r: "eiter (releaseOrder now) (map (\<lambda>x. (x, order_lines (o_id x) s)) ords) s = Inr s1"
    and s': "s' = s1\<lparr>groups := tupdate (\<lambda>g. g_id g = gid) (\<lambda>g. g\<lparr>g_status := P_FAILED, g_activeCartId := None\<rparr>) (groups s1)\<rparr>"
    by (rule failGroup_steps [OF assms])
  note a = release_all [OF r]
  have "stock k s' = stock k s + (\<Sum>ord\<leftarrow>ords. line_quantity k (order_lines (o_id ord) s))"
    by (rule failGroup_stock [OF assms])
  moreover have "o_currentStatus ord = ORDER_RECEIVED \<and> status_of (o_id ord) s' = Some CANCELLED"
    if "ord \<in> set ords" for ord
  proof -
    have "status_of (o_id ord) s = Some (o_currentStatus ord)"
      using groupOrders_found [OF assms(4) that] by (simp add: status_of_def)
    then have "status_of (o_id ord) s1 = Some CANCELLED" using a [of k "o_id ord"] that by force
    moreover have "status_of (o_id ord) s' = status_of (o_id ord) s1" by (simp add: s' status_of_def)
    ultimately show ?thesis using a [of k "o_id ord"] that by auto
  qed
  moreover have "failGroup now gid s' = Inr s'"
  proof -
    have "tfind (\<lambda>g. g_id g = gid) (groups s') = Some (g\<lparr>g_status := P_FAILED, g_activeCartId := None\<rparr>)"
      using assms(2) a [of k] by (auto simp: s' tfind_tupdate dest: tfind_SomeD)
    moreover have "allocations s' = allocations s" "set (map o_id (rows (orders s))) = set (map o_id (rows (orders s')))"
      using a [of k] by (simp_all add: s' flip: set_map)
    from groupOrders_present [OF assms(4) this] obtain ords' where "groupOrders gid s' = Inr ords'" .
    ultimately show ?thesis by (simp add: failGroup_def)
  qed
  ultimately show ?thesis using a [of k] by (simp add: s')
qed

section \<open>What completing a group does\<close>

definition order_settled :: "order \<Rightarrow> db \<Rightarrow> bool" where
  "order_settled ord s \<longleftrightarrow>
     tfind (\<lambda>t. swt_reference t = Some (settlement_ref ord)) (storeWalletTxs s) \<noteq> None"

definition confirmation_queued :: "nat \<Rightarrow> db \<Rightarrow> bool" where
  "confirmation_queued orderId s \<longleftrightarrow> tfind (\<lambda>j. ob_orderId j = orderId) (confirmations s) \<noteq> None"

lemma confirmation_queued_upsert:
  "confirmation_queued k (upsertConfirmation now oid u s) \<longleftrightarrow> k = oid \<or> confirmation_queued k s"
  by (auto simp: confirmation_queued_def upsertConfirmation_def tfind_tinsert split: option.splits)

lemma settleOrder_keeps_settled:
  assumes "settleOrder cfg oid s = Inr s'" and "order_settled ord s"
  shows "order_settled ord s'"
  using assms(1)
proof (cases rule: settleOrder_cases)
  case (settle x vr sr fr v c f w s1 s2)
  have "storeWalletTxs s1 = storeWalletTxs s"
    using settle(8) by (auto simp: upsertStoreWallet_def Let_def split: option.splits)
  then show ?thesis using settle(9) assms(2) settle_tail_frame(3) [OF settle(10)]
    by (auto simp: order_settled_def createStoreWalletTx_def tx_simps incrementStoreWallet_def tfind_tinsert)
qed (use assms(2) in simp)

lemma confirmOrder_effect:
  assumes "confirmOrder cfg now u ord s = Inr s'"
    and "tfind (\<lambda>x. o_id x = o_id ord) (orders s) = Some cur" and "o_orderNumber cur = o_orderNumber ord"
  shows "o_currentStatus ord \<noteq> CANCELLED"
    and "status_of j s' = (if j = o_id ord \<and> o_currentStatus ord = ORDER_RECEIVED
           then map_option (\<lambda>_. CONFIRMED) (status_of j s) else status_of j s)"
    and "order_settled x s \<Longrightarrow> order_settled x s'"
    and "o_currentStatus ord = ORDER_RECEIVED \<Longrightarrow> order_settled ord s'"
    and "confirmation_queued k s' \<longleftrightarrow> k = o_id ord \<or> confirmation_queued k s"
    and "wallet_ok s \<Longrightarrow> wallet_ok s'" and "store_wallet_ok s \<Longrightarrow> store_wallet_ok s'"
    and "storeProducts s' = storeProducts s" and "groups s' = groups s" and "allocations s' = allocations s"
    and "carts s' = carts s" and "cartItems s' = cartItems s"
    and "map (\<lambda>x. (o_id x, o_orderNumber x)) (rows (orders s')) = map (\<lambda>x. (o_id x, o_orderNumber x)) (rows (orders s))"
proof -
  define t where "t = pushHistory (o_id ord) ORDER_RECEIVED CONFIRMED None
                 (Some ''Payment or approved financing confirmed.'') (setOrderStatus now (o_id ord) CONFIRMED s)"
  obtain s1 where s': "s' = upsertConfirmation now (o_id ord) u s1" and c: "o_currentStatus ord \<noteq> CANCELLED"
    and s1: "if o_currentStatus ord = ORDER_RECEIVED then settleOrder cfg (o_id ord) t = Inr s1 else s1 = s"
    using assms(1) by (auto simp: confirmOrder_def ebind_Inr_iff t_def split: if_splits)
  note td = t_def pushHistory_def setOrderStatus_def
  show "o_currentStatus ord \<noteq> CANCELLED" by (rule c)
  have frame: "settlement_frame (if o_currentStatus ord = ORDER_RECEIVED then t else s) s1"
    using s1 settleOrder_frame by (auto split: if_splits)
  note fr = settlement_frameD [OF frame]
  have up: "orders s' = orders s1" "storeProducts s' = storeProducts s1" "groups s' = groups s1"
    "allocations s' = allocations s1" "carts s' = carts s1" "cartItems s' = cartItems s1"
    "wallets s' = wallets s1" "walletTxs s' = walletTxs s1" "storeWallets s' = storeWallets s1"
    "storeWalletTxs s' = storeWalletTxs s1"
    by (simp_all add: s' upsertConfirmation_def)
  show "storeProducts s' = storeProducts s" "groups s' = groups s" "allocations s' = allocations s"
    "carts s' = carts s" "cartItems s' = cartItems s"
    using fr up by (simp_all add: td split: if_splits)
  show "map (\<lambda>x. (o_id x, o_orderNumber x)) (rows (orders s')) = map (\<lambda>x. (o_id x, o_orderNumber x)) (rows (orders s))"
    unfolding up fr(1) by (simp add: td del: rows_table) (intro impI tupdate_column, simp)
  have "status_of j t = (if j = o_id ord then map_option (\<lambda>_. CONFIRMED) (status_of j s) else status_of j s)"
    by (simp add: t_def status_of_setOrderStatus)
  moreover have "status_of j s' = status_of j (if o_currentStatus ord = ORDER_RECEIVED then t else s)"
    by (simp add: status_of_def up fr(1))
  ultimately show "status_of j s' = (if j = o_id ord \<and> o_currentStatus ord = ORDER_RECEIVED
           then map_option (\<lambda>_. CONFIRMED) (status_of j s) else status_of j s)"
    by auto
  have sett: "order_settled x s' = order_settled x s1" for x by (simp add: order_settled_def up)
  have t_old: "order_settled x t = order_settled x s" for x by (simp add: order_settled_def td)
  show "order_settled x s \<Longrightarrow> order_settled x s'"
    using s1 settleOrder_keeps_settled [of cfg "o_id ord" t s1 x] by (auto simp: sett t_old split: if_splits)
  show "order_settled ord s'" if "o_currentStatus ord = ORDER_RECEIVED"
  proof -
    have "tfind (\<lambda>x. o_id x = o_id ord) (orders t) = Some (cur\<lparr>o_currentStatus := CONFIRMED, o_updatedAt := now\<rparr>)"
      using assms(2) by (auto simp: td tfind_tupdate dest: tfind_SomeD)
    from settleOrder_split_ref [of cfg "o_id ord" t s1, OF _ this] s1 that
    have "order_settled ord s1" using assms(3) by (auto simp: order_settled_def settlement_ref_def)
    then show ?thesis by (simp add: sett)
  qed
  show "confirmation_queued k s' \<longleftrightarrow> k = o_id ord \<or> confirmation_queued k s"
  proof -
    have "confirmation_queued k s1 = confirmation_queued k s"
      unfolding confirmation_queued_def fr(9) by (simp add: td)
    then show ?thesis by (simp add: s' confirmation_queued_upsert)
  qed
  have "wallet_ok t = wallet_ok s" "store_wallet_ok t = store_wallet_ok s"
    by (simp_all add: td wallet_ok_def store_wallet_ok_def)
  then have "wallet_ok s \<Longrightarrow> wallet_ok s1" "store_wallet_ok s \<Longrightarrow> store_wallet_ok s1"
    using s1 settleOrder_wallets_ok [of cfg "o_id ord" t s1] by (auto split: if_splits)
  then show "wallet_ok s \<Longrightarrow> wallet_ok s'" "store_wallet_ok s \<Longrightarrow> store_wallet_ok s'"
    using wallet_ok_cong [OF up(7,8)] store_wallet_ok_cong [OF up(9,10)] by simp_all
qed

lemma orders_cols_found:
  assumes "map (\<lambda>x. (o_id x, o_orderNumber x)) (rows (orders t)) = map (\<lambda>x. (o_id x, o_orderNumber x)) (rows (orders s))"
    and "tfind (\<lambda>x. o_id x = k) (orders s) = Some ord"
  obtains cur where "tfind (\<lambda>x. o_id x = k) (orders t) = Some cur" "o_orderNumber cur = o_orderNumber ord"
proof -
  have "\<exists>c. List.find (\<lambda>x. o_id x = k) ys = Some c \<and> o_orderNumber c = o_orderNumber ord"
    if "map (\<lambda>x. (o_id x, o_orderNumber x)) ys = map (\<lambda>x. (o_id x, o_orderNumber x)) xs"
      "List.find (\<lambda>x. o_id x = k) xs = Some ord" for xs ys :: "order list"
    using that by (induction xs arbitrary: ys) (auto split: if_splits)
  then show thesis using assms that unfolding tfind_def by blast
qed

lemma confirm_all:
  assumes "eiter (confirmOrder cfg now u) ords s = Inr s'"
    and "\<forall>ord \<in> set ords. \<exists>cur. tfind (\<lambda>x. o_id x = o_id ord) (orders s) = Some cur \<and>
      o_orderNumber cur = o_orderNumber ord"
  shows "(\<forall>ord \<in> set ords. o_currentStatus ord \<noteq> CANCELLED) \<and>
    status_of j s' = (if \<exists>ord \<in> set ords. j = o_id ord \<and> o_currentStatus ord = ORDER_RECEIVED
           then map_option (\<lambda>_. CONFIRMED) (status_of j s) else status_of j s) \<and>
    (order_settled x s \<longrightarrow> order_settled x s') \<and>
    (\<forall>ord \<in> set ords. o_currentStatus ord = ORDER_RECEIVED \<longrightarrow> order_settled ord s') \<and>
    (confirmation_queued k s' \<longleftrightarrow> k \<in> o_id ` set ords \<or> confirmation_queued k s) \<and>
    (wallet_ok s \<longrightarrow> wallet_ok s') \<and> (store_wallet_ok s \<longrightarrow> store_wallet_ok s') \<and>
    storeProducts s' = storeProducts s \<and> groups s' = groups s \<and> allocations s' = allocations s \<and>
    carts s' = carts s \<and> cartItems s' = cartItems s \<and>
    map (\<lambda>x. (o_id x, o_orderNumber x)) (rows (orders s')) = map (\<lambda>x. (o_id x, o_orderNumber x)) (rows (orders s))"
  using assms
proof (induction ords arbitrary: s x)
  case (Cons ord ords)
  from Cons.prems obtain t where t: "confirmOrder cfg now u ord s = Inr t" "eiter (confirmOrder cfg now u) ords t = Inr s'"
    by (auto simp: ebind_Inr_iff)
  obtain cur where cur: "tfind (\<lambda>x. o_id x = o_id ord) (orders s) = Some cur" "o_orderNumber cur = o_orderNumber ord"
    using Cons.prems(2) by auto
  note e = confirmOrder_effect [OF t(1) cur]
  have "\<forall>ord \<in> set ords. \<exists>cur. tfind (\<lambda>x. o_id x = o_id ord) (orders t) = Some cur \<and>
      o_orderNumber cur = o_orderNumber ord"
  proof
    fix o' assume "o' \<in> set ords"
    then obtain c where "tfind (\<lambda>x. o_id x = o_id o') (orders s) = Some c" "o_orderNumber c = o_orderNumber o'"
      using Cons.prems(2) by auto
    from orders_cols_found [OF e(13) this(1)] this(2)
    show "\<exists>cur. tfind (\<lambda>x. o_id x = o_id o') (orders t) = Some cur \<and> o_orderNumber cur = o_orderNumber o'" by metis
  qed
  note IH = Cons.IH [OF t(2) this]
  have "status_of j s' = (if \<exists>ord \<in> set (ord # ords). j = o_id ord \<and> o_currentStatus ord = ORDER_RECEIVED
           then map_option (\<lambda>_. CONFIRMED) (status_of j s) else status_of j s)"
    using IH e(2) [of j] by (auto simp: option.map_comp o_def)
  moreover have "\<forall>o' \<in> set (ord # ords). o_currentStatus o' = ORDER_RECEIVED \<longrightarrow> order_settled o' s'"
    using IH [of ord] IH e(4) by auto
  ultimately show ?case using IH [of x] e by (simp add: disj_ac)
qed simp

lemma consumeLine_frame: "\<exists>cis. consumeLine cid l s = s\<lparr>cartItems := cis\<rparr>"
proof -
  have "\<exists>cis. s = s\<lparr>cartItems := cis\<rparr>" by (rule exI [of _ "cartItems s"]) simp
  then show ?thesis by (cases l) (auto simp: consumeLine_def split: option.split)
qed

lemma consume_all_frame: "\<exists>cis. fold (consumeLine cid) ls s = s\<lparr>cartItems := cis\<rparr>"
proof (induction ls arbitrary: s)
  case Nil
  then show ?case by (auto intro: exI [of _ "cartItems s"])
next
  case (Cons l ls)
  obtain cis where "consumeLine cid l s = s\<lparr>cartItems := cis\<rparr>" using consumeLine_frame by blast
  then show ?case using Cons [of "s\<lparr>cartItems := cis\<rparr>"] by auto
qed

lemma consumeLine_but:
  assumes "cart_inv_but cid s"
  shows "cart_inv_but cid (consumeLine cid l s)"
proof (cases "tfind (\<lambda>i. ci_id i = fst l \<and> ci_cartId i = cid) (cartItems s)")
  case None
  then show ?thesis using assms by (cases l) (simp add: consumeLine_def)
next
  case (Some item)
  then have item: "item \<in> set (rows (cartItems s))" "ci_cartId item = cid" by (auto dest: tfind_SomeD)
  have own: "i = item" if "i \<in> set (rows (cartItems s))" "ci_id i = ci_id item" for i
    using that item assms by (auto simp: cart_inv_but_def cart_rows_ok_def tkeyed_def distinct_map dest: inj_onD)
  have "tdelete (\<lambda>i. ci_id i = ci_id item) (cartItems s) =
      tdelete (\<lambda>i. ci_id i = ci_id item \<and> ci_cartId i = cid) (cartItems s)"
    unfolding tdelete_def using own item by (metis (mono_tags, lifting) filter_cong)
  moreover have "cart_inv_but cid (s\<lparr>cartItems := tdelete (\<lambda>i. ci_id i = ci_id item \<and> ci_cartId i = cid) (cartItems s)\<rparr>)"
    using assms by (rule lines_delete_but) simp
  moreover have "cart_inv_but cid (s\<lparr>cartItems := tupdate (\<lambda>i. ci_id i = ci_id item)
      (\<lambda>i. i\<lparr>ci_quantity := ci_quantity i - snd l\<rparr>) (cartItems s)\<rparr>)" if "\<not> ci_quantity item \<le> snd l"
    using assms item that by (intro lines_update_but) (auto simp: line_key_def dest: own)
  ultimately show ?thesis using Some by (cases l) (auto simp: consumeLine_def)
qed

lemma consume_all_but: "cart_inv_but cid s \<Longrightarrow> cart_inv_but cid (fold (consumeLine cid) ls s)"
  by (induction ls arbitrary: s) (simp_all add: consumeLine_but)

definition cart_frame :: "db \<Rightarrow> db \<Rightarrow> bool" where
  "cart_frame s s' \<longleftrightarrow> (\<exists>a b c d e f. s' = s\<lparr>carts := a, cartItems := b, cartVouchers := c, cartCoupons := d,
     coupons := e, userVouchers := f\<rparr>)"

lemma emptyCart_frame:
  assumes "emptyCart u snap s = Inr s'"
  shows "cart_frame s s'"
proof (cases "tfind (\<lambda>c. c_userId c = u) (carts s)")
  case None
  then have "s' = s\<lparr>carts := carts s, cartItems := cartItems s, cartVouchers := cartVouchers s,
      cartCoupons := cartCoupons s, coupons := coupons s, userVouchers := userVouchers s\<rparr>"
    using assms by (simp add: emptyCart_def)
  then show ?thesis unfolding cart_frame_def by blast
next
  case (Some cart)
  obtain cis where c: "fold (consumeLine (c_id cart)) snap s = s\<lparr>cartItems := cis\<rparr>"
    using consume_all_frame by blast
  obtain v s1 where r: "recalculate (c_id cart) False (s\<lparr>cartItems := cis\<rparr>) = Inr (v, s1)"
    and p: "spendCoupon (c_id cart) (spendVoucher u (c_id cart) s1) = Inr s'"
    using assms Some c by (auto simp: emptyCart_def ebind_Inr_iff)
  obtain cs where s1: "s1 = s\<lparr>cartItems := cis, carts := cs\<rparr>"
    using r by (auto simp: recalculate_def Let_def tx_simps)
  obtain uv cv where s2: "spendVoucher u (c_id cart) s1 = s1\<lparr>userVouchers := uv, cartVouchers := cv\<rparr>"
  proof (cases "tfind (\<lambda>a. cv_cartId a = c_id cart) (cartVouchers s1)")
    case None
    then show thesis by (intro that [of "cartVouchers s1" "userVouchers s1"]) (simp add: spendVoucher_def)
  qed (auto simp: spendVoucher_def intro: that)
  obtain co cc where "s' = s1\<lparr>userVouchers := uv, cartVouchers := cv, coupons := co, cartCoupons := cc\<rparr>"
  proof (cases "tfind (\<lambda>a. cc_cartId a = c_id cart) (cartCoupons s1)")
    case None
    then show thesis using p
      by (intro that [of "cartCoupons s1" "coupons s1"]) (auto simp: s2 spendCoupon_def)
  qed (use p in \<open>auto simp: s2 spendCoupon_def tx_simps intro: that\<close>)
  then have "s' = s\<lparr>carts := cs, cartItems := cis, cartVouchers := cv, cartCoupons := cc, coupons := co, userVouchers := uv\<rparr>"
    by (simp add: s1)
  then show ?thesis unfolding cart_frame_def by blast
qed

lemma emptyCart_cart_inv:
  assumes "emptyCart u snap s = Inr s'" and "cart_inv s"
  shows "cart_inv s'"
proof (cases "tfind (\<lambda>c. c_userId c = u) (carts s)")
  case None
  then show ?thesis using assms by (simp add: emptyCart_def)
next
  case (Some cart)
  then have "cart \<in> set (rows (carts s))" by (auto dest: tfind_SomeD)
  then have "cart_inv_but (c_id cart) s"
    using assms(2) by (auto simp: cart_inv_def cart_inv_but_def cart_rows_ok_def tkeyed_def)
  note but = consume_all_but [OF this, of snap]
  obtain v s1 where r: "recalculate (c_id cart) False (fold (consumeLine (c_id cart)) snap s) = Inr (v, s1)"
    and p: "spendCoupon (c_id cart) (spendVoucher u (c_id cart) s1) = Inr s'"
    using assms Some by (auto simp: emptyCart_def ebind_Inr_iff)
  have same: "carts s' = carts s1" "cartItems s' = cartItems s1"
    using p by (auto simp: spendCoupon_def spendVoucher_def tx_simps split: option.splits)
  have "cart_inv s1" by (rule recalculate_inv [OF but r])
  then show ?thesis by (simp add: cart_inv_def cart_rows_ok_def totals_ok_def items_of_def same)
qed

lemma completeGroup_steps:
  assumes "completeGroup cfg now gid s = Inr s'" and "tfind (\<lambda>g. g_id g = gid) (groups s) = Some g"
    and "\<not> (g_status g = P_PAID \<and> g_activeCartId g = None)" and "groupOrders gid s = Inr ords"
  obtains s1 s2 where "g_status g \<noteq> P_FAILED" "eiter (confirmOrder cfg now (g_userId g)) ords s = Inr s1"
    "emptyCart (g_userId g) (g_cartSnapshot g) s1 = Inr s2"
    "s' = s2\<lparr>groups := tupdate (\<lambda>g. g_id g = gid) (\<lambda>g. g\<lparr>g_status := P_PAID, g_activeCartId := None\<rparr>) (groups s2)\<rparr>"
  using assms by (auto simp: completeGroup_def tx_simps)

text \<open>
  (C8) Completing a paid checkout confirms every order of the group that was waiting for
  payment and leaves the status of the others, settles each order it confirms, queues a
  confirmation for every order, moves no stock, and marks the group paid, so that completing it
  again, from the callback or the webhook, changes nothing.
\<close>

theorem completeGroup_confirms:
  assumes "completeGroup cfg now gid s = Inr s'" and "tfind (\<lambda>g. g_id g = gid) (groups s) = Some g"
    and "\<not> (g_status g = P_PAID \<and> g_activeCartId g = None)" and "groupOrders gid s = Inr ords"
  shows "(\<forall>ord \<in> set ords. o_currentStatus ord \<noteq> CANCELLED \<and> confirmation_queued (o_id ord) s' \<and>
      status_of (o_id ord) s' = Some (if o_currentStatus ord = ORDER_RECEIVED then CONFIRMED else o_currentStatus ord) \<and>
      (o_currentStatus ord = ORDER_RECEIVED \<longrightarrow> order_settled ord s')) \<and>
    storeProducts s' = storeProducts s \<and> completeGroup cfg now gid s' = Inr s'"
proof -
  obtain s1 s2 where c: "eiter (confirmOrder cfg now (g_userId g)) ords s = Inr s1"
    and m: "emptyCart (g_userId g) (g_cartSnapshot g) s1 = Inr s2"
    and s': "s' = s2\<lparr>groups := tupdate (\<lambda>g. g_id g = gid) (\<lambda>g. g\<lparr>g_status := P_PAID, g_activeCartId := None\<rparr>) (groups s2)\<rparr>"
    by (rule completeGroup_steps [OF assms])
  note found = groupOrders_found [OF assms(4)]
  have "\<forall>ord \<in> set ords. \<exists>cur. tfind (\<lambda>x. o_id x = o_id ord) (orders s) = Some cur \<and> o_orderNumber cur = o_orderNumber ord"
    using found by blast
  note ca = confirm_all [OF c this]
  from emptyCart_frame [OF m] have s2: "orders s2 = orders s1" "storeProducts s2 = storeProducts s1" "groups s2 = groups s1"
    "allocations s2 = allocations s1" "confirmations s2 = confirmations s1" "storeWalletTxs s2 = storeWalletTxs s1"
    by (auto simp: cart_frame_def)
  have "o_currentStatus ord \<noteq> CANCELLED \<and> confirmation_queued (o_id ord) s' \<and>
      status_of (o_id ord) s' = Some (if o_currentStatus ord = ORDER_RECEIVED then CONFIRMED else o_currentStatus ord) \<and>
      (o_currentStatus ord = ORDER_RECEIVED \<longrightarrow> order_settled ord s')" if ord: "ord \<in> set ords" for ord
  proof -
    have st: "status_of (o_id ord) s = Some (o_currentStatus ord)" using found [OF ord] by (simp add: status_of_def)
    have "(\<exists>o' \<in> set ords. o_id ord = o_id o' \<and> o_currentStatus o' = ORDER_RECEIVED) \<longleftrightarrow> o_currentStatus ord = ORDER_RECEIVED"
      using found ord by (metis option.inject)
    then have "status_of (o_id ord) s1 = Some (if o_currentStatus ord = ORDER_RECEIVED then CONFIRMED else o_currentStatus ord)"
      using ca [of "o_id ord"] st by simp
    moreover have "status_of (o_id ord) s' = status_of (o_id ord) s1" by (simp add: s' s2 status_of_def)
    moreover have "confirmation_queued (o_id ord) s' = confirmation_queued (o_id ord) s1"
      "order_settled ord s' = order_settled ord s1" by (simp_all add: s' s2 confirmation_queued_def order_settled_def)
    ultimately show ?thesis using ca [of "o_id ord" _ "o_id ord"] ord by simp
  qed
  moreover have "completeGroup cfg now gid s' = Inr s'"
  proof -
    have "tfind (\<lambda>g. g_id g = gid) (groups s') = Some (g\<lparr>g_status := P_PAID, g_activeCartId := None\<rparr>)"
      using assms(2) ca by (auto simp: s' s2 tfind_tupdate dest: tfind_SomeD)
    moreover have "allocations s' = allocations s" using ca by (simp add: s' s2)
    moreover have "set (map o_id (rows (orders s))) = set (map o_id (rows (orders s')))"
    proof -
      have "map fst (map (\<lambda>x. (o_id x, o_orderNumber x)) (rows (orders s1))) =
          map fst (map (\<lambda>x. (o_id x, o_orderNumber x)) (rows (orders s)))" using ca by simp
      then have "map o_id (rows (orders s1)) = map o_id (rows (orders s))" by (simp add: o_def)
      then have "set (map o_id (rows (orders s1))) = set (map o_id (rows (orders s)))" by (simp only:)
      then show ?thesis by (simp add: s' s2)
    qed
    moreover from groupOrders_present [OF assms(4) calculation(2,3)] obtain ords' where "groupOrders gid s' = Inr ords'" .
    ultimately show ?thesis by (simp add: completeGroup_def)
  qed
  ultimately show ?thesis using ca by (simp add: s' s2)
qed

lemma completeGroup_cases [consumes 1, case_names noop run]:
  assumes "completeGroup cfg now gid s = Inr s'"
  obtains (noop) "s' = s"
    | (run) g ords s1 s2 where "tfind (\<lambda>g. g_id g = gid) (groups s) = Some g" "groupOrders gid s = Inr ords"
      "g_status g \<noteq> P_FAILED" "eiter (confirmOrder cfg now (g_userId g)) ords s = Inr s1"
      "emptyCart (g_userId g) (g_cartSnapshot g) s1 = Inr s2"
      "s' = s2\<lparr>groups := tupdate (\<lambda>g. g_id g = gid) (\<lambda>g. g\<lparr>g_status := P_PAID, g_activeCartId := None\<rparr>) (groups s2)\<rparr>"
proof -
  obtain g ords where g: "tfind (\<lambda>g. g_id g = gid) (groups s) = Some g" "groupOrders gid s = Inr ords"
    using assms by (auto simp: completeGroup_def tx_simps)
  show thesis
  proof (cases "g_status g = P_PAID \<and> g_activeCartId g = None")
    case True
    then show thesis using assms g by (intro noop) (simp add: completeGroup_def)
  next
    case False
    show thesis by (rule completeGroup_steps [OF assms g(1) False g(2)]) (rule run [OF g])
  qed
qed

lemma completeGroup_invariants:
  assumes "completeGroup cfg now gid s = Inr s'"
  shows "wallet_ok s \<Longrightarrow> wallet_ok s'" and "store_wallet_ok s \<Longrightarrow> store_wallet_ok s'"
    and "cart_inv s \<Longrightarrow> cart_inv s'" and "storeProducts s' = storeProducts s"
proof -
  have "(wallet_ok s \<longrightarrow> wallet_ok s') \<and> (store_wallet_ok s \<longrightarrow> store_wallet_ok s') \<and> (cart_inv s \<longrightarrow> cart_inv s') \<and>
      storeProducts s' = storeProducts s"
    using assms
  proof (cases rule: completeGroup_cases)
    case (run g ords s1 s2)
    have "\<forall>ord \<in> set ords. \<exists>cur. tfind (\<lambda>x. o_id x = o_id ord) (orders s) = Some cur \<and> o_orderNumber cur = o_orderNumber ord"
      using groupOrders_found [OF run(2)] by blast
    note ca0 = confirm_all [OF run(4) this]
    from emptyCart_frame [OF run(5)] have same: "wallets s' = wallets s1" "walletTxs s' = walletTxs s1"
      "storeWallets s' = storeWallets s1" "storeWalletTxs s' = storeWalletTxs s1" "storeProducts s' = storeProducts s1"
      by (auto simp: cart_frame_def run(6))
    from ca0 have ca: "wallet_ok s \<longrightarrow> wallet_ok s1" "store_wallet_ok s \<longrightarrow> store_wallet_ok s1"
      "storeProducts s1 = storeProducts s" "carts s1 = carts s" "cartItems s1 = cartItems s" by blast+
    have "cart_inv s1 = cart_inv s" using ca(4,5)
      by (simp add: cart_inv_def cart_rows_ok_def totals_ok_def items_of_def)
    moreover have "cart_inv s' = cart_inv s2" by (simp add: run(6) cart_inv_def cart_rows_ok_def totals_ok_def items_of_def)
    ultimately show ?thesis
      using ca(1-3) emptyCart_cart_inv [OF run(5)] wallet_ok_cong [OF same(1,2)] store_wallet_ok_cong [OF same(3,4)] same(5)
      by simp
  qed simp
  then show "wallet_ok s \<Longrightarrow> wallet_ok s'" "store_wallet_ok s \<Longrightarrow> store_wallet_ok s'"
    "cart_inv s \<Longrightarrow> cart_inv s'" "storeProducts s' = storeProducts s" by simp_all
qed

lemma completeGroup_rows:
  assumes "completeGroup cfg now gid s = Inr s'"
  shows "allocations s' = allocations s"
    and "groups s' = groups s \<or>
      groups s' = tupdate (\<lambda>g. g_id g = gid) (\<lambda>g. g\<lparr>g_status := P_PAID, g_activeCartId := None\<rparr>) (groups s)"
proof -
  have "allocations s' = allocations s \<and> (groups s' = groups s \<or>
      groups s' = tupdate (\<lambda>g. g_id g = gid) (\<lambda>g. g\<lparr>g_status := P_PAID, g_activeCartId := None\<rparr>) (groups s))"
    using assms
  proof (cases rule: completeGroup_cases)
    case (run g ords s1 s2)
    have "\<forall>ord \<in> set ords. \<exists>cur. tfind (\<lambda>x. o_id x = o_id ord) (orders s) = Some cur \<and> o_orderNumber cur = o_orderNumber ord"
      using groupOrders_found [OF run(2)] by blast
    from confirm_all [OF run(4) this] have "groups s1 = groups s" "allocations s1 = allocations s" by blast+
    moreover from emptyCart_frame [OF run(5)] have "groups s2 = groups s1" "allocations s2 = allocations s1"
      by (auto simp: cart_frame_def)
    ultimately show ?thesis by (simp add: run(6))
  qed simp
  then show "allocations s' = allocations s" "groups s' = groups s \<or>
      groups s' = tupdate (\<lambda>g. g_id g = gid) (\<lambda>g. g\<lparr>g_status := P_PAID, g_activeCartId := None\<rparr>) (groups s)" by simp_all
qed

lemma confirmOrder_user_balance:
  assumes "confirmOrder cfg now u ord s = Inr s'"
  shows "user_balance v s' = user_balance v s"
proof -
  obtain s1 where s': "s' = upsertConfirmation now (o_id ord) u s1"
    and "s1 = s \<or> (\<exists>t. wallets t = wallets s \<and> settleOrder cfg (o_id ord) t = Inr s1)"
    using assms
    by (force simp: confirmOrder_def ebind_Inr_iff pushHistory_def setOrderStatus_def split: if_splits)
  then have "user_balance v s1 = user_balance v s"
    using settleOrder_user_balance by (metis user_balance_def)
  then show ?thesis by (simp add: s' upsertConfirmation_def user_balance_def)
qed

lemma completeGroup_user_balance:
  assumes "completeGroup cfg now gid s = Inr s'"
  shows "user_balance v s' = user_balance v s"
  using assms
proof (cases rule: completeGroup_cases)
  case (run g ords s1 s2)
  have "user_balance v s1 = user_balance v s"
    by (rule eiter_frame [OF run(4)]) (rule confirmOrder_user_balance)
  moreover have "wallets s' = wallets s1" using emptyCart_frame [OF run(5)] by (auto simp: cart_frame_def run(6))
  ultimately show ?thesis by (simp add: user_balance_def)
qed simp

end
