(* ===== verification/Funding.thy ===== *)
theory Funding
  imports Refunds Ledger PaymentGroups
begin

text \<open>
  How money gets into and out of the wallet of a customer (\<^verbatim>\<open>src/payments/payments.service.ts\<close>):
  starting a top-up by card or by bank transfer, the dedicated transfer account and its
  webhooks, crediting a confirmed top-up, withdrawal requests, and the repayment of
  instalments.  The environment of a request holds the provider's network, the clock, the
  random identifier of the request and the configuration.
\<close>

section \<open>The environment of a payment request\<close>

record pay_env =
  pe_fetch :: fetch
  pe_push :: "exn option"
  pe_now :: time
  pe_uuid :: string
  pe_cfg :: "string \<Rightarrow> decimal option"
  pe_outbox :: outbox_env
  pe_callback :: string
  pe_testMode :: bool
  pe_toISO :: "time \<Rightarrow> string"
  pe_parseDate :: "string \<Rightarrow> time"
  pe_digest :: "json \<Rightarrow> string"

definition user_row :: "nat \<Rightarrow> db \<Rightarrow> user result" where
  "user_row uid s = orThrow (tfind (\<lambda>u. u_id u = uid) (users s)) RecordNotFound"

definition notifyWalletFunded :: "exn option \<Rightarrow> nat \<Rightarrow> string \<Rightarrow> unit handler" where
  "notifyWalletFunded push uid reference =
     notifyUser push uid ''PAYMENT_RECEIVED'' ''Wallet funded'' (Some (''wallet-funded:'' @ reference))"

definition notifyPaymentFailure :: "exn option \<Rightarrow> nat \<Rightarrow> nat \<Rightarrow> unit handler" where
  "notifyPaymentFailure push uid paymentId =
     notifyUser push uid ''PAYMENT_FAILED'' ''Payment unsuccessful''
       (Some (''payment-failed:'' @ show_nat paymentId @ '':'' @ show_nat uid))"

section \<open>Starting a top-up\<close>

definition topup_meta :: "string \<Rightarrow> nat \<Rightarrow> pay_meta" where
  "topup_meta purpose uid = no_meta\<lparr>pm_purpose := Some purpose, pm_userId := Some uid\<rparr>"

definition topup_failed :: "pay_env \<Rightarrow> nat \<Rightarrow> nat \<Rightarrow> exn \<Rightarrow> 'a handler" where
  "topup_failed env uid pid e =
     hbind (hmodify (updatePayment pid (\<lambda>p. p\<lparr>pay_status := P_FAILED\<rparr>))) (\<lambda>_.
     hbind (notifyPaymentFailure (pe_push env) uid pid) (\<lambda>_. hthrow e))"

definition topupWallet :: "pay_env \<Rightarrow> nat \<Rightarrow> decimal \<Rightarrow> nat handler" where
  "topupWallet env uid amount s =
     (let reference = ''TOPUP-'' @ show_nat uid @ ''-'' @ pe_uuid env
      in hbind (\<lambda>s. (user_row uid s, s)) (\<lambda>user.
         hbind (transaction (createPayment amount ''NGN'' P_PENDING CARD PAYSTACK reference None None
           ((topup_meta ''WALLET_TOPUP'' uid)\<lparr>pm_initializingUntil := Some (pe_now env + 60000)\<rparr>) (pe_now env))) (\<lambda>payment.
         hcatch (hbind (hlift (ebind (px_initialize (pe_fetch env) (pe_callback env) reference (u_email user) amount [''card'']
             (JObj [(''purpose'', JStr ''WALLET_TOPUP''), (''userId'', JNum (int uid))])) fields_of)) (\<lambda>initialized.
           hbind (hmodify (updatePayment (pay_id payment) (\<lambda>p. p\<lparr>pay_providerRef := jstring (jget ''reference'' initialized),
             pay_paymentUrl := jstring (jget ''authorization_url'' initialized), pay_metadata := topup_meta ''WALLET_TOPUP'' uid\<rparr>))) (\<lambda>_.
           hreturn (pay_id payment))))
         (topup_failed env uid (pay_id payment)))) s)"

text \<open>The transfer instructions of a charge; only their expiry is read again later.\<close>

definition transferExpiry :: "pay_env \<Rightarrow> json \<Rightarrow> time option" where
  "transferExpiry env charge = map_option (pe_parseDate env) (jstring (jget ''account_expires_at'' charge))"

definition topupWalletByTransfer :: "pay_env \<Rightarrow> nat \<Rightarrow> decimal \<Rightarrow> nat handler" where
  "topupWalletByTransfer env uid amount s =
     (let reference = ''TOPUP-TRANSFER-'' @ show_nat uid @ ''-'' @ pe_uuid env
      in hbind (\<lambda>s. (user_row uid s, s)) (\<lambda>user.
         hbind (transaction (createPayment amount ''NGN'' P_PENDING BANK_TRANSFER PAYSTACK reference None None
           (topup_meta ''WALLET_TRANSFER_TOPUP'' uid) (pe_now env))) (\<lambda>payment.
         hcatch (hbind (hlift (ebind (createBankTransferCharge (pe_fetch env) reference (u_email user) amount
             (pe_toISO env (pe_now env + 30 * 60000))
             (JObj [(''purpose'', JStr ''WALLET_TRANSFER_TOPUP''), (''userId'', JNum (int uid)),
                    (''paymentId'', JNum (int (pay_id payment)))])) fields_of)) (\<lambda>charge.
           if jget ''reference'' charge \<noteq> Some (JStr reference) \<or> jget ''status'' charge \<noteq> Some (JStr ''pending_bank_transfer'')
           then hthrow (BadRequest ''Paystack did not return valid transfer instructions.'')
           else hbind (hmodify (updatePayment (pay_id payment) (\<lambda>p. p\<lparr>pay_providerRef := Some reference,
                  pay_metadata := (topup_meta ''WALLET_TRANSFER_TOPUP'' uid)\<lparr>pm_transferExpiresAt := transferExpiry env charge\<rparr>\<rparr>))) (\<lambda>_.
                hreturn (pay_id payment))))
         (topup_failed env uid (pay_id payment)))) s)"

section \<open>Crediting a top-up\<close>

definition topup_ref :: "nat \<Rightarrow> string" where
  "topup_ref paymentId = ''TOPUP-CREDIT-'' @ show_nat paymentId"

definition completeWalletTopup :: "nat \<Rightarrow> nat \<Rightarrow> decimal \<Rightarrow> db \<Rightarrow> db result" where
  "completeWalletTopup paymentId uid amount s =
     (case upsertCredit uid amount s of
        (k, s1) \<Rightarrow> createWalletTx k amount CREDIT (topup_ref paymentId) ''Wallet top-up via Paystack'' s1)"

section \<open>The dedicated transfer account\<close>

record account_view =
  av_status :: string
  av_bankName :: "string option"
  av_bankSlug :: "string option"
  av_accountName :: "string option"
  av_accountNumber :: "string option"
  av_currency :: string
  av_assignedAt :: "time option"
  av_failureReason :: "string option"

definition transferAccountResponse :: "funding_account \<Rightarrow> account_view" where
  "transferAccountResponse a = \<lparr>av_status = toLowerCase (fa_status a), av_bankName = fa_bankName a, av_bankSlug = fa_bankSlug a,
     av_accountName = fa_accountName a, av_accountNumber = fa_accountNumber a, av_currency = fa_currency a,
     av_assignedAt = fa_assignedAt a,
     av_failureReason = (if fa_status a = ''FAILED'' then fa_failureReason a else None)\<rparr>"

definition funding_of :: "nat \<Rightarrow> db \<Rightarrow> funding_account option" where
  "funding_of uid s = tfind (\<lambda>a. fa_userId a = uid) (fundingAccounts s)"

definition walletTransferAccount :: "nat \<Rightarrow> db \<Rightarrow> account_view result" where
  "walletTransferAccount uid s =
     ebind (orThrow (funding_of uid s) (NotFound ''Wallet transfer account has not been requested.''))
       (\<lambda>a. Inr (transferAccountResponse a))"

text \<open>The account fields of a payload; a field that is missing leaves the column as it is.\<close>

definition dedicatedAccountFields :: "json \<Rightarrow> funding_account \<Rightarrow> funding_account" where
  "dedicatedAccountFields d a =
     (let account = (case jobject (jget ''dedicated_account'' d) of Some v \<Rightarrow> v | None \<Rightarrow> d);
          bank = (case jobject (jget ''bank'' account) of Some v \<Rightarrow> v | None \<Rightarrow> JObj []);
          keep = (\<lambda>new old. case new of None \<Rightarrow> old | Some x \<Rightarrow> Some x)
      in a\<lparr>fa_bankName := keep (jstring (jget ''name'' bank)) (fa_bankName a),
           fa_bankSlug := keep (jstring (jget ''slug'' bank)) (fa_bankSlug a),
           fa_accountName := keep (jstring (jget ''account_name'' account)) (fa_accountName a),
           fa_accountNumber := keep (jstring (jget ''account_number'' account)) (fa_accountNumber a),
           fa_currency := (case jstring (jget ''currency'' account) of Some c \<Rightarrow> c | None \<Rightarrow> ''NGN'')\<rparr>)"

definition account_number_of :: "json \<Rightarrow> string option" where
  "account_number_of d = jstring (jget ''account_number''
     (case jobject (jget ''dedicated_account'' d) of Some v \<Rightarrow> v | None \<Rightarrow> d))"

definition dedicatedAccountCustomer :: "json \<Rightarrow> json" where
  "dedicatedAccountCustomer d = (case jobject (jget ''customer'' d) of
     Some c \<Rightarrow> c
   | None \<Rightarrow> (case jobject (jget ''dedicated_account'' d) of
       None \<Rightarrow> JObj []
     | Some nested \<Rightarrow> (case jobject (jget ''customer'' nested) of Some c \<Rightarrow> c | None \<Rightarrow> JObj [])))"

definition assignment_key :: "string \<Rightarrow> json \<Rightarrow> string option" where
  "assignment_key k d = (case jstring (jget k (dedicatedAccountCustomer d)) of
     Some x \<Rightarrow> Some x | None \<Rightarrow> jstring (jget k d))"

definition assignment_account :: "json \<Rightarrow> db \<Rightarrow> funding_account option" where
  "assignment_account d s =
     (let customerCode = assignment_key ''customer_code'' d; email = assignment_key ''email'' d
      in tfind (\<lambda>a. (truthy_str customerCode \<and> fa_customerCode a = customerCode) \<or>
             (truthy_str email \<and> (\<exists>u \<in> set (rows (users s)). u_id u = fa_userId a \<and> Some (u_email u) = email)))
           (fundingAccounts s))"

definition updateFunding :: "nat \<Rightarrow> (funding_account \<Rightarrow> funding_account) \<Rightarrow> db \<Rightarrow> db" where
  "updateFunding i f s = s\<lparr>fundingAccounts := tupdate (\<lambda>a. fa_id a = i) f (fundingAccounts s)\<rparr>"

definition completeDedicatedAccountAssignment :: "time \<Rightarrow> json \<Rightarrow> unit handler" where
  "completeDedicatedAccountAssignment now d s = (case assignment_account d s of
     None \<Rightarrow> (Inl (NotFound ''Wallet transfer account assignment was not found.''), s)
   | Some a \<Rightarrow> (Inr (), updateFunding (fa_id a) (\<lambda>x. (dedicatedAccountFields d x)\<lparr>
       fa_customerCode := (case assignment_key ''customer_code'' d of None \<Rightarrow> fa_customerCode a | Some c \<Rightarrow> Some c),
       fa_status := ''ACTIVE'', fa_assignedAt := Some now, fa_failureReason := None\<rparr>) s))"

definition failDedicatedAccountAssignment :: "json \<Rightarrow> unit handler" where
  "failDedicatedAccountAssignment d s = (case assignment_account d s of
     None \<Rightarrow> (Inl (NotFound ''Wallet transfer account assignment was not found.''), s)
   | Some a \<Rightarrow> (Inr (), updateFunding (fa_id a) (\<lambda>x. x\<lparr>fa_status := ''FAILED'',
       fa_failureReason := Some (case jstring (jget ''message'' d) of Some m \<Rightarrow> m
         | None \<Rightarrow> ''Paystack could not assign the account.'')\<rparr>) s))"

definition upsertFunding :: "nat \<Rightarrow> string option \<Rightarrow> db \<Rightarrow> nat \<times> db" where
  "upsertFunding uid customerCode s = (case funding_of uid s of
     Some a \<Rightarrow> (fa_id a, updateFunding (fa_id a) (\<lambda>x. x\<lparr>fa_customerCode := customerCode, fa_status := ''PENDING'',
       fa_failureReason := None\<rparr>) s)
   | None \<Rightarrow> (next_id (fundingAccounts s), s\<lparr>fundingAccounts := tinsert (\<lambda>i. \<lparr>fa_id = i, fa_userId = uid,
       fa_customerCode = customerCode, fa_accountNumber = None, fa_accountName = None, fa_bankName = None,
       fa_bankSlug = None, fa_currency = ''NGN'', fa_assignedAt = None, fa_status = ''PENDING'',
       fa_failureReason = None\<rparr>) (fundingAccounts s)\<rparr>))"

text \<open>
  The request for an account.  The customer code is taken from the row or found or created at
  the provider; the \<open>catch\<close> marks the row that was there before, or the one written in
  between, as failed.
\<close>

definition customer_code :: "pay_env \<Rightarrow> user \<Rightarrow> funding_account option \<Rightarrow> string option result" where
  "customer_code env user account =
     (if (case account of None \<Rightarrow> False | Some a \<Rightarrow> truthy_str (fa_customerCode a))
      then Inr (fa_customerCode (the account))
      else ebind (findCustomer (pe_fetch env) (u_email user)) (\<lambda>found.
           ebind (case found of Some v \<Rightarrow> Inr (Some v)
             | None \<Rightarrow> createCustomer (pe_fetch env) (u_email user) (the (u_firstName user)) (the (u_lastName user))
                        (the (u_phoneNumber user)) (u_id user)) (\<lambda>c.
           ebind (fields_of c) (\<lambda>customer. Inr (jstring (jget ''customer_code'' customer))))))"

definition assignAccount :: "pay_env \<Rightarrow> user \<Rightarrow> string option \<Rightarrow> nat \<Rightarrow> unit handler" where
  "assignAccount env user preferredBank i =
     hbind (hlift (assignDedicatedAccount (pe_fetch env) (u_email user) (the (u_firstName user)) (the (u_lastName user))
       (the (u_phoneNumber user)) (case preferredBank of Some b \<Rightarrow> Some b | None \<Rightarrow> if pe_testMode env then Some ''test-bank'' else None))) (\<lambda>assignment.
     if truthy_str (account_number_of assignment)
     then hmodify (updateFunding i (\<lambda>x. (dedicatedAccountFields assignment x)\<lparr>fa_status := ''ACTIVE'', fa_assignedAt := Some (pe_now env)\<rparr>))
     else hreturn ())"

definition createWalletTransferAccount :: "pay_env \<Rightarrow> nat \<Rightarrow> string option \<Rightarrow> account_view handler" where
  "createWalletTransferAccount env uid preferredBank s = (case user_row uid s of
     Inl e \<Rightarrow> (Inl e, s)
   | Inr user \<Rightarrow>
       if \<not> (truthy_str (u_firstName user) \<and> truthy_str (u_lastName user) \<and> truthy_str (u_phoneNumber user))
       then (Inl (BadRequest ''First name, last name, and phone number are required before requesting a transfer account.''), s)
       else let account = funding_of uid s;
                fail = (\<lambda>i e. hbind (hmodify (updateFunding i (\<lambda>x. x\<lparr>fa_status := ''FAILED'', fa_failureReason := Some (exn_message e)\<rparr>)))
                          (\<lambda>_. hthrow e));
                response = (\<lambda>s. (walletTransferAccount uid s, s))
            in if (case account of None \<Rightarrow> False | Some a \<Rightarrow> fa_status a = ''ACTIVE'' \<or> fa_status a = ''PENDING'')
               then (Inr (transferAccountResponse (the account)), s)
               else (case customer_code env user account of
                  Inl e \<Rightarrow> (case account of None \<Rightarrow> (Inl e, s) | Some a \<Rightarrow> fail (fa_id a) e s)
                | Inr code \<Rightarrow> (case upsertFunding uid code s of
                    (i, s1) \<Rightarrow> hcatch (hbind (assignAccount env user preferredBank i) (\<lambda>_. response)) (fail i) s1)))"

definition requeryWalletTransferAccount :: "pay_env \<Rightarrow> nat \<Rightarrow> unit handler" where
  "requeryWalletTransferAccount env uid s =
     (let bad = Inl (BadRequest ''An active wallet transfer account is required.'')
      in case funding_of uid s of
        None \<Rightarrow> (bad, s)
      | Some a \<Rightarrow>
          if \<not> truthy_str (fa_accountNumber a) \<or> \<not> truthy_str (fa_bankSlug a) \<or> fa_status a \<noteq> ''ACTIVE'' then (bad, s)
          else hbind (hlift (requeryDedicatedAccount (pe_fetch env) (the (fa_accountNumber a)) (the (fa_bankSlug a))
                 (Some (take 10 (pe_toISO env (pe_now env)))))) (\<lambda>_. hreturn ()) s)"

text \<open>
  A transfer into the dedicated account, reported by a \<open>charge.success\<close> event whose reference
  is not known.  The payment row is written before the crediting transaction.
\<close>

definition dva_ref :: "string \<Rightarrow> string" where
  "dva_ref reference = ''DVA-CREDIT-'' @ reference"

definition receiving_account :: "json \<Rightarrow> json \<Rightarrow> db \<Rightarrow> funding_account option" where
  "receiving_account customer authorization s =
     (let customerCode = jstring (jget ''customer_code'' customer);
          receiver = jstring (jget ''receiver_bank_account_number'' authorization)
      in tfind (\<lambda>a. fa_status a = ''ACTIVE'' \<and>
             ((truthy_str customerCode \<and> fa_customerCode a = customerCode) \<or>
              (truthy_str receiver \<and> fa_accountNumber a = receiver))) (fundingAccounts s))"

definition upsertDvaPayment :: "pay_env \<Rightarrow> string \<Rightarrow> string \<Rightarrow> nat \<Rightarrow> decimal \<Rightarrow> payment handler" where
  "upsertDvaPayment env reference providerRef uid amount s =
     (case tfind (\<lambda>p. pay_transactionRef p = Some reference) (payments s) of
        Some p \<Rightarrow> (Inr p, s)
      | None \<Rightarrow> transaction (createPayment amount ''NGN'' P_PENDING BANK_TRANSFER PAYSTACK reference (Some providerRef) None
          (topup_meta ''WALLET_DVA_TOPUP'' uid) (pe_now env)) s)"

definition creditDva :: "nat \<Rightarrow> nat \<Rightarrow> string \<Rightarrow> decimal \<Rightarrow> bool tx" where
  "creditDva paymentId uid reference amount s =
     ebind (orThrow (tfind (\<lambda>p. pay_id p = paymentId) (payments s)) RecordNotFound) (\<lambda>current.
     if pay_status current = P_PAID then Inr (False, s)
     else (case upsertWallet uid s of (wallet, s1) \<Rightarrow>
       ebind (if tfind (\<lambda>t. wt_reference t = Some (dva_ref reference)) (walletTxs s1) = None
              then createWalletTx (w_id wallet) amount CREDIT (dva_ref reference) ''Wallet funding via bank transfer''
                     (incrementWallet (w_id wallet) amount s1)
              else Inr s1) (\<lambda>s2.
       Inr (True, updatePayment paymentId (\<lambda>p. p\<lparr>pay_status := P_PAID\<rparr>) s2))))"

definition completeDedicatedAccountFunding :: "pay_env \<Rightarrow> string \<Rightarrow> nat handler" where
  "completeDedicatedAccountFunding env reference s =
     (case ebind (px_verify (pe_fetch env) reference) fields_of of
        Inl e \<Rightarrow> (Inl e, s)
      | Inr v \<Rightarrow>
          let customer = (case jobject (jget ''customer'' v) of Some c \<Rightarrow> c | None \<Rightarrow> JObj []);
              authorization = (case jobject (jget ''authorization'' v) of Some a \<Rightarrow> a | None \<Rightarrow> JObj [])
          in case jget ''amount'' v of
            Some (JNum k) \<Rightarrow>
              if jget ''status'' v \<noteq> Some (JStr ''success'') \<or> jget ''reference'' v \<noteq> Some (JStr reference) \<or>
                 jget ''currency'' v \<noteq> Some (JStr ''NGN'') \<or> k \<le> 0
              then (Inl (BadRequest ''Invalid dedicated-account transfer confirmation.''), s)
              else if jget ''channel'' authorization \<noteq> Some (JStr ''dedicated_nuban'')
              then (Inl (BadRequest ''The transfer is not a dedicated-account wallet payment.''), s)
              else (case receiving_account customer authorization s of
                None \<Rightarrow> (Inl (NotFound ''Receiving wallet account was not found.''), s)
              | Some account \<Rightarrow>
                  let amount = toDecimalPlaces2 (of_int k / 100)
                  in hbind (upsertDvaPayment env reference (js_String (jor (jget ''id'' v) (JStr reference))) (fa_userId account) amount) (\<lambda>payment.
                     hbind (transaction (creditDva (pay_id payment) (fa_userId account) reference amount)) (\<lambda>credited.
                     hbind (if credited then notifyWalletFunded (pe_push env) (fa_userId account) reference else hreturn ()) (\<lambda>_.
                     hreturn (pay_id payment)))) s)
          | _ \<Rightarrow> (Inl (BadRequest ''Invalid dedicated-account transfer confirmation.''), s))"

section \<open>Statements and withdrawals\<close>

text \<open>The page of a list, and how many pages there are; at most 15 rows make a page.\<close>

definition page_limit :: "nat \<Rightarrow> nat" where
  "page_limit limit = min 15 (max 1 limit)"

definition page_of :: "nat \<Rightarrow> nat \<Rightarrow> 'a list \<Rightarrow> 'a list" where
  "page_of page limit xs = take limit (drop ((page - 1) * limit) xs)"

definition page_count :: "nat \<Rightarrow> nat \<Rightarrow> nat" where
  "page_count limit n = (n + limit - 1) div limit"

record 'a listing =
  ls_items :: "'a list"
  ls_total :: nat
  ls_page :: nat
  ls_limit :: nat
  ls_pages :: nat

definition listing_of :: "nat \<Rightarrow> nat \<Rightarrow> 'a list \<Rightarrow> 'a listing" where
  "listing_of page limit xs = \<lparr>ls_items = page_of page (page_limit limit) xs, ls_total = length xs, ls_page = page,
     ls_limit = page_limit limit, ls_pages = page_count (page_limit limit) (length xs)\<rparr>"

text \<open>Newest first is the reverse of the order of insertion.\<close>

definition walletTransactions :: "nat \<Rightarrow> nat \<Rightarrow> nat \<Rightarrow> db \<Rightarrow> decimal \<times> wallet_tx listing" where
  "walletTransactions uid page limit s = (case tfind (\<lambda>w. w_userId w = uid) (wallets s) of
     None \<Rightarrow> (0, \<lparr>ls_items = [], ls_total = 0, ls_page = page, ls_limit = page_limit limit, ls_pages = 0\<rparr>)
   | Some wallet \<Rightarrow> (w_balance wallet,
       listing_of page limit (rev (tfilter (\<lambda>t. wt_walletId t = w_id wallet) (walletTxs s)))))"

definition walletWithdrawals :: "nat \<Rightarrow> nat \<Rightarrow> nat \<Rightarrow> db \<Rightarrow> withdrawal listing" where
  "walletWithdrawals uid page limit s = listing_of page limit (rev (tfilter (\<lambda>w. wd_ownerId w = uid) (withdrawals s)))"

record bank_details =
  bd_bankName :: string
  bd_accountNumber :: string
  bd_accountName :: string
  bd_mode :: string

definition createWithdrawal :: "nat \<Rightarrow> decimal \<Rightarrow> bank_details \<Rightarrow> db \<Rightarrow> db" where
  "createWithdrawal uid amount b s = s\<lparr>withdrawals := tinsert (\<lambda>i. \<lparr>wd_id = i, wd_ownerId = uid, wd_amount = amount,
     wd_status = W_PENDING, wd_mode = bd_mode b, wd_bankName = trim (bd_bankName b),
     wd_accountNumber = trim (bd_accountNumber b), wd_accountName = trim (bd_accountName b)\<rparr>) (withdrawals s)\<rparr>"

definition requestWalletWithdrawal :: "string \<Rightarrow> nat \<Rightarrow> decimal \<Rightarrow> bank_details \<Rightarrow> db \<Rightarrow> db result" where
  "requestWalletWithdrawal uuid uid asked b s =
     ebind (money asked) (\<lambda>amount.
     case tfind (\<lambda>w. w_userId w = uid) (wallets s) of
       None \<Rightarrow> Inl (BadRequest ''Insufficient wallet balance.'')
     | Some wallet \<Rightarrow>
         require (\<not> w_balance wallet < amount) (BadRequest ''Insufficient wallet balance.'') (
         ebind (createWalletTx (w_id wallet) amount DEBIT (''CW-'' @ show_nat uid @ ''-'' @ uuid)
                  ''Customer wallet withdrawal request'' (incrementWallet (w_id wallet) (- amount) s)) (\<lambda>s1.
         Inr (createWithdrawal uid amount b s1))))"

section \<open>Repaying instalments\<close>

definition completeBnplRepayment :: "nat \<Rightarrow> db \<Rightarrow> db result" where
  "completeBnplRepayment repaymentId s =
     ebind (orThrow (tfind (\<lambda>r. br_id r = repaymentId) (repayments s)) RecordNotFound) (\<lambda>repayment.
     ebind (orThrow (tfind (\<lambda>i. bi_id i = br_installmentId repayment) (installments s)) RecordNotFound) (\<lambda>installment.
     if br_status repayment = P_PAID then Inr s
     else let paid = bi_amountPaid installment + br_amount repayment
          in Inr (s\<lparr>
               repayments := tupdate (\<lambda>r. br_id r = br_id repayment) (\<lambda>r. r\<lparr>br_status := P_PAID\<rparr>) (repayments s),
               installments := tupdate (\<lambda>i. bi_id i = br_installmentId repayment)
                 (\<lambda>i. i\<lparr>bi_amountPaid := paid, bi_status := if bi_amount installment \<le> paid then ''PAID'' else ''PARTIALLY_PAID''\<rparr>)
                 (installments s)\<rparr>)))"

definition createRepayment :: "nat \<Rightarrow> nat \<Rightarrow> decimal \<Rightarrow> payment_method \<Rightarrow> string \<Rightarrow> nat tx" where
  "createRepayment installmentId uid amount method reference s =
     require (tfind (\<lambda>r. br_reference r = reference) (repayments s) = None) UniqueViolation
       (Inr (next_id (repayments s), s\<lparr>repayments := tinsert (\<lambda>i. \<lparr>br_id = i, br_installmentId = installmentId, br_userId = uid,
          br_amount = amount, br_method = method, br_status = P_PENDING, br_reference = reference\<rparr>) (repayments s)\<rparr>))"

definition repayFromWallet :: "nat \<Rightarrow> nat \<Rightarrow> decimal \<Rightarrow> string \<Rightarrow> nat tx" where
  "repayFromWallet uid installmentId amount reference s =
     (case debitWallet uid amount s of (n, s1) \<Rightarrow>
       require (n \<noteq> 0) (BadRequest ''Insufficient wallet balance.'') (
       ebind (orThrow (tfind (\<lambda>w. w_userId w = uid) (wallets s1)) RecordNotFound) (\<lambda>wallet.
       ebind (createWalletTx (w_id wallet) amount DEBIT reference (''BNPL installment '' @ show_nat installmentId) s1) (\<lambda>s2.
       ebind (createRepayment installmentId uid amount WALLET reference s2) (\<lambda>(rid, s3).
       ebind (completeBnplRepayment rid s3) (\<lambda>s4. Inr (rid, s4)))))))"

definition initializeBnplRepayment :: "pay_env \<Rightarrow> nat \<Rightarrow> nat \<Rightarrow> decimal \<Rightarrow> bool \<Rightarrow> nat handler" where
  "initializeBnplRepayment env uid installmentId amount byWallet s =
     (let reference = ''BNPL-REPAY-'' @ show_nat installmentId @ ''-'' @ pe_uuid env
      in hbind (\<lambda>s. (user_row uid s, s)) (\<lambda>user.
         if byWallet then transaction (repayFromWallet uid installmentId amount reference)
         else hbind (hlift (ebind (px_initialize (pe_fetch env) (pe_callback env) reference (u_email user) amount [''card'']
                (JObj [(''purpose'', JStr ''BNPL_REPAYMENT''), (''userId'', JNum (int uid)),
                       (''installmentId'', JNum (int installmentId))])) fields_of)) (\<lambda>initialized.
              hbind (transaction (createPayment amount ''NGN'' P_PENDING CARD PAYSTACK reference None
                (jstring (jget ''authorization_url'' initialized)) (topup_meta ''BNPL_REPAYMENT'' uid) (pe_now env))) (\<lambda>_.
              transaction (createRepayment installmentId uid amount CARD reference)))) s)"

section \<open>Ledger facts\<close>

lemma completeBnplRepayment_frame:
  assumes "completeBnplRepayment i s = Inr s'"
  shows "\<exists>a b. s' = s\<lparr>repayments := a, installments := b\<rparr>"
proof -
  obtain r j where "tfind (\<lambda>r. br_id r = i) (repayments s) = Some r"
      "tfind (\<lambda>i. bi_id i = br_installmentId r) (installments s) = Some j"
    using assms unfolding completeBnplRepayment_def ebind_Inr_iff orThrow_Inr_iff by blast
  then consider "s' = s" | a b where "s' = s\<lparr>repayments := a, installments := b\<rparr>"
    using assms by (cases "br_status r = P_PAID") (auto simp: completeBnplRepayment_def Let_def)
  then show ?thesis
  proof cases
    case 1
    then show ?thesis by (intro exI [of _ "repayments s"] exI [of _ "installments s"]) simp
  qed blast
qed

text \<open>Crediting a wallet, which is created when there is none, and posting the credit.\<close>

lemma credit_posted:
  assumes "wallet_ok s" and "upsertCredit uid a s = (k, s1)" and "createWalletTx k a CREDIT ref desc s1 = Inr s'"
  shows "wallet_ok s'" and "user_balance v s' = user_balance v s + (if v = uid then a else 0)"
    and "\<exists>x y. s' = s\<lparr>wallets := x, walletTxs := y\<rparr>"
proof -
  from createWalletTx_off [OF upsertCredit_off [OF assms(1,2)] assms(3)] show "wallet_ok s'"
    by (intro wallet_off_ok [of k]) simp
  show "\<exists>x y. s' = s\<lparr>wallets := x, walletTxs := y\<rparr>"
    using assms(2,3) by (auto simp: upsertCredit_def createWalletTx_def tx_simps split: option.splits)
  have s': "wallets s' = wallets s1" using assms(3) by (auto simp: createWalletTx_def tx_simps)
  show "user_balance v s' = user_balance v s + (if v = uid then a else 0)"
  proof (cases "tfind (\<lambda>w. w_userId w = uid) (wallets s)")
    case None
    then show ?thesis
      using assms(2) by (auto simp: user_balance_def s' upsertCredit_def tfind_tinsert split: option.split)
  next
    case (Some w)
    show ?thesis by (rule user_balance_update [OF assms(1) Some]) (use assms(2) Some s' in \<open>auto simp: upsertCredit_def\<close>)
  qed
qed

lemma completeWalletTopup_effect:
  assumes "wallet_ok s" and "completeWalletTopup pid uid a s = Inr s'"
  shows "wallet_ok s'" and "user_balance v s' = user_balance v s + (if v = uid then a else 0)"
    and "\<exists>x y. s' = s\<lparr>wallets := x, walletTxs := y\<rparr>"
proof -
  obtain k s1 where u: "upsertCredit uid a s = (k, s1)" by (cases "upsertCredit uid a s")
  with assms(2) have c: "createWalletTx k a CREDIT (topup_ref pid) ''Wallet top-up via Paystack'' s1 = Inr s'"
    by (simp add: completeWalletTopup_def)
  show "wallet_ok s'" "user_balance v s' = user_balance v s + (if v = uid then a else 0)"
    "\<exists>x y. s' = s\<lparr>wallets := x, walletTxs := y\<rparr>"
    using credit_posted [OF assms(1) u c] by blast+
qed

lemma requestWalletWithdrawal_ok:
  assumes "wallet_ok s" and "requestWalletWithdrawal uuid uid asked b s = Inr s'"
  shows "wallet_ok s'"
proof -
  obtain amount w s1 where w: "tfind (\<lambda>w. w_userId w = uid) (wallets s) = Some w"
    and c: "createWalletTx (w_id w) amount DEBIT (''CW-'' @ show_nat uid @ ''-'' @ uuid) ''Customer wallet withdrawal request''
      (incrementWallet (w_id w) (- amount) s) = Inr s1" and s': "s' = createWithdrawal uid amount b s1"
    using assms(2) by (auto simp: requestWalletWithdrawal_def tx_simps split: option.splits)
  from createWalletTx_off [OF incrementWallet_off [OF wallet_found_off [OF assms(1) w], of "- amount"] c]
  have "wallet_ok s1" by (intro wallet_off_ok [of "w_id w"]) simp
  then show ?thesis by (simp add: s' createWithdrawal_def wallet_ok_def)
qed

text \<open>
  (C14) A withdrawal request that is accepted takes the asked amount, rounded to two decimals,
  from the wallet of the customer and from no other, leaves a balance that is not negative,
  keeps the ledger consistent, and records one pending withdrawal of that amount.
\<close>

theorem withdrawal_request:
  assumes "requestWalletWithdrawal uuid uid asked b s = Inr s'" and "wallet_ok s"
  shows "0 \<le> user_balance uid s' \<and> user_balance uid s' = user_balance uid s - toDecimalPlaces2 asked \<and>
    (\<forall>v. v \<noteq> uid \<longrightarrow> user_balance v s' = user_balance v s) \<and> wallet_ok s' \<and>
    (\<exists>w. rows (withdrawals s') = rows (withdrawals s) @ [w] \<and> wd_ownerId w = uid \<and>
       wd_amount w = toDecimalPlaces2 asked \<and> wd_status w = W_PENDING)"
proof -
  let ?a = "toDecimalPlaces2 asked"
  obtain w s1 where w: "tfind (\<lambda>w. w_userId w = uid) (wallets s) = Some w" and le: "?a \<le> w_balance w"
    and c: "createWalletTx (w_id w) ?a DEBIT (''CW-'' @ show_nat uid @ ''-'' @ uuid) ''Customer wallet withdrawal request''
      (incrementWallet (w_id w) (- ?a) s) = Inr s1" and s': "s' = createWithdrawal uid ?a b s1"
    using assms(1) by (auto simp: requestWalletWithdrawal_def money_def tx_simps split: option.splits)
  have "wallets s' = tupdate (\<lambda>x. w_id x = w_id w) (\<lambda>x. x\<lparr>w_balance := w_balance x + - ?a\<rparr>) (wallets s)"
    using c by (auto simp: s' createWithdrawal_def createWalletTx_def tx_simps incrementWallet_def)
  note b = user_balance_update [OF assms(2) w this]
  have "user_balance uid s = w_balance w" using w by (simp add: user_balance_def)
  moreover have "withdrawals s1 = withdrawals s" using c by (auto simp: createWalletTx_def tx_simps incrementWallet_def)
  ultimately show ?thesis
    using b [of uid] b le requestWalletWithdrawal_ok [OF assms(2,1)] by (simp add: s' createWithdrawal_def)
qed

section \<open>Pages\<close>

lemma pages_prefix: "concat (map (\<lambda>p. page_of p n xs) [1..<Suc k]) = take (k * n) xs"
proof (induction k)
  case (Suc k)
  have "take (Suc k * n) xs = take (k * n) xs @ take n (drop (k * n) xs)"
    using take_add [of "k * n" n xs] by (simp add: add.commute)
  then show ?case using Suc by (simp add: page_of_def)
qed simp

lemma page_count_covers: "0 < n \<Longrightarrow> m \<le> page_count n m * n"
proof -
  assume n: "0 < n"
  have "m + n - 1 < ((m + n - 1) div n) * n + n" using n by (metis div_mult_mod_eq add_less_cancel_left mod_less_divisor)
  then show ?thesis using n by (simp add: page_count_def)
qed

lemma listing_pages:
  "concat (map (\<lambda>p. ls_items (listing_of p limit xs)) [1..<Suc (ls_pages (listing_of 1 limit xs))]) = xs"
  using pages_prefix [of "page_limit limit" xs] page_count_covers [of "page_limit limit" "length xs"]
  by (simp add: listing_of_def page_limit_def)

text \<open>
  The pages of a wallet statement, one after the other, are all transactions of the wallet,
  newest first, each of them once, whatever page size was asked; no page has more than 15 rows.
\<close>

theorem statement_pages:
  assumes "tfind (\<lambda>w. w_userId w = uid) (wallets s) = Some wallet"
  shows "concat (map (\<lambda>p. ls_items (snd (walletTransactions uid p limit s)))
      [1..<Suc (ls_pages (snd (walletTransactions uid 1 limit s)))]) =
        rev (tfilter (\<lambda>t. wt_walletId t = w_id wallet) (walletTxs s)) \<and>
    length (ls_items (snd (walletTransactions uid p limit s))) \<le> 15"
  using listing_pages [of limit "rev (tfilter (\<lambda>t. wt_walletId t = w_id wallet) (walletTxs s))"] assms
  by (simp add: walletTransactions_def listing_of_def page_of_def page_limit_def min.coboundedI2)

section \<open>Examples\<close>

definition wallet_db :: db where
  "wallet_db = refund_db\<lparr>wallets := \<lparr>rows = [\<lparr>w_id = 1, w_userId = 7, w_balance = 100\<rparr>], next_id = 2\<rparr>,
     walletTxs := \<lparr>rows = [\<lparr>wt_id = 1, wt_walletId = 1, wt_amount = 80, wt_type = CREDIT, wt_reference = Some ''TOPUP-CREDIT-1'',
       wt_description = []\<rparr>, \<lparr>wt_id = 2, wt_walletId = 1, wt_amount = 20, wt_type = CREDIT,
       wt_reference = Some ''TOPUP-CREDIT-2'', wt_description = []\<rparr>], next_id = 3\<rparr>\<rparr>"

definition my_bank :: bank_details where
  "my_bank = \<lparr>bd_bankName = '' Zenith '', bd_accountNumber = ''0123456789'', bd_accountName = ''Ada'', bd_mode = ''MANUAL''\<rparr>"

abbreviation "withdrawn \<equiv> requestWalletWithdrawal ''u'' 7 (6001 / 100) my_bank wallet_db"

theorem withdrawal_request_witness:
  "user_balance 7 (projr withdrawn) = 3999 / 100 \<and> 0 \<le> user_balance 7 (projr withdrawn) \<and> wallet_ok (projr withdrawn)"
proof -
  have "\<not> isl withdrawn" "wallet_ok wallet_db" "user_balance 7 (projr withdrawn) = 3999 / 100" by code_simp+
  moreover from this have "withdrawn = Inr (projr withdrawn)" by (simp add: sum.collapse(2))
  ultimately show ?thesis using withdrawal_request [of "''u''" 7 "6001 / 100" my_bank wallet_db "projr withdrawn"] by blast
qed

theorem statement_pages_witness:
  "ls_pages (snd (walletTransactions 7 1 1 wallet_db)) = 2 \<and>
   concat (map (\<lambda>p. ls_items (snd (walletTransactions 7 p 1 wallet_db))) [1..<3]) = rev (rows (walletTxs wallet_db))"
proof -
  define w where "w = \<lparr>w_id = 1, w_userId = 7, w_balance = 100 :: decimal\<rparr>"
  have f: "tfind (\<lambda>w. w_userId w = 7) (wallets wallet_db) = Some w" unfolding w_def by code_simp
  have p: "ls_pages (snd (walletTransactions 7 1 1 wallet_db)) = 2" by code_simp
  have "rev (tfilter (\<lambda>t. wt_walletId t = w_id w) (walletTxs wallet_db)) = rev (rows (walletTxs wallet_db))"
    unfolding w_def by code_simp
  moreover have "Suc 2 = 3" by simp
  ultimately show ?thesis using conjunct1 [OF statement_pages [OF f, of 1]] p by (simp del: upt_Suc)
qed

end
