(* ===== verification/Checkout.thy ===== *)
theory Checkout
  imports Quote PaymentGroups
begin

text \<open>
  Placing an order (\<open>createInTransaction\<close> of \<^verbatim>\<open>src/checkout/checkout.service.ts\<close>): under the cart lock
  the cart is quoted again, the stock of every line is reserved by a conditional update, one
  order per store is created with its lines, history and delivery or pickup, and the payment
  group with one allocation per order.  A wallet payment or an approved credit is settled at
  once.  Random order numbers and tokens, the hash of the quote and the inexact quotient are
  parameters, collected in \<open>checkout_env\<close>.
\<close>

record checkout_env =
  ce_now :: time
  ce_div :: "decimal \<Rightarrow> decimal \<Rightarrow> decimal"
  ce_cfg :: "string \<Rightarrow> decimal option"
  ce_inputFp :: "checkout_input \<Rightarrow> string"
  ce_quoteFp :: "quote \<Rightarrow> string"
  ce_orderNumber :: "nat \<Rightarrow> string"
  ce_codeHash :: "nat \<Rightarrow> string"
  ce_qrToken :: "nat \<Rightarrow> string"

section \<open>Reserving stock\<close>

definition reservable :: "quote_line \<Rightarrow> db \<Rightarrow> store_product \<Rightarrow> bool" where
  "reservable item s sp \<longleftrightarrow> sp_id sp = ql_storeProductId item \<and> sp_isActive sp \<and>
     (case store_of sp s of None \<Rightarrow> False | Some st \<Rightarrow> st_isActive st) \<and>
     (case product_of sp s of None \<Rightarrow> False | Some p \<Rightarrow> p_status p) \<and> sp_availability sp \<and>
     int (ql_quantity item) \<le> sp_stockQuantity sp \<and>
     (sp_discountPrice sp = Some (ql_unitPrice item) \<or>
      sp_discountPrice sp = None \<and> sp_price sp = ql_unitPrice item)"

definition reserveItem :: "quote_line \<Rightarrow> db \<Rightarrow> db result" where
  "reserveItem item s =
     (let s1 = s\<lparr>storeProducts := tupdate (reservable item s)
            (\<lambda>sp. sp\<lparr>sp_stockQuantity := sp_stockQuantity sp - int (ql_quantity item)\<rparr>) (storeProducts s)\<rparr>
      in require (tcount (reservable item s) (storeProducts s) = 1)
           (Conflict ''Stock or price changed; refresh checkout.'') (Inr s1))"

section \<open>Creating an order\<close>

definition join_name :: "string option \<Rightarrow> string option \<Rightarrow> string" where
  "join_name a b = (case filter (\<lambda>x. x \<noteq> '''') (List.map_filter (\<lambda>x. x) [a, b]) of
     [] \<Rightarrow> '''' | [x] \<Rightarrow> x | x # y # _ \<Rightarrow> x @ '' '' @ y)"

definition order_line :: "nat \<Rightarrow> quote_line \<Rightarrow> nat \<Rightarrow> order_item" where
  "order_line orderId item i = \<lparr>oi_id = i, oi_orderId = orderId, oi_storeProductId = ql_storeProductId item,
     oi_productId = ql_productId item, oi_productName = ql_productName item,
     oi_productCode = ql_productCode item, oi_quantity = ql_quantity item, oi_unitPrice = ql_unitPrice item,
     oi_totalPrice = ql_totalPrice item\<rparr>"

definition createLines :: "nat \<Rightarrow> quote_line list \<Rightarrow> db \<Rightarrow> db" where
  "createLines orderId = fold (\<lambda>item t. t\<lparr>orderItems := tinsert (order_line orderId item) (orderItems t)\<rparr>)"

definition new_order :: "checkout_env \<Rightarrow> user \<Rightarrow> quote \<Rightarrow> quote_order \<Rightarrow> nat \<Rightarrow> order" where
  "new_order env user q ord i =
     (let adr = q_deliveryAddress q;
          name = (case adr of None \<Rightarrow> '''' | Some a \<Rightarrow> join_name (qa_firstName a) (qa_lastName a));
          opt = (\<lambda>f. case adr of None \<Rightarrow> None | Some a \<Rightarrow> f a)
      in \<lparr>o_id = i, o_orderNumber = ce_orderNumber env i, o_userId = u_id user, o_storeId = qo_storeId ord,
          o_fulfillmentType = q_fulfillmentType q, o_currentStatus = ORDER_RECEIVED,
          o_customerName = (if name = '''' then u_email user else name),
          o_customerEmail = (case opt qa_email of None \<Rightarrow> u_email user | Some e \<Rightarrow> e),
          o_customerPhone = opt qa_phone, o_deliveryAddress = opt (\<lambda>a. Some (qa_address a)),
          o_deliveryLabel = opt qa_label, o_deliveryCity = opt qa_city, o_deliveryState = opt qa_state,
          o_currency = q_currency q, o_subtotal = qo_subtotal ord, o_shippingFee = qo_shippingFee ord,
          o_discountAmount = qo_discountAmount ord, o_shippingDiscount = qo_shippingDiscount ord,
          o_total = qo_total ord, o_updatedAt = ce_now env\<rparr>)"

definition createFulfilment :: "checkout_env \<Rightarrow> quote \<Rightarrow> nat \<Rightarrow> db \<Rightarrow> db" where
  "createFulfilment env q oid s =
     (if q_fulfillmentType q = PICKUP
      then s\<lparr>pickups := tinsert (\<lambda>i. \<lparr>pk_id = i, pk_orderId = oid, pk_stationId = map_option ps_id (q_pickupStation q),
             pk_codeHash = ce_codeHash env oid, pk_qrToken = ce_qrToken env oid, pk_status = ''pending''\<rparr>) (pickups s)\<rparr>
      else s\<lparr>deliveries := tinsert (\<lambda>i. \<lparr>d_id = i, d_orderId = oid, d_riderId = None,
             d_deliveryAddress = (case q_deliveryAddress q of None \<Rightarrow> '''' | Some a \<Rightarrow> qa_address a),
             d_deliveryLabel = (case q_deliveryAddress q of None \<Rightarrow> None | Some a \<Rightarrow> qa_label a),
             d_deliveryCity = (case q_deliveryAddress q of None \<Rightarrow> None | Some a \<Rightarrow> qa_city a),
             d_deliveryState = (case q_deliveryAddress q of None \<Rightarrow> None | Some a \<Rightarrow> qa_state a),
             d_status = D_PENDING, d_deliveryCodeHash = None, d_deliveryCodeExpiresAt = None,
             d_deliveryCodeAttempts = 0, d_assignedAt = None, d_pickedUpAt = None, d_arrivedAt = None,
             d_deliveredAt = None\<rparr>) (deliveries s)\<rparr>)"

definition createOrder :: "checkout_env \<Rightarrow> nat \<Rightarrow> quote \<Rightarrow> quote_order \<Rightarrow> order tx" where
  "createOrder env userId q ord s =
     ebind (eiter reserveItem (qo_items ord) s) (\<lambda>s1.
     ebind (orThrow (tfind (\<lambda>u. u_id u = userId) (users s1)) RecordNotFound) (\<lambda>user.
     let oid = next_id (orders s1); row = new_order env user q ord oid
     in require (tfind (\<lambda>x. o_orderNumber x = o_orderNumber row) (orders s1) = None) UniqueViolation (
        let s2 = s1\<lparr>orders := tinsert (new_order env user q ord) (orders s1)\<rparr>;
            s3 = createLines oid (qo_items ord) s2;
            s4 = s3\<lparr>statusHistory := tinsert (\<lambda>i. \<lparr>sh_id = i, sh_orderId = oid, sh_fromStatus = None,
                   sh_toStatus = ORDER_RECEIVED, sh_changedById = None, sh_reason = None\<rparr>) (statusHistory s3)\<rparr>
        in Inr (row, createFulfilment env q oid s4))))"

definition createOrders :: "checkout_env \<Rightarrow> nat \<Rightarrow> quote \<Rightarrow> order list tx" where
  "createOrders env userId q s =
     eiter (\<lambda>ord (created, t). ebind (createOrder env userId q ord t) (\<lambda>(row, t'). Inr (created @ [row], t')))
       (q_orders q) ([], s)"

section \<open>Creating the payment group\<close>

definition checkoutMethod :: "checkout_input \<Rightarrow> payment_method" where
  "checkoutMethod inp =
     (if in_paymentMethod inp = Some ''wallet'' then WALLET
      else if in_paymentMethod inp = Some ''bank_transfer'' then BANK_TRANSFER
      else if in_paymentMethod inp = Some ''klump_bnpl'' then KLUMP_BNPL else CARD)"

definition createAllocations :: "nat \<Rightarrow> order list \<Rightarrow> db \<Rightarrow> db" where
  "createAllocations gid = fold (\<lambda>ord t. t\<lparr>allocations := tinsert (\<lambda>i. \<lparr>al_id = i, al_paymentGroupId = gid,
     al_orderId = o_id ord, al_amount = o_total ord\<rparr>) (allocations t)\<rparr>)"

definition new_group :: "nat \<Rightarrow> nat \<Rightarrow> checkout_input \<Rightarrow> quote \<Rightarrow> payment_method \<Rightarrow> nat \<Rightarrow> payment_group" where
  "new_group userId cartId inp q method i = \<lparr>g_id = i, g_userId = userId, g_activeCartId = Some cartId,
     g_cartSnapshot = map (\<lambda>l. (ql_cartItemId l, ql_quantity l)) (concat (map qo_items (q_orders q))),
     g_snapshotInput = inp, g_paymentMethod = method, g_totalAmount = q_total q,
     g_discountAmount = q_discountAmount q, g_currency = q_currency q, g_paymentId = None, g_status = P_PENDING\<rparr>"

definition createGroup :: "nat \<Rightarrow> nat \<Rightarrow> checkout_input \<Rightarrow> quote \<Rightarrow> payment_method \<Rightarrow> order list \<Rightarrow> db \<Rightarrow> nat \<times> db" where
  "createGroup userId cartId inp q method ords s =
     (let gid = next_id (groups s)
      in (gid, createAllocations gid ords
            (s\<lparr>groups := tinsert (new_group userId cartId inp q method) (groups s)\<rparr>)))"

text \<open>The part for wallet payments and approved credits; \<open>credit\<close> is the method and the application.\<close>

definition debitCheckout :: "nat \<Rightarrow> decimal \<Rightarrow> nat \<Rightarrow> string \<Rightarrow> db \<Rightarrow> db result" where
  "debitCheckout userId amount gid ref s =
     (let (n, s1) = debitWallet userId amount s
      in require (n = 1) (BadRequest ''Insufficient wallet balance.'') (
         ebind (orThrow (tfind (\<lambda>w. w_userId w = userId) (wallets s1)) RecordNotFound) (\<lambda>w.
         createWalletTx (w_id w) amount DEBIT ref (''Checkout '' @ show_nat gid) s1)))"

definition payImmediately ::
    "checkout_env \<Rightarrow> nat \<Rightarrow> quote \<Rightarrow> payment_method \<Rightarrow> nat option \<Rightarrow> nat \<Rightarrow> db \<Rightarrow> db result" where
  "payImmediately env userId q method applicationId gid s =
     (let ref = (case applicationId of Some a \<Rightarrow> ''BNPL-'' @ show_nat a | None \<Rightarrow> ''WALLET-'' @ show_nat gid)
      in ebind (if method = WALLET then debitCheckout userId (q_total q) gid ref s else Inr s) (\<lambda>s1.
         ebind (createPayment (q_total q) (q_currency q) P_PAID method MANUAL ref None None no_meta (ce_now env) s1)
           (\<lambda>(pay, s2).
         completeGroup (ce_cfg env) (ce_now env) gid
           (s2\<lparr>groups := tupdate (\<lambda>g. g_id g = gid) (\<lambda>g. g\<lparr>g_paymentId := Some (pay_id pay)\<rparr>) (groups s2)\<rparr>))))"

definition createFresh :: "checkout_env \<Rightarrow> nat \<Rightarrow> nat \<Rightarrow> checkout_input \<Rightarrow> (payment_method \<times> string \<times> nat) option \<Rightarrow>
    payment_group tx" where
  "createFresh env userId cartId inp credit s =
     ebind (quoteInTransaction (ce_div env) (ce_now env) userId inp s) (\<lambda>q.
     require (case credit of None \<Rightarrow> True | Some (_, fp, _) \<Rightarrow> ce_quoteFp env q = fp)
       (Conflict ''Cart, prices, or delivery details changed. Submit a new BNPL application.'') (
     let method = (case credit of Some (m, _, _) \<Rightarrow> m | None \<Rightarrow> checkoutMethod inp)
     in ebind (createOrders env userId q s) (\<lambda>(ords, s1).
        let (gid, s2) = createGroup userId cartId inp q method ords s1
        in ebind (if method = WALLET \<or> credit \<noteq> None
                  then payImmediately env userId q method (map_option (snd \<circ> snd) credit) gid s2
                  else Inr s2) (\<lambda>s3.
           ebind (orThrow (tfind (\<lambda>g. g_id g = gid) (groups s3)) RecordNotFound) (\<lambda>g. Inr (g, s3))))))"

definition createInTransaction :: "checkout_env \<Rightarrow> nat \<Rightarrow> checkout_input \<Rightarrow> (payment_method \<times> string \<times> nat) option \<Rightarrow>
    payment_group tx" where
  "createInTransaction env userId inp credit s =
     ebind (lock userId s) (\<lambda>(cart, s1).
     require (in_cartId inp = None \<or> in_cartId inp = Some (c_id cart)) (NotFound ''Cart not found.'') (
     case tfind (\<lambda>g. g_activeCartId g = Some (c_id cart)) (groups s1) of
       Some pending \<Rightarrow>
         require (\<not> (credit \<noteq> None \<or> ce_inputFp env (g_snapshotInput pending) \<noteq> ce_inputFp env inp))
           (Conflict ''An unpaid checkout already exists. Resume or cancel it before changing checkout.'')
           (Inr (pending, s1))
     | None \<Rightarrow> createFresh env userId (c_id cart) inp credit s1))"

section \<open>Stock after a reservation\<close>

definition quoted_quantity :: "nat \<Rightarrow> quote_line list \<Rightarrow> int" where
  "quoted_quantity k items = (\<Sum>l\<leftarrow>items. if ql_storeProductId l = k then int (ql_quantity l) else 0)"

definition stock_ok :: "db \<Rightarrow> bool" where
  "stock_ok s \<longleftrightarrow> tkeyed sp_id (storeProducts s) \<and> (\<forall>p \<in> set (rows (storeProducts s)). 0 \<le> sp_stockQuantity p)"

lemma stock_ok_nonneg: "stock_ok s \<Longrightarrow> 0 \<le> stock k s"
  by (auto simp: stock_ok_def stock_def split: option.split dest: tfind_SomeD)

lemma stock_ok_cong: "storeProducts s' = storeProducts s \<Longrightarrow> stock_ok s' = stock_ok s"
  by (simp add: stock_ok_def)

lemma reserveItem_effect:
  assumes "reserveItem item s = Inr s'" and "stock_ok s"
  shows "stock k s' = stock k s + (if ql_storeProductId item = k then - int (ql_quantity item) else 0)"
    and "stock_ok s'" and "\<exists>sps. s' = s\<lparr>storeProducts := sps\<rparr>"
    and "int (ql_quantity item) \<le> stock (ql_storeProductId item) s"
proof -
  let ?f = "\<lambda>sp. sp\<lparr>sp_stockQuantity := sp_stockQuantity sp - int (ql_quantity item)\<rparr>"
  have n: "tcount (reservable item s) (storeProducts s) = 1"
    and s': "s' = s\<lparr>storeProducts := tupdate (reservable item s) ?f (storeProducts s)\<rparr>"
    using assms(1) by (auto simp: reserveItem_def tx_simps)
  obtain sp where sp: "sp \<in> set (rows (storeProducts s))" "reservable item s sp"
    using n tcount_zero_iff [of "reservable item s" "storeProducts s"] by (auto simp: tfind_None_iff)
  have id: "sp_id sp = ql_storeProductId item" and q: "int (ql_quantity item) \<le> sp_stockQuantity sp"
    using sp(2) by (simp_all add: reservable_def)
  have uniq: "p = sp" if "p \<in> set (rows (storeProducts s))" "sp_id p = ql_storeProductId item" for p
    using tkeyed_inj [of sp_id "storeProducts s" p sp] that sp(1) id assms(2) by (simp add: stock_ok_def)
  have f: "tfind (\<lambda>p. sp_id p = ql_storeProductId item) (storeProducts s) = Some sp"
    using store_product_table.find_unique [OF _ sp(1)] assms(2) id by (simp add: stock_ok_def)
  have upd: "tupdate (reservable item s) ?f (storeProducts s) = tupdate (\<lambda>p. sp_id p = ql_storeProductId item)
      (\<lambda>p. p\<lparr>sp_stockQuantity := sp_stockQuantity p + - int (ql_quantity item)\<rparr>) (storeProducts s)"
    using uniq sp(2) by (intro tupdate_eqI) (auto simp: reservable_def)
  show "stock k s' = stock k s + (if ql_storeProductId item = k then - int (ql_quantity item) else 0)"
    using stock_update [of "ql_storeProductId item" s k "- int (ql_quantity item)"] f by (auto simp: s' upd)
  show "\<exists>sps. s' = s\<lparr>storeProducts := sps\<rparr>" using s' by blast
  show "int (ql_quantity item) \<le> stock (ql_storeProductId item) s" using f q by (simp add: stock_def)
  have "tkeyed sp_id (storeProducts s')"
    using assms(2) by (auto simp: s' stock_ok_def intro!: store_product_table.update_keyed)
  then show "stock_ok s'" using assms(2) by (auto simp: stock_ok_def s' reservable_def)
qed

lemma reserve_all:
  assumes "eiter reserveItem items s = Inr s'" and "stock_ok s"
  shows "stock k s' = stock k s - quoted_quantity k items \<and> stock_ok s' \<and> (\<exists>sps. s' = s\<lparr>storeProducts := sps\<rparr>)"
  using assms
proof (induction items arbitrary: s)
  case Nil
  then show ?case by (auto simp: quoted_quantity_def intro: exI [of _ "storeProducts s'"])
next
  case (Cons item items)
  from Cons.prems(1) obtain t where t: "reserveItem item s = Inr t" "eiter reserveItem items t = Inr s'"
    by (auto simp: ebind_Inr_iff)
  note e = reserveItem_effect [OF t(1) Cons.prems(2)]
  obtain sps where "t = s\<lparr>storeProducts := sps\<rparr>" using e(3) by blast
  then show ?case using Cons.IH [OF t(2) e(2)] e(1) [of k] by (auto simp: quoted_quantity_def)
qed

section \<open>What creating an order writes\<close>

definition order_frame :: "db \<Rightarrow> db \<Rightarrow> bool" where
  "order_frame s s' \<longleftrightarrow> (\<exists>a b c d e f. s' = s\<lparr>storeProducts := a, orders := b, orderItems := c,
     statusHistory := d, pickups := e, deliveries := f\<rparr>)"

lemma order_frame_refl: "order_frame s s"
  unfolding order_frame_def
  by (rule exI [of _ "storeProducts s"], rule exI [of _ "orders s"], rule exI [of _ "orderItems s"],
      rule exI [of _ "statusHistory s"], rule exI [of _ "pickups s"], rule exI [of _ "deliveries s"]) simp

lemma order_frame_trans: "order_frame a b \<Longrightarrow> order_frame b c \<Longrightarrow> order_frame a c"
  unfolding order_frame_def by (elim exE, simp) (intro exI, rule refl)

lemma order_frameD:
  assumes "order_frame s s'"
  shows "groups s' = groups s" "allocations s' = allocations s" "wallets s' = wallets s" "walletTxs s' = walletTxs s"
    "storeWallets s' = storeWallets s" "storeWalletTxs s' = storeWalletTxs s" "carts s' = carts s"
    "cartItems s' = cartItems s" "payments s' = payments s" "users s' = users s" "coupons s' = coupons s"
  using assms by (auto simp: order_frame_def)

lemma createLines_items:
  "\<exists>n. createLines oid items s = s\<lparr>orderItems := \<lparr>rows = rows (orderItems s) @
     map2 (order_line oid) items [next_id (orderItems s)..<next_id (orderItems s) + length items], next_id = n\<rparr>\<rparr>"
proof (induction items arbitrary: s)
  case Nil
  show ?case by (rule exI [of _ "next_id (orderItems s)"]) (simp add: createLines_def)
next
  case (Cons item items)
  let ?t = "s\<lparr>orderItems := tinsert (order_line oid item) (orderItems s)\<rparr>"
  have "createLines oid (item # items) s = createLines oid items ?t" by (simp add: createLines_def)
  moreover have "[next_id (orderItems s)..<next_id (orderItems s) + length (item # items)] =
      next_id (orderItems s) # [Suc (next_id (orderItems s))..<Suc (next_id (orderItems s)) + length items]"
    by (simp add: upt_conv_Cons del: upt_Suc)
  ultimately show ?case using Cons [of ?t] by auto
qed

lemma line_quantity_map2:
  "length items = length ns \<Longrightarrow> line_quantity k (map2 (order_line oid) items ns) = quoted_quantity k items"
  by (induction items ns rule: list_induct2) (auto simp: line_quantity_def quoted_quantity_def order_line_def)

definition orders_wf :: "db \<Rightarrow> bool" where
  "orders_wf s \<longleftrightarrow> tkeyed o_id (orders s) \<and> (\<forall>i \<in> set (rows (orderItems s)). oi_orderId i < next_id (orders s))"

lemma createOrder_steps:
  assumes "createOrder env u q ord s = Inr (row, s')" and "stock_ok s"
  obtains user sps its n where
    "stock_ok (s\<lparr>storeProducts := sps\<rparr>)"
    "\<forall>k. stock k (s\<lparr>storeProducts := sps\<rparr>) = stock k s - quoted_quantity k (qo_items ord)"
    "row = new_order env user q ord (next_id (orders s))"
    "its = map2 (order_line (next_id (orders s))) (qo_items ord)
       [next_id (orderItems s)..<next_id (orderItems s) + length (qo_items ord)]"
    "storeProducts s' = sps" "orders s' = tinsert (new_order env user q ord) (orders s)"
    "orderItems s' = \<lparr>rows = rows (orderItems s) @ its, next_id = n\<rparr>" "order_frame s s'"
proof -
  obtain s1 user where r: "eiter reserveItem (qo_items ord) s = Inr s1"
    and row: "row = new_order env user q ord (next_id (orders s1))"
    and s': "s' = createFulfilment env q (next_id (orders s1)) (
       let s3 = createLines (next_id (orders s1)) (qo_items ord) (s1\<lparr>orders := tinsert (new_order env user q ord) (orders s1)\<rparr>)
       in s3\<lparr>statusHistory := tinsert (\<lambda>i. \<lparr>sh_id = i, sh_orderId = next_id (orders s1), sh_fromStatus = None,
                   sh_toStatus = ORDER_RECEIVED, sh_changedById = None, sh_reason = None\<rparr>) (statusHistory s3)\<rparr>)"
    using assms(1) by (auto simp: createOrder_def Let_def tx_simps)
  obtain sps where s1: "s1 = s\<lparr>storeProducts := sps\<rparr>" using reserve_all [OF r assms(2)] by blast
  let ?t = "s\<lparr>storeProducts := sps, orders := tinsert (new_order env user q ord) (orders s)\<rparr>"
  obtain n where cl: "createLines (next_id (orders s)) (qo_items ord) ?t =
      ?t\<lparr>orderItems := \<lparr>rows = rows (orderItems s) @ map2 (order_line (next_id (orders s))) (qo_items ord)
       [next_id (orderItems s)..<next_id (orderItems s) + length (qo_items ord)], next_id = n\<rparr>\<rparr>"
    using createLines_items [of "next_id (orders s)" "qo_items ord" ?t] by auto
  show thesis
  proof (rule that [of sps user _ n])
    show "stock_ok (s\<lparr>storeProducts := sps\<rparr>)" using reserve_all [OF r assms(2)] s1 by simp
    show "\<forall>k. stock k (s\<lparr>storeProducts := sps\<rparr>) = stock k s - quoted_quantity k (qo_items ord)"
      using reserve_all [OF r assms(2)] s1 by simp
    show "row = new_order env user q ord (next_id (orders s))" using row by (simp add: s1)
    show "storeProducts s' = sps" "orders s' = tinsert (new_order env user q ord) (orders s)"
      "orderItems s' = \<lparr>rows = rows (orderItems s) @ map2 (order_line (next_id (orders s))) (qo_items ord)
       [next_id (orderItems s)..<next_id (orderItems s) + length (qo_items ord)], next_id = n\<rparr>"
      by (simp_all add: s' s1 cl createFulfilment_def Let_def)
    have "s' = s\<lparr>storeProducts := sps, orders := orders s', orderItems := orderItems s', statusHistory := statusHistory s',
        pickups := pickups s', deliveries := deliveries s'\<rparr>"
      by (simp add: s' s1 cl createFulfilment_def Let_def)
    then show "order_frame s s'" unfolding order_frame_def by blast
  qed simp
qed

text \<open>
  The orders created for a quote: they are the rows appended to the order table, their lines
  are the quoted lines, their totals the quoted totals.
\<close>

definition created_ok :: "db \<Rightarrow> quote_order list \<Rightarrow> order list \<Rightarrow> db \<Rightarrow> bool" where
  "created_ok s qos ords s' \<longleftrightarrow> rows (orders s') = rows (orders s) @ ords \<and> orders_wf s' \<and> stock_ok s' \<and>
     order_frame s s' \<and> next_id (orders s) \<le> next_id (orders s') \<and>
     (\<forall>k. stock k s' = stock k s - (\<Sum>x\<leftarrow>qos. quoted_quantity k (qo_items x))) \<and>
     (\<Sum>x\<leftarrow>ords. o_total x) = (\<Sum>x\<leftarrow>qos. qo_total x) \<and>
     (\<forall>k. (\<Sum>x\<leftarrow>ords. line_quantity k (order_lines (o_id x) s')) = (\<Sum>x\<leftarrow>qos. quoted_quantity k (qo_items x))) \<and>
     (\<forall>x \<in> set ords. next_id (orders s) \<le> o_id x \<and> o_currentStatus x = ORDER_RECEIVED) \<and>
     (\<forall>i < next_id (orders s). order_lines i s' = order_lines i s)"

lemma createOrder_created:
  assumes "createOrder env u q ord s = Inr (row, s')" and "stock_ok s" and wf: "orders_wf s"
  shows "created_ok s [ord] [row] s'"
proof -
  obtain user sps its n where
    a: "stock_ok (s\<lparr>storeProducts := sps\<rparr>)"
      "\<forall>k. stock k (s\<lparr>storeProducts := sps\<rparr>) = stock k s - quoted_quantity k (qo_items ord)"
    and row: "row = new_order env user q ord (next_id (orders s))"
    and its: "its = map2 (order_line (next_id (orders s))) (qo_items ord)
       [next_id (orderItems s)..<next_id (orderItems s) + length (qo_items ord)]"
    and s': "storeProducts s' = sps" "orders s' = tinsert (new_order env user q ord) (orders s)"
      "orderItems s' = \<lparr>rows = rows (orderItems s) @ its, next_id = n\<rparr>" "order_frame s s'"
    by (rule createOrder_steps [OF assms(1,2)])
  have oid: "o_id (new_order env user q ord i) = i" "o_total (new_order env user q ord i) = qo_total ord"
    "o_currentStatus (new_order env user q ord i) = ORDER_RECEIVED" for i
    by (simp_all add: new_order_def Let_def)
  have own: "oi_orderId i = next_id (orders s)" if "i \<in> set its" for i
    using that by (auto simp: its order_line_def)
  have "order_lines (next_id (orders s)) s' = its"
    using own wf by (auto simp: order_lines_def tfilter_def s'(3) orders_wf_def filter_empty_conv intro!: filter_True)
  then have "line_quantity k (order_lines (o_id row) s') = quoted_quantity k (qo_items ord)" for k
    by (simp add: row oid its line_quantity_map2)
  moreover have "order_lines i s' = order_lines i s" if "i < next_id (orders s)" for i
    using own that by (auto simp: order_lines_def tfilter_def s'(3) filter_empty_conv)
  moreover have "orders_wf s'"
  proof -
    have "tkeyed o_id (orders s')" using wf oid by (simp add: s'(2) orders_wf_def order_table.insert_keyed)
    moreover have "oi_orderId i < next_id (orders s')" if "i \<in> set (rows (orderItems s'))" for i
      using that own wf by (auto simp: s' orders_wf_def)
    ultimately show ?thesis by (simp add: orders_wf_def)
  qed
  moreover have "stock k s' = stock k (s\<lparr>storeProducts := sps\<rparr>)" "stock_ok s' = stock_ok (s\<lparr>storeProducts := sps\<rparr>)" for k
    by (simp_all add: stock_def stock_ok_def s'(1))
  ultimately show ?thesis using a s'(2,4) by (simp add: created_ok_def row oid)
qed

lemma created_ok_append:
  assumes "created_ok s a xs t" and "created_ok t b ys u"
  shows "created_ok s (a @ b) (xs @ ys) u"
proof -
  have "o_id x < next_id (orders t)" if "x \<in> set xs" for x
    using that assms(1) by (auto simp: created_ok_def orders_wf_def tkeyed_def)
  then have "(\<Sum>x\<leftarrow>xs. line_quantity k (order_lines (o_id x) u)) = (\<Sum>x\<leftarrow>xs. line_quantity k (order_lines (o_id x) t))" for k
    using assms(2) by (intro arg_cong [where f = sum_list] map_cong refl) (simp add: created_ok_def)
  moreover have "order_frame s u" using assms order_frame_trans by (auto simp: created_ok_def)
  moreover have "\<forall>i < next_id (orders s). order_lines i u = order_lines i s"
    using assms by (simp add: created_ok_def)
  moreover have "\<forall>x \<in> set (xs @ ys). next_id (orders s) \<le> o_id x \<and> o_currentStatus x = ORDER_RECEIVED"
    using assms by (fastforce simp: created_ok_def)
  ultimately show ?thesis using assms by (simp add: created_ok_def)
qed

lemma created_ok_Nil: "stock_ok s \<Longrightarrow> orders_wf s \<Longrightarrow> created_ok s [] [] s"
  by (simp add: created_ok_def order_frame_refl)

lemma createOrders_created:
  assumes "createOrders env u q s = Inr (ords, s')" and "stock_ok s" and "orders_wf s"
  shows "created_ok s (q_orders q) ords s'"
proof -
  let ?f = "\<lambda>ord (created, t). ebind (createOrder env u q ord t) (\<lambda>(row, t'). Inr (created @ [row], t'))"
  have "created_ok s (before @ qos) ords s'"
    if "eiter ?f qos (acc, t) = Inr (ords, s')" "created_ok s before acc t" for qos before acc t
    using that
  proof (induction qos arbitrary: before acc t)
    case (Cons qo qos)
    from Cons.prems(1) obtain row t' where c: "createOrder env u q qo t = Inr (row, t')"
      and r: "eiter ?f qos (acc @ [row], t') = Inr (ords, s')" by (auto simp: ebind_Inr_iff)
    have "created_ok t [qo] [row] t'"
      using createOrder_created [OF c] Cons.prems(2) by (simp add: created_ok_def)
    from Cons.IH [OF r created_ok_append [OF Cons.prems(2) this]] show ?case by simp
  qed simp
  from this [OF _ created_ok_Nil [OF assms(2,3)]] assms(1) show ?thesis by (simp add: createOrders_def)
qed

section \<open>The payment group of a checkout\<close>

definition groups_wf :: "db \<Rightarrow> bool" where
  "groups_wf s \<longleftrightarrow> tkeyed g_id (groups s) \<and> (\<forall>al \<in> set (rows (allocations s)). al_paymentGroupId al < next_id (groups s))"

definition group_allocations :: "nat \<Rightarrow> db \<Rightarrow> allocation list" where
  "group_allocations gid s = tfilter (\<lambda>al. al_paymentGroupId al = gid) (allocations s)"

lemma createAllocations_rows:
  "\<exists>als n. createAllocations gid ords s = s\<lparr>allocations := \<lparr>rows = rows (allocations s) @ als, next_id = n\<rparr>\<rparr> \<and>
     map (\<lambda>al. (al_paymentGroupId al, al_orderId al, al_amount al)) als = map (\<lambda>x. (gid, o_id x, o_total x)) ords"
proof (induction ords arbitrary: s)
  case Nil
  show ?case by (rule exI [of _ "[]"], rule exI [of _ "next_id (allocations s)"]) (simp add: createAllocations_def)
next
  case (Cons ord ords)
  let ?mk = "\<lambda>i. \<lparr>al_id = i, al_paymentGroupId = gid, al_orderId = o_id ord, al_amount = o_total ord\<rparr>"
  obtain als n where h: "createAllocations gid ords (s\<lparr>allocations := tinsert ?mk (allocations s)\<rparr>) =
      s\<lparr>allocations := \<lparr>rows = (rows (allocations s) @ [?mk (next_id (allocations s))]) @ als, next_id = n\<rparr>\<rparr>"
    "map (\<lambda>al. (al_paymentGroupId al, al_orderId al, al_amount al)) als = map (\<lambda>x. (gid, o_id x, o_total x)) ords"
    using Cons [of "s\<lparr>allocations := tinsert ?mk (allocations s)\<rparr>"] by auto
  show ?case
    by (rule exI [of _ "?mk (next_id (allocations s)) # als"], rule exI [of _ n])
      (use h in \<open>simp add: createAllocations_def\<close>)
qed

lemma createGroup_effect:
  assumes "createGroup u cid inp q m ords s = (gid, s')" and "groups_wf s"
    and k: "tkeyed o_id (orders s)" and sub: "set ords \<subseteq> set (rows (orders s))"
  shows "gid = next_id (groups s)" and "groups s' = tinsert (new_group u cid inp q m) (groups s)"
    and "groupOrders gid s' = Inr ords" and "(\<Sum>al\<leftarrow>group_allocations gid s'. al_amount al) = (\<Sum>x\<leftarrow>ords. o_total x)"
    and "\<exists>gs als. s' = s\<lparr>groups := gs, allocations := als\<rparr>" and "groups_wf s'"
proof -
  let ?t = "s\<lparr>groups := tinsert (new_group u cid inp q m) (groups s)\<rparr>"
  show gid: "gid = next_id (groups s)" using assms(1) by (auto simp: createGroup_def Let_def)
  obtain als n where h: "createAllocations gid ords ?t = ?t\<lparr>allocations := \<lparr>rows = rows (allocations s) @ als, next_id = n\<rparr>\<rparr>"
    and cols: "map (\<lambda>al. (al_paymentGroupId al, al_orderId al, al_amount al)) als = map (\<lambda>x. (gid, o_id x, o_total x)) ords"
    using createAllocations_rows [of gid ords ?t] by auto
  have s': "s' = ?t\<lparr>allocations := \<lparr>rows = rows (allocations s) @ als, next_id = n\<rparr>\<rparr>"
    using assms(1) h by (auto simp: createGroup_def Let_def)
  show "groups s' = tinsert (new_group u cid inp q m) (groups s)" by (simp add: s')
  show "\<exists>gs als. s' = s\<lparr>groups := gs, allocations := als\<rparr>" using s' by blast
  have own: "al_paymentGroupId al = gid" if "al \<in> set als" for al
  proof -
    have "(al_paymentGroupId al, al_orderId al, al_amount al) \<in> set (map (\<lambda>x. (gid, o_id x, o_total x)) ords)"
      using that unfolding cols [symmetric] by auto
    then show ?thesis by auto
  qed
  have old: "filter (\<lambda>al. al_paymentGroupId al = gid) (rows (allocations s)) = []"
    using assms(2) by (auto simp: groups_wf_def gid filter_empty_conv)
  have ga: "group_allocations gid s' = als"
    using own old by (simp add: group_allocations_def tfilter_def s')
  have "map snd (map snd (map (\<lambda>al. (al_paymentGroupId al, al_orderId al, al_amount al)) als)) = map o_total ords"
    unfolding cols by simp
  then show "(\<Sum>al\<leftarrow>group_allocations gid s'. al_amount al) = (\<Sum>x\<leftarrow>ords. o_total x)" by (simp add: ga o_def)
  have "list_all2 (\<lambda>al y. tfind (\<lambda>x. o_id x = al_orderId al) (orders s) = Some y) zs ys"
    if "map (\<lambda>al. (al_paymentGroupId al, al_orderId al, al_amount al)) zs = map (\<lambda>x. (gid, o_id x, o_total x)) ys"
      "set ys \<subseteq> set (rows (orders s))" for zs ys
    using that order_table.find_unique [OF k]
    by (induction zs arbitrary: ys) (auto simp: Cons_eq_map_conv map_eq_Cons_conv)
  from this [OF cols sub] show "groupOrders gid s' = Inr ords"
    using ga by (simp add: groupOrders_def group_allocations_def emap_Inr_list_all2 orThrow_Inr_iff s')
  have "tkeyed g_id (groups s')" using assms(2)
    by (auto simp: s' groups_wf_def new_group_def intro!: group_table.insert_keyed)
  then show "groups_wf s'" using assms(2) own by (auto simp: groups_wf_def s' gid less_Suc_eq)
qed

lemma createFresh_steps:
  assumes "createFresh env u cid inp credit s = Inr (g, s')"
  obtains q ords s1 gid s2 m where
    "quoteInTransaction (ce_div env) (ce_now env) u inp s = Inr q"
    "createOrders env u q s = Inr (ords, s1)" "createGroup u cid inp q m ords s1 = (gid, s2)"
    "m = (case credit of Some (m, _, _) \<Rightarrow> m | None \<Rightarrow> checkoutMethod inp)"
    "(if m = WALLET \<or> credit \<noteq> None then payImmediately env u q m (map_option (snd \<circ> snd) credit) gid s2 else Inr s2) = Inr s'"
    "tfind (\<lambda>g. g_id g = gid) (groups s') = Some g"
proof -
  obtain q where q: "quoteInTransaction (ce_div env) (ce_now env) u inp s = Inr q"
    using assms by (auto simp: createFresh_def tx_simps)
  define m where "m = (case credit of Some (m, _, _) \<Rightarrow> m | None \<Rightarrow> checkoutMethod inp)"
  obtain ords s1 where c: "createOrders env u q s = Inr (ords, s1)"
    using assms q by (auto simp: createFresh_def tx_simps Let_def)
  obtain gid s2 where g: "createGroup u cid inp q m ords s1 = (gid, s2)" by fastforce
  show thesis
    using assms q c g by (intro that [OF q c g m_def]) (auto simp: createFresh_def tx_simps Let_def m_def [symmetric])
qed

lemma debitCheckout_effect:
  assumes "debitCheckout u a gid ref s = Inr s'" and "wallet_ok s"
  shows "wallet_ok s'" and "a \<le> user_balance u s" and "user_balance v s' = user_balance v s - (if v = u then a else 0)"
    and "\<exists>ws wts. s' = s\<lparr>wallets := ws, walletTxs := wts\<rparr>"
proof -
  obtain n s1 w1 where d: "debitWallet u a s = (n, s1)" and "n = 1"
    and f1: "tfind (\<lambda>w. w_userId w = u) (wallets s1) = Some w1"
    and t: "createWalletTx (w_id w1) a DEBIT ref (''Checkout '' @ show_nat gid) s1 = Inr s'"
    using assms(1) by (auto simp: debitCheckout_def tx_simps split: prod.splits)
  obtain w where w: "tfind (\<lambda>w. w_userId w = u) (wallets s) = Some w" "a \<le> w_balance w"
    "tfind (\<lambda>w. w_userId w = u) (wallets s1) = Some (w\<lparr>w_balance := w_balance w - a\<rparr>)" "wallet_off (w_id w) (- a) s1"
    using debitWallet_off [OF assms(2) d] \<open>n = 1\<close> by auto
  have id: "w_id w1 = w_id w" using f1 w(3) by auto
  from createWalletTx_off [OF w(4), of a DEBIT ref "''Checkout '' @ show_nat gid" s'] t id
  show "wallet_ok s'" by (intro wallet_off_ok [of "w_id w"]) simp
  show "a \<le> user_balance u s" using w(1,2) by (simp add: user_balance_def)
  have ws: "wallets s' = wallets s1" "\<exists>wts. s' = s1\<lparr>walletTxs := wts\<rparr>" using t by (auto simp: createWalletTx_def tx_simps)
  then show "\<exists>ws wts. s' = s\<lparr>wallets := ws, walletTxs := wts\<rparr>" using d by (auto simp: debitWallet_def Let_def)
  have "tfind (\<lambda>w. w_userId w = v) (wallets s1) = tfind (\<lambda>w. w_userId w = v) (wallets s)" if "v \<noteq> u"
    using d that by (auto simp: debitWallet_def Let_def intro!: tfind_tupdate_other)
  then show "user_balance v s' = user_balance v s - (if v = u then a else 0)"
    using w(1,3) by (auto simp: user_balance_def ws)
qed

lemma payImmediately_steps:
  assumes "payImmediately env u q m app gid s = Inr s'"
  obtains s1 s2 pay ref where
    "(if m = WALLET then debitCheckout u (q_total q) gid ref s else Inr s) = Inr s1" "\<exists>ps gs. s2 = s1\<lparr>payments := ps, groups := gs\<rparr>"
    "groups s2 = tupdate (\<lambda>g. g_id g = gid) (\<lambda>g. g\<lparr>g_paymentId := Some pay\<rparr>) (groups s1)"
    "completeGroup (ce_cfg env) (ce_now env) gid s2 = Inr s'"
proof -
  define ref where "ref = (case app of Some a \<Rightarrow> ''BNPL-'' @ show_nat a | None \<Rightarrow> ''WALLET-'' @ show_nat gid)"
  obtain s1 pay t where d: "(if m = WALLET then debitCheckout u (q_total q) gid ref s else Inr s) = Inr s1"
    and p: "createPayment (q_total q) (q_currency q) P_PAID m MANUAL ref None None no_meta (ce_now env) s1 = Inr (pay, t)"
    and c: "completeGroup (ce_cfg env) (ce_now env) gid
       (t\<lparr>groups := tupdate (\<lambda>g. g_id g = gid) (\<lambda>g. g\<lparr>g_paymentId := Some (pay_id pay)\<rparr>) (groups t)\<rparr>) = Inr s'"
    using assms unfolding payImmediately_def Let_def ref_def [symmetric] by (auto simp: ebind_Inr_iff)
  obtain ps where "t = s1\<lparr>payments := ps\<rparr>" using p by (auto simp: createPayment_def Let_def tx_simps)
  then show thesis by (intro that [OF d _ _ c]) auto
qed

text \<open>The rows a wallet payment or an approved credit leaves behind.\<close>

lemma payImmediately_rows:
  assumes "payImmediately env u q m app gid s = Inr s'"
    and "tfind (\<lambda>g. g_id g = gid) (groups s) = Some g" and "g_status g = P_PENDING"
  shows "storeProducts s' = storeProducts s" and "allocations s' = allocations s"
    and "\<exists>p. tfind (\<lambda>g. g_id g = gid) (groups s') = Some (g\<lparr>g_paymentId := p, g_status := P_PAID, g_activeCartId := None\<rparr>)"
proof -
  obtain s1 s2 pay ref where d: "(if m = WALLET then debitCheckout u (q_total q) gid ref s else Inr s) = Inr s1"
    and p: "\<exists>ps gs. s2 = s1\<lparr>payments := ps, groups := gs\<rparr>"
    and gs: "groups s2 = tupdate (\<lambda>g. g_id g = gid) (\<lambda>g. g\<lparr>g_paymentId := Some pay\<rparr>) (groups s1)"
    and c: "completeGroup (ce_cfg env) (ce_now env) gid s2 = Inr s'"
    by (rule payImmediately_steps [OF assms(1)])
  have s1: "storeProducts s1 = storeProducts s" "allocations s1 = allocations s" "groups s1 = groups s"
    using d by (auto simp: debitCheckout_def debitWallet_def createWalletTx_def Let_def tx_simps split: if_splits)
  show "storeProducts s' = storeProducts s" "allocations s' = allocations s"
    using completeGroup_invariants(4) [OF c] completeGroup_rows(1) [OF c] p s1 by auto
  have g2: "tfind (\<lambda>g. g_id g = gid) (groups s2) = Some (g\<lparr>g_paymentId := Some pay\<rparr>)"
    using assms(2) by (auto simp: gs s1 tfind_tupdate dest: tfind_SomeD)
  obtain ords where o: "groupOrders gid s2 = Inr ords" using c by (auto simp: completeGroup_def tx_simps)
  let ?g = "g\<lparr>g_paymentId := Some pay\<rparr>"
  have np: "\<not> (g_status ?g = P_PAID \<and> g_activeCartId ?g = None)" using assms(3) by simp
  obtain s3 s4 where "g_status ?g \<noteq> P_FAILED"
    and cf: "eiter (confirmOrder (ce_cfg env) (ce_now env) (g_userId ?g)) ords s2 = Inr s3"
    and e: "emptyCart (g_userId ?g) (g_cartSnapshot ?g) s3 = Inr s4"
    and s': "s' = s4\<lparr>groups := tupdate (\<lambda>g. g_id g = gid) (\<lambda>g. g\<lparr>g_status := P_PAID, g_activeCartId := None\<rparr>) (groups s4)\<rparr>"
    by (rule completeGroup_steps [OF c g2 np o])
  have "groups s' = tupdate (\<lambda>g. g_id g = gid) (\<lambda>g. g\<lparr>g_status := P_PAID, g_activeCartId := None\<rparr>) (groups s2)"
  proof -
    have "\<forall>ord \<in> set ords. \<exists>cur. tfind (\<lambda>x. o_id x = o_id ord) (orders s2) = Some cur \<and> o_orderNumber cur = o_orderNumber ord"
      using groupOrders_found [OF o] by blast
    from confirm_all [OF cf this] have "groups s3 = groups s2" by blast
    moreover from emptyCart_frame [OF e] have "groups s4 = groups s3" by (auto simp: cart_frame_def)
    ultimately show ?thesis by (simp add: s')
  qed
  then show "\<exists>p. tfind (\<lambda>g. g_id g = gid) (groups s') = Some (g\<lparr>g_paymentId := p, g_status := P_PAID, g_activeCartId := None\<rparr>)"
    using g2 by (auto simp: tfind_tupdate dest: tfind_SomeD)
qed

lemma failGroup_paid: "tfind (\<lambda>g. g_id g = gid) (groups s) = Some g \<Longrightarrow> g_status g = P_PAID \<Longrightarrow> failGroup now gid s \<noteq> Inr s'"
  by (auto simp: failGroup_def tx_simps)

text \<open>
  (C6) A checkout that starts a new payment group reserves exactly what it quoted: the stock of
  every store product falls by the quoted quantity, none becomes negative, the allocations of
  the group add up to its total, which is the quoted total, and releasing the group later (the
  payment failed or was cancelled) brings every stock back to where it was.
\<close>

theorem checkout_reserves:
  assumes "createInTransaction env u inp credit s = Inr (g, s')"
    and "tfind (\<lambda>c. c_userId c = u) (carts s) = Some cart"
    and "tfind (\<lambda>g. g_activeCartId g = Some (c_id cart)) (groups s) = None"
    and "stock_ok s" and "orders_wf s" and "groups_wf s"
  shows "\<exists>q. quoteInTransaction (ce_div env) (ce_now env) u inp s = Inr q \<and> stock_ok s' \<and>
    (\<forall>k. stock k s' = stock k s - (\<Sum>x\<leftarrow>q_orders q. quoted_quantity k (qo_items x))) \<and>
    g_totalAmount g = q_total q \<and> (\<Sum>al\<leftarrow>group_allocations (g_id g) s'. al_amount al) = g_totalAmount g \<and>
    (\<forall>now k s''. failGroup now (g_id g) s' = Inr s'' \<longrightarrow> stock k s'' = stock k s)"
proof -
  have cf: "createFresh env u (c_id cart) inp credit s = Inr (g, s')"
    using assms(1-3) by (auto simp: createInTransaction_def lock_def tx_simps)
  obtain q ords s1 gid s2 m where q: "quoteInTransaction (ce_div env) (ce_now env) u inp s = Inr q"
    and o: "createOrders env u q s = Inr (ords, s1)" and gr: "createGroup u (c_id cart) inp q m ords s1 = (gid, s2)"
    and "m = (case credit of Some (m, _, _) \<Rightarrow> m | None \<Rightarrow> checkoutMethod inp)"
    and p: "(if m = WALLET \<or> credit \<noteq> None then payImmediately env u q m (map_option (snd \<circ> snd) credit) gid s2 else Inr s2) = Inr s'"
    and g: "tfind (\<lambda>g. g_id g = gid) (groups s') = Some g"
    by (rule createFresh_steps [OF cf])
  have ok: "created_ok s (q_orders q) ords s1" by (rule createOrders_created [OF o assms(4,5)])
  have wf1: "groups_wf s1" "tkeyed o_id (orders s1)" "set ords \<subseteq> set (rows (orders s1))"
    using ok assms(6) order_frameD [of s s1] by (auto simp: created_ok_def groups_wf_def orders_wf_def)
  note ge = createGroup_effect [OF gr wf1]
  obtain gs als where s2: "s2 = s1\<lparr>groups := gs, allocations := als\<rparr>" using ge(5) by blast
  have g2: "tfind (\<lambda>g. g_id g = gid) (groups s2) = Some (new_group u (c_id cart) inp q m gid)"
    using group_table.fresh_not_found [of "groups s1"] wf1(1) ge(1,2) by (simp add: tfind_tinsert groups_wf_def new_group_def)
  have st: "stock k s2 = stock k s - (\<Sum>x\<leftarrow>q_orders q. quoted_quantity k (qo_items x))" "stock_ok s2" for k
    using ok by (simp_all add: created_ok_def s2 stock_def stock_ok_def)
  have "storeProducts s' = storeProducts s2 \<and> allocations s' = allocations s2 \<and> g_id g = gid \<and>
      g_totalAmount g = q_total q \<and> (g_status g = P_PAID \<or> s' = s2)"
  proof (cases "m = WALLET \<or> credit \<noteq> None")
    case True
    then have "payImmediately env u q m (map_option (snd \<circ> snd) credit) gid s2 = Inr s'" using p by simp
    note r = payImmediately_rows [OF this g2]
    then obtain x where "g = (new_group u (c_id cart) inp q m gid)\<lparr>g_paymentId := x, g_status := P_PAID, g_activeCartId := None\<rparr>"
      using g by (auto simp: new_group_def)
    with r(1,2) show ?thesis by (simp add: new_group_def)
  next
    case False
    then show ?thesis using p g g2 by (auto simp: new_group_def)
  qed
  then have same: "storeProducts s' = storeProducts s2" "allocations s' = allocations s2" "g_id g = gid"
      "g_totalAmount g = q_total q"
    and paid: "g_status g = P_PAID \<or> s' = s2" by simp_all
  have "stock k s'' = stock k s" if f: "failGroup now (g_id g) s' = Inr s''" for now k s''
  proof -
    from paid f g have "s' = s2" using failGroup_paid [of "g_id g" s'] same(3) by auto
    then have f2: "failGroup now gid s2 = Inr s''" using f same(3) by simp
    have "stock k s'' = stock k s2 + (\<Sum>ord\<leftarrow>ords. line_quantity k (order_lines (o_id ord) s2))"
      using failGroup_stock [OF f2 g2 _ ge(3)] by (simp add: new_group_def)
    also have "(\<Sum>ord\<leftarrow>ords. line_quantity k (order_lines (o_id ord) s2)) = (\<Sum>x\<leftarrow>q_orders q. quoted_quantity k (qo_items x))"
      using ok by (simp add: created_ok_def s2 order_lines_def)
    finally show ?thesis using st(1) [of k] by simp
  qed
  moreover have "(\<Sum>al\<leftarrow>group_allocations (g_id g) s'. al_amount al) = q_total q"
    using ge(4) ok quote_total_sum [OF q] same(2,3) by (simp add: group_allocations_def created_ok_def)
  ultimately show ?thesis
    using q st same by (intro exI [of _ q]) (simp add: stock_cong [OF same(1)] stock_ok_cong [OF same(1)])
qed

text \<open>
  (C7) A checkout paid from the wallet takes exactly the quoted total from the wallet of the
  customer, who must have had at least that much; no other balance changes, the ledger of the
  wallets stays consistent and the group is paid in the same transaction.
\<close>

theorem checkout_wallet_debit:
  assumes "createInTransaction env u inp None s = Inr (g, s')"
    and "tfind (\<lambda>c. c_userId c = u) (carts s) = Some cart"
    and "tfind (\<lambda>g. g_activeCartId g = Some (c_id cart)) (groups s) = None"
    and "in_paymentMethod inp = Some ''wallet''"
    and "stock_ok s" and "orders_wf s" and "groups_wf s" and "wallet_ok s"
  shows "\<exists>q. quoteInTransaction (ce_div env) (ce_now env) u inp s = Inr q \<and> q_total q \<le> user_balance u s \<and>
    user_balance u s' = user_balance u s - q_total q \<and> (\<forall>v. v \<noteq> u \<longrightarrow> user_balance v s' = user_balance v s) \<and>
    wallet_ok s' \<and> g_status g = P_PAID"
proof -
  define credit :: "(payment_method \<times> string \<times> nat) option" where "credit = None"
  have cf: "createFresh env u (c_id cart) inp credit s = Inr (g, s')"
    using assms(1-3) by (auto simp: createInTransaction_def lock_def tx_simps credit_def)
  obtain q ords s1 gid s2 m where q: "quoteInTransaction (ce_div env) (ce_now env) u inp s = Inr q"
    and o: "createOrders env u q s = Inr (ords, s1)" and gr: "createGroup u (c_id cart) inp q m ords s1 = (gid, s2)"
    and m: "m = (case credit of Some (m, _, _) \<Rightarrow> m | None \<Rightarrow> checkoutMethod inp)"
    and p: "(if m = WALLET \<or> credit \<noteq> None then payImmediately env u q m (map_option (snd \<circ> snd) credit) gid s2 else Inr s2) = Inr s'"
    and g: "tfind (\<lambda>g. g_id g = gid) (groups s') = Some g"
    by (rule createFresh_steps [OF cf])
  have [simp]: "m = WALLET" using m assms(4) by (simp add: checkoutMethod_def credit_def)
  have pay: "payImmediately env u q m None gid s2 = Inr s'" using p by (simp add: credit_def)
  have ok: "created_ok s (q_orders q) ords s1" by (rule createOrders_created [OF o assms(5,6)])
  have wf1: "groups_wf s1" "tkeyed o_id (orders s1)" "set ords \<subseteq> set (rows (orders s1))"
    using ok assms(7) order_frameD [of s s1] by (auto simp: created_ok_def groups_wf_def orders_wf_def)
  note ge = createGroup_effect [OF gr wf1]
  have ws: "wallets s2 = wallets s" "walletTxs s2 = walletTxs s"
  proof -
    have "order_frame s s1" using ok by (simp add: created_ok_def)
    moreover obtain gs als where "s2 = s1\<lparr>groups := gs, allocations := als\<rparr>" using ge(5) by blast
    ultimately show "wallets s2 = wallets s" "walletTxs s2 = walletTxs s" using order_frameD(3,4) by simp_all
  qed
  have w2: "wallet_ok s2" using assms(8) wallet_ok_cong [OF ws] by simp
  have b2: "user_balance v s2 = user_balance v s" for v by (simp add: user_balance_def ws)
  have g2: "tfind (\<lambda>g. g_id g = gid) (groups s2) = Some (new_group u (c_id cart) inp q m gid)"
    using group_table.fresh_not_found [of "groups s1"] wf1(1) ge(1,2) by (simp add: tfind_tinsert groups_wf_def new_group_def)
  have paid: "g_status g = P_PAID" using payImmediately_rows(3) [OF pay g2] g by (auto simp: new_group_def)
  obtain s3 s4 pid ref where d: "(if m = WALLET then debitCheckout u (q_total q) gid ref s2 else Inr s2) = Inr s3"
    and s4: "\<exists>ps gs. s4 = s3\<lparr>payments := ps, groups := gs\<rparr>"
    and "groups s4 = tupdate (\<lambda>g. g_id g = gid) (\<lambda>g. g\<lparr>g_paymentId := Some pid\<rparr>) (groups s3)"
    and c: "completeGroup (ce_cfg env) (ce_now env) gid s4 = Inr s'"
    by (rule payImmediately_steps [OF pay])
  have d: "debitCheckout u (q_total q) gid ref s2 = Inr s3" using d by simp
  note de = debitCheckout_effect [OF d w2]
  have "wallet_ok s4" "user_balance v s4 = user_balance v s3" for v
    using de(1) s4 by (auto simp: user_balance_def wallet_ok_def)
  then show ?thesis
    using q paid de(2,3) b2 completeGroup_user_balance [OF c] completeGroup_invariants(1) [OF c] by auto
qed


section \<open>Examples\<close>

definition example_env :: checkout_env where
  "example_env = \<lparr>ce_now = 0, ce_div = (/), ce_cfg = (\<lambda>_. None),
     ce_inputFp = (\<lambda>i. case in_paymentMethod i of None \<Rightarrow> '''' | Some m \<Rightarrow> m), ce_quoteFp = (\<lambda>_. ''''),
     ce_orderNumber = (\<lambda>i. ''PUR-'' @ show_nat i), ce_codeHash = show_nat, ce_qrToken = show_nat\<rparr>"

definition card_checkout :: checkout_input where
  "card_checkout = home_delivery\<lparr>in_paymentMethod := Some ''card''\<rparr>"

definition cart7 :: cart where
  "cart7 = \<lparr>c_id = 1, c_userId = 7, c_currency = ''NGN'', c_subtotal = 239, c_totalItems = 3\<rparr>"

definition shop_ready :: db where
  "shop_ready = shop_cart\<lparr>wallets := \<lparr>rows = [\<lparr>w_id = 1, w_userId = 7, w_balance = 1000\<rparr>], next_id = 2\<rparr>,
     walletTxs := \<lparr>rows = [\<lparr>wt_id = 1, wt_walletId = 1, wt_amount = 1000, wt_type = CREDIT,
       wt_reference = Some ''TOPUP-CREDIT-1'', wt_description = ''Wallet top-up''\<rparr>], next_id = 2\<rparr>\<rparr>"

lemma shop_ready_facts:
  "tfind (\<lambda>c. c_userId c = 7) (carts shop_ready) = Some cart7"
  "tfind (\<lambda>g. g_activeCartId g = Some (c_id cart7)) (groups shop_ready) = None"
  "stock_ok shop_ready" "orders_wf shop_ready" "groups_wf shop_ready"
  by code_simp+

lemma shop_ready_wallet: "wallet_ok shop_ready"
  by code_simp

abbreviation "card_created \<equiv> createInTransaction example_env 7 card_checkout None shop_ready"
abbreviation "wallet_created \<equiv> createInTransaction example_env 7 home_delivery None shop_ready"

lemma created_examples: "\<not> isl card_created" "\<not> isl wallet_created"
  by code_simp+

lemma card_created_result: "card_created = Inr (fst (projr card_created), snd (projr card_created))"
  using created_examples(1) by (cases card_created) auto

lemma wallet_created_result: "wallet_created = Inr (fst (projr wallet_created), snd (projr wallet_created))"
  using created_examples(2) by (cases wallet_created) auto

theorem checkout_reserves_witness:
  "stock 1 (snd (projr card_created)) = 3 \<and> stock_ok (snd (projr card_created)) \<and>
   (\<Sum>al\<leftarrow>group_allocations (g_id (fst (projr card_created))) (snd (projr card_created)). al_amount al) =
     g_totalAmount (fst (projr card_created))"
proof -
  have "stock 1 (snd (projr card_created)) = 3" by code_simp
  then show ?thesis using checkout_reserves [OF card_created_result shop_ready_facts] by blast
qed

theorem checkout_wallet_debit_witness:
  "user_balance 7 shop_ready = 1000 \<and> user_balance 7 (snd (projr wallet_created)) = 281 \<and>
   wallet_ok (snd (projr wallet_created)) \<and> g_status (fst (projr wallet_created)) = P_PAID"
proof -
  have "user_balance 7 shop_ready = 1000" "user_balance 7 (snd (projr wallet_created)) = 281" by code_simp+
  moreover have "in_paymentMethod home_delivery = Some ''wallet''" by (simp add: home_delivery_def)
  ultimately show ?thesis
    using checkout_wallet_debit [OF wallet_created_result shop_ready_facts(1,2) _ shop_ready_facts(3-5) shop_ready_wallet] by blast
qed


text \<open>The group of the card checkout is released, and completed, on the state the checkout left.\<close>

definition card_group :: payment_group where
  "card_group = fst (projr card_created)"

definition card_state :: db where
  "card_state = snd (projr card_created)"

definition card_orders :: "order list" where
  "card_orders = projr (groupOrders 1 card_state)"

lemma card_state_facts:
  "tfind (\<lambda>g. g_id g = 1) (groups card_state) = Some card_group" "g_status card_group = P_PENDING"
  "groupOrders 1 card_state = Inr card_orders"
  by code_simp+

abbreviation "card_released \<equiv> failGroup 0 1 card_state"
abbreviation "card_completed \<equiv> completeGroup (\<lambda>_. None) 0 1 card_state"

lemma card_results: "card_released = Inr (projr card_released)" "card_completed = Inr (projr card_completed)"
proof -
  have "\<not> isl card_released" "\<not> isl card_completed" by code_simp+
  then show "card_released = Inr (projr card_released)" "card_completed = Inr (projr card_completed)"
    by (metis sum.collapse(2))+
qed

theorem failGroup_releases_witness:
  "stock 1 card_state = 3 \<and> stock 1 (projr card_released) = 5 \<and>
   failGroup 0 1 (projr card_released) = Inr (projr card_released)"
proof -
  have "stock 1 card_state = 3" "stock 1 (projr card_released) = 5" by code_simp+
  then show ?thesis using failGroup_releases [OF card_results(1) card_state_facts(1) _ card_state_facts(3)] card_state_facts(2) by simp
qed

theorem completeGroup_confirms_witness:
  "map (\<lambda>ord. status_of (o_id ord) (projr card_completed)) card_orders = [Some CONFIRMED] \<and>
   storeProducts (projr card_completed) = storeProducts card_state \<and>
   completeGroup (\<lambda>_. None) 0 1 (projr card_completed) = Inr (projr card_completed)"
proof -
  have "map (\<lambda>ord. status_of (o_id ord) (projr card_completed)) card_orders = [Some CONFIRMED]" by code_simp
  then show ?thesis
    using completeGroup_confirms [OF card_results(2) card_state_facts(1) _ card_state_facts(3)] card_state_facts(2) by simp
qed

end
