(* ===== verification/Payments.thy ===== *)
theory Payments
  imports Funding Checkout
begin

text \<open>
  The life of a provider payment (\<^verbatim>\<open>src/payments/payments.service.ts\<close>): starting it, asking the
  provider what became of it (\<open>verifyReference\<close>, the only place that marks a checkout payment
  as paid), the webhook, cancelling a checkout, and the reconciliation timer.  The reads and
  the transaction of one request are not interleaved with other requests.
\<close>

section \<open>Starting a payment\<close>

definition payment_by_ref :: "string \<Rightarrow> db \<Rightarrow> payment option" where
  "payment_by_ref reference s = tfind (\<lambda>p. pay_transactionRef p = Some reference) (payments s)"

definition payment_row :: "nat \<Rightarrow> db \<Rightarrow> payment option" where
  "payment_row i s = tfind (\<lambda>p. pay_id p = i) (payments s)"

definition payment_groups :: "nat \<Rightarrow> db \<Rightarrow> payment_group list" where
  "payment_groups pid s = tfilter (\<lambda>g. g_paymentId g = Some pid) (groups s)"

definition group_of :: "nat \<Rightarrow> nat \<Rightarrow> db \<Rightarrow> payment_group option" where
  "group_of uid gid s = tfind (\<lambda>g. g_id g = gid \<and> g_userId g = uid) (groups s)"

definition group_payment :: "payment_group \<Rightarrow> db \<Rightarrow> payment option" where
  "group_payment g s = Option.bind (g_paymentId g) (\<lambda>i. payment_row i s)"

text \<open>The claim: whether this request is the one that calls the provider.\<close>

definition claimPayment :: "pay_env \<Rightarrow> nat \<Rightarrow> nat \<Rightarrow> (payment \<times> bool) tx" where
  "claimPayment env uid gid s =
     ebind (orThrow (group_of uid gid s) (NotFound ''Checkout payment group not found.'')) (\<lambda>g.
     require (g_status g \<noteq> P_FAILED) (Conflict ''Checkout failed. Start a new checkout.'') (
     case group_payment g s of
       Some p \<Rightarrow>
         if truthy_str (pay_paymentUrl p) \<or> pm_transferExpiresAt (pay_metadata p) \<noteq> None \<or> pay_status p = P_PAID
         then Inr ((p, False), s)
         else if (case pm_initializingUntil (pay_metadata p) of None \<Rightarrow> 0 | Some t \<Rightarrow> t) > pe_now env
         then Inr ((p, False), s)
         else let f = (\<lambda>p. p\<lparr>pay_metadata := no_meta\<lparr>pm_initializingUntil := Some (pe_now env + 60000)\<rparr>\<rparr>)
              in Inr ((f p, True), updatePayment (pay_id p) f s)
     | None \<Rightarrow>
         require (g_paymentMethod g \<in> {CARD, BANK_TRANSFER, OPAY}) (BadRequest ''Checkout does not use Paystack.'') (
         ebind (createPayment (g_totalAmount g) (g_currency g) P_PENDING (g_paymentMethod g) PAYSTACK
           (''PUR-'' @ show_nat (g_id g) @ ''-'' @ pe_uuid env) None None
           (no_meta\<lparr>pm_initializingUntil := Some (pe_now env + 60000)\<rparr>) (pe_now env) s) (\<lambda>(p, s1).
         Inr ((p, True), s1\<lparr>groups := tupdate (\<lambda>x. g_id x = g_id g)
           (\<lambda>x. x\<lparr>g_paymentId := Some (pay_id p), g_status := P_PROCESSING\<rparr>) (groups s1)\<rparr>)))))"

definition startCharge :: "pay_env \<Rightarrow> user \<Rightarrow> nat \<Rightarrow> payment \<Rightarrow> nat handler" where
  "startCharge env customer gid p =
     (let reference = the (pay_transactionRef p)
      in if pay_paymentMethod p = BANK_TRANSFER
         then hbind (hlift (ebind (createBankTransferCharge (pe_fetch env) reference (u_email customer) (pay_amount p)
                (pe_toISO env (pe_now env + 30 * 60000))
                (JObj [(''paymentGroupId'', JNum (int gid)), (''userId'', JNum (int (u_id customer))),
                       (''purpose'', JStr ''ORDER_PAYMENT'')])) fields_of)) (\<lambda>charge.
              if jget ''reference'' charge \<noteq> Some (JStr reference)
              then hthrow (BadRequest ''Payment provider returned a different reference.'')
              else if jget ''status'' charge \<noteq> Some (JStr ''pending_bank_transfer'')
              then hthrow (BadRequest ''Paystack did not return transfer instructions.'')
              else hbind (hmodify (updatePayment (pay_id p) (\<lambda>x. x\<lparr>pay_providerRef := Some reference,
                     pay_metadata := no_meta\<lparr>pm_transferExpiresAt := transferExpiry env charge\<rparr>\<rparr>))) (\<lambda>_.
                   hreturn (pay_id p)))
         else hbind (hlift (ebind (px_initialize (pe_fetch env) (pe_callback env) reference (u_email customer) (pay_amount p)
                (if pay_paymentMethod p = OPAY then [''bank''] else [''card''])
                (JObj [(''paymentGroupId'', JNum (int gid)), (''userId'', JNum (int (u_id customer)))])) fields_of)) (\<lambda>initialized.
              if jget ''reference'' initialized \<noteq> Some (JStr reference)
              then hthrow (BadRequest ''Payment provider returned a different reference.'')
              else hbind (hmodify (updatePayment (pay_id p) (\<lambda>x. x\<lparr>pay_providerRef := Some reference,
                     pay_paymentUrl := jstring (jget ''authorization_url'' initialized), pay_metadata := no_meta\<rparr>))) (\<lambda>_.
                   hreturn (pay_id p))))"

definition initialize :: "pay_env \<Rightarrow> nat \<Rightarrow> nat \<Rightarrow> nat handler" where
  "initialize env uid gid =
     hbind (transaction (claimPayment env uid gid)) (\<lambda>(p, start).
     if \<not> start then hreturn (pay_id p)
     else hbind (\<lambda>s. (user_row uid s, s)) (\<lambda>customer.
          hcatch (startCharge env customer gid p)
            (\<lambda>e. hbind (hmodify (updatePayment (pay_id p) (\<lambda>x. x\<lparr>pay_metadata := no_meta\<rparr>))) (\<lambda>_. hthrow e))))"

section \<open>Verification\<close>

datatype verify_status = Is payment_status | REFUND_PENDING

definition verified_matches :: "string \<Rightarrow> string \<Rightarrow> payment \<Rightarrow> json \<Rightarrow> unit result" where
  "verified_matches msg reference p v =
     (if jget ''reference'' v \<noteq> Some (JStr reference) \<or> jget ''currency'' v \<noteq> Some (JStr (pay_currency p))
      then Inl (BadRequest msg)
      else case jget ''amount'' v of
        Some (JNum n) \<Rightarrow> ebind (kobo (pay_amount p)) (\<lambda>k. require (n = k) (BadRequest msg) (Inr ()))
      | _ \<Rightarrow> Inl (BadRequest msg))"

definition ask_provider :: "pay_env \<Rightarrow> string \<Rightarrow> string \<Rightarrow> payment \<Rightarrow> json result" where
  "ask_provider env msg reference p =
     ebind (px_verify (pe_fetch env) reference) (\<lambda>d. ebind (fields_of d) (\<lambda>v.
     ebind (verified_matches msg reference p v) (\<lambda>_. Inr v)))"

definition succeeded :: "json \<Rightarrow> bool" where
  "succeeded v \<longleftrightarrow> jget ''status'' v = Some (JStr ''success'')"

definition hasFailed :: "json \<Rightarrow> bool" where
  "hasFailed v \<longleftrightarrow> jget ''status'' v = Some (JStr ''failed'')"

definition dispatchGroupConfirmations :: "pay_env \<Rightarrow> nat list \<Rightarrow> db \<Rightarrow> db" where
  "dispatchGroupConfirmations env gids s =
     (if gids = [] then s
      else snd (processOrderConfirmations (pe_outbox env)
             (map al_orderId (tfilter (\<lambda>al. al_paymentGroupId al \<in> set gids) (allocations s))) s))"

definition lock_then :: "nat \<Rightarrow> (db \<Rightarrow> db result) \<Rightarrow> db \<Rightarrow> db result" where
  "lock_then uid f s = ebind (lock uid s) (\<lambda>(_, s1). f s1)"

definition first_group :: "payment_group list \<Rightarrow> nat option" where
  "first_group gs = (case gs of [] \<Rightarrow> None | g # _ \<Rightarrow> Some (g_id g))"

text \<open>A payment that is paid already: groups that are not complete yet are completed now.\<close>

definition verifyPaid :: "pay_env \<Rightarrow> payment \<Rightarrow> (verify_status \<times> nat option) handler" where
  "verifyPaid env p s =
     (let gs = payment_groups (pay_id p) s;
          incomplete = filter (\<lambda>g. g_activeCartId g \<noteq> None \<or> g_status g \<noteq> P_PAID) gs
      in hbind (if incomplete = [] then hreturn ()
                else transact (eiter (\<lambda>g. lock_then (g_userId g) (completeGroup (pe_cfg env) (pe_now env) (g_id g))) incomplete)) (\<lambda>_.
         hbind (hmodify (dispatchGroupConfirmations env (map g_id gs))) (\<lambda>_.
         hreturn (Is (pay_status p), first_group gs))) s)"

definition settleRepayment :: "pay_env \<Rightarrow> payment \<Rightarrow> nat \<Rightarrow> json \<Rightarrow> db \<Rightarrow> db result" where
  "settleRepayment env p rid v s =
     ebind (orThrow (tfind (\<lambda>r. br_id r = rid) (repayments s)) RecordNotFound) (\<lambda>current.
     if br_status current = P_PAID \<or> br_status current = P_FAILED then Inr s
     else ebind (if succeeded v then completeBnplRepayment (br_id current) s
                 else Inr (s\<lparr>repayments := tupdate (\<lambda>r. br_id r = br_id current) (\<lambda>r. r\<lparr>br_status := P_FAILED\<rparr>) (repayments s)\<rparr>)) (\<lambda>s1.
          Inr (updatePayment (pay_id p) (\<lambda>x. x\<lparr>pay_status := if succeeded v then P_PAID else P_FAILED\<rparr>) s1)))"

definition verifyRepayment :: "pay_env \<Rightarrow> string \<Rightarrow> payment \<Rightarrow> (verify_status \<times> nat option) handler" where
  "verifyRepayment env reference p s = (case tfind (\<lambda>r. br_reference r = reference) (repayments s) of
     None \<Rightarrow> (Inl (NotFound ''BNPL repayment not found.''), s)
   | Some repayment \<Rightarrow>
       hbind (hlift (ask_provider env ''Payment reference, amount, or currency does not match repayment.'' reference p)) (\<lambda>v.
       if \<not> succeeded v \<and> \<not> hasFailed v then hreturn (Is (pay_status p), None)
       else hbind (transact (settleRepayment env p (br_id repayment) v)) (\<lambda>_.
            hreturn (Is (if succeeded v then P_PAID else P_FAILED), None))) s)"

definition creditTopup :: "payment \<Rightarrow> bool tx" where
  "creditTopup p s =
     ebind (orThrow (payment_row (pay_id p) s) RecordNotFound) (\<lambda>current.
     if pay_status current = P_PAID then Inr (False, s)
     else ebind (orThrow (pm_userId (pay_metadata p)) RecordNotFound) (\<lambda>uid.
          ebind (completeWalletTopup (pay_id p) uid (pay_amount p)
                   (updatePayment (pay_id p) (\<lambda>x. x\<lparr>pay_status := P_PAID\<rparr>) s)) (\<lambda>s1.
          Inr (True, s1))))"

definition expired :: "pay_env \<Rightarrow> payment \<Rightarrow> bool" where
  "expired env p \<longleftrightarrow> (case pm_transferExpiresAt (pay_metadata p) of None \<Rightarrow> False
     | Some t \<Rightarrow> t + 10 * 60000 < pe_now env)"

definition failTopup :: "pay_env \<Rightarrow> payment \<Rightarrow> (payment \<Rightarrow> payment) \<Rightarrow> (verify_status \<times> nat option) handler" where
  "failTopup env p f =
     hbind (hmodify (updatePayment (pay_id p) f)) (\<lambda>_.
     hbind (hlift (orThrow (pm_userId (pay_metadata p)) RecordNotFound)) (\<lambda>uid.
     hbind (notifyPaymentFailure (pe_push env) uid (pay_id p)) (\<lambda>_.
     hreturn (Is P_FAILED, None))))"

definition verifyTopup :: "pay_env \<Rightarrow> string \<Rightarrow> payment \<Rightarrow> (verify_status \<times> nat option) handler" where
  "verifyTopup env reference p =
     hbind (hlift (ask_provider env ''Payment reference, amount, or currency does not match top-up.'' reference p)) (\<lambda>v.
     if \<not> succeeded v \<and> \<not> hasFailed v
     then (if pm_purpose (pay_metadata p) \<noteq> Some ''WALLET_TRANSFER_TOPUP'' \<or> \<not> expired env p
           then hreturn (Is (pay_status p), None)
           else failTopup env p (\<lambda>x. x\<lparr>pay_status := P_FAILED, pay_failureReason := Some ''Bank transfer account expired.''\<rparr>))
     else if succeeded v
     then hbind (transaction (creditTopup p)) (\<lambda>credited.
          hbind (if credited then hbind (hlift (orThrow (pm_userId (pay_metadata p)) RecordNotFound))
                   (\<lambda>uid. notifyWalletFunded (pe_push env) uid reference) else hreturn ()) (\<lambda>_.
          hreturn (Is P_PAID, None)))
     else failTopup env p (\<lambda>x. x\<lparr>pay_status := P_FAILED\<rparr>))"

text \<open>
  A checkout payment.  A payment that had been given up and turns out to be paid is marked paid
  and every order of its groups gets a refund row.
\<close>

definition late_key :: "nat \<Rightarrow> string" where
  "late_key oid = ''LATE-PAYMENT-REFUND-'' @ show_nat oid"

definition upsertLateRefund :: "nat \<Rightarrow> payment_group \<times> allocation \<Rightarrow> nat list \<times> db \<Rightarrow> (nat list \<times> db) result" where
  "upsertLateRefund pid = (\<lambda>(g, al) (ids, s).
     case tfind (\<lambda>r. rf_orderId r = al_orderId al) (refunds s) of
       Some r \<Rightarrow> Inr (ids @ [rf_id r], s)
     | None \<Rightarrow>
         require (tfind (\<lambda>r. rf_idempotencyKey r = late_key (al_orderId al)) (refunds s) = None) UniqueViolation
           (Inr (ids @ [next_id (refunds s)], s\<lparr>refunds := tinsert (\<lambda>i. \<lparr>rf_id = i, rf_orderId = al_orderId al,
              rf_userId = g_userId g, rf_paymentId = pid, rf_amount = al_amount al, rf_currency = g_currency g,
              rf_provider = PAYSTACK, rf_status = R_PENDING, rf_idempotencyKey = late_key (al_orderId al),
              rf_providerRefundId = None,
              rf_reason = ''Payment completed after checkout '' @ show_nat (g_id g) @ '' was cancelled.'',
              rf_failureReason = None\<rparr>) (refunds s)\<rparr>)))"

definition lateRefunds :: "nat \<Rightarrow> (nat list) tx" where
  "lateRefunds pid s =
     eiter (upsertLateRefund pid)
       (concat (map (\<lambda>g. map (Pair g) (tfilter (\<lambda>al. al_paymentGroupId al = g_id g) (allocations s))) (payment_groups pid s)))
       ([], s)"

definition settleCheckout :: "pay_env \<Rightarrow> payment \<Rightarrow> payment_group list \<Rightarrow> bool \<Rightarrow> (nat list) tx" where
  "settleCheckout env p gs success s =
     ebind (eiter (\<lambda>g. lock_then (g_userId g) Inr) gs s) (\<lambda>s1.
     ebind (orThrow (payment_row (pay_id p) s1) RecordNotFound) (\<lambda>current.
     if pay_status current = P_PAID then Inr ([], s1)
     else if pay_status current = P_FAILED \<and> success
     then lateRefunds (pay_id p) (updatePayment (pay_id p) (\<lambda>x. x\<lparr>pay_status := P_PAID, pay_failureReason := None\<rparr>) s1)
     else if pay_status current = P_FAILED then Inr ([], s1)
     else if success
     then ebind (eiter (\<lambda>g. completeGroup (pe_cfg env) (pe_now env) (g_id g)) gs
            (updatePayment (pay_id p) (\<lambda>x. x\<lparr>pay_status := P_PAID\<rparr>) s1)) (\<lambda>s2. Inr ([], s2))
     else ebind (eiter (\<lambda>g. failGroup (pe_now env) (g_id g)) gs
            (updatePayment (pay_id p) (\<lambda>x. x\<lparr>pay_status := P_FAILED\<rparr>) s1)) (\<lambda>s2. Inr ([], s2))))"

definition refund_env_of :: "pay_env \<Rightarrow> refund_env" where
  "refund_env_of env = \<lparr>rv_fetch = pe_fetch env, rv_push = pe_push env\<rparr>"

definition verifyCheckout :: "pay_env \<Rightarrow> string \<Rightarrow> payment \<Rightarrow> (verify_status \<times> nat option) handler" where
  "verifyCheckout env reference p s =
     (let gs = payment_groups (pay_id p) s
      in hbind (hlift (ask_provider env ''Payment reference, amount, or currency does not match checkout.'' reference p)) (\<lambda>v.
         if \<not> succeeded v \<and> \<not> hasFailed v \<and> \<not> (pay_paymentMethod p = BANK_TRANSFER \<and> expired env p)
         then hreturn (Is (pay_status p), first_group gs)
         else hbind (transaction (settleCheckout env p gs (succeeded v))) (\<lambda>late.
              if late \<noteq> []
              then hbind (hmodify (hsettle (processRefund (refund_env_of env)) late)) (\<lambda>_. hreturn (REFUND_PENDING, first_group gs))
              else hbind (hmodify (if succeeded v then dispatchGroupConfirmations env (map g_id gs)
                     else if pay_status p \<noteq> P_FAILED
                     then hsettle (\<lambda>uid. notifyPaymentFailure (pe_push env) uid (pay_id p)) (remdups (map g_userId gs))
                     else id)) (\<lambda>_.
                   hreturn (Is (if succeeded v then P_PAID else P_FAILED), first_group gs)))) s)"

definition verifyReference :: "pay_env \<Rightarrow> string \<Rightarrow> (verify_status \<times> nat option) handler" where
  "verifyReference env reference s = (case payment_by_ref reference s of
     None \<Rightarrow> (Inl (NotFound ''Payment not found.''), s)
   | Some p \<Rightarrow>
       if pay_provider p \<noteq> PAYSTACK then (Inl (NotFound ''Payment not found.''), s)
       else if pay_status p \<in> {P_REFUNDED, P_PARTIALLY_REFUNDED}
       then (Inr (Is (pay_status p), first_group (payment_groups (pay_id p) s)), s)
       else if pay_status p = P_PAID then verifyPaid env p s
       else if pm_purpose (pay_metadata p) = Some ''BNPL_REPAYMENT'' then verifyRepayment env reference p s
       else if pm_purpose (pay_metadata p) \<in> {Some ''WALLET_TOPUP'', Some ''WALLET_TRANSFER_TOPUP''} then verifyTopup env reference p s
       else verifyCheckout env reference p s)"

section \<open>The webhook\<close>

definition upsertWebhookEvent :: "string \<Rightarrow> string \<Rightarrow> exn option \<Rightarrow> nat option \<Rightarrow> db \<Rightarrow> db" where
  "upsertWebhookEvent eventId eventType err pid s =
     (if tfind (\<lambda>w. we_eventId w = eventId) (webhookEvents s) = None
      then s\<lparr>webhookEvents := tinsert (\<lambda>i. \<lparr>we_id = i, we_provider = ''PAYSTACK'', we_eventId = eventId, we_eventType = eventType,
             we_processed = (err = None), we_errorMessage = err, we_paymentId = pid\<rparr>) (webhookEvents s)\<rparr>
      else s\<lparr>webhookEvents := tupdate (\<lambda>w. we_eventId w = eventId)
             (\<lambda>w. w\<lparr>we_processed := (err = None), we_errorMessage := err,
                we_paymentId := (if err = None \<and> pid \<noteq> None then pid else we_paymentId w)\<rparr>) (webhookEvents s)\<rparr>)"

definition event_type :: "json \<Rightarrow> string" where
  "event_type event = (case jstring (jget ''event'' event) of Some t \<Rightarrow> t | None \<Rightarrow> ''unknown'')"

definition event_data :: "json \<Rightarrow> json" where
  "event_data event = (case jget ''data'' event of Some d \<Rightarrow> d | None \<Rightarrow> JObj [])"

definition event_id :: "pay_env \<Rightarrow> json \<Rightarrow> string" where
  "event_id env event = event_type event @ '':'' @
     (case jstring (jget ''reference'' (event_data event)) of
        Some r \<Rightarrow> r
      | None \<Rightarrow> (case jget ''id'' (event_data event) of
          None \<Rightarrow> pe_digest env event | Some JNull \<Rightarrow> pe_digest env event | Some x \<Rightarrow> js_String x))"

definition charge_success :: "pay_env \<Rightarrow> string \<Rightarrow> (nat option) handler" where
  "charge_success env reference s = (case payment_by_ref reference s of
     Some known \<Rightarrow>
       if pay_provider known = PAYSTACK
       then hbind (verifyReference env reference) (\<lambda>(st, _).
            if st \<noteq> Is P_PAID then hthrow (Conflict ''Paystack charge.success did not verify as paid.'')
            else hreturn (Some (pay_id known))) s
       else hbind (completeDedicatedAccountFunding env reference) (\<lambda>i. hreturn (Some i)) s
   | None \<Rightarrow> hbind (completeDedicatedAccountFunding env reference) (\<lambda>i. hreturn (Some i)) s)"

text \<open>\<open>None\<close> is an event the service does not handle.\<close>

definition event_action :: "pay_env \<Rightarrow> json \<Rightarrow> ((nat option) handler) option" where
  "event_action env event =
     (let t = event_type event; d = event_data event; reference = jstring (jget ''reference'' d)
      in if t = ''charge.success'' \<and> truthy_str reference then Some (charge_success env (the reference))
         else if take 7 t = ''refund.'' then Some (hbind (applyRefundWebhook (pe_push env) t d) (\<lambda>r. hreturn (Some (rf_paymentId r))))
         else if t = ''dedicatedaccount.assign.success''
         then Some (hbind (completeDedicatedAccountAssignment (pe_now env) d) (\<lambda>_. hreturn None))
         else if t = ''dedicatedaccount.assign.failed'' then Some (hbind (failDedicatedAccountAssignment d) (\<lambda>_. hreturn None))
         else None)"

definition handleWebhook :: "pay_env \<Rightarrow> json \<Rightarrow> unit handler" where
  "handleWebhook env event s =
     (let eventId = event_id env event
      in if (case tfind (\<lambda>w. we_eventId w = eventId) (webhookEvents s) of None \<Rightarrow> False | Some w \<Rightarrow> we_processed w)
         then (Inr (), s)
         else case event_action env event of
           None \<Rightarrow> (Inr (), s)
         | Some act \<Rightarrow> hcatch (hbind act (\<lambda>pid. hmodify (upsertWebhookEvent eventId (event_type event) None pid)))
             (\<lambda>e. hbind (hmodify (upsertWebhookEvent eventId (event_type event) (Some e) None)) (\<lambda>_. hthrow e)) s)"

definition webhook :: "pay_env \<Rightarrow> (string \<Rightarrow> string \<Rightarrow> string) \<Rightarrow> string \<Rightarrow> string option \<Rightarrow> string option \<Rightarrow> json \<Rightarrow> unit handler" where
  "webhook env hmac secret signature rawBody event =
     hbind (hlift (verifyPaystackWebhook hmac signature rawBody secret)) (\<lambda>_. handleWebhook env event)"

section \<open>The customer's view, cancelling and reconciling\<close>

record group_summary =
  gs_id :: nat
  gs_status :: payment_status
  gs_orders :: "order list"
  gs_paymentReference :: "string option"
  gs_paymentUrl :: "string option"
  gs_subtotal :: decimal
  gs_shippingFee :: decimal
  gs_total :: decimal

definition summary :: "nat \<Rightarrow> nat \<Rightarrow> group_summary handler" where
  "summary uid gid s = (case group_of uid gid s of
     None \<Rightarrow> (Inl (NotFound ''Checkout payment group not found.''), s)
   | Some g \<Rightarrow> (ebind (groupOrders gid s) (\<lambda>ords.
       Inr \<lparr>gs_id = g_id g, gs_status = g_status g, gs_orders = ords,
         gs_paymentReference = Option.bind (group_payment g s) pay_transactionRef,
         gs_paymentUrl = Option.bind (group_payment g s) pay_paymentUrl,
         gs_subtotal = (\<Sum>x\<leftarrow>ords. o_subtotal x), gs_shippingFee = (\<Sum>x\<leftarrow>ords. o_shippingFee x),
         gs_total = g_totalAmount g\<rparr>), s))"

definition redirectOrderId :: "nat option \<Rightarrow> db \<Rightarrow> nat option" where
  "redirectOrderId gid s = (if \<not> truthy_id gid then None
     else map_option al_orderId (tfind (\<lambda>al. Some (al_paymentGroupId al) = gid) (allocations s)))"

definition pendingCheckout :: "nat \<Rightarrow> (group_summary option) handler" where
  "pendingCheckout uid s =
     (case filter (\<lambda>g. g_userId g = uid \<and> g_status g \<in> {P_PENDING, P_PROCESSING}) (rev (rows (groups s))) of
        [] \<Rightarrow> (Inr None, s)
      | g # _ \<Rightarrow> hbind (summary uid (g_id g)) (\<lambda>x. hreturn (Some x)) s)"

definition resumeCheckout :: "pay_env \<Rightarrow> nat \<Rightarrow> nat \<Rightarrow> group_summary handler" where
  "resumeCheckout env uid gid s = (case group_of uid gid s of
     None \<Rightarrow> (Inl (NotFound ''Checkout payment group not found.''), s)
   | Some g \<Rightarrow>
       if g_status g = P_FAILED then (Inl (Conflict ''This checkout was cancelled. Start a new checkout.''), s)
       else if g_status g = P_PAID then summary uid gid s
       else hbind (if g_paymentMethod g = CARD \<or> g_paymentMethod g = BANK_TRANSFER
              then hbind (initialize env uid gid) (\<lambda>_. hreturn ()) else hreturn ()) (\<lambda>_. summary uid gid) s)"

definition status :: "pay_env \<Rightarrow> nat \<Rightarrow> nat \<Rightarrow> bool \<Rightarrow> group_summary handler" where
  "status env uid gid verify s = (case group_of uid gid s of
     None \<Rightarrow> (Inl (NotFound ''Checkout payment group not found.''), s)
   | Some g \<Rightarrow> (case group_payment g s of
       Some p \<Rightarrow>
         if verify \<and> pay_provider p = PAYSTACK \<and> truthy_str (pay_transactionRef p) \<and> g_status g \<noteq> P_PAID
         then hbind (verifyReference env (the (pay_transactionRef p))) (\<lambda>_. summary uid gid) s
         else summary uid gid s
     | None \<Rightarrow> summary uid gid s))"

definition releaseCheckout :: "pay_env \<Rightarrow> nat \<Rightarrow> nat \<Rightarrow> db \<Rightarrow> db result" where
  "releaseCheckout env uid gid = lock_then uid (\<lambda>s.
     ebind (orThrow (group_of uid gid s) (NotFound ''Checkout not found.'')) (\<lambda>g.
     require (\<not> (g_status g = P_PAID \<or> map_option pay_status (group_payment g s) = Some P_PAID))
       (Conflict ''Payment has already completed and cannot be cancelled.'') (
     if g_status g = P_FAILED then Inr s
     else failGroup (pe_now env) gid (if truthy_id (g_paymentId g)
       then updatePayment (the (g_paymentId g)) (\<lambda>p. p\<lparr>pay_status := P_FAILED,
              pay_failureReason := Some ''Checkout cancelled by customer before payment completed.''\<rparr>) s
       else s))))"

definition cancel :: "pay_env \<Rightarrow> nat \<Rightarrow> nat \<Rightarrow> group_summary handler" where
  "cancel env uid gid s = (case group_of uid gid s of
     None \<Rightarrow> (Inl (NotFound ''Checkout not found.''), s)
   | Some g \<Rightarrow>
       let conflict = Conflict ''Payment has already completed and cannot be cancelled.'';
           release = hbind (transact (releaseCheckout env uid gid)) (\<lambda>_. summary uid gid)
       in if g_status g = P_PAID \<or> map_option pay_status (group_payment g s) = Some P_PAID then (Inl conflict, s)
          else if g_status g = P_FAILED then summary uid gid s
          else case group_payment g s of
            Some p \<Rightarrow>
              if pay_provider p = PAYSTACK \<and> truthy_str (pay_transactionRef p) \<and> pay_status p \<noteq> P_FAILED
              then hbind (verifyReference env (the (pay_transactionRef p))) (\<lambda>(st, _).
                   if st = Is P_PAID then hthrow conflict
                   else if st = Is P_FAILED \<or> st = REFUND_PENDING then summary uid gid
                   else release) s
              else release s
          | None \<Rightarrow> release s)"

record counts =
  ct_checked :: nat
  ct_paid :: nat
  ct_failed :: nat
  ct_pending :: nat
  ct_errors :: nat

definition reconcilePayment :: "pay_env \<Rightarrow> payment \<Rightarrow> counts \<times> db \<Rightarrow> counts \<times> db" where
  "reconcilePayment env p = (\<lambda>(c, s).
     case pay_transactionRef p of
       None \<Rightarrow> (c, s)
     | Some reference \<Rightarrow> (case verifyReference env reference s of
         (Inl e, s') \<Rightarrow> (c\<lparr>ct_checked := ct_checked c + 1, ct_errors := ct_errors c + 1\<rparr>, s')
       | (Inr (st, _), s') \<Rightarrow> (let c' = c\<lparr>ct_checked := ct_checked c + 1\<rparr>
           in (if st = Is P_PAID then c'\<lparr>ct_paid := ct_paid c + 1\<rparr>
               else if st = Is P_FAILED then c'\<lparr>ct_failed := ct_failed c + 1\<rparr>
               else c'\<lparr>ct_pending := ct_pending c + 1\<rparr>, s'))))"

definition reconcileRefund :: "pay_env \<Rightarrow> refund \<Rightarrow> counts \<times> db \<Rightarrow> counts \<times> db" where
  "reconcileRefund env r = (\<lambda>(c, s). case processRefund (refund_env_of env) (rf_id r) s of
     (Inl e, s') \<Rightarrow> (c\<lparr>ct_errors := ct_errors c + 1\<rparr>, s') | (Inr _, s') \<Rightarrow> (c, s'))"

definition due_payments :: "pay_env \<Rightarrow> db \<Rightarrow> payment list" where
  "due_payments env s = take 50 (tfilter (\<lambda>p. pay_provider p = PAYSTACK \<and> pay_status p = P_PENDING \<and>
     pay_transactionRef p \<noteq> None \<and> pay_createdAt p < pe_now env - 2 * 60 * 1000 \<and>
     (\<exists>g \<in> set (rows (groups s)). g_paymentId g = Some (pay_id p) \<and> g_status g \<in> {P_PENDING, P_PROCESSING})) (payments s))"

definition reconcilePending :: "pay_env \<Rightarrow> db \<Rightarrow> counts \<times> db" where
  "reconcilePending env s =
     (case fold (reconcilePayment env) (due_payments env s)
             (\<lparr>ct_checked = 0, ct_paid = 0, ct_failed = 0, ct_pending = 0, ct_errors = 0\<rparr>, s) of
        (c, s1) \<Rightarrow> fold (reconcileRefund env)
          (take 25 (tfilter (\<lambda>r. rf_status r \<in> {R_PENDING, R_PROCESSING}) (refunds s1))) (c, s1))"

section \<open>Checkout requests\<close>

definition checkout_create :: "pay_env \<Rightarrow> checkout_env \<Rightarrow> nat \<Rightarrow> checkout_input \<Rightarrow> group_summary handler" where
  "checkout_create env cenv uid inp =
     hbind (transaction (createInTransaction cenv uid inp None)) (\<lambda>g.
     hbind (hmodify (if g_status g = P_PAID then dispatchGroupConfirmations env [g_id g] else id)) (\<lambda>_.
     summary uid (g_id g)))"

definition checkout_place :: "pay_env \<Rightarrow> checkout_env \<Rightarrow> nat \<Rightarrow> checkout_input \<Rightarrow> group_summary handler" where
  "checkout_place env cenv uid inp =
     hbind (transaction (createInTransaction cenv uid inp None)) (\<lambda>g.
     hbind (if g_paymentMethod g = CARD \<or> g_paymentMethod g = BANK_TRANSFER
            then hbind (initialize env uid (g_id g)) (\<lambda>_. hreturn ()) else hreturn ()) (\<lambda>_.
     hbind (hmodify (if g_status g = P_PAID then dispatchGroupConfirmations env [g_id g] else id)) (\<lambda>_.
     summary uid (g_id g))))"

section \<open>Frames\<close>

lemma releaseOrder_frame:
  assumes "releaseOrder now x s = Inr s'"
  shows "\<exists>a b c d e f. s' = s\<lparr>storeProducts := a, orders := b, deliveries := c, pickups := d, qrCredentials := e, statusHistory := f\<rparr>"
proof -
  obtain ord items where x: "x = (ord, items)" by (cases x)
  obtain s1 where r: "eiter restockItem items s = Inr s1"
    and s': "s' = pushHistory (o_id ord) ORDER_RECEIVED CANCELLED None
       (Some ''Payment failed or unpaid checkout cancelled.'')
       (cancelFulfilment (o_id ord) (setOrderStatus now (o_id ord) CANCELLED s1))"
    using assms by (auto simp: releaseOrder_def tx_simps x)
  obtain sps where "s1 = s\<lparr>storeProducts := sps\<rparr>" by (rule restock_frame [OF r])
  then show ?thesis by (simp add: s' pushHistory_def setOrderStatus_def cancelFulfilment_def) blast
qed

lemma failGroup_frame:
  assumes "failGroup now gid s = Inr s'"
  shows "payments s' = payments s" "refunds s' = refunds s" "wallets s' = wallets s" "walletTxs s' = walletTxs s"
    "storeWallets s' = storeWallets s" "storeWalletTxs s' = storeWalletTxs s" "carts s' = carts s" "cartItems s' = cartItems s"
proof -
  define g where "g = (\<lambda>s::db. ((payments s, refunds s, wallets s, walletTxs s), (storeWallets s, storeWalletTxs s, carts s, cartItems s)))"
  consider "s' = s" | xs s1 gs where "eiter (releaseOrder now) xs s = Inr s1" "s' = s1\<lparr>groups := gs\<rparr>"
    using assms by (auto simp: failGroup_def tx_simps split: if_splits)
  then have "g s' = g s"
  proof cases
    case (2 xs s1 gs)
    have "g s1 = g s" by (rule eiter_frame [OF 2(1)]) (use releaseOrder_frame in \<open>force simp: g_def\<close>)
    then show ?thesis by (simp add: 2(2) g_def)
  qed simp
  then show "payments s' = payments s" "refunds s' = refunds s" "wallets s' = wallets s" "walletTxs s' = walletTxs s"
    "storeWallets s' = storeWallets s" "storeWalletTxs s' = storeWalletTxs s" "carts s' = carts s" "cartItems s' = cartItems s"
    by (simp_all add: g_def)
qed

lemma completeGroup_frame:
  assumes "completeGroup cfg now gid s = Inr s'"
  shows "payments s' = payments s" "refunds s' = refunds s"
proof -
  have "(payments s', refunds s') = (payments s, refunds s)"
    using assms
  proof (cases rule: completeGroup_cases)
    case (run g ords s1 s2)
    have "(payments s1, refunds s1) = (payments s, refunds s)"
    proof (rule eiter_frame [OF run(4)])
      fix ord :: order and t t' assume "confirmOrder cfg now (g_userId g) ord t = Inr t'"
      then obtain t1 t0 where t': "t' = upsertConfirmation now (o_id ord) (g_userId g) t1"
        and "t1 = t \<or> (payments t0 = payments t \<and> refunds t0 = refunds t \<and> settleOrder cfg (o_id ord) t0 = Inr t1)"
        by (force simp: confirmOrder_def ebind_Inr_iff pushHistory_def setOrderStatus_def split: if_splits)
      then have "(payments t1, refunds t1) = (payments t, refunds t)"
        using settlement_frameD(6,10) [OF settleOrder_frame] by force
      then show "(payments t', refunds t') = (payments t, refunds t)" by (simp add: t' upsertConfirmation_def)
    qed
    moreover from emptyCart_frame [OF run(5)] have "payments s2 = payments s1" "refunds s2 = refunds s1"
      by (auto simp: cart_frame_def)
    ultimately show ?thesis by (simp add: run(6))
  qed simp
  then show "payments s' = payments s" "refunds s' = refunds s" by simp_all
qed

lemma lock_frame:
  assumes "lock uid s = Inr (c, s')"
  shows "\<exists>a. s' = s\<lparr>carts := a\<rparr>"
  using assms by (intro exI [of _ "carts s'"]) (auto simp: lock_def Let_def split: option.splits)

lemma lock_then_cases:
  assumes "lock_then uid f s = Inr s'"
  obtains a c where "lock uid s = Inr (c, s\<lparr>carts := a\<rparr>)" "f (s\<lparr>carts := a\<rparr>) = Inr s'"
  using assms lock_frame [of uid s] that by (fastforce simp: lock_then_def ebind_Inr_iff)

text \<open>What does not read the outbox and the inbox is not changed by draining the outbox.\<close>

lemma processOrderConfirmations_frame:
  fixes g :: "db \<Rightarrow> 'c"
  assumes [simp]: "\<And>s a. g (s\<lparr>confirmations := a\<rparr>) = g s" "\<And>s a. g (s\<lparr>notifications := a\<rparr>) = g s"
  shows "g (snd (processOrderConfirmations env ids s)) = g s"
proof -
  have "g (snd (dispatchOrderConfirmation env i s)) = g s" for i s
    by (simp add: dispatchOrderConfirmation_def upsertOrderPlaced_def Let_def split: option.split)
  then have d: "dispatchOrderConfirmation env i s = (r, s') \<Longrightarrow> g s' = g s" for i s r s' by (metis snd_conv)
  have job: "g (snd (processJob env i cs)) = g (snd cs)" for i cs
  proof -
    obtain p f s where cs: "cs = ((p, f), s)" by (metis prod.exhaust)
    show ?thesis by (auto simp: processJob_def cs Let_def split: sum.splits prod.splits dest!: d)
  qed
  have "g (snd (fold (\<lambda>j. processJob env (ob_id j)) jobs cs)) = g (snd cs)" for jobs :: "confirmation list" and cs
    by (induction jobs arbitrary: cs) (simp_all add: job)
  then show ?thesis by (simp add: processOrderConfirmations_def Let_def)
qed

section \<open>A payment is marked paid only on the provider's word\<close>

definition paid_within :: "nat set \<Rightarrow> db \<Rightarrow> bool" where
  "paid_within X s \<longleftrightarrow> (\<forall>p \<in> set (rows (payments s)). pay_status p = P_PAID \<longrightarrow> pay_id p \<in> X)"

lemma paid_within_update:
  assumes "paid_within X s" and "\<And>x. pay_id (f x) = pay_id x" and "i \<in> X \<or> (\<forall>x. pay_status (f x) \<noteq> P_PAID)"
  shows "paid_within X (updatePayment i f s)"
  using assms by (auto simp: paid_within_def updatePayment_def)

lemma keeps_payments: "(\<And>s. payments (snd (m s)) = payments s) \<Longrightarrow> hkeeps (paid_within X) m"
  by (simp add: hkeeps_def paid_within_def)

lemma keeps_updatePayment [keeps_intros]:
  "(\<And>x. pay_id (f x) = pay_id x) \<Longrightarrow> i \<in> X \<or> (\<forall>x. pay_status (f x) \<noteq> P_PAID) \<Longrightarrow>
     hkeeps (paid_within X) (hmodify (updatePayment i f))"
  by (intro hkeeps_hmodify paid_within_update)

lemma keeps_notify [keeps_intros]: "hkeeps (paid_within X) (notifyUser push uid typ title k)"
  "hkeeps (paid_within X) (notifyPaymentFailure push uid pid)" "hkeeps (paid_within X) (notifyWalletFunded push uid ref)"
  by (intro keeps_payments, simp add: notifyPaymentFailure_def notifyWalletFunded_def)+

lemma keeps_dispatch [keeps_intros]: "hkeeps (paid_within X) (hmodify (dispatchGroupConfirmations env gids))"
  by (intro keeps_payments) (simp add: hmodify_def dispatchGroupConfirmations_def processOrderConfirmations_frame)

lemma lock_then_payments:
  assumes "lock_then uid f s = Inr s'" and "\<And>t t'. f t = Inr t' \<Longrightarrow> payments t' = payments t"
  shows "payments s' = payments s"
  using assms(1) by (rule lock_then_cases) (drule assms(2), simp)

lemma verifyPaid_keeps: "hkeeps (paid_within X) (verifyPaid env p)"
proof (rule hkeepsI)
  fix s assume s: "paid_within X s"
  define gs where "gs = payment_groups (pay_id p) s"
  have t: "hkeeps (paid_within X) (transact (eiter (\<lambda>g. lock_then (g_userId g) (completeGroup (pe_cfg env) (pe_now env) (g_id g))) xs))"
    for xs :: "payment_group list"
  proof (rule hkeeps_transact)
    fix s s' assume e: "eiter (\<lambda>g. lock_then (g_userId g) (completeGroup (pe_cfg env) (pe_now env) (g_id g))) xs s = Inr s'"
    have "payments s' = payments s"
      by (rule eiter_frame [OF e]) (blast intro: lock_then_payments completeGroup_frame(1))
    then show "paid_within X s \<Longrightarrow> paid_within X s'" by (simp add: paid_within_def)
  qed
  have "hkeeps (paid_within X) (hbind (if filter (\<lambda>g. g_activeCartId g \<noteq> None \<or> g_status g \<noteq> P_PAID) gs = [] then hreturn ()
      else transact (eiter (\<lambda>g. lock_then (g_userId g) (completeGroup (pe_cfg env) (pe_now env) (g_id g)))
        (filter (\<lambda>g. g_activeCartId g \<noteq> None \<or> g_status g \<noteq> P_PAID) gs))) (\<lambda>_.
      hbind (hmodify (dispatchGroupConfirmations env (map g_id gs))) (\<lambda>_. hreturn (Is (pay_status p), first_group gs))))"
    by (intro keeps_intros t)
  from hkeepsD [OF this s] show "paid_within X (snd (verifyPaid env p s))"
    unfolding verifyPaid_def Let_def gs_def .
qed

lemma fields_of_Inr [tx_simps]: "fields_of d = Inr v \<longleftrightarrow> d = Some v \<and> v \<noteq> JNull"
  by (auto simp: fields_of_def split: option.splits json.splits)

lemma ask_provider_success:
  assumes "ask_provider env msg reference p = Inr v"
  shows "ask_provider env msg' reference p = Inr v"
    "px_verify (pe_fetch env) reference = Inr (Some v)" "jget ''reference'' v = Some (JStr reference)"
    "jget ''currency'' v = Some (JStr (pay_currency p))"
    "\<exists>n. jget ''amount'' v = Some (JNum n) \<and> kobo (pay_amount p) = Inr n"
proof -
  have m: "verified_matches msg reference p v = Inr ()" and f: "px_verify (pe_fetch env) reference = Inr (Some v)" "v \<noteq> JNull"
    using assms by (simp_all add: ask_provider_def tx_simps)
  then show "px_verify (pe_fetch env) reference = Inr (Some v)" "jget ''reference'' v = Some (JStr reference)"
    "jget ''currency'' v = Some (JStr (pay_currency p))"
    "\<exists>n. jget ''amount'' v = Some (JNum n) \<and> kobo (pay_amount p) = Inr n"
    by (auto simp: verified_matches_def tx_simps split: if_splits option.splits json.splits)
  have "verified_matches msg' reference p v = Inr ()"
    using m by (auto simp: verified_matches_def tx_simps split: if_splits option.splits json.splits)
  then show "ask_provider env msg' reference p = Inr v" using f by (simp add: ask_provider_def tx_simps)
qed

definition confirmed :: "pay_env \<Rightarrow> string \<Rightarrow> payment \<Rightarrow> bool" where
  "confirmed env reference p \<longleftrightarrow> (\<exists>v. ask_provider env [] reference p = Inr v \<and> succeeded v)"

lemma confirmedI: "ask_provider env msg reference p = Inr v \<Longrightarrow> succeeded v \<Longrightarrow> confirmed env reference p"
  unfolding confirmed_def by (blast intro: ask_provider_success(1))

lemma hkeeps_ask:
  assumes "\<And>v. ask_provider env msg reference p = Inr v \<Longrightarrow> hkeeps P (k v)"
  shows "hkeeps P (hbind (hlift (ask_provider env msg reference p)) k)"
  using assms by (cases "ask_provider env msg reference p") (simp_all add: hkeeps_def hbind_def hlift_def)

lemma verifyRepayment_keeps:
  assumes "confirmed env reference p \<Longrightarrow> pay_id p \<in> X"
  shows "hkeeps (paid_within X) (verifyRepayment env reference p)"
proof -
  have t: "hkeeps (paid_within X) (transact (settleRepayment env p i v))" if "succeeded v \<longrightarrow> pay_id p \<in> X" for i v
  proof (rule hkeeps_transact)
    fix s s' assume s: "paid_within X s" and e: "settleRepayment env p i v s = Inr s'"
    have b: "payments s1 = payments s" if "completeBnplRepayment j s = Inr s1" for j s1
      using completeBnplRepayment_frame [OF that] by auto
    obtain r where r: "tfind (\<lambda>r. br_id r = i) (repayments s) = Some r"
      using e unfolding settleRepayment_def ebind_Inr_iff orThrow_Inr_iff by blast
    define s0 where "s0 = s\<lparr>repayments := tupdate (\<lambda>x. br_id x = br_id r) (\<lambda>x. x\<lparr>br_status := P_FAILED\<rparr>) (repayments s)\<rparr>"
    consider "s' = s" | s1 where "payments s1 = payments s"
      "s' = updatePayment (pay_id p) (\<lambda>x. x\<lparr>pay_status := if succeeded v then P_PAID else P_FAILED\<rparr>) s1"
    proof (cases "br_status r = P_PAID \<or> br_status r = P_FAILED")
      case True
      then show ?thesis using e r that(1) by (simp add: settleRepayment_def)
    next
      case False
      with e r obtain s1 where "(if succeeded v then completeBnplRepayment (br_id r) s else Inr s0) = Inr s1"
        "s' = updatePayment (pay_id p) (\<lambda>x. x\<lparr>pay_status := if succeeded v then P_PAID else P_FAILED\<rparr>) s1"
        unfolding settleRepayment_def s0_def by (simp add: ebind_Inr_iff) blast
      moreover have "payments s0 = payments s" by (simp add: s0_def)
      ultimately show ?thesis using that(2) b by (cases "succeeded v") auto
    qed
    then show "paid_within X s'"
    proof cases
      case (2 s1)
      have "paid_within X s1" using s 2(1) by (simp add: paid_within_def)
      then show ?thesis unfolding 2(2) by (rule paid_within_update) (use that in auto)
    qed (use s in simp)
  qed
  have "hkeeps (paid_within X) (hbind (hlift (ask_provider env msg reference p)) (\<lambda>v.
       if \<not> succeeded v \<and> \<not> hasFailed v then hreturn (Is (pay_status p), None :: nat option)
       else hbind (transact (settleRepayment env p i v)) (\<lambda>_. hreturn (Is (if succeeded v then P_PAID else P_FAILED), None))))" for i msg
  proof (rule hkeeps_ask)
    fix v assume "ask_provider env msg reference p = Inr v"
    then have "succeeded v \<longrightarrow> pay_id p \<in> X" using assms confirmedI by blast
    then show "hkeeps (paid_within X) (if \<not> succeeded v \<and> \<not> hasFailed v then hreturn (Is (pay_status p), None)
       else hbind (transact (settleRepayment env p i v)) (\<lambda>_. hreturn (Is (if succeeded v then P_PAID else P_FAILED), None)))"
      by (intro keeps_intros t)
  qed
  then show ?thesis unfolding hkeeps_def verifyRepayment_def by (auto split: option.split)
qed

lemma verifyTopup_keeps:
  assumes "confirmed env reference p \<Longrightarrow> pay_id p \<in> X"
  shows "hkeeps (paid_within X) (verifyTopup env reference p)"
  unfolding verifyTopup_def
proof (rule hkeeps_ask)
  fix v assume "ask_provider env ''Payment reference, amount, or currency does not match top-up.'' reference p = Inr v"
  then have ok: "succeeded v \<Longrightarrow> pay_id p \<in> X" using assms confirmedI by blast
  have fail: "hkeeps (paid_within X) (failTopup env p f)" if "\<And>x. pay_id (f x) = pay_id x" "\<And>x. pay_status (f x) \<noteq> P_PAID" for f
    unfolding failTopup_def by (intro keeps_intros) (use that in simp_all)
  have credit: "hkeeps (paid_within X) (transaction (creditTopup p))" if "pay_id p \<in> X"
  proof (rule hkeeps_transaction)
    fix s b s' assume s: "paid_within X s" and e: "creditTopup p s = Inr (b, s')"
    have "payments s' = payments s \<or> payments s' = payments (updatePayment (pay_id p) (\<lambda>x. x\<lparr>pay_status := P_PAID\<rparr>) s)"
      using e by (auto simp: creditTopup_def completeWalletTopup_def upsertCredit_def createWalletTx_def tx_simps
          split: if_splits prod.splits option.splits)
    then show "paid_within X s'"
      using s that paid_within_update [of X s "\<lambda>x. x\<lparr>pay_status := P_PAID\<rparr>" "pay_id p"] by (auto simp: paid_within_def)
  qed
  show "hkeeps (paid_within X) (if \<not> succeeded v \<and> \<not> hasFailed v
     then (if pm_purpose (pay_metadata p) \<noteq> Some ''WALLET_TRANSFER_TOPUP'' \<or> \<not> expired env p
           then hreturn (Is (pay_status p), None)
           else failTopup env p (\<lambda>x. x\<lparr>pay_status := P_FAILED, pay_failureReason := Some ''Bank transfer account expired.''\<rparr>))
     else if succeeded v
     then hbind (transaction (creditTopup p)) (\<lambda>credited.
          hbind (if credited then hbind (hlift (orThrow (pm_userId (pay_metadata p)) RecordNotFound))
                   (\<lambda>uid. notifyWalletFunded (pe_push env) uid reference) else hreturn ()) (\<lambda>_.
          hreturn (Is P_PAID, None)))
     else failTopup env p (\<lambda>x. x\<lparr>pay_status := P_FAILED\<rparr>))"
    by (intro keeps_intros fail credit) (use ok in simp_all)
qed

lemma keeps_refund_steps [keeps_intros]:
  "hkeeps (paid_within X) (updateRefund i f)" "hkeeps (paid_within X) (notifyRefund push i)"
  "hkeeps (paid_within X) (syncPaymentRefundStatus pid)"
proof -
  show "hkeeps (paid_within X) (updateRefund i f)" "hkeeps (paid_within X) (notifyRefund push i)"
    by (intro keeps_payments, simp add: updateRefund_def split: option.split)+
  show "hkeeps (paid_within X) (syncPaymentRefundStatus pid)"
  proof (rule hkeepsI)
    fix s assume s: "paid_within X s"
    have "paid_within X (updatePayment pid (\<lambda>p. p\<lparr>pay_status := if c then P_REFUNDED else P_PARTIALLY_REFUNDED\<rparr>) s)" for c
      using s by (rule paid_within_update) simp_all
    then show "paid_within X (snd (syncPaymentRefundStatus pid s))"
      using s by (simp add: syncPaymentRefundStatus_def updatePayment_def split: option.split)
  qed
qed

lemma processRefund_keeps: "hkeeps (paid_within X) (processRefund env i)"
proof -
  have k: "hkeeps (paid_within X) (reviewKlump env r)" "hkeeps (paid_within X) (pollRefund env r)"
    "hkeeps (paid_within X) (hcatch (sendRefund env r t n) (refundFailed env j))" for r t n j
    unfolding reviewKlump_def pollRefund_def sendRefund_def refundFailed_def Let_def by (intro keeps_intros)+
  have "hkeeps (paid_within X) (submitRefund env r)" for r
  proof (rule hkeepsI)
    fix s assume s: "paid_within X s"
    have "paid_within X (s\<lparr>refunds := a\<rparr>)" for a using s by (simp add: paid_within_def)
    from hkeepsD [OF k(3) this] show "paid_within X (snd (submitRefund env r s))"
      using s by (simp add: submitRefund_def Let_def split: option.split)
  qed
  with k(1,2) show ?thesis by (simp add: hkeeps_def processRefund_def split: option.split)
qed

lemma lateRefunds_payments: "lateRefunds pid s = Inr (ids, s') \<Longrightarrow> payments s' = payments s"
proof -
  assume e: "lateRefunds pid s = Inr (ids, s')"
  define g where "g = (\<lambda>x :: nat list \<times> db. payments (snd x))"
  have "g t' = g t" if "upsertLateRefund pid x t = Inr t'" for x t t'
    using that by (cases x; cases t) (auto simp: upsertLateRefund_def tx_simps g_def split: option.splits)
  then have "g (ids, s') = g ([], s)" using eiter_frame [OF e [unfolded lateRefunds_def], of g] by blast
  then show ?thesis by (simp add: g_def)
qed

lemma settleCheckout_paid_within:
  assumes "settleCheckout env p gs success s = Inr (ids, s')" and "paid_within X s" and "success \<Longrightarrow> pay_id p \<in> X"
  shows "paid_within X s'"
proof -
  obtain s1 where l: "eiter (\<lambda>g. lock_then (g_userId g) Inr) gs s = Inr s1"
    using assms(1) unfolding settleCheckout_def ebind_Inr_iff by blast
  have "payments s1 = payments s" by (rule eiter_frame [OF l]) (rule lock_then_payments, auto)
  then have s1: "paid_within X s1" using assms(2) by (simp add: paid_within_def)
  have up: "paid_within X (updatePayment (pay_id p) (\<lambda>x. x\<lparr>pay_status := P_FAILED\<rparr>) s1)"
    "success \<Longrightarrow> paid_within X (updatePayment (pay_id p) (\<lambda>x. x\<lparr>pay_status := P_PAID, pay_failureReason := None\<rparr>) s1)"
    "success \<Longrightarrow> paid_within X (updatePayment (pay_id p) (\<lambda>x. x\<lparr>pay_status := P_PAID\<rparr>) s1)"
    using s1 assms(3) by (auto intro!: paid_within_update)
  have frame: "paid_within X s'" if "payments s' = payments t" "paid_within X t" for s' t
    using that by (simp add: paid_within_def)
  have complete: "payments t' = payments t" if "eiter (\<lambda>g. completeGroup (pe_cfg env) (pe_now env) (g_id g)) gs t = Inr t'" for t t'
    by (rule eiter_frame [OF that]) (rule completeGroup_frame(1))
  have fail: "payments t' = payments t" if "eiter (\<lambda>g. failGroup (pe_now env) (g_id g)) gs t = Inr t'" for t t'
    by (rule eiter_frame [OF that]) (rule failGroup_frame(1))
  obtain current where c: "payment_row (pay_id p) s1 = Some current"
    using assms(1) l unfolding settleCheckout_def by (simp add: ebind_Inr_iff orThrow_Inr_iff) blast
  note run = assms(1) [unfolded settleCheckout_def l c ebind_simps orThrow_simps]
  show ?thesis
  proof (cases "pay_status current = P_PAID \<or> pay_status current = P_FAILED \<and> \<not> success")
    case True
    then show ?thesis using run s1 by (auto split: if_splits)
  next
    case False
    consider (late) "success" "pay_status current = P_FAILED" | (paid) "success" "pay_status current \<noteq> P_FAILED"
      | (failed) "\<not> success" "pay_status current \<noteq> P_FAILED" using False by blast
    then show ?thesis
    proof cases
      case late
      then have "lateRefunds (pay_id p) (updatePayment (pay_id p) (\<lambda>x. x\<lparr>pay_status := P_PAID, pay_failureReason := None\<rparr>) s1) = Inr (ids, s')"
        using run False by simp
      from lateRefunds_payments [OF this] show ?thesis using up(2) [OF late(1)] frame by simp
    next
      case paid
      then obtain t where "eiter (\<lambda>g. completeGroup (pe_cfg env) (pe_now env) (g_id g)) gs
          (updatePayment (pay_id p) (\<lambda>x. x\<lparr>pay_status := P_PAID\<rparr>) s1) = Inr t" "s' = t"
        using run False by (auto simp: ebind_Inr_iff)
      from complete [OF this(1)] this(2) show ?thesis using up(3) [OF paid(1)] frame by simp
    next
      case failed
      then obtain t where "eiter (\<lambda>g. failGroup (pe_now env) (g_id g)) gs
          (updatePayment (pay_id p) (\<lambda>x. x\<lparr>pay_status := P_FAILED\<rparr>) s1) = Inr t" "s' = t"
        using run False by (auto simp: ebind_Inr_iff)
      from fail [OF this(1)] this(2) show ?thesis using up(1) frame by simp
    qed
  qed
qed

lemma hkeeps_hsettle: "(\<And>x. hkeeps P (f x)) \<Longrightarrow> hkeeps P (hmodify (hsettle f xs))"
  by (rule hkeeps_hmodify, rule hsettle_keeps)

lemma verifyCheckout_keeps:
  assumes "confirmed env reference p \<Longrightarrow> pay_id p \<in> X"
  shows "hkeeps (paid_within X) (verifyCheckout env reference p)"
proof (rule hkeepsI)
  fix s assume s: "paid_within X s"
  define gs where "gs = payment_groups (pay_id p) s"
  have notify: "hkeeps (paid_within X) (hmodify (hsettle (\<lambda>uid. notifyPaymentFailure (pe_push env) uid (pay_id p)) us))" for us
    by (intro hkeeps_hsettle keeps_intros)
  have refunds: "hkeeps (paid_within X) (hmodify (hsettle (processRefund (refund_env_of env)) ids))" for ids
    by (intro hkeeps_hsettle processRefund_keeps)
  have nop: "hkeeps (paid_within X) (hmodify id)" by (simp add: hkeeps_def hmodify_def)
  have "hkeeps (paid_within X) (hbind (hlift (ask_provider env msg reference p)) (\<lambda>v.
         if \<not> succeeded v \<and> \<not> hasFailed v \<and> \<not> (pay_paymentMethod p = BANK_TRANSFER \<and> expired env p)
         then hreturn (Is (pay_status p), first_group gs)
         else hbind (transaction (settleCheckout env p gs (succeeded v))) (\<lambda>late.
              if late \<noteq> []
              then hbind (hmodify (hsettle (processRefund (refund_env_of env)) late)) (\<lambda>_. hreturn (REFUND_PENDING, first_group gs))
              else hbind (hmodify (if succeeded v then dispatchGroupConfirmations env (map g_id gs)
                     else if pay_status p \<noteq> P_FAILED
                     then hsettle (\<lambda>uid. notifyPaymentFailure (pe_push env) uid (pay_id p)) (remdups (map g_userId gs))
                     else id)) (\<lambda>_.
                   hreturn (Is (if succeeded v then P_PAID else P_FAILED), first_group gs)))))" (is "hkeeps _ (?h msg)") for msg
  proof (rule hkeeps_ask)
    fix v assume "ask_provider env msg reference p = Inr v"
    then have "succeeded v \<Longrightarrow> pay_id p \<in> X" using assms confirmedI by blast
    then have t: "hkeeps (paid_within X) (transaction (settleCheckout env p gs (succeeded v)))"
      by (intro hkeeps_transaction) (blast intro: settleCheckout_paid_within)
    show "hkeeps (paid_within X) (if \<not> succeeded v \<and> \<not> hasFailed v \<and> \<not> (pay_paymentMethod p = BANK_TRANSFER \<and> expired env p)
         then hreturn (Is (pay_status p), first_group gs)
         else hbind (transaction (settleCheckout env p gs (succeeded v))) (\<lambda>late.
              if late \<noteq> []
              then hbind (hmodify (hsettle (processRefund (refund_env_of env)) late)) (\<lambda>_. hreturn (REFUND_PENDING, first_group gs))
              else hbind (hmodify (if succeeded v then dispatchGroupConfirmations env (map g_id gs)
                     else if pay_status p \<noteq> P_FAILED
                     then hsettle (\<lambda>uid. notifyPaymentFailure (pe_push env) uid (pay_id p)) (remdups (map g_userId gs))
                     else id)) (\<lambda>_.
                   hreturn (Is (if succeeded v then P_PAID else P_FAILED), first_group gs))))"
      using t refunds notify nop keeps_dispatch by (intro keeps_intros) (simp_all)
  qed
  from hkeepsD [OF this s] show "paid_within X (snd (verifyCheckout env reference p s))"
    unfolding verifyCheckout_def Let_def gs_def .
qed

text \<open>
  (C3) Verifying a payment reference marks at most the payment with that reference as paid, and
  only when the provider answered that the transaction succeeded, for the same reference and
  currency and for exactly the amount of the payment in kobo.
\<close>

theorem paid_only_if_verified:
  assumes "payment_by_ref reference s = Some p" and "q \<in> set (rows (payments (snd (verifyReference env reference s))))"
    and "pay_status q = P_PAID" and "\<forall>q' \<in> set (rows (payments s)). pay_id q' = pay_id q \<longrightarrow> pay_status q' \<noteq> P_PAID"
  shows "pay_id q = pay_id p \<and> (\<exists>v n. px_verify (pe_fetch env) reference = Inr (Some v) \<and>
    jget ''status'' v = Some (JStr ''success'') \<and> jget ''reference'' v = Some (JStr reference) \<and>
    jget ''currency'' v = Some (JStr (pay_currency p)) \<and> jget ''amount'' v = Some (JNum n) \<and> kobo (pay_amount p) = Inr n)"
proof -
  define X where "X = pay_id ` {q' \<in> set (rows (payments s)). pay_status q' = P_PAID}"
  have all: "paid_within (X \<union> Y) (snd (verifyReference env reference s))" if "confirmed env reference p \<Longrightarrow> pay_id p \<in> Y" for Y
  proof -
    have s: "paid_within (X \<union> Y) s" by (auto simp: paid_within_def X_def)
    have c: "confirmed env reference p \<Longrightarrow> pay_id p \<in> X \<union> Y" using that by blast
    show ?thesis
      using s hkeepsD [OF verifyPaid_keeps s] hkeepsD [OF verifyRepayment_keeps [OF c] s]
        hkeepsD [OF verifyTopup_keeps [OF c] s] hkeepsD [OF verifyCheckout_keeps [OF c] s]
      by (simp add: verifyReference_def assms(1))
  qed
  have X: "pay_id q \<notin> X" using assms(4) by (auto simp: X_def)
  have "confirmed env reference p" using all [of "{}"] X assms(2,3) by (auto simp: paid_within_def)
  then obtain v where "ask_provider env [] reference p = Inr v" "succeeded v" by (auto simp: confirmed_def)
  moreover have "pay_id q = pay_id p" using all [of "{pay_id p}"] X assms(2,3) by (auto simp: paid_within_def)
  ultimately show ?thesis using ask_provider_success(2-5) [of env "[]" reference p v] by (auto simp: succeeded_def)
qed

section \<open>A top-up is credited once\<close>

lemma notifyUser_wallet_tables [simp]:
  "wallets (snd (notifyUser push uid typ title k s)) = wallets s"
  "walletTxs (snd (notifyUser push uid typ title k s)) = walletTxs s"
  "groups (snd (notifyUser push uid typ title k s)) = groups s"
  by (subst notifyUser_frame, simp)+

lemma verifyReference_paid_topup:
  assumes "payment_by_ref reference s = Some p" and "pay_provider p = PAYSTACK" and "pay_status p = P_PAID"
    and "payment_groups (pay_id p) s = []"
  shows "verifyReference env reference s = (Inr (Is P_PAID, None), s)"
  using assms by (simp add: verifyReference_def verifyPaid_def dispatchGroupConfirmations_def first_group_def handler_simps)

text \<open>
  (C4) When the provider confirms a pending wallet top-up, its verification credits exactly the
  amount of the payment to the wallet of its customer, to no other wallet, keeps the ledger
  consistent, and every later verification of the reference, whatever the provider answers
  then, reports the payment as paid and changes nothing.
\<close>

theorem topup_credited_once:
  assumes "payment_by_ref reference s = Some p" and "pay_provider p = PAYSTACK" and "pay_status p = P_PENDING"
    and "pm_purpose (pay_metadata p) \<in> {Some ''WALLET_TOPUP'', Some ''WALLET_TRANSFER_TOPUP''}"
    and "pm_userId (pay_metadata p) = Some uid" and "tkeyed pay_id (payments s)" and "payment_groups (pay_id p) s = []"
    and "wallet_ok s" and "tfind (\<lambda>t. wt_reference t = Some (topup_ref (pay_id p))) (walletTxs s) = None"
    and "ask_provider env msg reference p = Inr v" and "succeeded v"
    and "s' = snd (verifyReference env reference s)"
  shows "user_balance u s' = user_balance u s + (if u = uid then pay_amount p else 0) \<and> wallet_ok s' \<and>
    verifyReference env' reference s' = (Inr (Is P_PAID, None), s')"
proof -
  define s1 where "s1 = updatePayment (pay_id p) (\<lambda>x. x\<lparr>pay_status := P_PAID\<rparr>) s"
  have w1: "wallets s1 = wallets s" "walletTxs s1 = walletTxs s" by (simp_all add: s1_def updatePayment_def)
  obtain k s2 where k: "upsertCredit uid (pay_amount p) s1 = (k, s2)" by (cases "upsertCredit uid (pay_amount p) s1")
  then have "walletTxs s2 = walletTxs s1" by (auto simp: upsertCredit_def split: option.splits)
  then obtain s3 where s3: "completeWalletTopup (pay_id p) uid (pay_amount p) s1 = Inr s3"
    using k assms(9) w1 by (simp add: completeWalletTopup_def createWalletTx_def)
  have row: "payment_row (pay_id p) s = Some p"
    using assms(1,6) payment_table.find_unique [of "payments s" p] by (auto simp: payment_by_ref_def payment_row_def dest: tfind_SomeD)
  have ask: "ask_provider env ''Payment reference, amount, or currency does not match top-up.'' reference p = Inr v"
    by (rule ask_provider_success(1) [OF assms(10)])
  have "creditTopup p s = Inr (True, s3)"
    using row assms(3,5) s3 by (simp add: creditTopup_def s1_def)
  then have "verifyTopup env reference p s = (case notifyWalletFunded (pe_push env) uid reference s3 of
      (Inl e, t) \<Rightarrow> (Inl e, t) | (Inr _, t) \<Rightarrow> (Inr (Is P_PAID, None), t))"
    using assms(5,11) ask by (simp add: verifyTopup_def handler_simps transaction_def split: prod.split sum.split)
  then have "s' = snd (notifyWalletFunded (pe_push env) uid reference s3)"
    using assms(1-4,12) by (auto simp: verifyReference_def split: prod.splits sum.splits)
  then have same: "wallets s' = wallets s3" "walletTxs s' = walletTxs s3" "payments s' = payments s3" "groups s' = groups s3"
    by (simp_all add: notifyWalletFunded_def)
  have ok1: "wallet_ok s1" using assms(8) wallet_ok_cong [OF w1] by simp
  have "wallet_ok s'" using completeWalletTopup_effect(1) [OF ok1 s3] wallet_ok_cong [OF same(1,2)] by simp
  moreover have "user_balance u s' = user_balance u s + (if u = uid then pay_amount p else 0)"
    using completeWalletTopup_effect(2) [OF ok1 s3, of u] by (simp add: user_balance_def same w1)
  moreover have "payment_by_ref reference s' = Some (p\<lparr>pay_status := P_PAID\<rparr>)" "payment_groups (pay_id p) s' = []"
  proof -
    from completeWalletTopup_effect(3) [OF ok1 s3] have "payments s' = payments s1" "groups s' = groups s" using same by (auto simp: s1_def updatePayment_def)
    then show "payment_by_ref reference s' = Some (p\<lparr>pay_status := P_PAID\<rparr>)" "payment_groups (pay_id p) s' = []"
      using assms(1,7) by (auto simp: payment_by_ref_def payment_groups_def s1_def updatePayment_def tfind_tupdate)
  qed
  ultimately show ?thesis using assms(2) verifyReference_paid_topup [of reference s' "p\<lparr>pay_status := P_PAID\<rparr>"] by simp
qed

section \<open>An event is processed once\<close>

definition event_processed :: "string \<Rightarrow> db \<Rightarrow> bool" where
  "event_processed eventId s \<longleftrightarrow> (case tfind (\<lambda>w. we_eventId w = eventId) (webhookEvents s) of
     None \<Rightarrow> False | Some w \<Rightarrow> we_processed w)"

lemma event_processed_upsert: "event_processed i (upsertWebhookEvent i t err pid s) \<longleftrightarrow> err = None"
proof (cases "tfind (\<lambda>w. we_eventId w = i) (webhookEvents s)")
  case None
  then show ?thesis by (simp add: event_processed_def upsertWebhookEvent_def tfind_tinsert)
next
  case (Some w)
  then show ?thesis by (auto simp: event_processed_def upsertWebhookEvent_def tfind_tupdate dest: tfind_SomeD)
qed

text \<open>
  (C5) A webhook delivery that is accepted is remembered: delivering the same event again is
  accepted and changes nothing.  A delivery that fails is remembered as unprocessed, so that
  the provider's next delivery runs the action again.
\<close>

theorem webhook_processed_once:
  assumes "event_action env event = Some act" and "event_id env' event = event_id env event"
  shows "case handleWebhook env event s of
      (Inr _, s') \<Rightarrow> event_processed (event_id env event) s' \<and> handleWebhook env' event s' = (Inr (), s')
    | (Inl e, s') \<Rightarrow> \<not> event_processed (event_id env event) s'"
proof (cases "event_processed (event_id env event) s")
  case True
  then have "handleWebhook e event s = (Inr (), s)" if "event_id e event = event_id env event" for e
    using that by (simp add: handleWebhook_def event_processed_def Let_def split: option.splits)
  then show ?thesis using True assms(2) by simp
next
  case False
  have stop: "handleWebhook env' event t = (Inr (), t)" if "event_processed (event_id env event) t" for t
    using that assms(2) by (simp add: handleWebhook_def event_processed_def Let_def split: option.splits)
  have "handleWebhook env event s = hcatch (hbind act (\<lambda>pid. hmodify (upsertWebhookEvent (event_id env event) (event_type event) None pid)))
      (\<lambda>e. hbind (hmodify (upsertWebhookEvent (event_id env event) (event_type event) (Some e) None)) (\<lambda>_. hthrow e)) s"
    using False assms(1) by (simp add: handleWebhook_def event_processed_def Let_def split: option.splits)
  then show ?thesis
    by (cases "act s") (auto simp: hcatch_def handler_simps event_processed_upsert stop split: sum.splits)
qed

section \<open>Examples\<close>

text \<open>A provider that accepts charges and reports the status \<open>st\<close> for the amount \<open>k\<close> of kobo.\<close>

definition provider :: "string \<Rightarrow> int \<Rightarrow> string \<Rightarrow> fetch" where
  "provider st k reference = (\<lambda>m path body. Inr \<lparr>hr_status = 200, hr_body = JObj [(''status'', JBool True),
     (''data'', if m = GET then JObj [(''status'', JStr st), (''reference'', JStr reference), (''currency'', JStr ''NGN''), (''amount'', JNum k)]
        else JObj [(''reference'', JStr reference), (''authorization_url'', JStr ''https://pay''), (''id'', JNum 5)])]\<rparr>)"

definition pay_example :: "string \<Rightarrow> int \<Rightarrow> string \<Rightarrow> pay_env" where
  "pay_example st k reference = \<lparr>pe_fetch = provider st k reference, pe_push = None, pe_now = 0, pe_uuid = ''u'', pe_cfg = (\<lambda>_. None),
     pe_outbox = \<lparr>env_now = 0, env_push = (\<lambda>_. None), env_mail = (\<lambda>_. None)\<rparr>, pe_callback = [], pe_testMode = True,
     pe_toISO = (\<lambda>_. []), pe_parseDate = (\<lambda>_. 0), pe_digest = (\<lambda>_. ''digest'')\<rparr>"

definition topup_reference :: string where
  "topup_reference = ''TOPUP-7-u''"

abbreviation "topup_ok \<equiv> pay_example ''success'' 2500 topup_reference"

definition topup_started :: db where
  "topup_started = snd (topupWallet topup_ok 7 25 wallet_db)"

definition topup_payment :: payment where
  "topup_payment = the (payment_by_ref topup_reference topup_started)"

definition topup_answer :: json where
  "topup_answer = projr (ask_provider topup_ok [] topup_reference topup_payment)"

lemma topup_facts:
  "payment_by_ref topup_reference topup_started = Some topup_payment" "pay_provider topup_payment = PAYSTACK"
  "pay_status topup_payment = P_PENDING"
  "pm_purpose (pay_metadata topup_payment) \<in> {Some ''WALLET_TOPUP'', Some ''WALLET_TRANSFER_TOPUP''}"
  "pm_userId (pay_metadata topup_payment) = Some 7" "tkeyed pay_id (payments topup_started)"
  "payment_groups (pay_id topup_payment) topup_started = []" "wallet_ok topup_started"
  "tfind (\<lambda>t. wt_reference t = Some (topup_ref (pay_id topup_payment))) (walletTxs topup_started) = None"
  "ask_provider topup_ok [] topup_reference topup_payment = Inr topup_answer" "succeeded topup_answer"
  by code_simp+

theorem topup_credited_once_witness:
  "user_balance 7 topup_started = 100 \<and> user_balance 7 (snd (verifyReference topup_ok topup_reference topup_started)) = 125 \<and>
   verifyReference (pay_example ''failed'' 0 []) topup_reference (snd (verifyReference topup_ok topup_reference topup_started)) =
     (Inr (Is P_PAID, None), snd (verifyReference topup_ok topup_reference topup_started))"
proof -
  have "user_balance 7 topup_started = 100" "pay_amount topup_payment = 25" by code_simp+
  then show ?thesis
    using topup_credited_once [OF topup_facts refl, of 7 "pay_example ''failed'' 0 []"] by simp
qed

abbreviation "topup_done \<equiv> snd (verifyReference topup_ok topup_reference topup_started)"

theorem paid_only_if_verified_witness:
  "map_option pay_status (payment_by_ref topup_reference topup_done) = Some P_PAID \<and>
   (\<exists>v. px_verify (pe_fetch topup_ok) topup_reference = Inr (Some v) \<and> jget ''status'' v = Some (JStr ''success''))"
proof -
  define q where "q = the (payment_by_ref topup_reference topup_done)"
  have p: "payment_by_ref topup_reference topup_done \<noteq> None" "map_option pay_status (payment_by_ref topup_reference topup_done) = Some P_PAID"
    by code_simp+
  then have q: "payment_by_ref topup_reference topup_done = Some q" "pay_status q = P_PAID" by (auto simp: q_def)
  then have "q \<in> set (rows (payments topup_done))" by (auto simp: payment_by_ref_def dest: tfind_SomeD)
  moreover have "pay_id q = 3" unfolding q_def by code_simp
  moreover have "filter (\<lambda>q'. pay_id q' = 3 \<and> pay_status q' = P_PAID) (rows (payments topup_started)) = []" by code_simp
  ultimately show ?thesis
    using paid_only_if_verified [OF topup_facts(1), of q topup_ok] q(2) p(2) by (auto simp: filter_empty_conv)
qed

definition topup_event :: json where
  "topup_event = JObj [(''event'', JStr ''charge.success''), (''data'', JObj [(''reference'', JStr topup_reference)])]"

theorem webhook_processed_once_witness:
  "handleWebhook (pay_example ''failed'' 0 []) topup_event (snd (handleWebhook topup_ok topup_event topup_started)) =
     (Inr (), snd (handleWebhook topup_ok topup_event topup_started)) \<and>
   user_balance 7 (snd (handleWebhook topup_ok topup_event topup_started)) = 125"
proof -
  have "event_action topup_ok topup_event \<noteq> None"
    by (simp add: event_action_def topup_event_def event_type_def event_data_def topup_reference_def truthy_str_def)
  then obtain act where "event_action topup_ok topup_event = Some act" by blast
  moreover have "event_id (pay_example ''failed'' 0 []) topup_event = event_id topup_ok topup_event"
    by (simp add: event_id_def topup_event_def event_data_def)
  moreover have ok: "\<not> isl (fst (handleWebhook topup_ok topup_event topup_started))"
    "user_balance 7 (snd (handleWebhook topup_ok topup_event topup_started)) = 125" by code_simp+
  ultimately show ?thesis
    using webhook_processed_once [of topup_ok topup_event act "pay_example ''failed'' 0 []" topup_started]
    by (cases "handleWebhook topup_ok topup_event topup_started") (auto split: sum.splits)
qed

text \<open>
  A card checkout is started, cancelled while the provider still reports it as pending, and
  then paid.  The refund rows are created, but both deliveries of the \<open>charge.success\<close> event
  are rejected: the first because \<open>REFUND_PENDING\<close> is not \<open>PAID\<close>, the second because the
  paid payment's group is a released one, which \<open>completeGroup\<close> refuses.
\<close>

definition card_reference :: string where
  "card_reference = ''PUR-1-u''"

definition card_event :: json where
  "card_event = JObj [(''event'', JStr ''charge.success''), (''data'', JObj [(''reference'', JStr card_reference)])]"

definition card_env :: "string \<Rightarrow> pay_env" where
  "card_env st = pay_example st 71900 card_reference"

definition card_cancelled :: db where
  "card_cancelled = snd (cancel (card_env ''ongoing'') 7 1 (snd (initialize (card_env ''ongoing'') 7 1 card_state)))"

lemma late_payment_rejected:
  "let (r1, s1) = handleWebhook (card_env ''success'') card_event card_cancelled;
       (r2, s2) = handleWebhook (card_env ''success'') card_event s1
   in map_option g_status (tfind (\<lambda>g. g_id g = 1) (groups card_cancelled)) = Some P_FAILED \<and>
      r1 = Inl (Conflict ''Paystack charge.success did not verify as paid.'') \<and>
      map_option pay_status (payment_by_ref card_reference s1) = Some P_PAID \<and>
      map rf_status (rows (refunds s1)) = [R_PROCESSING] \<and>
      r2 = Inl (Conflict ''Cannot pay a released checkout.'')"
  by code_simp

text \<open>
  The payment row of a transfer into a dedicated account is written before the transaction that
  credits the wallet.  When that transaction does not complete, the next delivery of the event
  finds the row and verifies it as a checkout payment without groups: the payment becomes paid,
  the wallet is not credited, and the event counts as processed.
\<close>

definition dva_reference :: string where
  "dva_reference = ''NIP-1''"

definition dva_interrupted :: db where
  "dva_interrupted = snd (upsertDvaPayment (pay_example ''success'' 2500 dva_reference) dva_reference dva_reference 7 25 wallet_db)"

definition dva_event :: json where
  "dva_event = JObj [(''event'', JStr ''charge.success''), (''data'', JObj [(''reference'', JStr dva_reference)])]"

lemma interrupted_transfer_lost:
  "let (r, s) = handleWebhook (pay_example ''success'' 2500 dva_reference) dva_event dva_interrupted
   in r = Inr () \<and> map_option pay_status (payment_by_ref dva_reference s) = Some P_PAID \<and>
      user_balance 7 s = user_balance 7 wallet_db \<and> walletTxs s = walletTxs wallet_db"
  by code_simp

end
