(* ===== verification/Riders.thy ===== *)
theory Riders
  imports Notifications Strings Handlers Quote
begin

text \<open>
  Riders: the readiness assessment (\<^verbatim>\<open>src/riders/rider-readiness.ts\<close>), the onboarding, availability
  and bank account requests (\<^verbatim>\<open>src/riders/riders.service.ts\<close>) and the decisions of the
  compliance staff (\<^verbatim>\<open>src/admin/admin.service.ts\<close>).  The identity provider and the bank lookup
  are parameters that answer or throw.
\<close>

section \<open>Readiness\<close>

record readiness_snapshot =
  rs_areaOfOperation :: "string option"
  rs_emergencyContactName :: "string option"
  rs_emergencyContactPhone :: "string option"
  rs_onboardingStatus :: string
  rs_documents :: "rider_document list"
  rs_licences :: "rider_licence list"
  rs_liveness :: "liveness list"
  rs_vehicles :: "(vehicle \<times> vehicle_document list) list"

record readiness =
  rr_canSubmit :: bool
  rr_canAcceptDeliveries :: bool
  rr_missingApplicationRequirements :: "string list"
  rr_missingOperationalRequirements :: "string list"

text \<open>\<open>[...new Set(xs)]\<close> keeps the first occurrence of every element.\<close>

definition js_unique :: "'a list \<Rightarrow> 'a list" where
  "js_unique xs = rev (remdups (rev xs))"

lemma set_js_unique [simp]: "set (js_unique xs) = set xs"
  by (simp add: js_unique_def)

lemma js_unique_empty [simp]: "js_unique xs = [] \<longleftrightarrow> xs = []"
  by (simp add: js_unique_def)

definition truthy :: "string option \<Rightarrow> bool" where
  "truthy x \<longleftrightarrow> x \<noteq> None \<and> x \<noteq> Some []"

definition filled :: "string option \<Rightarrow> bool" where
  "filled x \<longleftrightarrow> (case x of None \<Rightarrow> False | Some t \<Rightarrow> trim t \<noteq> [])"

definition IDENTITY_TYPES :: "string list" where
  "IDENTITY_TYPES = [''NIN'', ''NIN_SLIP'', ''NATIONAL_ID'', ''DRIVERS_LICENSE'', ''INTERNATIONAL_PASSPORT'', ''VOTERS_CARD'']"

definition NON_MOTORIZED_TYPES :: "string list" where
  "NON_MOTORIZED_TYPES = [''BICYCLE'', ''FOOT'', ''WALKER'']"

definition identity_document :: "readiness_snapshot \<Rightarrow> rider_document option" where
  "identity_document p = List.find (\<lambda>d. toUpperCase (rdoc_type d) \<in> set IDENTITY_TYPES \<and> truthy (rdoc_documentNumber d)) (rs_documents p)"

definition verified_licence :: "readiness_snapshot \<Rightarrow> bool" where
  "verified_licence p \<longleftrightarrow> (\<exists>l \<in> set (rs_licences p). lic_status l = DOC_APPROVED)"

definition licence_evidence :: "readiness_snapshot \<Rightarrow> bool" where
  "licence_evidence p \<longleftrightarrow> (\<exists>l \<in> set (rs_licences p). truthy (lic_documentUrl l) \<or> truthy (lic_number l))"

definition motorized :: "vehicle \<Rightarrow> bool" where
  "motorized v \<longleftrightarrow> toUpperCase (ve_type v) \<notin> set NON_MOTORIZED_TYPES"

definition operational_vehicle :: "bool \<Rightarrow> vehicle \<times> vehicle_document list \<Rightarrow> bool" where
  "operational_vehicle licensed = (\<lambda>(v, docs).
     truthy (ve_photoUrl v) \<and>
     (if \<not> motorized v then ve_status v = ''APPROVED''
      else ve_status v = ''APPROVED'' \<and>
        ''VEHICLE_REGISTRATION'' \<in> set (map (\<lambda>d. toUpperCase (vd_type d)) (filter (\<lambda>d. vd_status d = DOC_APPROVED) docs)) \<and> licensed))"

definition push_if :: "bool \<Rightarrow> string \<Rightarrow> string list" where
  "push_if c x = (if c then [x] else [])"

definition missing_application :: "readiness_snapshot \<Rightarrow> string list" where
  "missing_application p =
     (let hasVehiclePhoto = (\<exists>(v, _) \<in> set (rs_vehicles p). truthy (ve_photoUrl v));
          hasMotorizedVehicle = (\<exists>(v, _) \<in> set (rs_vehicles p). motorized v);
          hasRegistration = (\<exists>(_, docs) \<in> set (rs_vehicles p). \<exists>d \<in> set docs. toUpperCase (vd_type d) = ''VEHICLE_REGISTRATION'')
      in push_if (\<not> filled (rs_areaOfOperation p)) ''AREA_OF_OPERATION'' @
         push_if (identity_document p = None \<and> \<not> licence_evidence p) ''IDENTITY_DOCUMENT'' @
         push_if (rs_liveness p = []) ''LIVENESS_SESSION'' @
         push_if (rs_vehicles p = []) ''VEHICLE'' @
         push_if (rs_vehicles p \<noteq> [] \<and> \<not> hasVehiclePhoto) ''VEHICLE_PHOTO'' @
         push_if (\<not> filled (rs_emergencyContactName p) \<or> \<not> filled (rs_emergencyContactPhone p)) ''EMERGENCY_CONTACT'' @
         push_if (hasMotorizedVehicle \<and> \<not> licence_evidence p) ''DRIVER_LICENSE_DOCUMENT'' @
         push_if (hasMotorizedVehicle \<and> \<not> hasRegistration) ''VEHICLE_REGISTRATION'')"

definition missing_operational :: "readiness_snapshot \<Rightarrow> string list" where
  "missing_operational p = missing_application p @
     push_if (map_option rdoc_status (identity_document p) \<noteq> Some DOC_APPROVED \<and> \<not> verified_licence p) ''APPROVED_IDENTITY'' @
     push_if (\<not> (\<exists>l \<in> set (rs_liveness p). lv_status l = DOC_APPROVED)) ''APPROVED_LIVENESS'' @
     push_if (rs_vehicles p \<noteq> [] \<and> \<not> (\<exists>v \<in> set (rs_vehicles p). operational_vehicle (verified_licence p) v))
       ''OPERATIONALLY_APPROVED_VEHICLE''"

definition assessRiderReadiness :: "readiness_snapshot \<Rightarrow> readiness" where
  "assessRiderReadiness p = \<lparr>
     rr_canSubmit = (missing_application p = [] \<and> rs_onboardingStatus p \<notin> {''UNDER_REVIEW'', ''APPROVED'', ''SUSPENDED''}),
     rr_canAcceptDeliveries = (rs_onboardingStatus p = ''APPROVED'' \<and> missing_operational p = []),
     rr_missingApplicationRequirements = js_unique (missing_application p),
     rr_missingOperationalRequirements = js_unique (missing_operational p)\<rparr>"

text \<open>The profile with its relations, as \<open>include\<close> loads it.\<close>

definition snapshot_of :: "db \<Rightarrow> rider_profile \<Rightarrow> readiness_snapshot" where
  "snapshot_of s p = \<lparr>
     rs_areaOfOperation = rp_areaOfOperation p, rs_emergencyContactName = rp_emergencyContactName p,
     rs_emergencyContactPhone = rp_emergencyContactPhone p, rs_onboardingStatus = rp_onboardingStatus p,
     rs_documents = tfilter (\<lambda>d. rdoc_riderId d = rp_id p) (riderDocuments (fleet s)),
     rs_licences = tfilter (\<lambda>l. lic_riderId l = rp_id p) (riderLicences (fleet s)),
     rs_liveness = tfilter (\<lambda>l. lv_riderId l = rp_id p) (livenessChecks (fleet s)),
     rs_vehicles = map (\<lambda>v. (v, tfilter (\<lambda>d. vd_vehicleId d = ve_id v) (vehicleDocuments (fleet s))))
       (tfilter (\<lambda>v. ve_riderId v = rp_id p) (vehicles (fleet s)))\<rparr>"

definition readiness_of :: "db \<Rightarrow> rider_profile \<Rightarrow> readiness" where
  "readiness_of s p = assessRiderReadiness (snapshot_of s p)"

section \<open>Availability and location\<close>

text \<open>
  A setting is the number the environment variable holds, \<open>None\<close> when it is not a finite
  number.
\<close>

record rider_settings =
  gps_maxAgeSeconds :: "decimal option"
  gps_maxAccuracyM :: "decimal option"
  gps_jobRadiusKm :: "decimal option"

definition positiveSetting :: "decimal option \<Rightarrow> decimal \<Rightarrow> decimal" where
  "positiveSetting v fallback = (case v of None \<Rightarrow> fallback | Some x \<Rightarrow> if 0 < x then x else fallback)"

definition find_rider :: "nat \<Rightarrow> db \<Rightarrow> rider_profile option" where
  "find_rider uid s = tfind (\<lambda>p. rp_userId p = uid) (riderProfiles s)"

definition update_rider :: "nat \<Rightarrow> (rider_profile \<Rightarrow> rider_profile) \<Rightarrow> db \<Rightarrow> db" where
  "update_rider uid f s = s\<lparr>riderProfiles := tupdate (\<lambda>p. rp_userId p = uid) f (riderProfiles s)\<rparr>"

definition location_stale :: "rider_settings \<Rightarrow> time \<Rightarrow> time \<Rightarrow> bool" where
  "location_stale cfg now t \<longleftrightarrow> positiveSetting (gps_maxAgeSeconds cfg) 120 * 1000 < of_int (now - t)"

definition location_inaccurate :: "rider_settings \<Rightarrow> decimal option \<Rightarrow> bool" where
  "location_inaccurate cfg acc \<longleftrightarrow>
     (case acc of None \<Rightarrow> False | Some a \<Rightarrow> positiveSetting (gps_maxAccuracyM cfg) 500 < a)"

definition ensureFreshJobLocation :: "rider_settings \<Rightarrow> time \<Rightarrow> rider_profile \<Rightarrow> unit result" where
  "ensureFreshJobLocation cfg now p =
     (case (rp_location p, rp_locationUpdatedAt p) of
        (Some _, Some t) \<Rightarrow>
          require (\<not> location_stale cfg now t) (BadRequest ''Your GPS location is stale. Update it before going online.'') (
          require (\<not> location_inaccurate cfg (rp_locationAccuracyM p))
            (BadRequest ''GPS accuracy is too low. Acquire a better location fix.'') (Inr ()))
      | _ \<Rightarrow> Inl (BadRequest ''Publish your current GPS location before going online.''))"

definition updateAvailability :: "rider_settings \<Rightarrow> time \<Rightarrow> nat \<Rightarrow> bool \<Rightarrow> db \<Rightarrow> db result" where
  "updateAvailability cfg now uid isOnline s =
     ebind (orThrow (find_rider uid s) (NotFound ''Rider profile was not found.'')) (\<lambda>p.
     require (\<not> (isOnline \<and> \<not> rr_canAcceptDeliveries (readiness_of s p)))
       (BadRequest ''Complete operational approval before going online.'') (
     ebind (if isOnline then ensureFreshJobLocation cfg now p else Inr ()) (\<lambda>_.
     Inr (update_rider uid (\<lambda>p. p\<lparr>rp_isOnline := isOnline\<rparr>) s))))"

definition updateCurrentLocation :: "time \<Rightarrow> nat \<Rightarrow> decimal \<times> decimal \<Rightarrow> decimal option \<Rightarrow> db \<Rightarrow> db result" where
  "updateCurrentLocation now uid position accuracyM s =
     ebind (orThrow (find_rider uid s) (NotFound ''Rider profile was not found.'')) (\<lambda>p.
     require (rp_onboardingStatus p = ''APPROVED'' \<and>
         map_option u_status (tfind (\<lambda>u. u_id u = rp_userId p) (users s)) = Some ACTIVE)
       (BadRequest ''Only an approved, active rider can publish a job location.'') (
     Inr (update_rider uid (\<lambda>p. p\<lparr>rp_location := Some position, rp_locationAccuracyM := accuracyM,
       rp_locationUpdatedAt := Some now\<rparr>) s)))"

section \<open>The application\<close>

record profile_input =
  pi_areaOfOperation :: "string option"
  pi_businessState :: "string option"
  pi_businessCity :: "string option"
  pi_emergencyContactName :: "string option"
  pi_emergencyContactPhone :: "string option"

definition given :: "'a option \<Rightarrow> 'a option \<Rightarrow> 'a option" where
  "given new old = (case new of None \<Rightarrow> old | Some x \<Rightarrow> Some x)"

definition new_profile :: "nat \<Rightarrow> profile_input \<Rightarrow> nat \<Rightarrow> rider_profile" where
  "new_profile uid dto i = \<lparr>rp_id = i, rp_userId = uid, rp_onboardingStatus = ''CREATED'', rp_isOnline = False,
     rp_areaOfOperation = pi_areaOfOperation dto, rp_businessState = pi_businessState dto, rp_businessCity = pi_businessCity dto,
     rp_emergencyContactName = pi_emergencyContactName dto,
     rp_emergencyContactPhone = pi_emergencyContactPhone dto, rp_location = None, rp_locationAccuracyM = None,
     rp_locationUpdatedAt = None, rp_rejectionReason = None, rp_rejectedEvidence = None, rp_submissionAttempt = 0\<rparr>"

definition updateRiderProfile :: "nat \<Rightarrow> profile_input \<Rightarrow> db \<Rightarrow> db" where
  "updateRiderProfile uid dto s =
     (if find_rider uid s = None then s\<lparr>riderProfiles := tinsert (new_profile uid dto) (riderProfiles s)\<rparr>
      else update_rider uid (\<lambda>p. p\<lparr>rp_areaOfOperation := given (pi_areaOfOperation dto) (rp_areaOfOperation p),
        rp_businessState := given (pi_businessState dto) (rp_businessState p),
        rp_businessCity := given (pi_businessCity dto) (rp_businessCity p),
        rp_emergencyContactName := given (pi_emergencyContactName dto) (rp_emergencyContactName p),
        rp_emergencyContactPhone := given (pi_emergencyContactPhone dto) (rp_emergencyContactPhone p)\<rparr>) s)"

definition requireProfile :: "nat \<Rightarrow> db \<Rightarrow> rider_profile result" where
  "requireProfile uid s = orThrow (find_rider uid s) (NotFound ''Rider profile not found.'')"

definition ensureApplicationEditable :: "string \<Rightarrow> unit result" where
  "ensureApplicationEditable status =
     require (status \<noteq> ''UNDER_REVIEW'') (BadRequest ''This rider application is already under review.'') (
     require (status \<noteq> ''APPROVED'') (BadRequest ''An approved rider cannot resubmit onboarding.'') (
     require (status \<noteq> ''SUSPENDED'') (BadRequest ''A suspended rider cannot resubmit until the suspension is removed.'') (
     Inr ())))"

definition addDocument :: "nat \<Rightarrow> string \<Rightarrow> string option \<Rightarrow> db \<Rightarrow> db result" where
  "addDocument uid typ number s = ebind (requireProfile uid s) (\<lambda>rider.
     Inr (s\<lparr>fleet := (fleet s)\<lparr>riderDocuments := tinsert (\<lambda>i. \<lparr>rdoc_id = i, rdoc_riderId = rp_id rider, rdoc_type = typ,
       rdoc_documentNumber = number, rdoc_status = DOC_PENDING, rdoc_rejectionReason = None, rdoc_providerStatus = None\<rparr>)
       (riderDocuments (fleet s))\<rparr>\<rparr>))"

definition addVehicle :: "nat \<Rightarrow> string \<Rightarrow> string \<Rightarrow> string \<Rightarrow> string option \<Rightarrow> db \<Rightarrow> db result" where
  "addVehicle uid typ plate ownership photo s = ebind (requireProfile uid s) (\<lambda>rider.
     Inr (s\<lparr>fleet := (fleet s)\<lparr>vehicles := tinsert (\<lambda>i. \<lparr>ve_id = i, ve_riderId = rp_id rider, ve_type = typ,
       ve_plateNumber = toUpperCase (trim plate), ve_ownershipType = ownership, ve_photoUrl = photo, ve_status = ''PENDING''\<rparr>)
       (vehicles (fleet s))\<rparr>\<rparr>))"

definition updateVehicle :: "nat \<Rightarrow> nat \<Rightarrow> string option \<Rightarrow> string option \<Rightarrow> string option \<Rightarrow> db \<Rightarrow> db result" where
  "updateVehicle uid vehicleId plate ownership photo s = ebind (requireProfile uid s) (\<lambda>rider.
     ebind (ensureApplicationEditable (rp_onboardingStatus rider)) (\<lambda>_.
     ebind (orThrow (tfind (\<lambda>v. ve_id v = vehicleId \<and> ve_riderId v = rp_id rider) (vehicles (fleet s)))
       (NotFound ''Motorcycle not found or does not belong to rider.'')) (\<lambda>v.
     require (ve_status v \<in> {''PENDING'', ''REJECTED''}) (BadRequest ''Only pending or rejected motorcycle evidence can be edited.'') (
     Inr (s\<lparr>fleet := (fleet s)\<lparr>vehicles := tupdate (\<lambda>v. ve_id v = vehicleId)
       (\<lambda>v. v\<lparr>ve_plateNumber := (case plate of Some p \<Rightarrow> if p = [] then p else toUpperCase (trim p) | None \<Rightarrow> ve_plateNumber v),
         ve_ownershipType := (case ownership of Some w \<Rightarrow> w | None \<Rightarrow> ve_ownershipType v),
         ve_photoUrl := given photo (ve_photoUrl v), ve_status := ''PENDING''\<rparr>) (vehicles (fleet s))\<rparr>\<rparr>)))))"

definition addLicence :: "nat \<Rightarrow> string \<Rightarrow> string option \<Rightarrow> string \<Rightarrow> db \<Rightarrow> db result" where
  "addLicence uid typ number url s = ebind (requireProfile uid s) (\<lambda>rider.
     Inr (s\<lparr>fleet := (fleet s)\<lparr>riderLicences := tinsert (\<lambda>i. \<lparr>lic_id = i, lic_riderId = rp_id rider, lic_type = typ,
       lic_number = map_option (\<lambda>n. toUpperCase (trim n)) number, lic_documentUrl = Some (trim url), lic_status = DOC_PENDING,
       lic_provider = None, lic_providerReference = None, lic_providerStatus = None, lic_idempotencyKey = None\<rparr>)
       (riderLicences (fleet s))\<rparr>\<rparr>))"

definition licence_decision :: "string \<Rightarrow> document_status" where
  "licence_decision providerStatus =
     (if providerStatus = ''VERIFIED'' then DOC_APPROVED
      else if providerStatus \<in> {''FAILED'', ''NOT_FOUND'', ''REJECTED''} then DOC_REJECTED else DOC_PENDING)"

definition userAudit :: "nat option \<Rightarrow> string \<Rightarrow> string \<Rightarrow> string \<Rightarrow> db \<Rightarrow> db" where
  "userAudit actorId action entity entityId s =
     s\<lparr>auditLogs := tinsert (\<lambda>i. \<lparr>au_id = i, au_actorId = actorId, au_staffActorId = None, au_action = action,
        au_entity = entity, au_entityId = entityId\<rparr>) (auditLogs s)\<rparr>"

text \<open>What the identity provider answers: its status and its reference.\<close>

type_synonym identity_answer = "(string option \<times> string option) result"

definition verifyDriverLicense :: "(string \<Rightarrow> string \<Rightarrow> identity_answer) \<Rightarrow> nat \<Rightarrow> string \<Rightarrow> string \<Rightarrow> rider_licence tx" where
  "verifyDriverLicense identro uid licenseNumber key s = ebind (requireProfile uid s) (\<lambda>rider.
     case tfind (\<lambda>l. lic_riderId l = rp_id rider \<and> lic_idempotencyKey l = Some key) (riderLicences (fleet s)) of
       Some existing \<Rightarrow> Inr (existing, s)
     | None \<Rightarrow>
       ebind (identro (toUpperCase (trim licenseNumber)) key) (\<lambda>(answer, reference).
       let providerStatus = (case answer of None \<Rightarrow> ''PENDING'' | Some x \<Rightarrow> x);
           mk = (\<lambda>i. \<lparr>lic_id = i, lic_riderId = rp_id rider, lic_type = ''DRIVERS_LICENSE'',
             lic_number = Some (toUpperCase (trim licenseNumber)), lic_documentUrl = None,
             lic_status = licence_decision providerStatus, lic_provider = Some ''identro'', lic_providerReference = reference,
             lic_providerStatus = Some providerStatus, lic_idempotencyKey = Some key\<rparr>);
           i = next_id (riderLicences (fleet s))
       in Inr (mk i, userAudit (Some uid) ''RIDER_LICENSE_PROVIDER_VERIFICATION'' ''RiderLicence'' (show_nat i)
            (s\<lparr>fleet := (fleet s)\<lparr>riderLicences := tinsert mk (riderLicences (fleet s))\<rparr>\<rparr>))))"

definition syncDriverLicenseRequest :: "(string \<Rightarrow> identity_answer) \<Rightarrow> nat \<Rightarrow> string \<Rightarrow> db \<Rightarrow> db result" where
  "syncDriverLicenseRequest identro uid reference s = ebind (requireProfile uid s) (\<lambda>rider.
     ebind (orThrow (tfind (\<lambda>l. lic_riderId l = rp_id rider \<and> lic_providerReference l = Some reference) (riderLicences (fleet s)))
       (NotFound ''Driver licence request not found.'')) (\<lambda>licence.
     ebind (identro reference) (\<lambda>(answer, _).
     let providerStatus = (case answer of None \<Rightarrow> ''PENDING'' | Some x \<Rightarrow> x)
     in Inr (s\<lparr>fleet := (fleet s)\<lparr>riderLicences := tupdate (\<lambda>l. lic_id l = lic_id licence)
          (\<lambda>l. l\<lparr>lic_providerStatus := Some providerStatus, lic_status := licence_decision providerStatus\<rparr>)
          (riderLicences (fleet s))\<rparr>\<rparr>))))"

definition addVehicleDocument :: "nat \<Rightarrow> nat \<Rightarrow> string \<Rightarrow> string option \<Rightarrow> db \<Rightarrow> db result" where
  "addVehicleDocument uid vehicleId typ number s = ebind (requireProfile uid s) (\<lambda>rider.
     ebind (orThrow (tfind (\<lambda>v. ve_id v = vehicleId \<and> ve_riderId v = rp_id rider) (vehicles (fleet s)))
       (NotFound ''Vehicle not found or does not belong to this rider.'')) (\<lambda>_.
     Inr (s\<lparr>fleet := (fleet s)\<lparr>vehicleDocuments := tinsert (\<lambda>i. \<lparr>vd_id = i, vd_vehicleId = vehicleId, vd_type = typ,
       vd_documentNumber = number, vd_status = DOC_PENDING, vd_rejectionReason = None\<rparr>) (vehicleDocuments (fleet s))\<rparr>\<rparr>)))"

definition vehicle_owner :: "nat \<Rightarrow> db \<Rightarrow> nat option" where
  "vehicle_owner vehicleId s = map_option ve_riderId (tfind (\<lambda>v. ve_id v = vehicleId) (vehicles (fleet s)))"

definition replaceVehicleDocument :: "nat \<Rightarrow> nat \<Rightarrow> nat \<Rightarrow> string option \<Rightarrow> db \<Rightarrow> db result" where
  "replaceVehicleDocument uid vehicleId documentId number s = ebind (requireProfile uid s) (\<lambda>rider.
     ebind (ensureApplicationEditable (rp_onboardingStatus rider)) (\<lambda>_.
     ebind (orThrow (tfind (\<lambda>d. vd_id d = documentId \<and> vd_vehicleId d = vehicleId \<and>
         vehicle_owner vehicleId s = Some (rp_id rider)) (vehicleDocuments (fleet s)))
       (NotFound ''Motorcycle document not found or does not belong to rider.'')) (\<lambda>d.
     require (vd_status d = DOC_REJECTED) (BadRequest ''Only a rejected motorcycle document can be replaced.'') (
     Inr (s\<lparr>fleet := (fleet s)\<lparr>vehicleDocuments := tupdate (\<lambda>d. vd_id d = documentId)
       (\<lambda>d. d\<lparr>vd_documentNumber := given number (vd_documentNumber d), vd_status := DOC_PENDING, vd_rejectionReason := None\<rparr>)
       (vehicleDocuments (fleet s))\<rparr>\<rparr>)))))"

section \<open>Bank accounts\<close>

text \<open>The bank lookup gives the bank's name, the account number and the account name.\<close>

definition setBanks :: "rider_bank table \<Rightarrow> db \<Rightarrow> db" where
  "setBanks t s = s\<lparr>riderBanks := t\<rparr>"

definition addBankAccount :: "(string \<Rightarrow> string \<Rightarrow> (string \<times> string \<times> string) result) \<Rightarrow> nat \<Rightarrow> string \<Rightarrow> string \<Rightarrow> bool \<Rightarrow>
    db \<Rightarrow> db result" where
  "addBankAccount resolve uid bankCode accountNumber wantPrimary s =
     ebind (requireProfile uid s) (\<lambda>rider.
     ebind (resolve bankCode accountNumber) (\<lambda>(bank, number, name).
     let existing = tcount (\<lambda>b. rb_profileId b = rp_id rider) (riderBanks s);
         isPrimary = (wantPrimary \<or> existing = 0);
         bs = (if isPrimary then tupdate (\<lambda>b. rb_profileId b = rp_id rider) (\<lambda>b. b\<lparr>rb_isPrimary := False\<rparr>) (riderBanks s)
               else riderBanks s)
     in Inr (setBanks (tinsert (\<lambda>i. \<lparr>rb_id = i, rb_profileId = rp_id rider, rb_bankCode = bankCode, rb_isPrimary = isPrimary,
          rb_verificationStatus = DOC_APPROVED, rb_bankName = bank, rb_accountNumber = number, rb_accountName = name\<rparr>) bs) s)))"

definition owned_bank :: "rider_profile \<Rightarrow> nat \<Rightarrow> db \<Rightarrow> rider_bank result" where
  "owned_bank rider accountId s =
     orThrow (tfind (\<lambda>b. rb_id b = accountId \<and> rb_profileId b = rp_id rider) (riderBanks s))
       (NotFound ''Bank account not found or does not belong to this rider.'')"

definition setPrimaryBankAccount :: "nat \<Rightarrow> nat \<Rightarrow> db \<Rightarrow> db result" where
  "setPrimaryBankAccount uid accountId s =
     ebind (requireProfile uid s) (\<lambda>rider.
     ebind (owned_bank rider accountId s) (\<lambda>account.
     require (rb_verificationStatus account = DOC_APPROVED) (BadRequest ''Only a verified bank account can be set as primary.'') (
     let bs = tupdate (\<lambda>b. rb_profileId b = rp_id rider \<and> rb_id b \<noteq> accountId) (\<lambda>b. b\<lparr>rb_isPrimary := False\<rparr>) (riderBanks s)
     in Inr (setBanks (tupdate (\<lambda>b. rb_id b = accountId) (\<lambda>b. b\<lparr>rb_isPrimary := True\<rparr>) bs) s))))"

definition removeBankAccount :: "nat \<Rightarrow> nat \<Rightarrow> db \<Rightarrow> db result" where
  "removeBankAccount uid accountId s =
     ebind (requireProfile uid s) (\<lambda>rider.
     ebind (owned_bank rider accountId s) (\<lambda>account.
     let bs = tdelete (\<lambda>b. rb_id b = accountId) (riderBanks s)
     in Inr (setBanks
          (if rb_isPrimary account
           then (case tfind (\<lambda>b. rb_profileId b = rp_id rider \<and> rb_verificationStatus b = DOC_APPROVED) bs of
                   None \<Rightarrow> bs
                 | Some r \<Rightarrow> tupdate (\<lambda>b. rb_id b = rb_id r) (\<lambda>b. b\<lparr>rb_isPrimary := True\<rparr>) bs)
           else bs) s)))"

section \<open>Submission and verification\<close>

definition submitForReview :: "exn option \<Rightarrow> nat \<Rightarrow> readiness handler" where
  "submitForReview push uid s =
     hbind (transaction (\<lambda>s.
       ebind (requireProfile uid s) (\<lambda>rider.
       ebind (ensureApplicationEditable (rp_onboardingStatus rider)) (\<lambda>_.
       let r = readiness_of s rider
       in require (rr_missingApplicationRequirements r = [])
            (BadRequest ''Complete the quick application requirements before submitting.'') (
          Inr (r, s\<lparr>riderProfiles := tupdate (\<lambda>p. rp_id p = rp_id rider) (\<lambda>p. p\<lparr>rp_onboardingStatus := ''UNDER_REVIEW'',
            rp_rejectionReason := None, rp_rejectedEvidence := None, rp_submissionAttempt := rp_submissionAttempt p + 1\<rparr>)
            (riderProfiles s)\<rparr>)))))) (\<lambda>r.
     hbind (notifyUser push uid ''KYC_UPDATE'' ''Rider verification submitted'' None) (\<lambda>_.
     hreturn r)) s"

definition mintKycSession :: "string result \<Rightarrow> nat \<Rightarrow> string tx" where
  "mintKycSession identro uid s =
     ebind (requireProfile uid s) (\<lambda>rider.
     ebind identro (\<lambda>sessionId.
     Inr (sessionId, s\<lparr>fleet := (fleet s)\<lparr>livenessChecks := tinsert (\<lambda>i. \<lparr>lv_id = i, lv_riderId = rp_id rider, lv_userId = uid,
       lv_reference = Some sessionId, lv_status = DOC_PENDING, lv_confidenceScore = None\<rparr>) (livenessChecks (fleet s))\<rparr>\<rparr>)))"

definition requireOwnedLiveness :: "nat \<Rightarrow> string \<Rightarrow> db \<Rightarrow> liveness result" where
  "requireOwnedLiveness uid reference s =
     orThrow (tfind (\<lambda>l. lv_userId l = uid \<and> lv_reference l = Some reference) (livenessChecks (fleet s)))
       (NotFound ''Liveness session not found or does not belong to this rider.'')"

text \<open>The provider says whether the check passed, if it knows, and the score.\<close>

definition completeLivenessSession :: "(bool option \<times> decimal option) result \<Rightarrow> nat \<Rightarrow> string \<Rightarrow> document_status tx" where
  "completeLivenessSession identro uid reference s =
     ebind (requireOwnedLiveness uid reference s) (\<lambda>rec.
     if lv_status rec \<noteq> DOC_PENDING then Inr (lv_status rec, s)
     else ebind identro (\<lambda>(passed, score).
       let status = (case passed of Some True \<Rightarrow> DOC_APPROVED | Some False \<Rightarrow> DOC_REJECTED | None \<Rightarrow> DOC_PENDING)
       in Inr (status, userAudit (Some uid) ''RIDER_LIVENESS_PROVIDER_VERIFICATION'' ''RiderLivenessVerification'' (show_nat (lv_id rec))
            (s\<lparr>fleet := (fleet s)\<lparr>livenessChecks := tupdate (\<lambda>l. lv_id l = lv_id rec)
              (\<lambda>l. l\<lparr>lv_status := status, lv_confidenceScore := score\<rparr>) (livenessChecks (fleet s))\<rparr>\<rparr>))))"

record identity_checks =
  ic_nin :: "string \<Rightarrow> identity_answer"
  ic_license :: "string \<Rightarrow> identity_answer"
  ic_voter :: "string \<Rightarrow> identity_answer"

definition dispatchDocumentVerify :: "identity_checks \<Rightarrow> string \<Rightarrow> string \<Rightarrow> identity_answer" where
  "dispatchDocumentVerify ic typ number =
     (if typ \<in> {''NIN'', ''NIN_SLIP'', ''NATIONAL_ID''} then ic_nin ic number
      else if typ = ''DRIVERS_LICENSE'' then ic_license ic number
      else if typ = ''VOTERS_CARD'' then ic_voter ic number
      else if typ = ''INTERNATIONAL_PASSPORT'' then ic_nin ic number
      else Inl (BadRequest ''Document type is not supported for automated verification.''))"

definition verifyRiderDocument :: "identity_checks \<Rightarrow> bool \<Rightarrow> nat \<Rightarrow> nat \<Rightarrow> db \<Rightarrow> db result" where
  "verifyRiderDocument ic shouldAutoApprove uid documentId s =
     ebind (requireProfile uid s) (\<lambda>rider.
     ebind (orThrow (tfind (\<lambda>d. rdoc_id d = documentId \<and> rdoc_riderId d = rp_id rider) (riderDocuments (fleet s)))
       (NotFound ''Rider document not found or does not belong to this rider.'')) (\<lambda>d.
     require (truthy (rdoc_documentNumber d)) (BadRequest ''Document number is required for automated verification.'') (
     ebind (dispatchDocumentVerify ic (rdoc_type d) (the (rdoc_documentNumber d))) (\<lambda>(answer, _).
     let identroStatus = (case answer of None \<Rightarrow> ''UNVERIFIED'' | Some x \<Rightarrow> x);
         shouldApprove = (identroStatus = ''VERIFIED'' \<and> shouldAutoApprove);
         s1 = s\<lparr>fleet := (fleet s)\<lparr>riderDocuments := tupdate (\<lambda>x. rdoc_id x = rdoc_id d)
           (\<lambda>x. x\<lparr>rdoc_providerStatus := Some identroStatus, rdoc_status := if shouldApprove then DOC_APPROVED else rdoc_status x\<rparr>)
           (riderDocuments (fleet s))\<rparr>\<rparr>
     in Inr (if shouldApprove then userAudit None ''DOCUMENT_AUTO_APPROVED'' ''RiderDocument'' (show_nat (rdoc_id d)) s1 else s1)))))"

section \<open>Decisions of the compliance staff\<close>

definition grantRole :: "string \<Rightarrow> nat \<Rightarrow> db \<Rightarrow> db" where
  "grantRole name uid s = (case tfind (\<lambda>r. ro_name r = name) (roles (access s)) of
     None \<Rightarrow> s
   | Some role \<Rightarrow>
       if tfind (\<lambda>x. ur_userId x = uid \<and> ur_roleId x = ro_id role) (userRoles (access s)) \<noteq> None then s
       else s\<lparr>access := (access s)\<lparr>userRoles := tinsert (\<lambda>_. \<lparr>ur_userId = uid, ur_roleId = ro_id role, ur_expiresAt = None\<rparr>)
         (userRoles (access s))\<rparr>\<rparr>)"

definition setRider :: "nat \<Rightarrow> (rider_profile \<Rightarrow> rider_profile) \<Rightarrow> db \<Rightarrow> db" where
  "setRider riderId f s = s\<lparr>riderProfiles := tupdate (\<lambda>p. rp_id p = riderId) f (riderProfiles s)\<rparr>"

definition approved_profile :: "rider_profile \<Rightarrow> rider_profile" where
  "approved_profile p = p\<lparr>rp_onboardingStatus := ''APPROVED'', rp_rejectionReason := None, rp_rejectedEvidence := None\<rparr>"

definition candidate :: "string \<Rightarrow> nat \<Rightarrow> db \<Rightarrow> rider_profile result" where
  "candidate refusal riderId s =
     ebind (orThrow (tfind (\<lambda>p. rp_id p = riderId) (riderProfiles s)) (NotFound ''Rider profile not found.'')) (\<lambda>p.
     require (rp_onboardingStatus p = ''UNDER_REVIEW'') (BadRequest refusal) (Inr p))"

definition notifyRiderDecision :: "exn option \<Rightarrow> nat \<Rightarrow> bool \<Rightarrow> unit handler" where
  "notifyRiderDecision push uid approved =
     notifyUser push uid ''KYC_UPDATE'' (if approved then ''Rider application approved'' else ''Rider application not approved'') None"

definition approveInTransaction :: "nat \<Rightarrow> nat \<Rightarrow> rider_profile tx" where
  "approveInTransaction riderId reviewerId s =
     ebind (candidate ''Only riders under review can be approved.'' riderId s) (\<lambda>p.
     require (rr_missingOperationalRequirements (readiness_of s p) = [])
       (BadRequest ''Rider has not completed operational verification.'') (
     let s1 = setRider riderId approved_profile s;
         s2 = s1\<lparr>users := tupdate (\<lambda>u. u_id u = rp_userId p) (\<lambda>u. u\<lparr>u_isEmailVerified := True\<rparr>) (users s1)\<rparr>
     in Inr (approved_profile p, audit reviewerId ''RIDER_APPROVED'' ''RiderProfile'' (show_nat riderId)
          (grantRole ''RIDER'' (rp_userId p) s2))))"

definition approveRider :: "exn option \<Rightarrow> nat \<Rightarrow> nat \<Rightarrow> rider_profile handler" where
  "approveRider push riderId reviewerId =
     hbind (transaction (approveInTransaction riderId reviewerId)) (\<lambda>rider.
     hbind (notifyRiderDecision push (rp_userId rider) True) (\<lambda>_. hreturn rider))"

definition collectRejectedEvidence :: "readiness_snapshot \<Rightarrow> (string \<times> nat) list" where
  "collectRejectedEvidence p =
     map (\<lambda>d. (''RIDER_DOCUMENT'', rdoc_id d)) (filter (\<lambda>d. rdoc_status d = DOC_REJECTED) (rs_documents p)) @
     map (\<lambda>l. (''DRIVER_LICENSE'', lic_id l)) (filter (\<lambda>l. lic_status l = DOC_REJECTED) (rs_licences p)) @
     map (\<lambda>l. (''LIVENESS'', lv_id l)) (filter (\<lambda>l. lv_status l = DOC_REJECTED) (rs_liveness p)) @
     map (\<lambda>(v, _). (''MOTORCYCLE'', ve_id v)) (filter (\<lambda>(v, _). ve_status v = ''REJECTED'') (rs_vehicles p)) @
     concat (map (\<lambda>(_, docs). map (\<lambda>d. (''VEHICLE_DOCUMENT'', vd_id d)) (filter (\<lambda>d. vd_status d = DOC_REJECTED) docs)) (rs_vehicles p))"

definition rejected_profile :: "db \<Rightarrow> rider_profile \<Rightarrow> string \<Rightarrow> rider_profile \<Rightarrow> rider_profile" where
  "rejected_profile s p reason x = x\<lparr>rp_onboardingStatus := ''REJECTED'', rp_rejectionReason := Some reason,
     rp_rejectedEvidence := Some (collectRejectedEvidence (snapshot_of s p))\<rparr>"

definition rejectRider :: "exn option \<Rightarrow> nat \<Rightarrow> nat \<Rightarrow> string option \<Rightarrow> rider_profile handler" where
  "rejectRider push riderId reviewerId reason =
     hbind (transaction (\<lambda>s.
       ebind (candidate ''Only riders under review can be rejected.'' riderId s) (\<lambda>p.
       let f = rejected_profile s p (case reason of None \<Rightarrow> ''Application rejected.'' | Some r \<Rightarrow> r)
       in Inr (f p, audit reviewerId ''RIDER_REJECTED'' ''RiderProfile'' (show_nat riderId) (setRider riderId f s))))) (\<lambda>rider.
     hbind (notifyRiderDecision push (rp_userId rider) False) (\<lambda>_. hreturn rider))"

definition manual_licence :: "rider_licence \<Rightarrow> bool" where
  "manual_licence l \<longleftrightarrow> lic_status l = DOC_PENDING \<and> \<not> truthy (lic_provider l) \<and> truthy (lic_documentUrl l)"

definition approveManualChecks :: "nat \<Rightarrow> readiness_snapshot \<Rightarrow> db \<Rightarrow> db" where
  "approveManualChecks reviewerId p s =
     (let ls = filter manual_licence (rs_licences p);
          vs = filter (\<lambda>v. ve_status v = ''PENDING'' \<and> truthy (ve_photoUrl v)) (map fst (rs_vehicles p));
          ds = filter (\<lambda>d. vd_type d = ''VEHICLE_REGISTRATION'' \<and> vd_status d = DOC_PENDING) (concat (map snd (rs_vehicles p)));
          s1 = s\<lparr>fleet := (fleet s)\<lparr>
            riderLicences := tupdate (\<lambda>l. lic_id l \<in> set (map lic_id ls)) (\<lambda>l. l\<lparr>lic_status := DOC_APPROVED\<rparr>) (riderLicences (fleet s)),
            vehicles := tupdate (\<lambda>v. ve_id v \<in> set (map ve_id vs)) (\<lambda>v. v\<lparr>ve_status := ''APPROVED''\<rparr>) (vehicles (fleet s)),
            vehicleDocuments := tupdate (\<lambda>d. vd_id d \<in> set (map vd_id ds)) (\<lambda>d. d\<lparr>vd_status := DOC_APPROVED\<rparr>)
              (vehicleDocuments (fleet s))\<rparr>\<rparr>;
          s2 = fold (\<lambda>v. audit reviewerId ''KYC_APPROVED'' ''Vehicle'' (show_nat (ve_id v))) vs s1;
          s3 = fold (\<lambda>l. audit reviewerId ''KYC_APPROVED'' ''RiderLicence'' (show_nat (lic_id l))) ls s2
      in fold (\<lambda>d. audit reviewerId ''KYC_APPROVED'' ''VehicleDocument'' (show_nat (vd_id d))) ds s3)"

definition decideInTransaction :: "nat \<Rightarrow> nat \<Rightarrow> bool \<Rightarrow> string \<Rightarrow> bool \<Rightarrow> rider_profile tx" where
  "decideInTransaction riderId reviewerId approve reason approvePendingManualChecks s =
     ebind (candidate ''Only riders under review can receive a final decision.'' riderId s) (\<lambda>p.
     if \<not> approve
     then Inr (rejected_profile s p reason p, audit reviewerId ''RIDER_APPLICATION_REJECTED'' ''RiderProfile'' (show_nat riderId)
            (setRider riderId (rejected_profile s p reason) s))
     else let s1 = (if approvePendingManualChecks then approveManualChecks reviewerId (snapshot_of s p) s else s)
       in require (rr_missingOperationalRequirements (readiness_of s1 p) = [])
            (BadRequest ''Rider cannot be approved. Automatic checks are incomplete or manual evidence was not approved.'') (
          Inr (approved_profile p, audit reviewerId ''RIDER_APPLICATION_APPROVED'' ''RiderProfile'' (show_nat riderId)
            (grantRole ''RIDER'' (rp_userId p) (setRider riderId approved_profile s1)))))"

definition decideRiderApplication :: "exn option \<Rightarrow> nat \<Rightarrow> nat \<Rightarrow> bool \<Rightarrow> string \<Rightarrow> bool \<Rightarrow> rider_profile handler" where
  "decideRiderApplication push riderId reviewerId approve reason approvePendingManualChecks =
     hbind (transaction (decideInTransaction riderId reviewerId approve reason approvePendingManualChecks)) (\<lambda>rider.
     hbind (notifyRiderDecision push (rp_userId rider) approve) (\<lambda>_. hreturn rider))"

definition decision_name :: "bool \<Rightarrow> string" where
  "decision_name approve = (if approve then ''KYC_APPROVED'' else ''KYC_REJECTED'')"

definition doc_decision :: "bool \<Rightarrow> document_status" where
  "doc_decision approve = (if approve then DOC_APPROVED else DOC_REJECTED)"

definition reviewDocument :: "nat \<Rightarrow> nat \<Rightarrow> bool \<Rightarrow> string option \<Rightarrow> db \<Rightarrow> db result" where
  "reviewDocument documentId reviewerId approve reason s =
     require (tfind (\<lambda>d. rdoc_id d = documentId) (riderDocuments (fleet s)) \<noteq> None) (NotFound ''Rider document not found.'') (
     Inr (audit reviewerId (decision_name approve) ''RiderDocument'' (show_nat documentId)
       (s\<lparr>fleet := (fleet s)\<lparr>riderDocuments := tupdate (\<lambda>d. rdoc_id d = documentId)
         (\<lambda>d. d\<lparr>rdoc_status := doc_decision approve,
            rdoc_rejectionReason := if approve then None else given reason (rdoc_rejectionReason d)\<rparr>) (riderDocuments (fleet s))\<rparr>\<rparr>)))"

definition reviewRiderLicence :: "nat \<Rightarrow> nat \<Rightarrow> bool \<Rightarrow> db \<Rightarrow> db result" where
  "reviewRiderLicence licenceId reviewerId approve s =
     ebind (orThrow (tfind (\<lambda>l. lic_id l = licenceId) (riderLicences (fleet s))) (NotFound ''Rider licence not found.'')) (\<lambda>l.
     require (\<not> (approve \<and> \<not> truthy (lic_provider l) \<and> \<not> truthy (lic_documentUrl l)))
       (BadRequest ''A manual driver licence cannot be approved without an uploaded image.'') (
     require (\<not> (approve \<and> truthy (lic_provider l) \<and> lic_providerStatus l \<noteq> Some ''VERIFIED''))
       (BadRequest ''An automatic provider failure or pending result cannot be manually approved.'') (
     Inr (audit reviewerId (decision_name approve) ''RiderLicence'' (show_nat licenceId)
       (s\<lparr>fleet := (fleet s)\<lparr>riderLicences := tupdate (\<lambda>l. lic_id l = licenceId) (\<lambda>l. l\<lparr>lic_status := doc_decision approve\<rparr>)
         (riderLicences (fleet s))\<rparr>\<rparr>)))))"

definition reviewVehicleDocument :: "nat \<Rightarrow> nat \<Rightarrow> bool \<Rightarrow> string option \<Rightarrow> db \<Rightarrow> db result" where
  "reviewVehicleDocument documentId reviewerId approve reason s =
     require (tfind (\<lambda>d. vd_id d = documentId) (vehicleDocuments (fleet s)) \<noteq> None) (NotFound ''Vehicle document not found.'') (
     Inr (audit reviewerId (decision_name approve) ''VehicleDocument'' (show_nat documentId)
       (s\<lparr>fleet := (fleet s)\<lparr>vehicleDocuments := tupdate (\<lambda>d. vd_id d = documentId)
         (\<lambda>d. d\<lparr>vd_status := doc_decision approve,
            vd_rejectionReason := if approve then None else given reason (vd_rejectionReason d)\<rparr>) (vehicleDocuments (fleet s))\<rparr>\<rparr>)))"

definition reviewVehicle :: "nat \<Rightarrow> nat \<Rightarrow> bool \<Rightarrow> db \<Rightarrow> db result" where
  "reviewVehicle vehicleId reviewerId approve s =
     require (tfind (\<lambda>v. ve_id v = vehicleId) (vehicles (fleet s)) \<noteq> None) (NotFound ''Rider motorcycle/vehicle not found.'') (
     Inr (audit reviewerId (decision_name approve) ''Vehicle'' (show_nat vehicleId)
       (s\<lparr>fleet := (fleet s)\<lparr>vehicles := tupdate (\<lambda>v. ve_id v = vehicleId)
         (\<lambda>v. v\<lparr>ve_status := if approve then ''APPROVED'' else ''REJECTED''\<rparr>) (vehicles (fleet s))\<rparr>\<rparr>)))"

section \<open>Who may deliver\<close>

lemma audit_frame: "\<exists>a. audit r x y z s = s\<lparr>auditLogs := a\<rparr>"
  by (auto simp: audit_def)

lemma audit_keeps [simp]:
  "fleet (audit r x y z s) = fleet s" "riderProfiles (audit r x y z s) = riderProfiles s" "access (audit r x y z s) = access s"
  by (simp_all add: audit_def)

lemma fold_audit_keeps [simp]:
  "fleet (fold (\<lambda>v. audit r (x v) (y v) (z v)) vs s) = fleet s"
  "riderProfiles (fold (\<lambda>v. audit r (x v) (y v) (z v)) vs s) = riderProfiles s"
  by (induction vs arbitrary: s) simp_all

lemma grantRole_keeps [simp]: "fleet (grantRole n u s) = fleet s" "riderProfiles (grantRole n u s) = riderProfiles s"
  by (simp_all add: grantRole_def split: option.split)

lemma setRider_keeps [simp]: "fleet (setRider i f s) = fleet s"
  by (simp add: setRider_def)

lemma approveManualChecks_keeps [simp]: "riderProfiles (approveManualChecks r p s) = riderProfiles s"
  by (simp add: approveManualChecks_def Let_def)

lemma snapshot_of_approved: "fleet s' = fleet s \<Longrightarrow> snapshot_of s' (approved_profile p) = (snapshot_of s p)\<lparr>rs_onboardingStatus := ''APPROVED''\<rparr>"
  by (simp add: snapshot_of_def approved_profile_def)

lemma missing_status: "missing_operational (p\<lparr>rs_onboardingStatus := x\<rparr>) = missing_operational p"
  by (simp add: missing_operational_def missing_application_def identity_document_def verified_licence_def licence_evidence_def)

lemma approved_ready:
  assumes "rr_missingOperationalRequirements (readiness_of s p) = []" and "fleet s' = fleet s"
  shows "rr_canAcceptDeliveries (readiness_of s' (approved_profile p))"
  using assms by (simp add: readiness_of_def assessRiderReadiness_def snapshot_of_approved missing_status)

lemma candidate_Inr [tx_simps]:
  "candidate m i s = Inr p \<longleftrightarrow> tfind (\<lambda>p. rp_id p = i) (riderProfiles s) = Some p \<and> rp_onboardingStatus p = ''UNDER_REVIEW''"
  by (auto simp: candidate_def tx_simps)

lemma approved_found:
  assumes "tfind (\<lambda>p. rp_id p = i) (riderProfiles s) = Some p"
  shows "tfind (\<lambda>p. rp_id p = i) (tupdate (\<lambda>p. rp_id p = i) approved_profile (riderProfiles s)) = Some (approved_profile p)"
  using assms tfind_SomeD [OF assms] by (subst tfind_tupdate) (simp_all add: approved_profile_def)

text \<open>
  (C15) Whichever way the staff approves a rider, the rider was under review, and the stored profile
  that results is one the readiness assessment lets accept deliveries.
\<close>

theorem approval_makes_ready:
  assumes "approveInTransaction riderId reviewer s = Inr (p', s') \<or>
    decideInTransaction riderId reviewer True reason manual s = Inr (p', s')"
  shows "tfind (\<lambda>p. rp_id p = riderId) (riderProfiles s') = Some p' \<and> rr_canAcceptDeliveries (readiness_of s' p') \<and>
    map_option rp_onboardingStatus (tfind (\<lambda>p. rp_id p = riderId) (riderProfiles s)) = Some ''UNDER_REVIEW''"
  using assms
proof
  assume "approveInTransaction riderId reviewer s = Inr (p', s')"
  then obtain p where p: "tfind (\<lambda>p. rp_id p = riderId) (riderProfiles s) = Some p" "rp_onboardingStatus p = ''UNDER_REVIEW''"
      "rr_missingOperationalRequirements (readiness_of s p) = []" "p' = approved_profile p"
    and s': "fleet s' = fleet s" "riderProfiles s' = tupdate (\<lambda>p. rp_id p = riderId) approved_profile (riderProfiles s)"
    by (auto simp: approveInTransaction_def tx_simps Let_def setRider_def)
  show ?thesis using approved_found [OF p(1)] approved_ready [OF p(3) s'(1)] p s'(2) by simp
next
  assume "decideInTransaction riderId reviewer True reason manual s = Inr (p', s')"
  then obtain p s1 where p: "tfind (\<lambda>p. rp_id p = riderId) (riderProfiles s) = Some p" "rp_onboardingStatus p = ''UNDER_REVIEW''"
      "rr_missingOperationalRequirements (readiness_of s1 p) = []" "p' = approved_profile p"
    and s': "fleet s' = fleet s1" "riderProfiles s' = tupdate (\<lambda>p. rp_id p = riderId) approved_profile (riderProfiles s)"
    by (auto simp: decideInTransaction_def tx_simps Let_def setRider_def split: if_splits)
  show ?thesis using approved_found [OF p(1)] approved_ready [OF p(3) s'(1)] p s'(2) by simp
qed

lemma can_accept_iff:
  "rr_canAcceptDeliveries (assessRiderReadiness p) \<longleftrightarrow> rs_onboardingStatus p = ''APPROVED'' \<and> missing_operational p = []"
  by (simp add: assessRiderReadiness_def)

lemma push_if_empty [simp]: "push_if c x = [] \<longleftrightarrow> \<not> c"
  by (simp add: push_if_def)

text \<open>
  (C16) A rider who goes online has been approved, has passed a liveness check, has an approved
  identity document or licence and a photographed, approved vehicle, which, if it has an engine,
  comes with an approved registration and an approved licence; and the position the rider
  published is recent enough.
\<close>

theorem online_rider_vetted:
  assumes "updateAvailability cfg now uid True s = Inr s'"
  shows "\<exists>p t. find_rider uid s = Some p \<and> find_rider uid s' = Some (p\<lparr>rp_isOnline := True\<rparr>) \<and> fleet s' = fleet s \<and>
    rp_onboardingStatus p = ''APPROVED'' \<and>
    (\<exists>l \<in> set (rs_liveness (snapshot_of s p)). lv_status l = DOC_APPROVED) \<and>
    (verified_licence (snapshot_of s p) \<or> map_option rdoc_status (identity_document (snapshot_of s p)) = Some DOC_APPROVED) \<and>
    (\<exists>(v, docs) \<in> set (rs_vehicles (snapshot_of s p)). ve_status v = ''APPROVED'' \<and> truthy (ve_photoUrl v) \<and>
      (motorized v \<longrightarrow> verified_licence (snapshot_of s p) \<and>
        (\<exists>d \<in> set docs. toUpperCase (vd_type d) = ''VEHICLE_REGISTRATION'' \<and> vd_status d = DOC_APPROVED))) \<and>
    rp_location p \<noteq> None \<and> rp_locationUpdatedAt p = Some t \<and> \<not> location_stale cfg now t"
proof -
  obtain p where p: "find_rider uid s = Some p" "rr_canAcceptDeliveries (readiness_of s p)"
    "ensureFreshJobLocation cfg now p = Inr ()" and s': "s' = update_rider uid (\<lambda>p. p\<lparr>rp_isOnline := True\<rparr>) s"
    using assms by (auto simp: updateAvailability_def tx_simps)
  let ?q = "snapshot_of s p"
  have q: "rp_onboardingStatus p = ''APPROVED''" "missing_operational ?q = []"
    using p(2) by (simp_all add: readiness_of_def can_accept_iff) (simp add: snapshot_of_def)
  obtain t where t: "rp_location p \<noteq> None" "rp_locationUpdatedAt p = Some t" "\<not> location_stale cfg now t"
    using p(3) by (auto simp: ensureFreshJobLocation_def tx_simps split: option.splits)
  have "rs_vehicles ?q \<noteq> []" using q(2) by (simp add: missing_operational_def missing_application_def Let_def)
  then obtain v docs where v: "(v, docs) \<in> set (rs_vehicles ?q)" "operational_vehicle (verified_licence ?q) (v, docs)"
    using q(2) by (auto simp: missing_operational_def)
  have "find_rider uid s' = Some (p\<lparr>rp_isOnline := True\<rparr>)"
    using p(1) by (auto simp: s' find_rider_def update_rider_def table_simps dest: tfind_SomeD)
  moreover have "ve_status v = ''APPROVED'' \<and> truthy (ve_photoUrl v) \<and> (motorized v \<longrightarrow> verified_licence ?q \<and>
      (\<exists>d \<in> set docs. toUpperCase (vd_type d) = ''VEHICLE_REGISTRATION'' \<and> vd_status d = DOC_APPROVED))"
    using v(2) by (auto simp: operational_vehicle_def split: if_splits)
  moreover have "\<exists>l \<in> set (rs_liveness ?q). lv_status l = DOC_APPROVED"
    "verified_licence ?q \<or> map_option rdoc_status (identity_document ?q) = Some DOC_APPROVED"
    using q(2) by (auto simp: missing_operational_def)
  moreover have "fleet s' = fleet s" by (simp add: s' update_rider_def)
  ultimately show ?thesis using p(1) q(1) t v(1) by blast
qed

section \<open>One primary account\<close>

definition banks_ok :: "rider_bank table \<Rightarrow> bool" where
  "banks_ok t \<longleftrightarrow> tkeyed rb_id t \<and> (\<forall>b \<in> set (rows t). rb_verificationStatus b = DOC_APPROVED) \<and>
     (\<forall>b \<in> set (rows t). \<exists>c \<in> set (rows t). rb_profileId c = rb_profileId b \<and> rb_isPrimary c) \<and>
     (\<forall>b \<in> set (rows t). \<forall>c \<in> set (rows t). rb_profileId b = rb_profileId c \<and> rb_isPrimary b \<and> rb_isPrimary c \<longrightarrow> b = c)"

datatype bank_request =
    AddAccount nat string string bool
  | SetPrimary nat nat
  | RemoveAccount nat nat

definition bank_step :: "(string \<Rightarrow> string \<Rightarrow> (string \<times> string \<times> string) result) \<Rightarrow> bank_request \<Rightarrow> db \<Rightarrow> db result" where
  "bank_step resolve q = (case q of
     AddAccount uid code number primary \<Rightarrow> addBankAccount resolve uid code number primary
   | SetPrimary uid i \<Rightarrow> setPrimaryBankAccount uid i
   | RemoveAccount uid i \<Rightarrow> removeBankAccount uid i)"

lemma banks_okD:
  assumes "banks_ok t"
  shows "tkeyed rb_id t" and "x \<in> set (rows t) \<Longrightarrow> rb_verificationStatus x = DOC_APPROVED"
    and "x \<in> set (rows t) \<Longrightarrow> \<exists>c \<in> set (rows t). rb_profileId c = rb_profileId x \<and> rb_isPrimary c"
    and "x \<in> set (rows t) \<Longrightarrow> y \<in> set (rows t) \<Longrightarrow> rb_profileId x = rb_profileId y \<Longrightarrow> rb_isPrimary x \<Longrightarrow> rb_isPrimary y \<Longrightarrow> x = y"
  using assms unfolding banks_ok_def by blast+

lemma banks_ok_add:
  assumes "banks_ok t" and "primary \<or> tcount (\<lambda>b. rb_profileId b = r) t = 0"
    and "\<And>i. rb_id (mk i) = i \<and> rb_profileId (mk i) = r \<and> rb_isPrimary (mk i) \<and> rb_verificationStatus (mk i) = DOC_APPROVED"
  shows "banks_ok (tinsert mk (tupdate (\<lambda>b. rb_profileId b = r) (\<lambda>b. b\<lparr>rb_isPrimary := False\<rparr>) t))"
proof -
  let ?t = "tupdate (\<lambda>b. rb_profileId b = r) (\<lambda>b. b\<lparr>rb_isPrimary := False\<rparr>) t"
  have "tkeyed rb_id (tinsert mk ?t)"
    using assms by (intro rider_bank_table.insert_keyed rider_bank_table.update_keyed) (auto simp: banks_ok_def)
  moreover have "\<exists>c \<in> set (rows (tinsert mk ?t)). rb_profileId c = rb_profileId b \<and> rb_isPrimary c"
    if b: "b \<in> set (rows (tinsert mk ?t))" for b
  proof (cases "rb_profileId b = r")
    case True
    then show ?thesis using assms(3) by auto
  next
    case False
    then have "b \<in> set (rows t)" using b assms(3) by (auto split: if_splits)
    then obtain c where "c \<in> set (rows t)" "rb_profileId c = rb_profileId b" "rb_isPrimary c" using assms(1) by (auto simp: banks_ok_def)
    then have "c \<in> set (rows (tinsert mk ?t))" using False by force
    then show ?thesis using \<open>rb_profileId c = rb_profileId b\<close> \<open>rb_isPrimary c\<close> by blast
  qed
  moreover have "rb_verificationStatus b = DOC_APPROVED" if "b \<in> set (rows (tinsert mk ?t))" for b
    using that assms(1,3) by (auto simp: banks_ok_def split: if_splits)
  moreover have "b = c" if "b \<in> set (rows (tinsert mk ?t))" "c \<in> set (rows (tinsert mk ?t))"
    "rb_profileId b = rb_profileId c" "rb_isPrimary b" "rb_isPrimary c" for b c
    using that assms(1,3) by (auto simp: banks_ok_def split: if_splits)
  ultimately show ?thesis unfolding banks_ok_def by blast
qed

lemma banks_ok_mark:
  assumes keyed: "tkeyed rb_id t" and approved: "\<forall>b \<in> set (rows t). rb_verificationStatus b = DOC_APPROVED"
    and others: "\<forall>b \<in> set (rows t). rb_profileId b \<noteq> r \<longrightarrow> (\<exists>c \<in> set (rows t). rb_profileId c = rb_profileId b \<and> rb_isPrimary c)"
    and unique: "\<forall>b \<in> set (rows t). \<forall>c \<in> set (rows t). rb_profileId b = rb_profileId c \<and> rb_profileId b \<noteq> r \<and>
      rb_isPrimary b \<and> rb_isPrimary c \<longrightarrow> b = c"
    and none: "\<forall>b \<in> set (rows t). rb_profileId b = r \<and> rb_id b \<noteq> i \<longrightarrow> \<not> rb_isPrimary b"
    and a: "a \<in> set (rows t)" "rb_id a = i" "rb_profileId a = r"
  shows "banks_ok (tupdate (\<lambda>b. rb_id b = i) (\<lambda>b. b\<lparr>rb_isPrimary := True\<rparr>) t)"
proof -
  let ?f = "\<lambda>b::rider_bank. b\<lparr>rb_isPrimary := True\<rparr>"
  let ?t = "tupdate (\<lambda>b. rb_id b = i) ?f t"
  have eq: "b = a" if "b \<in> set (rows t)" "rb_id b = i" for b using tkeyed_inj [OF keyed that(1) a(1)] that(2) a(2) by simp
  have "set (rows ?t) = (\<lambda>b. if rb_id b = i then ?f b else b) ` set (rows t)" by simp
  also have "\<dots> = (\<lambda>b. if b = a then ?f a else b) ` set (rows t)" using a(2) by (intro image_cong) (auto dest: eq)
  also have "\<dots> = insert (?f a) (set (rows t) - {a})" using a(1) by auto
  finally have rows: "set (rows ?t) = insert (?f a) (set (rows t) - {a})" .
  have "tkeyed rb_id ?t" using keyed by (intro rider_bank_table.update_keyed) simp_all
  moreover have "\<forall>b \<in> set (rows ?t). rb_verificationStatus b = DOC_APPROVED" unfolding rows using approved a(1) by simp
  moreover have "\<exists>c \<in> set (rows ?t). rb_profileId c = rb_profileId b \<and> rb_isPrimary c" if "b \<in> set (rows ?t)" for b
  proof (cases "rb_profileId b = r")
    case True
    then show ?thesis unfolding rows using a(3) by simp
  next
    case False
    then have "b \<in> set (rows t)" using that a(3) unfolding rows by auto
    then obtain c where c: "c \<in> set (rows t)" "rb_profileId c = rb_profileId b" "rb_isPrimary c" using others False by blast
    then have "c \<noteq> a" using False a(3) by auto
    then show ?thesis unfolding rows using c by blast
  qed
  moreover have "b = c" if bc: "b \<in> set (rows ?t)" "c \<in> set (rows ?t)" "rb_profileId b = rb_profileId c" "rb_isPrimary b" "rb_isPrimary c" for b c
  proof (cases "rb_profileId b = r")
    case True
    have "x = ?f a" if "x \<in> set (rows ?t)" "rb_profileId x = r" "rb_isPrimary x" for x
      using that none a unfolding rows by (auto dest: eq)
    then show ?thesis using True bc by metis
  next
    case False
    then have "b \<in> set (rows t)" "c \<in> set (rows t)" using bc(1-3) a(3) unfolding rows by auto
    then show ?thesis using bc(3-5) unique False by blast
  qed
  ultimately show ?thesis unfolding banks_ok_def by blast
qed

lemma banks_ok_delete:
  assumes "banks_ok t" and "a \<in> set (rows t)" and "\<not> rb_isPrimary a"
  shows "banks_ok (tdelete (\<lambda>b. rb_id b = rb_id a) t)"
proof -
  have keep: "c \<in> set (rows (tdelete (\<lambda>b. rb_id b = rb_id a) t))" if "c \<in> set (rows t)" "rb_isPrimary c" for c
    using that assms(2,3) tkeyed_inj [OF banks_okD(1) [OF assms(1)], of c a] by auto
  have sub: "set (rows (tdelete (\<lambda>b. rb_id b = rb_id a) t)) \<subseteq> set (rows t)" by auto
  show ?thesis unfolding banks_ok_def
    using rider_bank_table.delete_keyed [OF banks_okD(1) [OF assms(1)]] keep banks_okD(2-4) [OF assms(1)] subsetD [OF sub] by metis
qed

lemma owned_bank_found:
  "owned_bank rider i s = Inr a \<Longrightarrow> a \<in> set (rows (riderBanks s)) \<and> rb_id a = i \<and> rb_profileId a = rp_id rider"
  by (auto simp: owned_bank_def tx_simps dest: tfind_SomeD)

lemma addBankAccount_ok:
  assumes "addBankAccount resolve uid code number p s = Inr s'" and "banks_ok (riderBanks s)"
  shows "banks_ok (riderBanks s')"
proof -
  obtain rider bank n name where r: "requireProfile uid s = Inr rider" "resolve code number = Inr (bank, n, name)"
    using assms(1) by (auto simp: addBankAccount_def tx_simps)
  define primary where "primary = (p \<or> tcount (\<lambda>b. rb_profileId b = rp_id rider) (riderBanks s) = 0)"
  define mk where "mk = (\<lambda>i. \<lparr>rb_id = i, rb_profileId = rp_id rider, rb_bankCode = code, rb_isPrimary = primary,
    rb_verificationStatus = DOC_APPROVED, rb_bankName = bank, rb_accountNumber = n, rb_accountName = name\<rparr>)"
  have b: "riderBanks s' = tinsert mk (if primary then tupdate (\<lambda>b. rb_profileId b = rp_id rider) (\<lambda>b. b\<lparr>rb_isPrimary := False\<rparr>)
      (riderBanks s) else riderBanks s)"
    using assms(1) r unfolding addBankAccount_def setBanks_def Let_def mk_def primary_def by auto
  show ?thesis
  proof (cases primary)
    case True
    then show ?thesis unfolding b if_P [OF True] using assms(2)
      by (intro banks_ok_add [where primary = p]) (auto simp: mk_def primary_def)
  next
    case False
    then obtain x where x: "x \<in> set (rows (riderBanks s))" "rb_profileId x = rp_id rider"
      by (auto simp: primary_def tcount_zero_iff tfind_None_iff)
    have "tkeyed rb_id (tinsert mk (riderBanks s))"
      using assms(2) by (intro rider_bank_table.insert_keyed) (simp_all add: banks_ok_def mk_def)
    moreover obtain c where "c \<in> set (rows (riderBanks s))" "rb_profileId c = rp_id rider" "rb_isPrimary c"
      using assms(2) x by (metis banks_ok_def)
    ultimately show ?thesis unfolding b using False assms(2) by (auto simp: banks_ok_def mk_def)
  qed
qed

lemma setPrimaryBankAccount_ok:
  assumes "setPrimaryBankAccount uid i s = Inr s'" and ok: "banks_ok (riderBanks s)"
  shows "banks_ok (riderBanks s')"
proof -
  obtain rider a where own: "owned_bank rider i s = Inr a"
    and b: "riderBanks s' = tupdate (\<lambda>b. rb_id b = i) (\<lambda>b. b\<lparr>rb_isPrimary := True\<rparr>)
      (tupdate (\<lambda>b. rb_profileId b = rp_id rider \<and> rb_id b \<noteq> i) (\<lambda>b. b\<lparr>rb_isPrimary := False\<rparr>) (riderBanks s))"
    using assms(1) by (auto simp: setPrimaryBankAccount_def tx_simps setBanks_def Let_def)
  note a = owned_bank_found [OF own, THEN conjunct1] owned_bank_found [OF own, THEN conjunct2, THEN conjunct1]
    owned_bank_found [OF own, THEN conjunct2, THEN conjunct2]
  let ?t = "tupdate (\<lambda>b. rb_profileId b = rp_id rider \<and> rb_id b \<noteq> i) (\<lambda>b. b\<lparr>rb_isPrimary := False\<rparr>) (riderBanks s)"
  have same: "x \<in> set (rows ?t) \<longleftrightarrow> x \<in> set (rows (riderBanks s))" if "rb_profileId x \<noteq> rp_id rider" for x
    using that by (auto simp: image_iff)
  show ?thesis unfolding b
  proof (rule banks_ok_mark [where r = "rp_id rider" and a = a])
    show "tkeyed rb_id ?t" using ok by (intro rider_bank_table.update_keyed) (simp_all add: banks_ok_def)
    show "\<forall>b \<in> set (rows ?t). rb_verificationStatus b = DOC_APPROVED" using banks_okD(2) [OF ok] by auto
    show "\<forall>b \<in> set (rows ?t). rb_profileId b \<noteq> rp_id rider \<longrightarrow> (\<exists>c \<in> set (rows ?t). rb_profileId c = rb_profileId b \<and> rb_isPrimary c)"
    proof (intro ballI impI)
      fix x assume x: "x \<in> set (rows ?t)" "rb_profileId x \<noteq> rp_id rider"
      obtain c where c: "c \<in> set (rows (riderBanks s))" "rb_profileId c = rb_profileId x" "rb_isPrimary c"
        using banks_okD(3) [OF ok, of x] x same by blast
      then have "c \<in> set (rows ?t)" using same [of c] x(2) by simp
      then show "\<exists>c \<in> set (rows ?t). rb_profileId c = rb_profileId x \<and> rb_isPrimary c" using c(2,3) by blast
    qed
    show "\<forall>b \<in> set (rows ?t). \<forall>c \<in> set (rows ?t). rb_profileId b = rb_profileId c \<and> rb_profileId b \<noteq> rp_id rider \<and>
        rb_isPrimary b \<and> rb_isPrimary c \<longrightarrow> b = c"
    proof (intro ballI impI)
      fix x y assume "x \<in> set (rows ?t)" "y \<in> set (rows ?t)"
        and xy: "rb_profileId x = rb_profileId y \<and> rb_profileId x \<noteq> rp_id rider \<and> rb_isPrimary x \<and> rb_isPrimary y"
      then have "x \<in> set (rows (riderBanks s))" "y \<in> set (rows (riderBanks s))"
        using same [of x] same [of y] by (metis (no_types))+
      then show "x = y" using banks_okD(4) [OF ok] xy by blast
    qed
    show "\<forall>b \<in> set (rows ?t). rb_profileId b = rp_id rider \<and> rb_id b \<noteq> i \<longrightarrow> \<not> rb_isPrimary b" by auto
    show "a \<in> set (rows ?t)" using a by (auto simp: image_iff)
  qed (use a in simp_all)
qed

lemma removeBankAccount_ok:
  assumes "removeBankAccount uid i s = Inr s'" and ok: "banks_ok (riderBanks s)"
  shows "banks_ok (riderBanks s')"
proof -
  let ?d = "tdelete (\<lambda>b. rb_id b = i) (riderBanks s)"
  obtain rider a where own: "owned_bank rider i s = Inr a"
    and b: "riderBanks s' = (if rb_isPrimary a then (case tfind (\<lambda>b. rb_profileId b = rp_id rider \<and> rb_verificationStatus b = DOC_APPROVED) ?d of
        None \<Rightarrow> ?d | Some r \<Rightarrow> tupdate (\<lambda>b. rb_id b = rb_id r) (\<lambda>b. b\<lparr>rb_isPrimary := True\<rparr>) ?d) else ?d)"
    using assms(1) by (auto simp: removeBankAccount_def tx_simps setBanks_def Let_def)
  note a = owned_bank_found [OF own, THEN conjunct1] owned_bank_found [OF own, THEN conjunct2, THEN conjunct1]
    owned_bank_found [OF own, THEN conjunct2, THEN conjunct2]
  have k: "tkeyed rb_id ?d" using ok by (simp add: banks_ok_def rider_bank_table.delete_keyed)
  show ?thesis
  proof (cases "rb_isPrimary a")
    case False
    then show ?thesis using b banks_ok_delete [OF ok a(1)] a(2) by simp
  next
    case primary: True
    have rest: "\<not> rb_isPrimary c" if "c \<in> set (rows ?d)" "rb_profileId c = rp_id rider" for c
      using that primary banks_okD(4) [OF ok _ a(1), of c] a by auto
    have others: "\<exists>c \<in> set (rows ?d). rb_profileId c = rb_profileId x \<and> rb_isPrimary c"
      if x: "x \<in> set (rows ?d)" "rb_profileId x \<noteq> rp_id rider" for x
    proof -
      obtain c where "c \<in> set (rows (riderBanks s))" "rb_profileId c = rb_profileId x" "rb_isPrimary c"
        using x(1) banks_okD(3) [OF ok, of x] by auto
      moreover from this have "rb_id c \<noteq> i" using x(2) a tkeyed_inj [OF banks_okD(1) [OF ok], of c a] by auto
      ultimately show ?thesis by auto
    qed
    show ?thesis
    proof (cases "tfind (\<lambda>b. rb_profileId b = rp_id rider \<and> rb_verificationStatus b = DOC_APPROVED) ?d")
      case None
      then have "\<forall>x \<in> set (rows ?d). rb_profileId x \<noteq> rp_id rider" using banks_okD(2) [OF ok] by (auto simp: tfind_None_iff)
      moreover have "x = y" if "x \<in> set (rows ?d)" "y \<in> set (rows ?d)" "rb_profileId x = rb_profileId y" "rb_isPrimary x" "rb_isPrimary y" for x y
        using that banks_okD(4) [OF ok, of x y] by simp
      ultimately have "banks_ok ?d" unfolding banks_ok_def using k others banks_okD(2) [OF ok] by auto
      then show ?thesis using b None primary by simp
    next
      case (Some r)
      have "banks_ok (tupdate (\<lambda>b. rb_id b = rb_id r) (\<lambda>b. b\<lparr>rb_isPrimary := True\<rparr>) ?d)"
      proof (rule banks_ok_mark [where r = "rp_id rider" and a = r, OF k])
        show "\<forall>b \<in> set (rows ?d). \<forall>c \<in> set (rows ?d). rb_profileId b = rb_profileId c \<and> rb_profileId b \<noteq> rp_id rider \<and>
            rb_isPrimary b \<and> rb_isPrimary c \<longrightarrow> b = c"
          using banks_okD(4) [OF ok] by (metis (no_types, lifting) filter_is_subset rows_table(2) subsetD)
      qed (use tfind_SomeD [OF Some] rest others banks_okD(2) [OF ok] in auto)
      then show ?thesis using b Some primary by simp
    qed
  qed
qed

interpretation bank_system: tx_system "bank_step resolve" "\<lambda>s. banks_ok (riderBanks s)" for resolve
proof
  fix q s s'
  assume "banks_ok (riderBanks s)" "bank_step resolve q s = Inr s'"
  then show "banks_ok (riderBanks s')"
    by (cases q) (auto simp: bank_step_def intro: addBankAccount_ok setPrimaryBankAccount_ok removeBankAccount_ok)
qed

text \<open>
  (C17) Whatever a rider adds, prefers or removes, in any order and with requests that fail in
  between: a rider with bank accounts has exactly one primary account.
\<close>

theorem one_primary_account:
  assumes "banks_ok (riderBanks s)" and "b \<in> set (rows (riderBanks (run_ops (bank_step resolve) qs s)))"
  shows "\<exists>!c. c \<in> set (rows (riderBanks (run_ops (bank_step resolve) qs s))) \<and> rb_profileId c = rb_profileId b \<and> rb_isPrimary c"
proof -
  have "banks_ok (riderBanks (run_ops (bank_step resolve) qs s))" using assms(1) by (rule bank_system.run_inv)
  then show ?thesis using assms(2) unfolding banks_ok_def by (metis (no_types, lifting))
qed

section \<open>Examples\<close>

definition rider_bola :: rider_profile where
  "rider_bola = \<lparr>rp_id = 4, rp_userId = 12, rp_onboardingStatus = ''UNDER_REVIEW'', rp_isOnline = False,
     rp_areaOfOperation = Some ''Ikeja'', rp_businessState = None, rp_businessCity = None, rp_emergencyContactName = Some ''Ayo'', rp_emergencyContactPhone = Some ''0803'',
     rp_location = Some (6, 3), rp_locationAccuracyM = None, rp_locationUpdatedAt = Some 1000, rp_rejectionReason = None,
     rp_rejectedEvidence = None, rp_submissionAttempt = 1\<rparr>"

definition fleet_db :: db where
  "fleet_db = empty_db\<lparr>riderProfiles := \<lparr>rows = [rider_bola], next_id = 5\<rparr>,
     fleet := (fleet empty_db)\<lparr>
       riderLicences := \<lparr>rows = [\<lparr>lic_id = 1, lic_riderId = 4, lic_type = ''DRIVERS_LICENSE'', lic_number = Some ''AB1'',
         lic_documentUrl = Some ''url'', lic_status = DOC_PENDING, lic_provider = None, lic_providerReference = None,
         lic_providerStatus = None, lic_idempotencyKey = None\<rparr>], next_id = 2\<rparr>,
       livenessChecks := \<lparr>rows = [\<lparr>lv_id = 1, lv_riderId = 4, lv_userId = 12, lv_reference = Some ''r'', lv_status = DOC_APPROVED,
         lv_confidenceScore = Some 99\<rparr>], next_id = 2\<rparr>,
       vehicles := \<lparr>rows = [\<lparr>ve_id = 1, ve_riderId = 4, ve_type = ''motorcycle'', ve_plateNumber = ''LAG1'', ve_ownershipType = ''OWNED'',
         ve_photoUrl = Some ''photo'', ve_status = ''PENDING''\<rparr>], next_id = 2\<rparr>,
       vehicleDocuments := \<lparr>rows = [\<lparr>vd_id = 1, vd_vehicleId = 1, vd_type = ''VEHICLE_REGISTRATION'', vd_documentNumber = None,
         vd_status = DOC_PENDING, vd_rejectionReason = None\<rparr>], next_id = 2\<rparr>\<rparr>\<rparr>"

abbreviation "decided \<equiv> decideInTransaction 4 1 True ''fine'' True fleet_db"

definition approved_db :: db where
  "approved_db = snd (projr decided)"

lemma decided_run: "decided = Inr (fst (projr decided), approved_db)"
proof -
  have "\<not> isl decided" by code_simp
  then show ?thesis unfolding approved_db_def by (cases decided) auto
qed

theorem approval_makes_ready_witness:
  "rr_canAcceptDeliveries (readiness_of approved_db (fst (projr decided))) \<and> isl (approveInTransaction 4 1 fleet_db)"
proof -
  have "isl (approveInTransaction 4 1 fleet_db)" by code_simp
  then show ?thesis using approval_makes_ready [of 4 1 fleet_db _ approved_db "''fine''" True, OF disjI2 [OF decided_run]] by blast
qed

definition two_minutes :: rider_settings where
  "two_minutes = \<lparr>gps_maxAgeSeconds = None, gps_maxAccuracyM = None, gps_jobRadiusKm = None\<rparr>"

abbreviation "online_db \<equiv> updateAvailability two_minutes 121000 12 True approved_db"

theorem online_rider_vetted_witness:
  "map_option rp_isOnline (find_rider 12 (projr online_db)) = Some True \<and>
   isl (updateAvailability two_minutes 121001 12 True approved_db) \<and> isl (updateAvailability two_minutes 121000 12 True fleet_db)"
proof -
  have n: "\<not> isl online_db" "isl (updateAvailability two_minutes 121001 12 True approved_db)"
    "isl (updateAvailability two_minutes 121000 12 True fleet_db)" by code_simp+
  then have "online_db = Inr (projr online_db)" by (simp add: sum.collapse(2))
  from online_rider_vetted [OF this] n(2,3) show ?thesis by auto
qed

definition bank_requests :: "bank_request list" where
  "bank_requests = [AddAccount 12 ''058'' ''1'' False, AddAccount 12 ''044'' ''2'' True, SetPrimary 12 9, RemoveAccount 12 2]"

definition my_accounts :: db where
  "my_accounts = run_ops (bank_step (\<lambda>c n. Inr (c, n, ''Bola''))) bank_requests fleet_db"

theorem one_primary_account_witness:
  "\<exists>!c. c \<in> set (rows (riderBanks my_accounts)) \<and> rb_profileId c = 4 \<and> rb_isPrimary c"
proof -
  have "banks_ok (riderBanks fleet_db)" by (simp add: fleet_db_def empty_db_def tempty_def banks_ok_def tkeyed_def)
  moreover have "map rb_profileId (rows (riderBanks my_accounts)) = [4]" by code_simp
  then obtain b where "b \<in> set (rows (riderBanks my_accounts))" "rb_profileId b = 4" by (cases "rows (riderBanks my_accounts)") auto
  ultimately show ?thesis
    using one_primary_account [of fleet_db b "\<lambda>c n. Inr (c, n, ''Bola'')" bank_requests] by (simp add: my_accounts_def)
qed

end
