(* ===== verification/Delivery.thy ===== *)
theory Delivery
  imports Riders Settlements Statuses
begin

text \<open>
  Deliveries (\<^verbatim>\<open>src/delivery/delivery.service.ts\<close>): which jobs a rider sees, claiming one, the
  status the rider reports; the code that confirms a delivery
  (\<^verbatim>\<open>src/delivery/delivery-code.service.ts\<close>) and position tracking
  (\<^verbatim>\<open>src/delivery/delivery-tracking.service.ts\<close>).  Distances are computed over the reals with the
  haversine formula of the source; socket broadcasts are left out.
\<close>

section \<open>Places\<close>

type_synonym place = "decimal \<times> decimal"

definition radians :: "decimal \<Rightarrow> real" where
  "radians degrees = of_rat degrees * pi / 180"

definition distanceKm :: "place \<Rightarrow> place \<Rightarrow> real" where
  "distanceKm first second =
     (let latitudeDelta = radians (fst second - fst first);
          longitudeDelta = radians (snd second - snd first);
          a = sin (latitudeDelta / 2) ^ 2 + cos (radians (fst first)) * cos (radians (fst second)) * sin (longitudeDelta / 2) ^ 2
      in 6371 * 2 * (if a = 1 then pi / 2 else arctan (sqrt a / sqrt (1 - a))))"

declare distanceKm_def [code del]

lemma distanceKm_self [simp]: "distanceKm p p = 0"
  by (simp add: distanceKm_def radians_def)

text \<open>
  The number under the roots lies between 0 and 1, so both roots are taken of non-negative
  numbers and the angle, which \<open>atan2\<close> gives for two non-negative arguments, is well defined.
\<close>

definition haversine :: "place \<Rightarrow> place \<Rightarrow> real" where
  "haversine first second = sin (radians (fst second - fst first) / 2) ^ 2 +
     cos (radians (fst first)) * cos (radians (fst second)) * sin (radians (snd second - snd first) / 2) ^ 2"

lemma sin_half_squared: "sin (x / 2) ^ 2 = (1 - cos x) / 2" for x :: real
  using cos_double_sin [of "x / 2"] by (simp add: field_simps)

lemma abs_cos_sin_le: "\<bar>cos x * cos y\<bar> + \<bar>sin x * sin y\<bar> \<le> 1" for x y :: real
proof -
  have p: "2 * \<bar>a * b\<bar> \<le> a ^ 2 + b ^ 2" for a b :: real
    using sum_squares_bound [of "\<bar>a\<bar>" "\<bar>b\<bar>"] by (simp add: abs_mult)
  show ?thesis using p [of "cos x" "cos y"] p [of "sin x" "sin y"] sin_cos_squared_add [of x] sin_cos_squared_add [of y] by linarith
qed

lemma haversine_range: "0 \<le> haversine p q \<and> haversine p q \<le> 1"
proof -
  let ?x = "radians (fst p)" and ?y = "radians (fst q)" and ?k = "cos (radians (snd q - snd p))"
  have d: "radians (fst q - fst p) = ?y - ?x" by (simp add: radians_def of_rat_diff algebra_simps diff_divide_distrib)
  have h: "haversine p q = (1 - (cos ?x * cos ?y * ?k + sin ?x * sin ?y)) / 2"
    unfolding haversine_def sin_half_squared d cos_diff by (simp add: field_simps)
  have "\<bar>cos ?x * cos ?y * ?k + sin ?x * sin ?y\<bar> \<le> \<bar>cos ?x * cos ?y\<bar> * \<bar>?k\<bar> + \<bar>sin ?x * sin ?y\<bar>"
    by (metis abs_mult abs_triangle_ineq)
  also have "\<dots> \<le> \<bar>cos ?x * cos ?y\<bar> * 1 + \<bar>sin ?x * sin ?y\<bar>" by (intro add_right_mono mult_left_mono) simp_all
  also have "\<dots> \<le> 1" using abs_cos_sin_le [of ?x ?y] by simp
  finally show ?thesis unfolding h by (simp add: abs_le_iff)
qed

lemma distanceKm_haversine:
  "distanceKm p q = 6371 * 2 * (if haversine p q = 1 then pi / 2 else arctan (sqrt (haversine p q) / sqrt (1 - haversine p q)))"
  by (simp add: distanceKm_def haversine_def Let_def)

definition jobRadiusKm :: "rider_settings \<Rightarrow> decimal" where
  "jobRadiusKm cfg = positiveSetting (gps_jobRadiusKm cfg) 10"

definition in_radius :: "rider_settings \<Rightarrow> place \<Rightarrow> place option \<Rightarrow> bool" where
  "in_radius cfg here storePlace = (case storePlace of None \<Rightarrow> True | Some p \<Rightarrow> distanceKm here p \<le> of_rat (jobRadiusKm cfg))"

definition areaTerms :: "string option \<Rightarrow> string list" where
  "areaTerms area = js_unique (filter (\<lambda>t. 2 \<le> length t) (map trim
     (case area of None \<Rightarrow> [] | Some a \<Rightarrow> split_at CHR '','' (map (\<lambda>c. if c = CHR ''/'' \<or> c = CHR ''|'' then CHR '','' else c) a))))"

definition area_matches :: "string list \<Rightarrow> string list \<Rightarrow> bool" where
  "area_matches terms locations \<longleftrightarrow> (\<exists>term \<in> set terms. \<exists>l \<in> set locations. str_includes l term \<or> str_includes term l)"

definition matchesServiceArea :: "rider_profile \<Rightarrow> delivery \<Rightarrow> store \<Rightarrow> bool result" where
  "matchesServiceArea rider d st =
     (let destination = map toLowerCase (filter (\<lambda>x. x \<noteq> []) (map the (filter (\<lambda>x. x \<noteq> None) [d_deliveryCity d, d_deliveryState d])));
          pickup = map toLowerCase [st_city st, st_state st];
          terms = map toLowerCase (areaTerms (rp_areaOfOperation rider))
      in require (terms \<noteq> []) (Forbidden ''Set your rider service area before going online.'')
           (Inr (area_matches terms destination \<and> area_matches terms pickup)))"

section \<open>Eligible riders\<close>

definition requireFreshJobLocation :: "rider_settings \<Rightarrow> time \<Rightarrow> rider_profile \<Rightarrow> place result" where
  "requireFreshJobLocation cfg now rider =
     (case (rp_location rider, rp_locationUpdatedAt rider) of
        (Some here, Some t) \<Rightarrow>
          require (\<not> location_stale cfg now t) (Forbidden ''Your GPS location is stale. Update it before requesting jobs.'') (
          require (\<not> location_inaccurate cfg (rp_locationAccuracyM rider))
            (Forbidden ''GPS accuracy is too low. Acquire a better location fix.'') (Inr here))
      | _ \<Rightarrow> Inl (Forbidden ''Publish your current GPS location before requesting jobs.''))"

definition active_user :: "nat \<Rightarrow> db \<Rightarrow> bool" where
  "active_user uid s \<longleftrightarrow> map_option u_status (tfind (\<lambda>u. u_id u = uid) (users s)) = Some ACTIVE"

definition requireEligibleRider :: "nat \<Rightarrow> bool \<Rightarrow> db \<Rightarrow> rider_profile result" where
  "requireEligibleRider riderId requireOnline s =
     ebind (orThrow (find_rider riderId s) (Forbidden ''A rider profile is required.'')) (\<lambda>profile.
     require (active_user (rp_userId profile) s) (Forbidden ''Rider account is inactive.'') (
     require (rr_canAcceptDeliveries (readiness_of s profile)) (Forbidden ''Rider operational approval is required.'') (
     require (\<not> (requireOnline \<and> \<not> rp_isOnline profile)) (Forbidden ''Go online before browsing or claiming delivery jobs.'') (
     Inr profile))))"

section \<open>Jobs\<close>

definition open_delivery :: "delivery \<Rightarrow> bool" where
  "open_delivery d \<longleftrightarrow> d_riderId d = None \<and> d_status d \<in> {D_PENDING, D_OFFERED}"

definition order_of :: "delivery \<Rightarrow> db \<Rightarrow> order option" where
  "order_of d s = tfind (\<lambda>x. o_id x = d_orderId d) (orders s)"

definition order_store :: "order \<Rightarrow> db \<Rightarrow> store option" where
  "order_store ord s = tfind (\<lambda>x. st_id x = o_storeId ord) (stores s)"

text \<open>
  The query of \<open>available\<close> preselects stores in a box around the rider; a store without a
  position is kept.
\<close>

definition longitude_span :: "decimal \<Rightarrow> decimal \<Rightarrow> real" where
  "longitude_span radiusKm latitude = of_rat radiusKm / max (111 * cos (radians latitude)) 1"

declare longitude_span_def [code del]

definition in_box :: "rider_settings \<Rightarrow> place \<Rightarrow> place option \<Rightarrow> bool" where
  "in_box cfg here storePlace = (case storePlace of None \<Rightarrow> True
     | Some p \<Rightarrow>
        let latitudeDelta = (of_rat (jobRadiusKm cfg) :: real) / 111;
            longitudeDelta = longitude_span (jobRadiusKm cfg) (fst here)
        in \<bar>of_rat (fst p) - of_rat (fst here)\<bar> \<le> latitudeDelta \<and> \<bar>of_rat (snd p) - of_rat (snd here)\<bar> \<le> longitudeDelta)"

definition job_rows :: "rider_settings \<Rightarrow> place \<Rightarrow> db \<Rightarrow> (delivery \<times> store) list" where
  "job_rows cfg here s = concat (map (\<lambda>d. case order_of d s of
       None \<Rightarrow> []
     | Some ord \<Rightarrow> (case order_store ord s of
         None \<Rightarrow> []
       | Some st \<Rightarrow> if o_currentStatus ord = READY_FOR_PICKUP \<and> in_box cfg here (st_location st) then [(d, st)] else []))
     (tfilter open_delivery (deliveries s)))"

definition efilter :: "('a \<Rightarrow> bool result) \<Rightarrow> 'a list \<Rightarrow> 'a list result" where
  "efilter f xs = ebind (emap (\<lambda>x. ebind (f x) (\<lambda>b. Inr (b, x))) xs) (\<lambda>ys. Inr (map snd (filter fst ys)))"

text \<open>Nearest first; the jobs whose store has no position come last, in the order they were created.\<close>

definition nearest_first :: "place \<Rightarrow> (delivery \<times> store) list \<Rightarrow> (delivery \<times> store) list" where
  "nearest_first here xs =
     sort_key (\<lambda>(d, st). case st_location st of Some p \<Rightarrow> distanceKm here p | None \<Rightarrow> 0) (filter (\<lambda>(d, st). st_location st \<noteq> None) xs) @
     filter (\<lambda>(d, st). st_location st = None) xs"

definition available :: "rider_settings \<Rightarrow> time \<Rightarrow> nat \<Rightarrow> nat \<Rightarrow> nat \<Rightarrow> db \<Rightarrow> (delivery list \<times> nat) result" where
  "available cfg now riderId page limit s =
     ebind (requireEligibleRider riderId True s) (\<lambda>rider.
     ebind (requireFreshJobLocation cfg now rider) (\<lambda>here.
     ebind (efilter (\<lambda>(d, st). matchesServiceArea rider d st) (job_rows cfg here s)) (\<lambda>rows.
     let matched = nearest_first here (filter (\<lambda>(d, st). in_radius cfg here (st_location st)) rows)
     in Inr (map fst (take limit (drop ((page - 1) * limit) matched)), length matched))))"

definition acceptOffer :: "nat \<Rightarrow> nat \<Rightarrow> nat option \<Rightarrow> db \<Rightarrow> db result" where
  "acceptOffer riderId deliveryId offerId s = (case offerId of
     Some i \<Rightarrow> require (tfind (\<lambda>f. of_id f = i) (deliveryOffers s) \<noteq> None) RecordNotFound (
       Inr (s\<lparr>deliveryOffers := tupdate (\<lambda>f. of_id f = i) (\<lambda>f. f\<lparr>of_status := OF_ACCEPTED\<rparr>) (deliveryOffers s)\<rparr>))
   | None \<Rightarrow>
       let P = (\<lambda>f. of_deliveryId f = deliveryId \<and> of_riderId f = riderId)
       in Inr (s\<lparr>deliveryOffers := if tfind P (deliveryOffers s) = None
            then tinsert (\<lambda>i. \<lparr>of_id = i, of_deliveryId = deliveryId, of_riderId = riderId, of_status = OF_ACCEPTED\<rparr>) (deliveryOffers s)
            else tupdate P (\<lambda>f. f\<lparr>of_status := OF_ACCEPTED\<rparr>) (deliveryOffers s)\<rparr>))"

definition claim_guards :: "rider_settings \<Rightarrow> time \<Rightarrow> nat \<Rightarrow> nat \<Rightarrow> db \<Rightarrow> (delivery \<times> order) result" where
  "claim_guards cfg now riderId deliveryId s =
     ebind (requireEligibleRider riderId True s) (\<lambda>rider.
     ebind (orThrow (tfind (\<lambda>d. d_id d = deliveryId) (deliveries s)) (NotFound ''Delivery job was not found.'')) (\<lambda>current.
     require (open_delivery current) (Conflict ''Delivery has already been claimed.'') (
     ebind (orThrow (order_of current s) RecordNotFound) (\<lambda>ord.
     ebind (orThrow (order_store ord s) RecordNotFound) (\<lambda>st.
     require (o_currentStatus ord = READY_FOR_PICKUP) (BadRequest ''The order is not ready for rider pickup.'') (
     ebind (matchesServiceArea rider current st) (\<lambda>matches.
     require matches (Forbidden ''Delivery is outside your approved service area.'') (
     ebind (requireFreshJobLocation cfg now rider) (\<lambda>here.
     require (in_radius cfg here (st_location st)) (Forbidden ''Store is outside the rider job radius.'') (
     Inr (current, ord)))))))))))"

definition assignDelivery :: "time \<Rightarrow> nat \<Rightarrow> nat \<Rightarrow> db \<Rightarrow> db result" where
  "assignDelivery now riderId deliveryId s =
     require (tcount (\<lambda>d. d_id d = deliveryId \<and> open_delivery d) (deliveries s) = 1) (Conflict ''Delivery has already been claimed.'') (
     Inr (s\<lparr>deliveries := tupdate (\<lambda>d. d_id d = deliveryId \<and> open_delivery d)
       (\<lambda>d. d\<lparr>d_riderId := Some riderId, d_status := D_ASSIGNED, d_assignedAt := Some now\<rparr>) (deliveries s)\<rparr>))"

definition assignOrder :: "time \<Rightarrow> nat \<Rightarrow> db \<Rightarrow> db result" where
  "assignOrder now orderId s =
     require (tcount (\<lambda>x. o_id x = orderId \<and> o_currentStatus x = READY_FOR_PICKUP) (orders s) = 1)
       (Conflict ''Order is no longer available for rider assignment.'') (
     Inr (s\<lparr>orders := tupdate (\<lambda>x. o_id x = orderId \<and> o_currentStatus x = READY_FOR_PICKUP)
       (\<lambda>x. x\<lparr>o_currentStatus := RIDER_ASSIGNED, o_updatedAt := now\<rparr>) (orders s)\<rparr>))"

definition expireOffers :: "nat \<Rightarrow> nat \<Rightarrow> db \<Rightarrow> db" where
  "expireOffers riderId deliveryId s =
     s\<lparr>deliveryOffers := tupdate (\<lambda>f. of_deliveryId f = deliveryId \<and> of_riderId f \<noteq> riderId \<and> of_status f = OF_PENDING)
       (\<lambda>f. f\<lparr>of_status := OF_EXPIRED\<rparr>) (deliveryOffers s)\<rparr>"

definition claimInTransaction :: "rider_settings \<Rightarrow> time \<Rightarrow> nat \<Rightarrow> nat \<Rightarrow> nat option \<Rightarrow> delivery tx" where
  "claimInTransaction cfg now riderId deliveryId offerId s =
     ebind (claim_guards cfg now riderId deliveryId s) (\<lambda>(current, ord).
     ebind (assignDelivery now riderId deliveryId s) (\<lambda>s1.
     ebind (assignOrder now (d_orderId current) s1) (\<lambda>s2.
     ebind (acceptOffer riderId deliveryId offerId s2) (\<lambda>s3.
     ebind (holdRiderEarning deliveryId (pushHistory (d_orderId current) (o_currentStatus ord) RIDER_ASSIGNED (Some riderId)
       (Some ''Rider claimed the available delivery job.'') (expireOffers riderId deliveryId s3))) (\<lambda>s4.
     ebind (orThrow (tfind (\<lambda>d. d_id d = deliveryId) (deliveries s4)) RecordNotFound) (\<lambda>d.
     Inr (d, s4)))))))"

definition claimDelivery :: "exn option \<Rightarrow> rider_settings \<Rightarrow> time \<Rightarrow> nat \<Rightarrow> nat \<Rightarrow> nat option \<Rightarrow> delivery handler" where
  "claimDelivery push cfg now riderId deliveryId offerId =
     hbind (transaction (claimInTransaction cfg now riderId deliveryId offerId)) (\<lambda>d s.
     (case order_of d s of
        None \<Rightarrow> hthrow RecordNotFound
      | Some ord \<Rightarrow> hbind (notifyUser push (o_userId ord) ''DELIVERY_ASSIGNED'' ''Rider assigned'' None) (\<lambda>_. hreturn d)) s)"

definition accept :: "exn option \<Rightarrow> rider_settings \<Rightarrow> time \<Rightarrow> nat \<Rightarrow> nat \<Rightarrow> delivery handler" where
  "accept push cfg now riderId offerId s =
     (case tfind (\<lambda>f. of_id f = offerId \<and> of_riderId f = riderId \<and> of_status f = OF_PENDING) (deliveryOffers s) of
        None \<Rightarrow> (Inl (NotFound ''Delivery offer not found.''), s)
      | Some f \<Rightarrow> claimDelivery push cfg now riderId (of_deliveryId f) (Some offerId) s)"

section \<open>Telling riders about a job\<close>

definition rider_matches :: "rider_settings \<Rightarrow> time \<Rightarrow> delivery \<Rightarrow> store \<Rightarrow> db \<Rightarrow> rider_profile \<Rightarrow> bool" where
  "rider_matches cfg now d st s rider \<longleftrightarrow>
     rr_canAcceptDeliveries (readiness_of s rider) \<and> matchesServiceArea rider d st = Inr True \<and>
     (case requireFreshJobLocation cfg now rider of Inl _ \<Rightarrow> False | Inr here \<Rightarrow> in_radius cfg here (st_location st))"

definition candidate_riders :: "rider_settings \<Rightarrow> time \<Rightarrow> db \<Rightarrow> rider_profile list" where
  "candidate_riders cfg now s = take 250 (tfilter (\<lambda>r. rp_onboardingStatus r = ''APPROVED'' \<and> rp_isOnline r \<and> rp_location r \<noteq> None \<and>
     (case rp_locationUpdatedAt r of None \<Rightarrow> False | Some t \<Rightarrow> \<not> location_stale cfg now t) \<and> active_user (rp_userId r) s) (riderProfiles s))"

fun notify_each :: "(nat \<Rightarrow> unit handler) \<Rightarrow> nat list \<Rightarrow> db \<Rightarrow> nat \<times> db" where
  "notify_each f [] s = (0, s)"
| "notify_each f (u # us) s = (case f u s of (r, s1) \<Rightarrow> case notify_each f us s1 of (n, s2) \<Rightarrow> (if isl r then n else Suc n, s2))"

definition notifyAvailableRidersForOrder :: "(nat \<Rightarrow> exn option) \<Rightarrow> rider_settings \<Rightarrow> time \<Rightarrow> nat \<Rightarrow> (nat \<times> nat) handler" where
  "notifyAvailableRidersForOrder push cfg now orderId s =
     (case tfind (\<lambda>d. d_orderId d = orderId) (deliveries s) of
        None \<Rightarrow> (Inr (0, 0), s)
      | Some d \<Rightarrow> (case order_of d s of
          None \<Rightarrow> (Inr (0, 0), s)
        | Some ord \<Rightarrow> (case order_store ord s of
            None \<Rightarrow> (Inr (0, 0), s)
          | Some st \<Rightarrow>
              if \<not> open_delivery d \<or> o_currentStatus ord \<noteq> READY_FOR_PICKUP then (Inr (0, 0), s)
              else
                let matched = filter (rider_matches cfg now d st s) (candidate_riders cfg now s);
                    (notified, s1) = notify_each (\<lambda>u. notifyUser (push u) u ''DELIVERY_AVAILABLE'' ''New delivery available''
                      (Some (''delivery-available:'' @ show_nat (d_id d) @ '':'' @ show_nat u))) (map rp_userId matched) s
                in (Inr (length matched, notified), s1))))"

section \<open>The rider's status reports\<close>

definition synchronized_status :: "delivery_status \<Rightarrow> order_status option" where
  "synchronized_status st = (if st \<in> {D_IN_TRANSIT, D_OUT_FOR_DELIVERY, D_ARRIVED_AT_CUSTOMER} then Some OUT_FOR_DELIVERY else None)"

definition updateStatus :: "(delivery_status \<Rightarrow> string) \<Rightarrow> time \<Rightarrow> nat \<Rightarrow> nat \<Rightarrow> delivery_status \<Rightarrow> string option \<Rightarrow> string option \<Rightarrow>
    db \<Rightarrow> db result" where
  "updateStatus name now riderId deliveryId status location note s =
     ebind (orThrow (tfind (\<lambda>d. d_id d = deliveryId) (deliveries s)) (NotFound ''Delivery not found.'')) (\<lambda>d.
     ebind (orThrow (order_of d s) RecordNotFound) (\<lambda>ord.
     require (d_riderId d = Some riderId) (Forbidden ''You are not assigned to this delivery.'') (
     require (status \<in> set (allowedTransitions (d_status d))) (BadRequest ''Invalid delivery transition'') (
     require (status \<notin> {D_PICKED_UP, D_DELIVERED})
       (BadRequest (if status = D_PICKED_UP then ''Confirm pickup with the store handoff QR instead of setting PICKED_UP directly.''
          else ''Confirm delivery with the customer QR instead of setting DELIVERED directly.'')) (
     let sync = synchronized_status status;
         moves = (sync \<noteq> None \<and> Some (o_currentStatus ord) \<noteq> sync)
     in require (\<not> (moves \<and> \<not> canTransitionOrder (o_currentStatus ord) (the sync)))
          (BadRequest ''The order cannot move to this status.'') (
        let s1 = s\<lparr>deliveries := tupdate (\<lambda>d. d_id d = deliveryId) (\<lambda>d. d\<lparr>d_status := status,
               d_arrivedAt := if status = D_ARRIVED_AT_CUSTOMER then Some now else d_arrivedAt d\<rparr>) (deliveries s)\<rparr>;
            s2 = s1\<lparr>deliveryUpdates := tinsert (\<lambda>i. \<lparr>du_id = i, du_deliveryId = deliveryId, du_status = status,
               du_location = location, du_note = note\<rparr>) (deliveryUpdates s1)\<rparr>
        in Inr (if moves
           then pushHistory (d_orderId d) (o_currentStatus ord) (the sync) (Some riderId)
             (Some (''Synchronized from rider delivery status '' @ name status @ ''.'')) (setOrderStatus now (d_orderId d) (the sync) s2)
           else s2)))))))"

section \<open>The delivery code\<close>

definition maxAttempts :: nat where "maxAttempts = 5"

definition ttl :: time where "ttl = 180 * 60000"

text \<open>The code drawn and the hash are parameters.\<close>

definition issue_code :: "(string \<Rightarrow> string) \<Rightarrow> exn option \<Rightarrow> time \<Rightarrow> string \<Rightarrow> nat \<Rightarrow> nat \<Rightarrow> time handler" where
  "issue_code hash push now code deliveryId actor =
     hbind (transaction (\<lambda>s.
       ebind (orThrow (tfind (\<lambda>d. d_id d = deliveryId) (deliveries s)) (NotFound ''Delivery not found'')) (\<lambda>d.
       ebind (orThrow (order_of d s) RecordNotFound) (\<lambda>ord.
       require (d_riderId d = Some actor) (Forbidden ''Only the assigned rider can issue the delivery code'') (
       require (d_status d \<noteq> D_DELIVERED) (BadRequest ''Delivery is already completed'') (
       Inr (o_userId ord, s\<lparr>deliveries := tupdate (\<lambda>d. d_id d = deliveryId) (\<lambda>d. d\<lparr>d_deliveryCodeHash := Some (hash code),
         d_deliveryCodeExpiresAt := Some (now + ttl), d_deliveryCodeAttempts := 0\<rparr>) (deliveries s)\<rparr>))))))) (\<lambda>customer.
     hbind (notifyUser push customer ''DELIVERY_CODE'' ''Your delivery code'' None) (\<lambda>_.
     hreturn (now + ttl)))"

definition code_guards :: "time \<Rightarrow> nat \<Rightarrow> nat \<Rightarrow> db \<Rightarrow> (delivery \<times> order \<times> string) result" where
  "code_guards now deliveryId actor s =
     ebind (orThrow (tfind (\<lambda>d. d_id d = deliveryId) (deliveries s)) (NotFound ''Delivery not found'')) (\<lambda>d.
     ebind (orThrow (order_of d s) RecordNotFound) (\<lambda>ord.
     require (d_riderId d = Some actor) (Forbidden ''Only the assigned rider can verify delivery'') (
     require (d_status d \<noteq> D_DELIVERED) (BadRequest ''Delivery is already completed'') (
     (case (d_deliveryCodeHash d, d_deliveryCodeExpiresAt d) of
        (Some h, Some t) \<Rightarrow>
          require (h \<noteq> []) (BadRequest ''No active delivery code exists'') (
          require (\<not> t < now) (BadRequest ''Delivery code has expired'') (
          require (\<not> maxAttempts \<le> d_deliveryCodeAttempts d) (Forbidden ''Delivery code verification is locked'') (
          Inr (d, ord, h))))
      | _ \<Rightarrow> Inl (BadRequest ''No active delivery code exists''))))))"

definition confirm_code :: "time \<Rightarrow> nat \<Rightarrow> nat \<Rightarrow> db \<Rightarrow> db" where
  "confirm_code now deliveryId orderId s =
     setOrderStatus now orderId DELIVERED (s\<lparr>
       deliveries := tupdate (\<lambda>d. d_id d = deliveryId) (\<lambda>d. d\<lparr>d_status := D_DELIVERED, d_deliveredAt := Some now,
         d_deliveryCodeHash := None, d_deliveryCodeExpiresAt := None, d_deliveryCodeAttempts := 0\<rparr>) (deliveries s),
       deliveryUpdates := tinsert (\<lambda>i. \<lparr>du_id = i, du_deliveryId = deliveryId, du_status = D_DELIVERED,
         du_location = None, du_note = None\<rparr>) (deliveryUpdates s)\<rparr>)"

definition verify_code :: "(string \<Rightarrow> string) \<Rightarrow> exn option \<Rightarrow> time \<Rightarrow> nat \<Rightarrow> string \<Rightarrow> nat \<Rightarrow> unit handler" where
  "verify_code hash push now deliveryId code actor s = (case code_guards now deliveryId actor s of
     Inl e \<Rightarrow> (Inl e, s)
   | Inr (d, ord, h) \<Rightarrow>
       if hash code \<noteq> h
       then (Inl (BadRequest ''Invalid delivery code''),
         s\<lparr>deliveries := tupdate (\<lambda>d. d_id d = deliveryId) (\<lambda>d. d\<lparr>d_deliveryCodeAttempts := d_deliveryCodeAttempts d + 1\<rparr>) (deliveries s)\<rparr>)
       else notifyUser push (o_userId ord) ''DELIVERY_COMPLETED'' ''Delivery completed'' None
         (confirm_code now deliveryId (d_orderId d) s))"

section \<open>Tracking\<close>

definition ACTIVE_STATUSES :: "delivery_status list" where
  "ACTIVE_STATUSES = [D_ASSIGNED, D_PICKED_UP, D_IN_TRANSIT, D_OUT_FOR_DELIVERY, D_ARRIVED_AT_CUSTOMER]"

definition assertCanTrack :: "nat \<Rightarrow> nat \<Rightarrow> db \<Rightarrow> unit result" where
  "assertCanTrack uid deliveryId s =
     ebind (orThrow (tfind (\<lambda>d. d_id d = deliveryId) (deliveries s)) (NotFound ''Delivery not found.'')) (\<lambda>d.
     require (d_riderId d = Some uid \<or> map_option o_userId (order_of d s) = Some uid)
       (Forbidden ''You cannot access this delivery tracking session.'') (Inr ()))"

text \<open>A key set with \<open>NX\<close> and an expiry: set unless it is there and has not expired.\<close>

definition redis_has :: "time \<Rightarrow> string \<Rightarrow> db \<Rightarrow> bool" where
  "redis_has now key s \<longleftrightarrow> (\<exists>(k, t) \<in> set (redis (access s)). k = key \<and> now < t)"

definition redis_set :: "time \<Rightarrow> string \<Rightarrow> time \<Rightarrow> db \<Rightarrow> db" where
  "redis_set now key ms s = s\<lparr>access := (access s)\<lparr>redis := (key, now + ms) # filter (\<lambda>(k, _). k \<noteq> key) (redis (access s))\<rparr>\<rparr>"

definition recordLocation :: "time \<Rightarrow> time \<Rightarrow> nat \<Rightarrow> nat \<Rightarrow> place \<Rightarrow> decimal option \<Rightarrow> db \<Rightarrow> db result" where
  "recordLocation now rateLimitMs riderId deliveryId position accuracyM s =
     ebind (orThrow (tfind (\<lambda>d. d_id d = deliveryId) (deliveries s)) (NotFound ''Delivery not found.'')) (\<lambda>d.
     require (d_riderId d = Some riderId) (Forbidden ''You are not assigned to this delivery.'') (
     require (d_status d \<in> set ACTIVE_STATUSES) (BadRequest ''Location updates are only accepted for an active delivery.'') (
     let rateKey = ''delivery-location:'' @ show_nat riderId @ '':'' @ show_nat deliveryId
     in require (\<not> redis_has now rateKey s) (TooManyRequests ''Location update rate exceeded.'') (
        let s1 = redis_set now rateKey rateLimitMs s
        in Inr (s1\<lparr>fleet := (fleet s1)\<lparr>deliveryLocations := tinsert (\<lambda>i. \<lparr>dl_id = i, dl_deliveryId = deliveryId,
             dl_riderId = riderId, dl_position = position, dl_accuracyM = accuracyM, dl_recordedAt = now\<rparr>)
             (deliveryLocations (fleet s1))\<rparr>\<rparr>)))))"

definition location_history :: "nat \<Rightarrow> nat \<Rightarrow> int \<Rightarrow> db \<Rightarrow> delivery_location list result" where
  "location_history uid deliveryId limit s =
     ebind (assertCanTrack uid deliveryId s) (\<lambda>_.
     Inr (take (nat (min (max limit 1) 500)) (rev (tfilter (\<lambda>l. dl_deliveryId l = deliveryId) (deliveryLocations (fleet s))))))"

definition current_location :: "nat \<Rightarrow> nat \<Rightarrow> db \<Rightarrow> delivery_location option result" where
  "current_location uid deliveryId s =
     ebind (assertCanTrack uid deliveryId s) (\<lambda>_.
     Inr (case rev (tfilter (\<lambda>l. dl_deliveryId l = deliveryId) (deliveryLocations (fleet s))) of [] \<Rightarrow> None | l # _ \<Rightarrow> Some l))"

section \<open>Listings\<close>

definition myDeliveries :: "nat \<Rightarrow> db \<Rightarrow> delivery list" where
  "myDeliveries riderId s = rev (tfilter (\<lambda>d. d_riderId d = Some riderId) (deliveries s))"

definition delivery_offers :: "nat \<Rightarrow> db \<Rightarrow> delivery_offer list" where
  "delivery_offers riderId s = rev (tfilter (\<lambda>f. of_riderId f = riderId \<and> of_status f = OF_PENDING) (deliveryOffers s))"

record delivery_overview =
  do_total :: nat
  do_completed :: nat
  do_failed :: nat
  do_pending :: nat

definition delivery_overview_of :: "nat \<Rightarrow> db \<Rightarrow> delivery_overview" where
  "delivery_overview_of riderId s = \<lparr>
     do_total = tcount (\<lambda>d. d_riderId d = Some riderId) (deliveries s),
     do_completed = tcount (\<lambda>d. d_riderId d = Some riderId \<and> d_status d = D_DELIVERED) (deliveries s),
     do_failed = tcount (\<lambda>d. d_riderId d = Some riderId \<and> d_status d \<in> {D_FAILED, D_CANCELLED}) (deliveries s),
     do_pending = tcount (\<lambda>d. d_riderId d = Some riderId \<and> d_status d \<notin> {D_DELIVERED, D_FAILED, D_CANCELLED}) (deliveries s)\<rparr>"

section \<open>Distances\<close>

text \<open>
  The distance between two places is never negative, never more than half the circumference
  of the earth, the same in both directions, and zero for the same place.
\<close>

theorem distance_bounds:
  "0 \<le> distanceKm p q \<and> distanceKm p q \<le> 6371 * pi \<and> distanceKm p q = distanceKm q p \<and> distanceKm p p = 0"
proof -
  have "0 \<le> distanceKm p q" using haversine_range [of p q] pi_gt_zero by (simp add: distanceKm_haversine zero_le_arctan_iff)
  moreover have "distanceKm p q \<le> 6371 * pi"
    using arctan_ubound [of "sqrt (haversine p q) / sqrt (1 - haversine p q)"] by (simp add: distanceKm_haversine)
  moreover have "haversine p q = haversine q p"
  proof -
    have "radians (a - b) = - radians (b - a)" for a b by (simp add: radians_def of_rat_diff algebra_simps diff_divide_distrib)
    then have "sin (radians (a - b) / 2) ^ 2 = sin (radians (b - a) / 2) ^ 2" for a b by (metis minus_divide_left power2_minus sin_minus)
    then show ?thesis unfolding haversine_def by (metis mult.commute)
  qed
  then have "distanceKm p q = distanceKm q p" by (simp add: distanceKm_haversine)
  ultimately show ?thesis by simp
qed

section \<open>Claiming a job\<close>

lemma acceptOffer_frame: "acceptOffer r d i s = Inr s' \<Longrightarrow> \<exists>x. s' = s\<lparr>deliveryOffers := x\<rparr>"
  by (auto simp: acceptOffer_def tx_simps Let_def split: option.splits)

lemma claim_effect:
  assumes "claimInTransaction cfg now riderId did offer s = Inr (d', s')"
  obtains current ord where "claim_guards cfg now riderId did s = Inr (current, ord)"
    "tcount (\<lambda>d. d_id d = did \<and> open_delivery d) (deliveries s) = 1"
    "deliveries s' = tupdate (\<lambda>d. d_id d = did \<and> open_delivery d)
       (\<lambda>d. d\<lparr>d_riderId := Some riderId, d_status := D_ASSIGNED, d_assignedAt := Some now\<rparr>) (deliveries s)"
    "orders s' = tupdate (\<lambda>x. o_id x = d_orderId current \<and> o_currentStatus x = READY_FOR_PICKUP)
       (\<lambda>x. x\<lparr>o_currentStatus := RIDER_ASSIGNED, o_updatedAt := now\<rparr>) (orders s)"
    "tfind (\<lambda>d. d_id d = did) (deliveries s') = Some d'"
    "rows (statusHistory s') = rows (statusHistory s) @ [\<lparr>sh_id = next_id (statusHistory s), sh_orderId = d_orderId current,
       sh_fromStatus = Some (o_currentStatus ord), sh_toStatus = RIDER_ASSIGNED, sh_changedById = Some riderId,
       sh_reason = Some ''Rider claimed the available delivery job.''\<rparr>]"
    "wallet_ok s \<longrightarrow> wallet_ok s'"
proof -
  obtain current ord s1 s2 s3 where g: "claim_guards cfg now riderId did s = Inr (current, ord)"
    and a: "assignDelivery now riderId did s = Inr s1" "assignOrder now (d_orderId current) s1 = Inr s2"
      "acceptOffer riderId did offer s2 = Inr s3"
    and h: "holdRiderEarning did (pushHistory (d_orderId current) (o_currentStatus ord) RIDER_ASSIGNED (Some riderId)
       (Some ''Rider claimed the available delivery job.'') (expireOffers riderId did s3)) = Inr s'"
    and d: "tfind (\<lambda>d. d_id d = did) (deliveries s') = Some d'"
    using assms by (auto simp: claimInTransaction_def tx_simps)
  obtain x where s3: "s3 = s2\<lparr>deliveryOffers := x\<rparr>" using acceptOffer_frame [OF a(3)] by blast
  note f = settlement_frameD [OF holdRiderEarning_frame [OF h]]
  have "wallet_ok s'" if "wallet_ok s"
    using holdRiderEarning_wallet_ok [OF h] that a(1,2)
    by (auto simp: s3 assignDelivery_def assignOrder_def tx_simps pushHistory_def expireOffers_def wallet_ok_def)
  then show thesis using that [OF g] a(1,2) d f(1,4,8)
    by (auto simp: assignDelivery_def assignOrder_def tx_simps s3 pushHistory_def expireOffers_def)
qed

lemma claim_guards_Inr:
  assumes "claim_guards cfg now riderId did s = Inr (current, ord)"
  obtains rider st here where "requireEligibleRider riderId True s = Inr rider"
    "tfind (\<lambda>d. d_id d = did) (deliveries s) = Some current" "open_delivery current" "order_of current s = Some ord"
    "order_store ord s = Some st" "o_currentStatus ord = READY_FOR_PICKUP" "matchesServiceArea rider current st = Inr True"
    "requireFreshJobLocation cfg now rider = Inr here" "in_radius cfg here (st_location st)"
  using assms by (auto simp: claim_guards_def tx_simps)

text \<open>
  (C21) A delivery is claimed by one rider: who claims it is a vetted rider online near the store,
  the job was open and its order ready; afterwards the delivery belongs to that rider, the order
  is \<open>RIDER_ASSIGNED\<close> with one new history row, no other delivery changed, and every further
  claim, by whomever and whenever, is refused as already claimed or because the rider is not
  eligible.
\<close>

theorem claim_exclusive:
  assumes "claimInTransaction cfg now riderId did offer s = Inr (d', s')"
  shows "(\<exists>rider here ord st. requireEligibleRider riderId True s = Inr rider \<and> order_of d' s = Some ord \<and> order_store ord s = Some st \<and>
      requireFreshJobLocation cfg now rider = Inr here \<and> in_radius cfg here (st_location st) \<and> matchesServiceArea rider d' st = Inr True) \<and>
    tfind (\<lambda>d. d_id d = did) (deliveries s') = Some d' \<and> d_riderId d' = Some riderId \<and> d_status d' = D_ASSIGNED \<and>
    status_of (d_orderId d') s = Some READY_FOR_PICKUP \<and> status_of (d_orderId d') s' = Some RIDER_ASSIGNED \<and>
    (\<forall>k. k \<noteq> did \<longrightarrow> tfind (\<lambda>d. d_id d = k) (deliveries s') = tfind (\<lambda>d. d_id d = k) (deliveries s)) \<and>
    claimInTransaction cfg' now' r' did offer' s' =
      (if isl (requireEligibleRider r' True s') then Inl (projl (requireEligibleRider r' True s'))
       else Inl (Conflict ''Delivery has already been claimed.''))"
proof -
  obtain current ord where c: "claim_guards cfg now riderId did s = Inr (current, ord)"
    "deliveries s' = tupdate (\<lambda>d. d_id d = did \<and> open_delivery d)
       (\<lambda>d. d\<lparr>d_riderId := Some riderId, d_status := D_ASSIGNED, d_assignedAt := Some now\<rparr>) (deliveries s)"
    "orders s' = tupdate (\<lambda>x. o_id x = d_orderId current \<and> o_currentStatus x = READY_FOR_PICKUP)
       (\<lambda>x. x\<lparr>o_currentStatus := RIDER_ASSIGNED, o_updatedAt := now\<rparr>) (orders s)"
    "tfind (\<lambda>d. d_id d = did) (deliveries s') = Some d'"
    using assms by (rule claim_effect)
  obtain rider st here where g: "requireEligibleRider riderId True s = Inr rider"
    "tfind (\<lambda>d. d_id d = did) (deliveries s) = Some current" "open_delivery current" "order_of current s = Some ord"
    "o_currentStatus ord = READY_FOR_PICKUP" "matchesServiceArea rider current st = Inr True"
    "requireFreshJobLocation cfg now rider = Inr here" "in_radius cfg here (st_location st)" "order_store ord s = Some st"
    using claim_guards_Inr [OF c(1)] by metis
  have "tfind (\<lambda>d. d_id d = did) (deliveries s') =
      map_option (\<lambda>d. if d_id d = did \<and> open_delivery d then d\<lparr>d_riderId := Some riderId, d_status := D_ASSIGNED, d_assignedAt := Some now\<rparr> else d)
        (tfind (\<lambda>d. d_id d = did) (deliveries s))" unfolding c(2) by (rule tfind_tupdate) simp
  then have d': "d' = current\<lparr>d_riderId := Some riderId, d_status := D_ASSIGNED, d_assignedAt := Some now\<rparr>"
    using c(4) g(2,3) tfind_SomeD [OF g(2)] by simp
  have "tfind (\<lambda>x. o_id x = d_orderId current) (orders s') = Some (ord\<lparr>o_currentStatus := RIDER_ASSIGNED, o_updatedAt := now\<rparr>)"
    unfolding c(3) using g(4,5) tfind_SomeD [OF g(4) [unfolded order_of_def]] by (subst tfind_tupdate) (auto simp: order_of_def)
  then have st: "status_of (d_orderId d') s = Some READY_FOR_PICKUP" "status_of (d_orderId d') s' = Some RIDER_ASSIGNED"
    using g(4,5) by (simp_all add: d' status_of_def order_of_def)
  have other: "tfind (\<lambda>d. d_id d = k) (deliveries s') = tfind (\<lambda>d. d_id d = k) (deliveries s)" if "k \<noteq> did" for k
    unfolding c(2) using that by (intro tfind_tupdate_other) auto
  have "claimInTransaction cfg' now' r' did offer' s' =
      (if isl (requireEligibleRider r' True s') then Inl (projl (requireEligibleRider r' True s'))
       else Inl (Conflict ''Delivery has already been claimed.''))"
    using c(4) by (cases "requireEligibleRider r' True s'") (simp_all add: claimInTransaction_def claim_guards_def d' open_delivery_def)
  moreover have "matchesServiceArea rider d' st = Inr True" "order_of d' s = Some ord" "d_riderId d' = Some riderId" "d_status d' = D_ASSIGNED"
    using g(4,6) by (simp_all add: d' matchesServiceArea_def order_of_def)
  ultimately show ?thesis using g(1,7-9) c(4) st other by blast
qed

lemma tcount_keyed:
  assumes "tkeyed key t" and "r \<in> set (rows t)" and "P r"
  shows "tcount (\<lambda>x. key x = key r \<and> P x) t = 1"
proof -
  have "set (filter (\<lambda>x. key x = key r \<and> P x) (rows t)) = {r}" using assms tkeyed_inj [OF assms(1) _ assms(2)] by auto
  moreover have "distinct (rows t)" using assms(1) by (simp add: tkeyed_def distinct_map)
  then have "distinct (filter (\<lambda>x. key x = key r \<and> P x) (rows t))" by simp
  ultimately show ?thesis by (simp add: tcount_def flip: distinct_card)
qed

lemma holdRiderEarning_runs:
  assumes "\<And>d. tfind (\<lambda>d. d_id d = did) (deliveries s) = Some d \<Longrightarrow> order_of d s \<noteq> None"
    and "tfind (\<lambda>t. wt_reference t = Some (hold_ref did)) (walletTxs s) = None"
  shows "\<exists>s'. holdRiderEarning did s = Inr s'"
proof -
  have "walletTxs (snd (upsertWallet u s)) = walletTxs s" for u by (simp add: upsertWallet_def split: option.split)
  then have ts: "walletTxs s1 = walletTxs s" if "upsertWallet u s = (w, s1)" for u w s1 using that by (metis snd_conv)
  have tx: "\<exists>s'. createWalletTx k a HOLD (hold_ref did) desc (s1\<lparr>riderEarnings := x\<rparr>) = Inr s'"
    if "upsertWallet u s = (w, s1)" for u w s1 k a desc x
    using assms(2) ts [OF that] by (simp add: createWalletTx_def)
  show ?thesis
  proof (cases "tfind (\<lambda>d. d_id d = did) (deliveries s)")
    case (Some d)
    then obtain ord where "tfind (\<lambda>x. o_id x = d_orderId d) (orders s) = Some ord" using assms(1) by (auto simp: order_of_def)
    then show ?thesis using Some tx by (auto simp: holdRiderEarning_def Let_def split: option.split prod.split)
  qed (simp add: holdRiderEarning_def)
qed

lemma efilter_mem:
  assumes "efilter f xs = Inr ys" and "y \<in> set ys"
  shows "y \<in> set xs \<and> f y = Inr True"
proof -
  obtain zs where zs: "emap (\<lambda>x. ebind (f x) (\<lambda>b. Inr (b, x))) xs = Inr zs" "ys = map snd (filter fst zs)"
    using assms(1) by (auto simp: efilter_def tx_simps)
  then have "(True, y) \<in> set zs" using assms(2) by force
  then obtain i where i: "i < length zs" "zs ! i = (True, y)" by (auto simp: in_set_conv_nth)
  have "length xs = length zs" "ebind (f (xs ! i)) (\<lambda>b. Inr (b, xs ! i)) = Inr (True, y)"
    using zs(1) i unfolding emap_Inr_list_all2 by (auto simp: list_all2_conv_all_nth)
  moreover from this i(1) have "xs ! i \<in> set xs" by simp
  ultimately show ?thesis by (auto simp: tx_simps)
qed

lemma job_rows_mem:
  "(d, st) \<in> set (job_rows cfg here s) \<Longrightarrow> \<exists>ord. d \<in> set (rows (deliveries s)) \<and> open_delivery d \<and>
     order_of d s = Some ord \<and> order_store ord s = Some st \<and> o_currentStatus ord = READY_FOR_PICKUP"
  by (auto simp: job_rows_def tfilter_def split: option.splits if_splits) (metis option.inject)+

lemma available_mem:
  assumes "available cfg now riderId page limit s = Inr (jobs, n)" and "d \<in> set jobs" and "tkeyed d_id (deliveries s)"
  shows "\<exists>ord. claim_guards cfg now riderId (d_id d) s = Inr (d, ord) \<and> d \<in> set (rows (deliveries s)) \<and> open_delivery d \<and>
    order_of d s = Some ord \<and> o_currentStatus ord = READY_FOR_PICKUP"
proof -
  obtain rider here rs where r: "requireEligibleRider riderId True s = Inr rider" "requireFreshJobLocation cfg now rider = Inr here"
    "efilter (\<lambda>(d, st). matchesServiceArea rider d st) (job_rows cfg here s) = Inr rs"
    and j: "jobs = map fst (take limit (drop ((page - 1) * limit) (nearest_first here (filter (\<lambda>(d, st). in_radius cfg here (st_location st)) rs))))"
    using assms(1) by (auto simp: available_def tx_simps Let_def)
  from j assms(2) obtain st where "(d, st) \<in> set (nearest_first here (filter (\<lambda>(d, st). in_radius cfg here (st_location st)) rs))"
    by (auto dest!: in_set_takeD in_set_dropD)
  then have "(d, st) \<in> set rs" and near: "in_radius cfg here (st_location st)" by (auto simp: nearest_first_def)
  then have m: "(d, st) \<in> set (job_rows cfg here s)" "matchesServiceArea rider d st = Inr True" using efilter_mem [OF r(3)] by auto
  from job_rows_mem [OF m(1)] obtain ord where o: "d \<in> set (rows (deliveries s))" "open_delivery d" "order_of d s = Some ord"
    "order_store ord s = Some st" "o_currentStatus ord = READY_FOR_PICKUP" by blast
  have "tfind (\<lambda>x. d_id x = d_id d) (deliveries s) = Some d" by (rule delivery_table.find_unique [OF assms(3) o(1)])
  then have "claim_guards cfg now riderId (d_id d) s = Inr (d, ord)" using r(1,2) o m(2) near by (simp add: claim_guards_def)
  then show ?thesis using o by blast
qed

text \<open>
  (C22) A job a rider is shown can be claimed: as long as nothing has changed since the list was
  made, the rider's claim of any delivery on any page of it succeeds.
\<close>

theorem listed_job_claimable:
  assumes "available cfg now riderId page limit s = Inr (jobs, n)" and "d \<in> set jobs"
    and "tkeyed d_id (deliveries s)" and "tkeyed o_id (orders s)"
    and "tfind (\<lambda>t. wt_reference t = Some (hold_ref (d_id d))) (walletTxs s) = None"
  shows "\<exists>d' s'. claimInTransaction cfg now riderId (d_id d) None s = Inr (d', s') \<and> d_riderId d' = Some riderId"
proof -
  obtain ord where g: "claim_guards cfg now riderId (d_id d) s = Inr (d, ord)" "d \<in> set (rows (deliveries s))" "open_delivery d"
    "order_of d s = Some ord" "o_currentStatus ord = READY_FOR_PICKUP" using available_mem [OF assms(1-3)] by blast
  define s1 where "s1 = s\<lparr>deliveries := tupdate (\<lambda>x. d_id x = d_id d \<and> open_delivery x)
    (\<lambda>x. x\<lparr>d_riderId := Some riderId, d_status := D_ASSIGNED, d_assignedAt := Some now\<rparr>) (deliveries s)\<rparr>"
  define s2 where "s2 = s1\<lparr>orders := tupdate (\<lambda>x. o_id x = d_orderId d \<and> o_currentStatus x = READY_FOR_PICKUP)
    (\<lambda>x. x\<lparr>o_currentStatus := RIDER_ASSIGNED, o_updatedAt := now\<rparr>) (orders s1)\<rparr>"
  have ord: "ord \<in> set (rows (orders s))" "o_id ord = d_orderId d" using g(4) by (auto simp: order_of_def dest: tfind_SomeD)
  have a1: "assignDelivery now riderId (d_id d) s = Inr s1"
    using tcount_keyed [OF assms(3) g(2), of open_delivery] g(3) by (simp add: assignDelivery_def s1_def)
  have a2: "assignOrder now (d_orderId d) s1 = Inr s2"
    using tcount_keyed [OF assms(4) ord(1), of "\<lambda>x. o_currentStatus x = READY_FOR_PICKUP"] g(5) ord(2) by (simp add: assignOrder_def s2_def s1_def)
  obtain s3 where a3: "acceptOffer riderId (d_id d) None s2 = Inr s3" by (simp add: acceptOffer_def Let_def)
  then obtain x where s3: "s3 = s2\<lparr>deliveryOffers := x\<rparr>" using acceptOffer_frame by blast
  define s4 where "s4 = pushHistory (d_orderId d) (o_currentStatus ord) RIDER_ASSIGNED (Some riderId)
    (Some ''Rider claimed the available delivery job.'') (expireOffers riderId (d_id d) s3)"
  have del: "tfind (\<lambda>x. d_id x = d_id d) (deliveries s4) = Some (d\<lparr>d_riderId := Some riderId, d_status := D_ASSIGNED, d_assignedAt := Some now\<rparr>)"
    using delivery_table.find_unique [OF assms(3) g(2)] g(3)
    by (simp add: s4_def pushHistory_def expireOffers_def s3 s2_def s1_def) (subst tfind_tupdate, auto)
  moreover have "tfind (\<lambda>x. o_id x = d_orderId d) (orders s4) \<noteq> None"
    using g(4) by (simp add: s4_def pushHistory_def expireOffers_def s3 s2_def s1_def order_of_def) (subst tfind_tupdate, auto)
  ultimately have "order_of x s4 \<noteq> None" if "tfind (\<lambda>d'. d_id d' = d_id d) (deliveries s4) = Some x" for x
    using that by (auto simp: order_of_def)
  moreover have "walletTxs s4 = walletTxs s" by (simp add: s4_def pushHistory_def expireOffers_def s3 s2_def s1_def)
  ultimately obtain s' where h: "holdRiderEarning (d_id d) s4 = Inr s'" using holdRiderEarning_runs [of "d_id d" s4] assms(5) by auto
  have "deliveries s' = deliveries s4" using settlement_frameD(4) [OF holdRiderEarning_frame [OF h]] .
  then show ?thesis using g(1) a1 a2 a3 h del by (simp add: claimInTransaction_def s4_def)
qed

section \<open>The code is hard to guess\<close>

lemma code_guards_locked:
  assumes "tfind (\<lambda>x. d_id x = did) (deliveries s) = Some d" and "order_of d s = Some ord" and "d_riderId d = Some actor"
    and "d_status d \<noteq> D_DELIVERED" and "d_deliveryCodeHash d = Some h" and "h \<noteq> []" and "d_deliveryCodeExpiresAt d = Some t" and "now \<le> t"
  shows "code_guards now did actor s = (if 5 \<le> d_deliveryCodeAttempts d
    then Inl (Forbidden ''Delivery code verification is locked'') else Inr (d, ord, h))"
  using assms by (simp add: code_guards_def maxAttempts_def)

lemma wrong_guess:
  assumes "tfind (\<lambda>x. d_id x = did) (deliveries s) = Some d" and "order_of d s = Some ord" and "d_riderId d = Some actor"
    and "d_status d \<noteq> D_DELIVERED" and "d_deliveryCodeHash d = Some h" and "h \<noteq> []" and "d_deliveryCodeExpiresAt d = Some t" and "now \<le> t"
    and "hash c \<noteq> h"
  shows "tfind (\<lambda>x. d_id x = did) (deliveries (snd (verify_code hash push now did c actor s))) =
      Some (d\<lparr>d_deliveryCodeAttempts := if 5 \<le> d_deliveryCodeAttempts d then d_deliveryCodeAttempts d else d_deliveryCodeAttempts d + 1\<rparr>) \<and>
    orders (snd (verify_code hash push now did c actor s)) = orders s"
  using code_guards_locked [OF assms(1-8)] assms(1,9) tfind_SomeD [OF assms(1)]
  by (auto simp: verify_code_def tfind_tupdate)

lemma wrong_guesses:
  assumes "tfind (\<lambda>x. d_id x = did) (deliveries s) = Some d" and "order_of d s = Some ord" and "d_riderId d = Some actor"
    and "d_status d \<noteq> D_DELIVERED" and "d_deliveryCodeHash d = Some h" and "h \<noteq> []" and "d_deliveryCodeExpiresAt d = Some t" and "now \<le> t"
    and "\<forall>c \<in> set cs. hash c \<noteq> h" and "d_deliveryCodeAttempts d \<le> 5"
  shows "tfind (\<lambda>x. d_id x = did) (deliveries (fold (\<lambda>c s. snd (verify_code hash push now did c actor s)) cs s)) =
      Some (d\<lparr>d_deliveryCodeAttempts := min 5 (d_deliveryCodeAttempts d + length cs)\<rparr>) \<and>
    orders (fold (\<lambda>c s. snd (verify_code hash push now did c actor s)) cs s) = orders s"
  using assms
proof (induction cs arbitrary: s d)
  case Nil
  then show ?case by simp
next
  case (Cons c cs)
  let ?s = "snd (verify_code hash push now did c actor s)"
  let ?d = "d\<lparr>d_deliveryCodeAttempts := if 5 \<le> d_deliveryCodeAttempts d then d_deliveryCodeAttempts d else d_deliveryCodeAttempts d + 1\<rparr>"
  have w: "tfind (\<lambda>x. d_id x = did) (deliveries ?s) = Some ?d" "orders ?s = orders s"
    using wrong_guess [OF Cons.prems(1-8), of hash c push] Cons.prems(9) by simp_all
  have "order_of ?d ?s = Some ord" using Cons.prems(2) w(2) by (simp add: order_of_def)
  from Cons.IH [OF w(1) this] Cons.prems w(2) show ?case by (auto simp: min_def)
qed

text \<open>
  (C23) Five wrong codes lock a delivery: after them every further attempt is refused and changes
  nothing, even with the right code, and no wrong code ever confirms the delivery or touches an
  order.
\<close>

theorem delivery_code_lockout:
  assumes "tfind (\<lambda>x. d_id x = did) (deliveries s) = Some d" and "order_of d s = Some ord" and "d_riderId d = Some actor"
    and "d_status d \<noteq> D_DELIVERED" and "d_deliveryCodeHash d = Some h" and "h \<noteq> []" and "d_deliveryCodeExpiresAt d = Some t" and "now \<le> t"
    and "d_deliveryCodeAttempts d = 0" and "\<forall>c \<in> set cs. hash c \<noteq> h"
    and "s' = fold (\<lambda>c s. snd (verify_code hash push now did c actor s)) cs s"
  shows "orders s' = orders s \<and> map_option d_status (tfind (\<lambda>x. d_id x = did) (deliveries s')) = Some (d_status d) \<and>
    (5 \<le> length cs \<longrightarrow> verify_code hash push now did code actor s' = (Inl (Forbidden ''Delivery code verification is locked''), s'))"
proof -
  have w: "tfind (\<lambda>x. d_id x = did) (deliveries s') = Some (d\<lparr>d_deliveryCodeAttempts := min 5 (length cs)\<rparr>)" "orders s' = orders s"
    using wrong_guesses [OF assms(1-8,10), of push] assms(9,11) by simp_all
  have "order_of (d\<lparr>d_deliveryCodeAttempts := min 5 (length cs)\<rparr>) s' = Some ord" using assms(2) w(2) by (simp add: order_of_def)
  from code_guards_locked [OF w(1) this, of actor h t now] assms(3-8) w
  show ?thesis by (simp add: verify_code_def)
qed

text \<open>
  A delivery confirmed with the code keeps its rider's fee held and adds no row to the history of
  the order, unlike a delivery confirmed with the customer's QR.
\<close>

lemma code_leaves_fee_held:
  assumes "verify_code hash push now did code actor s = (Inr (), s')"
  shows "riderEarnings s' = riderEarnings s \<and> wallets s' = wallets s \<and> statusHistory s' = statusHistory s"
proof -
  obtain d ord h where "code_guards now did actor s = Inr (d, ord, h)"
    and n: "notifyUser push (o_userId ord) ''DELIVERY_COMPLETED'' ''Delivery completed'' None (confirm_code now did (d_orderId d) s) = (Inr (), s')"
    using assms by (auto simp: verify_code_def split: sum.splits if_splits)
  then show ?thesis by (auto simp: notifyUser_def Let_def confirm_code_def setOrderStatus_def split: if_splits option.splits)
qed

section \<open>Examples\<close>

definition job_store :: store where
  "job_store = \<lparr>st_id = 3, st_ownerUserId = 20, st_members = [], st_isActive = True, st_city = ''Ikeja'', st_state = ''Lagos'', st_location = None\<rparr>"

definition ready_order :: order where
  "ready_order = settled_order\<lparr>o_id := 5, o_userId := 7, o_storeId := 3, o_currentStatus := READY_FOR_PICKUP\<rparr>"

definition job :: delivery where
  "job = \<lparr>d_id = 9, d_orderId = 5, d_riderId = None, d_deliveryAddress = ''1 Allen'', d_deliveryLabel = None, d_deliveryCity = Some ''Ikeja'',
     d_deliveryState = Some ''Lagos'', d_status = D_PENDING, d_deliveryCodeHash = None, d_deliveryCodeExpiresAt = None,
     d_deliveryCodeAttempts = 0, d_assignedAt = None, d_pickedUpAt = None, d_arrivedAt = None, d_deliveredAt = None\<rparr>"

definition job_db :: db where
  "job_db = empty_db\<lparr>stores := \<lparr>rows = [job_store], next_id = 4\<rparr>, orders := \<lparr>rows = [ready_order], next_id = 6\<rparr>,
     deliveries := \<lparr>rows = [job], next_id = 10\<rparr>,
     riderProfiles := \<lparr>rows = [rider_bola\<lparr>rp_onboardingStatus := ''APPROVED'', rp_isOnline := True\<rparr>], next_id = 5\<rparr>,
     fleet := (fleet fleet_db)\<lparr>
       riderLicences := tupdate (\<lambda>_. True) (\<lambda>l. l\<lparr>lic_status := DOC_APPROVED\<rparr>) (riderLicences (fleet fleet_db)),
       vehicles := tupdate (\<lambda>_. True) (\<lambda>v. v\<lparr>ve_status := ''APPROVED''\<rparr>) (vehicles (fleet fleet_db)),
       vehicleDocuments := tupdate (\<lambda>_. True) (\<lambda>d. d\<lparr>vd_status := DOC_APPROVED\<rparr>) (vehicleDocuments (fleet fleet_db))\<rparr>,
     users := \<lparr>rows = [\<lparr>u_id = 12, u_email = ''b@x'', u_firstName = None, u_lastName = None, u_phoneNumber = None, u_status = ACTIVE,
       u_passwordHash = None, u_isEmailVerified = True\<rparr>], next_id = 13\<rparr>\<rparr>"

abbreviation "taken \<equiv> claimInTransaction two_minutes 121000 12 9 None job_db"

definition taken_db :: db where
  "taken_db = snd (projr taken)"

lemma taken_run: "taken = Inr (fst (projr taken), taken_db)"
proof -
  have "\<not> isl taken" by code_simp
  then show ?thesis unfolding taken_db_def by (cases taken) auto
qed

theorem claim_exclusive_witness:
  "d_riderId (fst (projr taken)) = Some 12 \<and> status_of 5 taken_db = Some RIDER_ASSIGNED \<and>
   claimInTransaction two_minutes 121000 12 9 None taken_db = Inl (Conflict ''Delivery has already been claimed.'')"
proof -
  have "\<not> isl (requireEligibleRider 12 True taken_db)" "d_orderId (fst (projr taken)) = 5" by code_simp+
  then show ?thesis using claim_exclusive [OF taken_run, of two_minutes 121000 12 None] by simp
qed

theorem listed_job_claimable_witness:
  "(\<exists>n. available two_minutes 121000 12 1 15 job_db = Inr ([job], n)) \<and>
   (\<exists>d' s'. claimInTransaction two_minutes 121000 12 (d_id job) None job_db = Inr (d', s') \<and> d_riderId d' = Some 12)"
proof -
  have a: "available two_minutes 121000 12 1 15 job_db = Inr ([job], 1)" by code_simp
  have "tkeyed d_id (deliveries job_db)" "tkeyed o_id (orders job_db)"
    "tfind (\<lambda>t. wt_reference t = Some (hold_ref (d_id job))) (walletTxs job_db) = None"
    by (simp_all add: job_db_def empty_db_def tempty_def tkeyed_def tfind_def job_def ready_order_def)
  then show ?thesis using listed_job_claimable [OF a, of job] a by auto
qed

definition coded_db :: db where
  "coded_db = empty_db\<lparr>orders := \<lparr>rows = [ready_order], next_id = 6\<rparr>,
     deliveries := \<lparr>rows = [job\<lparr>d_riderId := Some 12, d_status := D_IN_TRANSIT, d_deliveryCodeHash := Some ''123456'',
       d_deliveryCodeExpiresAt := Some 500\<rparr>], next_id = 10\<rparr>\<rparr>"

definition guesses :: "string list" where
  "guesses = [''1'', ''2'', ''3'', ''4'', ''5'']"

theorem delivery_code_lockout_witness:
  "verify_code id None 100 9 ''123456'' 12 (fold (\<lambda>c s. snd (verify_code id None 100 9 c 12 s)) guesses coded_db) =
     (Inl (Forbidden ''Delivery code verification is locked''),
      fold (\<lambda>c s. snd (verify_code id None 100 9 c 12 s)) guesses coded_db) \<and>
   \<not> isl (code_guards 100 9 12 coded_db)"
proof -
  let ?d = "job\<lparr>d_riderId := Some 12, d_status := D_IN_TRANSIT, d_deliveryCodeHash := Some ''123456'', d_deliveryCodeExpiresAt := Some 500\<rparr>"
  have d: "tfind (\<lambda>x. d_id x = 9) (deliveries coded_db) = Some ?d" "order_of ?d coded_db = Some ready_order"
    by (simp_all add: coded_db_def tfind_def order_of_def job_def ready_order_def settled_order_def)
  have g: "\<forall>c \<in> set guesses. id c \<noteq> ''123456''" "5 \<le> length guesses" by (simp_all add: guesses_def)
  have "\<not> isl (code_guards 100 9 12 coded_db)" using d by (simp add: code_guards_def maxAttempts_def job_def)
  moreover have "d_riderId ?d = Some 12" "d_status ?d \<noteq> D_DELIVERED" "d_deliveryCodeHash ?d = Some ''123456''" "''123456'' \<noteq> []"
    "d_deliveryCodeExpiresAt ?d = Some 500" "(100::int) \<le> 500" "d_deliveryCodeAttempts ?d = 0" by (simp_all add: job_def)
  note delivery_code_lockout [OF d this g(1) refl, of None "''123456''"]
  ultimately show ?thesis using g(2) by blast
qed

end
