(* ===== verification/Rewards.thy ===== *)
theory Rewards
  imports Funding
begin

text \<open>
  Rewards: what completing an order earns (\<^verbatim>\<open>src/orders/complete-order.ts\<close>), cashback and vouchers
  (\<^verbatim>\<open>src/rewards/rewards.service.ts\<close>) and the referral programme
  (\<^verbatim>\<open>src/referrals/referrals.service.ts\<close>).  Cashback is spent oldest first into the wallet.
\<close>

section \<open>Completing an order\<close>

definition config_value :: "string \<Rightarrow> decimal \<Rightarrow> db \<Rightarrow> decimal" where
  "config_value k d s = (case tfind (\<lambda>c. pc_key c = k) (platformConfig s) of None \<Rightarrow> d | Some c \<Rightarrow> pc_value c)"

definition upsertCashback :: "order \<Rightarrow> decimal \<Rightarrow> decimal \<Rightarrow> db \<Rightarrow> db" where
  "upsertCashback ord percentage amount s =
     (if tfind (\<lambda>c. cb_orderId c = o_id ord) (cashbacks s) \<noteq> None then s
      else s\<lparr>cashbacks := tinsert (\<lambda>i. \<lparr>cb_id = i, cb_userId = o_userId ord, cb_orderId = o_id ord, cb_percentage = percentage,
             cb_amount = amount, cb_redeemedAmount = 0, cb_status = ''AVAILABLE''\<rparr>) (cashbacks s)\<rparr>)"

definition addPoints :: "nat \<Rightarrow> int \<Rightarrow> db \<Rightarrow> db" where
  "addPoints uid points s =
     (if tfind (\<lambda>a. ra_userId a = uid) (rewardAccounts s) = None
      then s\<lparr>rewardAccounts := tinsert (\<lambda>i. \<lparr>ra_id = i, ra_userId = uid, ra_availablePoints = points\<rparr>) (rewardAccounts s)\<rparr>
      else s\<lparr>rewardAccounts := tupdate (\<lambda>a. ra_userId a = uid)
             (\<lambda>a. a\<lparr>ra_availablePoints := ra_availablePoints a + points\<rparr>) (rewardAccounts s)\<rparr>)"

definition qualifyReferral :: "nat \<Rightarrow> db \<Rightarrow> db" where
  "qualifyReferral uid s = (case tfind (\<lambda>r. rl_referredUserId r = uid) (referrals s) of
     None \<Rightarrow> s
   | Some r \<Rightarrow> if rl_status r = ''PENDING''
       then s\<lparr>referrals := tupdate (\<lambda>x. rl_id x = rl_id r)
              (\<lambda>x. x\<lparr>rl_status := ''QUALIFIED'', rl_rewardAmount := config_value ''referral_reward_amount'' 1000 s\<rparr>) (referrals s)\<rparr>
       else s)"

definition completeOrder :: "time \<Rightarrow> order \<Rightarrow> nat option \<Rightarrow> string \<Rightarrow> (decimal \<times> int) tx" where
  "completeOrder now ord changedById reason s =
     require (tfind (\<lambda>x. o_id x = o_id ord) (orders s) \<noteq> None) RecordNotFound (
     let s1 = pushHistory (o_id ord) (o_currentStatus ord) COMPLETED changedById (Some reason) (setOrderStatus now (o_id ord) COMPLETED s);
         percentage = config_value ''cashback_rate'' 1 s1;
         amount = (if 0 < percentage \<and> percentage \<le> 100 then toDecimalPlaces2 (o_subtotal ord * percentage / 100) else 0);
         s2 = (if 0 < percentage \<and> percentage \<le> 100 then upsertCashback ord percentage amount s1 else s1);
         points = \<lfloor>o_total ord / 1000\<rfloor>
     in Inr ((amount, points), qualifyReferral (o_userId ord) (addPoints (o_userId ord) points s2)))"

section \<open>Cashback\<close>

definition cb_balance :: "cashback \<Rightarrow> decimal" where
  "cb_balance c = cb_amount c - cb_redeemedAmount c"

definition cb_open :: "nat \<Rightarrow> cashback \<Rightarrow> bool" where
  "cb_open uid c \<longleftrightarrow> cb_userId c = uid \<and> cb_status c = ''AVAILABLE''"

definition availableCashback :: "nat \<Rightarrow> db \<Rightarrow> decimal" where
  "availableCashback uid s = (\<Sum>c\<leftarrow>tfilter (cb_open uid) (cashbacks s). cb_balance c)"

fun redeemRows :: "cashback list \<Rightarrow> decimal \<Rightarrow> db \<Rightarrow> db" where
  "redeemRows [] remaining s = s"
| "redeemRows (row # rs) remaining s =
     (if remaining \<le> 0 then s
      else let applied = min (cb_balance row) remaining;
               redeemed = cb_redeemedAmount row + applied
           in redeemRows rs (remaining - applied)
                (s\<lparr>cashbacks := tupdate (\<lambda>c. cb_id c = cb_id row) (\<lambda>c. c\<lparr>cb_redeemedAmount := redeemed,
                   cb_status := if redeemed = cb_amount row then ''REDEEMED'' else ''AVAILABLE''\<rparr>) (cashbacks s)\<rparr>))"

definition creditReward :: "nat \<Rightarrow> decimal \<Rightarrow> string \<Rightarrow> string \<Rightarrow> db \<Rightarrow> db result" where
  "creditReward uid amount reference description s =
     (case upsertCredit uid amount s of (k, s1) \<Rightarrow> createWalletTx k amount CREDIT reference description s1)"

definition redeemInTransaction :: "string \<Rightarrow> nat \<Rightarrow> decimal \<Rightarrow> db \<Rightarrow> db result" where
  "redeemInTransaction reference uid amount s =
     (let rs = tfilter (cb_open uid) (cashbacks s)
      in require (\<not> (\<Sum>c\<leftarrow>rs. cb_balance c) < amount) (BadRequest ''Insufficient cashback balance.'') (
         ebind (creditReward uid amount reference ''Cashback redemption'' (redeemRows rs amount s)) (\<lambda>s1.
         Inr (s1\<lparr>redemptions := tinsert (\<lambda>i. \<lparr>rd_id = i, rd_userId = uid, rd_amount = amount, rd_reference = reference\<rparr>)
           (redemptions s1)\<rparr>))))"

definition redeem :: "exn option \<Rightarrow> string \<Rightarrow> nat \<Rightarrow> decimal \<Rightarrow> unit handler" where
  "redeem push uuid uid rawAmount s =
     (let reference = ''CASHBACK-'' @ show_nat uid @ ''-'' @ uuid
      in hbind (hlift (ebind (money rawAmount) (\<lambda>a.
           require (0 < a) (BadRequest ''Redemption amount must be greater than zero.'') (Inr a)))) (\<lambda>amount.
         hbind (transact (redeemInTransaction reference uid amount)) (\<lambda>_.
         notifyUser push uid ''REWARD_UPDATE'' ''Cashback redeemed'' (Some (''cashback-redeemed:'' @ reference)))) s)"

section \<open>Vouchers\<close>

definition voucher_live :: "time \<Rightarrow> voucher \<Rightarrow> bool" where
  "voucher_live now v \<longleftrightarrow> v_isActive v \<and> v_startsAt v \<le> now \<and> (case v_expiresAt v of None \<Rightarrow> True | Some t \<Rightarrow> now < t)"

definition points_of :: "nat \<Rightarrow> db \<Rightarrow> int" where
  "points_of uid s = (case tfind (\<lambda>a. ra_userId a = uid) (rewardAccounts s) of None \<Rightarrow> 0 | Some a \<Rightarrow> ra_availablePoints a)"

definition owned_voucher :: "nat \<Rightarrow> string \<Rightarrow> db \<Rightarrow> user_voucher option" where
  "owned_voucher uid vid s = tfind (\<lambda>x. uv_userId x = uid \<and> uv_voucherId x = vid) (userVouchers s)"

definition claimVoucher :: "time \<Rightarrow> nat \<Rightarrow> string \<Rightarrow> (user_voucher \<times> bool) tx" where
  "claimVoucher now uid i s =
     ebind (orThrow (tfind (\<lambda>v. v_id v = i \<and> voucher_live now v) (vouchers s)) (NotFound ''Voucher is unavailable.'')) (\<lambda>v.
     case owned_voucher uid i s of
       Some x \<Rightarrow> Inr ((x, False), s)
     | None \<Rightarrow>
         let s1 = (if tfind (\<lambda>a. ra_userId a = uid) (rewardAccounts s) = None then addPoints uid 0 s else s)
         in require (\<not> points_of uid s1 < v_pointsCost v) (BadRequest ''Insufficient reward points.'') (
            let s2 = (if v_pointsCost v \<noteq> 0 then addPoints uid (- v_pointsCost v) s1 else s1);
                mk = (\<lambda>k. \<lparr>uv_id = k, uv_userId = uid, uv_voucherId = i, uv_status = ''CLAIMED''\<rparr>)
            in Inr ((mk (next_id (userVouchers s2)), True), s2\<lparr>userVouchers := tinsert mk (userVouchers s2)\<rparr>)))"

definition claim_handler :: "exn option \<Rightarrow> time \<Rightarrow> nat \<Rightarrow> string \<Rightarrow> user_voucher handler" where
  "claim_handler push now uid i =
     hbind (transaction (claimVoucher now uid i)) (\<lambda>(item, created).
     hbind (if created then notifyUser push uid ''REWARD_UPDATE'' ''Voucher claimed''
              (Some (''voucher-claimed:'' @ i @ '':'' @ show_nat uid)) else hreturn ()) (\<lambda>_.
     hreturn item))"

definition voucher_apply :: "time \<Rightarrow> nat \<Rightarrow> string \<Rightarrow> db \<Rightarrow> db result" where
  "voucher_apply now uid selector s =
     ebind (orThrow (tfind (\<lambda>c. c_userId c = uid) (carts s)) (BadRequest ''Cart is empty.'')) (\<lambda>cart.
     require (c_totalItems cart \<noteq> 0) (BadRequest ''Cart is empty.'') (
     ebind (orThrow (tfind (\<lambda>v. v_id v = selector \<or> v_code v = toUpperCase selector) (vouchers s)) (NotFound ''Voucher not found.'')) (\<lambda>v.
     require (map_option uv_status (owned_voucher uid (v_id v) s) = Some ''CLAIMED'')
       (Conflict ''Claim this voucher before applying it.'') (
     require (\<not> (\<not> v_isActive v \<or> now < v_startsAt v \<or> (case v_expiresAt v of None \<Rightarrow> False | Some t \<Rightarrow> t \<le> now)))
       (BadRequest ''Voucher has expired or is inactive.'') (
     require (\<not> c_subtotal cart < v_minimumOrderAmount v) (BadRequest ''A minimum cart subtotal is required.'') (
     Inr (if tfind (\<lambda>a. cv_cartId a = c_id cart) (cartVouchers s) = None
          then s\<lparr>cartVouchers := tinsert (\<lambda>i. \<lparr>cv_id = i, cv_cartId = c_id cart, cv_voucherId = v_id v, cv_userId = uid\<rparr>) (cartVouchers s)\<rparr>
          else s\<lparr>cartVouchers := tupdate (\<lambda>a. cv_cartId a = c_id cart)
                 (\<lambda>a. a\<lparr>cv_voucherId := v_id v, cv_userId := uid\<rparr>) (cartVouchers s)\<rparr>)))))))"

section \<open>Referrals\<close>

record referral_view =
  rw_totalReferred :: nat
  rw_successfulOrders :: nat
  rw_totalDiscountEarned :: decimal
  rw_claimableAmount :: decimal

definition referral_me :: "nat \<Rightarrow> db \<Rightarrow> referral_view" where
  "referral_me uid s =
     (let rs = tfilter (\<lambda>r. rl_referrerId r = uid) (referrals s)
      in \<lparr>rw_totalReferred = length rs, rw_successfulOrders = length (filter (\<lambda>r. rl_status r \<noteq> ''PENDING'') rs),
          rw_totalDiscountEarned = (\<Sum>r\<leftarrow>filter (\<lambda>r. rl_status r \<noteq> ''PENDING'') rs. rl_rewardAmount r),
          rw_claimableAmount = (\<Sum>r\<leftarrow>filter (\<lambda>r. rl_status r = ''QUALIFIED'') rs. rl_rewardAmount r)\<rparr>)"

definition referral_claim :: "string \<Rightarrow> nat \<Rightarrow> (decimal \<times> nat) tx" where
  "referral_claim uuid uid s =
     (let rewards = tfilter (\<lambda>r. rl_referrerId r = uid \<and> rl_status r = ''QUALIFIED'') (referrals s);
          amount = (\<Sum>r\<leftarrow>rewards. rl_rewardAmount r)
      in if amount \<le> 0 then Inr ((0, 0), s)
         else ebind (creditReward uid amount (''REFERRAL-'' @ show_nat uid @ ''-'' @ uuid) ''Referral reward claim'' s) (\<lambda>s1.
           Inr ((amount, length rewards), s1\<lparr>referrals := tupdate
             (\<lambda>r. rl_id r \<in> set (map rl_id rewards) \<and> rl_status r = ''QUALIFIED'')
             (\<lambda>r. r\<lparr>rl_status := ''CLAIMED''\<rparr>) (referrals s1)\<rparr>)))"

section \<open>Redeeming conserves value\<close>

lemma creditReward_effect:
  assumes "wallet_ok s" and "creditReward uid a ref desc s = Inr s'"
  shows "wallet_ok s'" and "user_balance v s' = user_balance v s + (if v = uid then a else 0)"
    and "\<exists>x y. s' = s\<lparr>wallets := x, walletTxs := y\<rparr>"
proof -
  obtain k s1 where u: "upsertCredit uid a s = (k, s1)" by (cases "upsertCredit uid a s")
  with assms(2) have c: "createWalletTx k a CREDIT ref desc s1 = Inr s'" by (simp add: creditReward_def)
  show "wallet_ok s'" "user_balance v s' = user_balance v s + (if v = uid then a else 0)"
    "\<exists>x y. s' = s\<lparr>wallets := x, walletTxs := y\<rparr>"
    using credit_posted [OF assms(1) u c] by blast+
qed

definition cashback_ok :: "db \<Rightarrow> bool" where
  "cashback_ok s \<longleftrightarrow> tkeyed cb_id (cashbacks s) \<and>
     (\<forall>c \<in> set (rows (cashbacks s)). 0 \<le> cb_redeemedAmount c \<and> cb_redeemedAmount c \<le> cb_amount c)"

lemma availableCashback_tsum:
  "availableCashback uid s = tsum (\<lambda>c. if cb_open uid c then cb_balance c else 0) (cashbacks s)"
  unfolding availableCashback_def tfilter_def tsum_def by (simp add: sum_list_map_filter')

lemma redeemRows_frame: "\<exists>a. redeemRows rs rem s = s\<lparr>cashbacks := a\<rparr>"
proof (induction rs arbitrary: rem s)
  case Nil
  show ?case by (intro exI [of _ "cashbacks s"]) simp
next
  case (Cons r rs)
  show ?case
  proof (cases "rem \<le> 0")
    case True
    then show ?thesis by (intro exI [of _ "cashbacks s"]) simp
  next
    case False
    define t where "t = s\<lparr>cashbacks := tupdate (\<lambda>c. cb_id c = cb_id r) (\<lambda>c. c\<lparr>cb_redeemedAmount := cb_redeemedAmount r + min (cb_balance r) rem,
      cb_status := if cb_redeemedAmount r + min (cb_balance r) rem = cb_amount r then ''REDEEMED'' else ''AVAILABLE''\<rparr>) (cashbacks s)\<rparr>"
    obtain a where "redeemRows rs (rem - min (cb_balance r) rem) t = t\<lparr>cashbacks := a\<rparr>" using Cons.IH by blast
    then show ?thesis using False by (auto simp: t_def Let_def)
  qed
qed

text \<open>
  The rows still to be visited are as they were read, open and not overspent; each step takes
  what it applies from the available total.
\<close>

lemma redeemRows_spends:
  assumes "cashback_ok s" and "set rs \<subseteq> set (rows (cashbacks s))" and "distinct (map cb_id rs)"
    and "\<forall>r \<in> set rs. cb_open uid r" and "0 \<le> rem" and "rem \<le> (\<Sum>r\<leftarrow>rs. cb_balance r)"
  shows "availableCashback uid (redeemRows rs rem s) = availableCashback uid s - rem \<and> cashback_ok (redeemRows rs rem s)"
  using assms
proof (induction rs arbitrary: rem s)
  case (Cons r rs)
  let ?applied = "min (cb_balance r) rem"
  define f where "f = (\<lambda>c::cashback. c\<lparr>cb_redeemedAmount := cb_redeemedAmount r + ?applied,
    cb_status := if cb_redeemedAmount r + ?applied = cb_amount r then ''REDEEMED'' else ''AVAILABLE''\<rparr>)"
  define t where "t = s\<lparr>cashbacks := tupdate (\<lambda>c. cb_id c = cb_id r) f (cashbacks s)\<rparr>"
  have r: "r \<in> set (rows (cashbacks s))" "cb_open uid r" "0 \<le> cb_redeemedAmount r" "cb_redeemedAmount r \<le> cb_amount r"
    using Cons.prems(1,2,4) by (auto simp: cashback_ok_def)
  have k: "tkeyed cb_id (cashbacks s)" using Cons.prems(1) by (simp add: cashback_ok_def)
  have find: "tfind (\<lambda>c. cb_id c = cb_id r) (cashbacks s) = Some r"
    by (rule cashback_table.find_unique [OF k r(1)])
  have "availableCashback uid t = availableCashback uid s + ((if cb_open uid (f r) then cb_balance (f r) else 0) - cb_balance r)"
    using cashback_table.sum_update_unique [OF k find, of "\<lambda>c. if cb_open uid c then cb_balance c else 0" f] r(2)
    by (simp add: availableCashback_tsum t_def)
  also have "(if cb_open uid (f r) then cb_balance (f r) else 0) = cb_balance r - ?applied"
    using r(2) by (auto simp: f_def cb_open_def cb_balance_def)
  finally have av: "availableCashback uid t = availableCashback uid s - ?applied" by simp
  have kt: "tkeyed cb_id (cashbacks t)"
    using cashback_table.update_keyed [OF k, of "\<lambda>c. cb_id c = cb_id r" f] by (simp add: t_def f_def)
  have uniq: "c = r" if "c \<in> set (rows (cashbacks s))" "cb_id c = cb_id r" for c using tkeyed_inj [OF k that(1) r(1) that(2)] .
  have fr: "0 \<le> cb_redeemedAmount (f r) \<and> cb_redeemedAmount (f r) \<le> cb_amount (f r)"
    using r Cons.prems(5) by (simp add: f_def cb_balance_def min_def)
  have ok: "cashback_ok t"
    using Cons.prems(1) kt fr by (auto simp: cashback_ok_def t_def dest: uniq)
  show ?case
  proof (cases "rem \<le> 0")
    case True
    then show ?thesis using Cons.prems(1,5) by simp
  next
    case False
    have others: "c \<in> set (rows (cashbacks t))" if "c \<in> set rs" for c
    proof -
      have "cb_id c \<noteq> cb_id r" "c \<in> set (rows (cashbacks s))" using that Cons.prems(2,3) by (auto simp: image_iff)
      then show ?thesis by (auto simp: t_def image_iff)
    qed
    have nonneg: "0 \<le> (\<Sum>r\<leftarrow>rs. cb_balance r)"
      using Cons.prems(1,2) by (intro sum_list_nonneg) (auto simp: cashback_ok_def cb_balance_def)
    have "availableCashback uid (redeemRows rs (rem - ?applied) t) = availableCashback uid t - (rem - ?applied) \<and>
        cashback_ok (redeemRows rs (rem - ?applied) t)"
      using Cons.prems(3,4,6) others ok nonneg by (intro Cons.IH) (auto simp: min_def)
    then show ?thesis using False av by (simp add: Let_def t_def f_def)
  qed
qed simp

text \<open>
  Redeeming cashback moves value, it never makes or loses any: the wallet of the customer
  gains exactly what the available cashback loses, no other wallet changes, no cashback row is
  redeemed beyond its amount, the ledger stays consistent and one redemption is recorded.
\<close>

theorem redeem_conserves:
  assumes "redeemInTransaction reference uid amount s = Inr s'" and "0 < amount" and "wallet_ok s" and "cashback_ok s"
  shows "user_balance uid s' = user_balance uid s + amount \<and>
    availableCashback uid s' = availableCashback uid s - amount \<and> 0 \<le> availableCashback uid s' \<and>
    (\<forall>v. v \<noteq> uid \<longrightarrow> user_balance v s' = user_balance v s) \<and> wallet_ok s' \<and> cashback_ok s' \<and>
    (\<exists>r. rows (redemptions s') = rows (redemptions s) @ [r] \<and> rd_userId r = uid \<and> rd_amount r = amount)"
proof -
  let ?rs = "tfilter (cb_open uid) (cashbacks s)"
  define t where "t = redeemRows ?rs amount s"
  obtain s1 where le: "amount \<le> (\<Sum>c\<leftarrow>?rs. cb_balance c)"
    and c: "creditReward uid amount reference ''Cashback redemption'' t = Inr s1"
    and s': "s' = s1\<lparr>redemptions := tinsert (\<lambda>i. \<lparr>rd_id = i, rd_userId = uid, rd_amount = amount, rd_reference = reference\<rparr>) (redemptions s1)\<rparr>"
    using assms(1) by (auto simp: redeemInTransaction_def tx_simps Let_def t_def)
  have d: "distinct (map cb_id ?rs)"
    using assms(4) by (simp add: cashback_ok_def tkeyed_def tfilter_def distinct_map_filter)
  have "availableCashback uid t = availableCashback uid s - amount \<and> cashback_ok t"
    unfolding t_def using assms(2) le by (intro redeemRows_spends [OF assms(4) _ d]) (auto simp: tfilter_def)
  moreover obtain a where t: "t = s\<lparr>cashbacks := a\<rparr>" using redeemRows_frame [of ?rs amount s] by (auto simp: t_def)
  then have "wallet_ok t" using assms(3) by (simp add: wallet_ok_def)
  note cr = creditReward_effect [OF this c]
  moreover have "user_balance v t = user_balance v s" for v by (simp add: t user_balance_def)
  moreover have "user_balance v s' = user_balance v s1" for v by (simp add: s' user_balance_def)
  moreover have "wallet_ok s' = wallet_ok s1" "cashback_ok s' = cashback_ok s1" "availableCashback uid s' = availableCashback uid s1"
    by (simp_all add: s' wallet_ok_def cashback_ok_def availableCashback_def)
  moreover from cr(3) have "cashback_ok s1 = cashback_ok t" "availableCashback uid s1 = availableCashback uid t" "redemptions s1 = redemptions s"
    by (auto simp: cashback_ok_def availableCashback_def t)
  moreover have "amount \<le> availableCashback uid s" using le by (simp add: availableCashback_def)
  ultimately show ?thesis by (simp add: s')
qed

section \<open>Claiming vouchers and referral rewards\<close>

lemma points_of_addPoints:
  "points_of v (addPoints uid n s) = points_of v s + (if v = uid then n else 0)"
  by (cases "v = uid"; cases "tfind (\<lambda>a. ra_userId a = uid) (rewardAccounts s)"; cases "tfind (\<lambda>a. ra_userId a = v) (rewardAccounts s)")
    (auto simp: points_of_def addPoints_def table_simps dest!: tfind_SomeD)

lemma addPoints_frame: "\<exists>a. (if c then addPoints uid n s else s) = s\<lparr>rewardAccounts := a\<rparr>"
proof (cases c)
  case True
  then show ?thesis by (auto simp: addPoints_def)
next
  case False
  then show ?thesis by (intro exI [of _ "rewardAccounts s"]) simp
qed

text \<open>
  A voucher is paid for once, with points the customer has: a first claim takes exactly its
  cost from that customer, whose points stay non-negative, a repeated claim takes nothing and
  returns the same item, and no other customer's points change.
\<close>

theorem voucher_claimed_once:
  assumes "claimVoucher now uid i s = Inr ((x, created), s')"
    and "tfind (\<lambda>v. v_id v = i \<and> voucher_live now v) (vouchers s) = Some v"
  shows "points_of uid s' = points_of uid s - (if created then v_pointsCost v else 0) \<and>
    (created \<longrightarrow> 0 \<le> points_of uid s' \<and> owned_voucher uid i s = None) \<and>
    (\<forall>w. w \<noteq> uid \<longrightarrow> points_of w s' = points_of w s) \<and>
    owned_voucher uid i s' = Some x \<and> claimVoucher now uid i s' = Inr ((x, False), s')"
proof (cases "owned_voucher uid i s")
  case (Some y)
  then have "s' = s" "y = x" "\<not> created" using assms by (auto simp: claimVoucher_def)
  then show ?thesis using assms Some by (simp add: claimVoucher_def)
next
  case None
  define s1 where "s1 = (if tfind (\<lambda>a. ra_userId a = uid) (rewardAccounts s) = None then addPoints uid 0 s else s)"
  define s2 where "s2 = (if v_pointsCost v \<noteq> 0 then addPoints uid (- v_pointsCost v) s1 else s1)"
  define mk where "mk = (\<lambda>k. \<lparr>uv_id = k, uv_userId = uid, uv_voucherId = i, uv_status = ''CLAIMED''\<rparr>)"
  have r: "v_pointsCost v \<le> points_of uid s1" "created" "x = mk (next_id (userVouchers s2))"
    "s' = s2\<lparr>userVouchers := tinsert mk (userVouchers s2)\<rparr>"
    using assms None by (auto simp: claimVoucher_def Let_def tx_simps s1_def s2_def mk_def)
  have p1: "points_of w s1 = points_of w s" for w by (simp add: s1_def points_of_addPoints)
  have p2: "points_of w s2 = points_of w s - (if w = uid then v_pointsCost v else 0)" for w
    by (simp add: s2_def points_of_addPoints p1)
  have p: "points_of w s' = points_of w s2" for w by (simp add: r(4) points_of_def)
  obtain b where s1: "s1 = s\<lparr>rewardAccounts := b\<rparr>" unfolding s1_def using addPoints_frame by blast
  obtain c where "s2 = s1\<lparr>rewardAccounts := c\<rparr>" unfolding s2_def using addPoints_frame by blast
  with s1 have s2: "s2 = s\<lparr>rewardAccounts := c\<rparr>" by simp
  have owned: "owned_voucher uid i s' = Some x"
    using None by (simp add: r(3,4) s2 owned_voucher_def table_simps mk_def)
  then have "claimVoucher now uid i s' = Inr ((x, False), s')"
    using assms(2) by (simp add: claimVoucher_def r(4) s2)
  then show ?thesis using r(1,2) None owned by (simp add: p p1 p2)
qed

text \<open>
  Claiming referral rewards credits the wallet with exactly the claimable amount shown to the
  customer, leaves nothing claimable and the total earned as it was, touches no other wallet, and
  claiming again changes nothing.
\<close>

theorem referral_claimed_once:
  assumes "referral_claim uuid uid s = Inr ((amount, n), s')" and "wallet_ok s"
    and "0 \<le> rw_claimableAmount (referral_me uid s)"
  shows "amount = rw_claimableAmount (referral_me uid s) \<and> wallet_ok s' \<and>
    (\<forall>v. user_balance v s' = user_balance v s + (if v = uid then amount else 0)) \<and>
    rw_claimableAmount (referral_me uid s') = 0 \<and>
    rw_totalDiscountEarned (referral_me uid s') = rw_totalDiscountEarned (referral_me uid s) \<and>
    referral_claim uuid' uid s' = Inr ((0, 0), s')"
proof -
  define rw where "rw = tfilter (\<lambda>r. rl_referrerId r = uid \<and> rl_status r = ''QUALIFIED'') (referrals s)"
  define P where "P = (\<lambda>r::referral. rl_id r \<in> set (map rl_id rw) \<and> rl_status r = ''QUALIFIED'')"
  have claimable: "rw_claimableAmount (referral_me uid t) =
      (\<Sum>r\<leftarrow>tfilter (\<lambda>r. rl_referrerId r = uid \<and> rl_status r = ''QUALIFIED'') (referrals t). rl_rewardAmount r)" for t
    by (simp add: referral_me_def Let_def tfilter_def conj_commute)
  have again: "referral_claim uuid' uid t = Inr ((0, 0), t)" if "rw_claimableAmount (referral_me uid t) = 0" for t
    using that by (simp add: claimable referral_claim_def Let_def)
  show ?thesis
  proof (cases "(\<Sum>r\<leftarrow>rw. rl_rewardAmount r) \<le> 0")
    case True
    then have "s' = s" "amount = 0" using assms(1) by (auto simp: referral_claim_def rw_def Let_def)
    moreover have "rw_claimableAmount (referral_me uid s) = 0" using True assms(3) by (simp add: claimable rw_def)
    ultimately show ?thesis using assms(2) again by simp
  next
    case False
    then obtain s1 where c: "creditReward uid amount (''REFERRAL-'' @ show_nat uid @ ''-'' @ uuid) ''Referral reward claim'' s = Inr s1"
      and am: "amount = (\<Sum>r\<leftarrow>rw. rl_rewardAmount r)"
      and s': "s' = s1\<lparr>referrals := tupdate P (\<lambda>r. r\<lparr>rl_status := ''CLAIMED''\<rparr>) (referrals s1)\<rparr>"
      using assms(1) by (auto simp: referral_claim_def rw_def P_def Let_def tx_simps)
    note cr = creditReward_effect [OF assms(2) c]
    have refs: "referrals s1 = referrals s" using cr(3) by auto
    have "tfilter (\<lambda>r. rl_referrerId r = uid \<and> rl_status r = ''QUALIFIED'') (referrals s') = []"
      by (auto simp: s' refs P_def rw_def tfilter_def filter_empty_conv)
    then have none: "rw_claimableAmount (referral_me uid s') = 0" by (simp add: claimable)
    have earned: "rw_totalDiscountEarned (referral_me uid t) =
        tsum (\<lambda>r. if rl_referrerId r = uid \<and> rl_status r \<noteq> ''PENDING'' then rl_rewardAmount r else 0) (referrals t)" for t
      by (auto simp: referral_me_def Let_def tfilter_def tsum_def sum_list_map_filter' intro!: arg_cong [where f = sum_list])
    have "rw_totalDiscountEarned (referral_me uid s') = rw_totalDiscountEarned (referral_me uid s)"
      unfolding earned s' by (simp add: refs P_def table_simps)
    moreover have "wallet_ok s'" "user_balance v s' = user_balance v s1" for v
      using cr(1) by (simp_all add: s' wallet_ok_def user_balance_def)
    ultimately show ?thesis using none again [OF none] cr(2) am by (simp add: claimable rw_def)
  qed
qed

section \<open>Examples\<close>

lemma Inr_pairI: "\<not> isl r \<Longrightarrow> fst (projr r) = x \<Longrightarrow> r = Inr (x, snd (projr r))"
  by (cases r) auto

definition free_delivery :: voucher where
  "free_delivery = \<lparr>v_id = ''v1'', v_code = ''SHIP'', v_type = ''DISCOUNT'', v_storeId = None, v_discountPercent = None,
     v_discountAmount = Some 50, v_minimumOrderAmount = 0, v_pointsCost = 3, v_isActive = True, v_startsAt = 0, v_expiresAt = Some 100\<rparr>"

definition rewards_db :: db where
  "rewards_db = wallet_db\<lparr>
     cashbacks := \<lparr>rows = [
       \<lparr>cb_id = 1, cb_userId = 7, cb_orderId = 1, cb_percentage = 1, cb_amount = 10, cb_redeemedAmount = 4, cb_status = ''AVAILABLE''\<rparr>,
       \<lparr>cb_id = 2, cb_userId = 7, cb_orderId = 2, cb_percentage = 1, cb_amount = 20, cb_redeemedAmount = 0, cb_status = ''AVAILABLE''\<rparr>],
       next_id = 3\<rparr>,
     rewardAccounts := \<lparr>rows = [\<lparr>ra_id = 1, ra_userId = 7, ra_availablePoints = 5\<rparr>], next_id = 2\<rparr>,
     vouchers := \<lparr>rows = [free_delivery], next_id = 1\<rparr>,
     referrals := \<lparr>rows = [
       \<lparr>rl_id = 1, rl_referrerId = 7, rl_referredUserId = 8, rl_status = ''QUALIFIED'', rl_rewardAmount = 1000\<rparr>,
       \<lparr>rl_id = 2, rl_referrerId = 7, rl_referredUserId = 9, rl_status = ''PENDING'', rl_rewardAmount = 0\<rparr>], next_id = 3\<rparr>\<rparr>"

abbreviation "redeemed_db \<equiv> redeemInTransaction ''CASHBACK-7-u'' 7 8 rewards_db"

theorem redeem_conserves_witness:
  "user_balance 7 (projr redeemed_db) = 108 \<and> availableCashback 7 (projr redeemed_db) = 18"
proof -
  have "\<not> isl redeemed_db" "wallet_ok rewards_db" "cashback_ok rewards_db" "user_balance 7 rewards_db = 100"
    "availableCashback 7 rewards_db = 26" by code_simp+
  moreover from this have "redeemed_db = Inr (projr redeemed_db)" by (simp add: sum.collapse(2))
  ultimately show ?thesis using redeem_conserves [of "''CASHBACK-7-u''" 7 8 rewards_db "projr redeemed_db"] by simp
qed

abbreviation "claimed_db \<equiv> claimVoucher 10 7 ''v1'' rewards_db"

theorem voucher_claimed_once_witness:
  "points_of 7 (snd (projr claimed_db)) = 2 \<and> owned_voucher 7 ''v1'' (snd (projr claimed_db)) = Some (fst (fst (projr claimed_db)))"
proof -
  have "\<not> isl claimed_db" "snd (fst (projr claimed_db))" "points_of 7 rewards_db = 5" "v_pointsCost free_delivery = 3"
    "tfind (\<lambda>v. v_id v = ''v1'' \<and> voucher_live 10 v) (vouchers rewards_db) = Some free_delivery" by code_simp+
  moreover from this have "claimed_db = Inr ((fst (fst (projr claimed_db)), True), snd (projr claimed_db))"
    by (intro Inr_pairI) (simp_all add: prod_eq_iff)
  ultimately show ?thesis
    using voucher_claimed_once [of 10 7 "''v1''" rewards_db "fst (fst (projr claimed_db))" True "snd (projr claimed_db)" free_delivery]
    by simp
qed

abbreviation "referral_db \<equiv> referral_claim ''u'' 7 rewards_db"

theorem referral_claimed_once_witness:
  "user_balance 7 (snd (projr referral_db)) = 1100 \<and> referral_claim ''w'' 7 (snd (projr referral_db)) = Inr ((0, 0), snd (projr referral_db))"
proof -
  have "\<not> isl referral_db" "fst (projr referral_db) = (1000, 1)" "wallet_ok rewards_db" "user_balance 7 rewards_db = 100"
    "rw_claimableAmount (referral_me 7 rewards_db) = 1000" by code_simp+
  moreover from this have "referral_db = Inr ((1000, 1), snd (projr referral_db))" by (intro Inr_pairI) simp_all
  ultimately show ?thesis
    using referral_claimed_once [of "''u''" 7 rewards_db 1000 1 "snd (projr referral_db)" "''w''"] by simp
qed

end
