(* ===== verification/Orders.thy ===== *)
theory Orders
  imports Delivery Refunds Rewards PaymentGroups
begin

text \<open>
  What customers, stores and staff do with a placed order (\<^verbatim>\<open>src/orders/orders.service.ts\<close> and
  \<open>updateOrderStatus\<close> of \<^verbatim>\<open>src/admin/admin.service.ts\<close>): views, reordering, preparation,
  cancellation with its refund, and returns.  In the views the lower-cased name of an enumeration
  value stands for the value.
\<close>

section \<open>Views\<close>

definition order_group :: "nat \<Rightarrow> db \<Rightarrow> (allocation \<times> payment_group) option" where
  "order_group orderId s = (case tfind (\<lambda>al. al_orderId al = orderId) (allocations s) of
     None \<Rightarrow> None
   | Some al \<Rightarrow> map_option (\<lambda>g. (al, g)) (tfind (\<lambda>g. g_id g = al_paymentGroupId al) (groups s)))"

definition item_description :: "order_item list \<Rightarrow> string" where
  "item_description items = (case items of
     [] \<Rightarrow> []
   | i # _ \<Rightarrow> if oi_productName i \<noteq> [] \<and> 1 < length items
       then oi_productName i @ '' & '' @ show_nat (length items - 1) @ '' more item'' @ (if 2 < length items then ''s'' else [])
       else oi_productName i)"

record order_view =
  ov_order :: order
  ov_status :: string
  ov_paymentStatus :: payment_status
  ov_paymentMethod :: "payment_method option"
  ov_items :: "order_item list"
  ov_itemDescription :: string
  ov_deliveryMethod :: string
  ov_timeline :: "order_status list"

definition order_view_of :: "order \<Rightarrow> db \<Rightarrow> order_view" where
  "order_view_of ord s = \<lparr>ov_order = ord, ov_status = screenStatus (o_currentStatus ord),
     ov_paymentStatus = (case order_group (o_id ord) s of None \<Rightarrow> P_PENDING | Some (_, g) \<Rightarrow> g_status g),
     ov_paymentMethod = map_option (\<lambda>(_, g). g_paymentMethod g) (order_group (o_id ord) s),
     ov_items = order_lines (o_id ord) s,
     ov_itemDescription = item_description (order_lines (o_id ord) s),
     ov_deliveryMethod = (if o_fulfillmentType ord = DELIVERY then ''home_delivery'' else ''store_pickup''),
     ov_timeline = map sh_toStatus (tfilter (\<lambda>h. sh_orderId h = o_id ord) (statusHistory s))\<rparr>"

fun screen_statuses :: "string \<Rightarrow> order_status list" where
  "screen_statuses f =
     (if f = ''pending'' then [ORDER_RECEIVED, CONFIRMED]
      else if f = ''in_progress'' then [PREPARING, RIDER_ASSIGNED, OUT_FOR_DELIVERY]
      else if f = ''ready_for_pickup'' then [READY_FOR_PICKUP]
      else if f = ''delivered'' then [PICKED_UP, DELIVERED, COMPLETED]
      else if f = ''cancelled'' then [CANCELLED] else [])"

definition mine :: "nat \<Rightarrow> nat \<Rightarrow> int \<Rightarrow> string option \<Rightarrow> db \<Rightarrow> order_view list" where
  "mine userId page limit status s =
     (let size = nat (min 15 (max 1 limit));
          wanted = (\<lambda>x. o_userId x = userId \<and>
            (case status of None \<Rightarrow> True | Some f \<Rightarrow> f = ''all'' \<or> o_currentStatus x \<in> set (screen_statuses f)))
      in map (\<lambda>x. order_view_of x s) (page_of page size (rev (tfilter wanted (orders s)))))"

definition owned_order :: "nat \<Rightarrow> nat \<Rightarrow> db \<Rightarrow> order result" where
  "owned_order userId orderId s =
     ebind (orThrow (tfind (\<lambda>x. o_id x = orderId) (orders s)) (NotFound ''Order not found.'')) (\<lambda>ord.
     require (o_userId ord = userId) (Forbidden ''You do not have access to this order.'') (Inr ord))"

definition one :: "nat \<Rightarrow> nat \<Rightarrow> db \<Rightarrow> order_view result" where
  "one userId orderId s = ebind (owned_order userId orderId s) (\<lambda>ord. Inr (order_view_of ord s))"

record track_view =
  tv_order :: order
  tv_status :: string
  tv_location :: "delivery_location option"
  tv_timeline :: "order_status list"
  tv_delivery :: "(delivery \<times> delivery_update list) option"
  tv_pickup :: "pickup option"

definition latest_location :: "nat \<Rightarrow> db \<Rightarrow> delivery_location option" where
  "latest_location did s = (case rev (sort_key dl_recordedAt (tfilter (\<lambda>l. dl_deliveryId l = did) (deliveryLocations (fleet s)))) of
     [] \<Rightarrow> None | l # _ \<Rightarrow> Some l)"

definition track :: "nat \<Rightarrow> nat \<Rightarrow> db \<Rightarrow> track_view result" where
  "track userId orderId s = ebind (owned_order userId orderId s) (\<lambda>ord.
     let del = tfind (\<lambda>d. d_orderId d = orderId) (deliveries s)
     in Inr \<lparr>tv_order = ord, tv_status = screenStatus (o_currentStatus ord),
       tv_location = Option.bind del (\<lambda>d. latest_location (d_id d) s),
       tv_timeline = map sh_toStatus (tfilter (\<lambda>h. sh_orderId h = orderId) (statusHistory s)),
       tv_delivery = map_option (\<lambda>d. (d, tfilter (\<lambda>u. du_deliveryId u = d_id d) (deliveryUpdates s))) del,
       tv_pickup = tfind (\<lambda>p. pk_orderId p = orderId) (pickups s)\<rparr>)"

section \<open>Reordering\<close>

fun availability_error :: "exn \<Rightarrow> bool" where
  "availability_error (NotFound _) = True"
| "availability_error (Conflict _) = True"
| "availability_error _ = False"

text \<open>The lines that went into the cart, and those that did not with the reason.\<close>

type_synonym reorder_lines = "order_item list \<times> (order_item \<times> string) list"

fun reorder_items :: "nat \<Rightarrow> order_item list \<Rightarrow> db \<Rightarrow> (reorder_lines \<times> db) result" where
  "reorder_items cartId [] s = Inr (([], []), s)"
| "reorder_items cartId (i # is) s =
     (case addInTransaction cartId (oi_storeProductId i) (int (oi_quantity i)) s of
        Inr s1 \<Rightarrow> ebind (reorder_items cartId is s1) (\<lambda>((added, skipped), s2). Inr ((i # added, skipped), s2))
      | Inl e \<Rightarrow>
          if availability_error e
          then ebind (reorder_items cartId is s) (\<lambda>((added, skipped), s2). Inr ((added, (i, exn_message e) # skipped), s2))
          else Inl e)"

definition reorderInTransaction :: "nat \<Rightarrow> order_item list \<Rightarrow> (string \<times> cart_view \<times> reorder_lines) tx" where
  "reorderInTransaction userId items s =
     ebind (lock userId s) (\<lambda>(cart, s1).
     ebind (reorder_items (c_id cart) items s1) (\<lambda>(ls, s2).
     ebind (recalculate (c_id cart) False s2) (\<lambda>(view, s3).
     Inr ((if snd ls \<noteq> [] then ''partial'' else ''success'', view, ls), s3))))"

definition reorder :: "nat \<Rightarrow> nat \<Rightarrow> (string \<times> cart_view \<times> reorder_lines) handler" where
  "reorder userId orderId s =
     (case one userId orderId s of
        Inl e \<Rightarrow> (Inl e, s)
      | Inr v \<Rightarrow>
          if o_currentStatus (ov_order v) \<notin> {COMPLETED, DELIVERED, PICKED_UP}
          then (Inl (BadRequest ''Only fulfilled orders can be reordered.''), s)
          else transaction (reorderInTransaction userId (ov_items v)) s)"

section \<open>Preparation\<close>

definition store_operator :: "nat \<Rightarrow> store \<Rightarrow> bool" where
  "store_operator actorId st \<longleftrightarrow> st_ownerUserId st = actorId \<or> actorId \<in> set (st_members st)"

definition status_guards :: "nat \<Rightarrow> nat \<Rightarrow> order_status \<Rightarrow> db \<Rightarrow> order result" where
  "status_guards actorId orderId status s =
     ebind (orThrow (tfind (\<lambda>x. o_id x = orderId) (orders s)) (NotFound ''Order not found.'')) (\<lambda>ord.
     ebind (orThrow (order_store ord s) RecordNotFound) (\<lambda>st.
     require (store_operator actorId st)
       (Forbidden ''Only this order's store owner or store staff can update preparation status.'') (
     require (o_currentStatus ord \<noteq> ORDER_RECEIVED)
       (BadRequest ''Unpaid orders must be confirmed by payment verification or cancelled through checkout.'') (
     require (status \<in> set STORE_MANAGED_ORDER_STATUSES)
       (Forbidden ''Store operators may only mark an order as PREPARING or READY_FOR_PICKUP.'') (
     require (canTransitionOrder (o_currentStatus ord) status) (BadRequest ''Invalid order transition'') (Inr ord))))))"

definition status_event :: "nat \<Rightarrow> order_status \<Rightarrow> string" where
  "status_event orderId st = ''order-status:'' @ show_nat orderId @ '':'' @
     (case st of ORDER_RECEIVED \<Rightarrow> ''ORDER_RECEIVED'' | CONFIRMED \<Rightarrow> ''CONFIRMED'' | PREPARING \<Rightarrow> ''PREPARING''
      | READY_FOR_PICKUP \<Rightarrow> ''READY_FOR_PICKUP'' | RIDER_ASSIGNED \<Rightarrow> ''RIDER_ASSIGNED'' | OUT_FOR_DELIVERY \<Rightarrow> ''OUT_FOR_DELIVERY''
      | PICKED_UP \<Rightarrow> ''PICKED_UP'' | DELIVERED \<Rightarrow> ''DELIVERED'' | COMPLETED \<Rightarrow> ''COMPLETED'' | CANCELLED \<Rightarrow> ''CANCELLED'')"

text \<open>\<open>push\<close> gives, per user, the exception of a failing push message.\<close>

definition setStatus :: "(nat \<Rightarrow> exn option) \<Rightarrow> rider_settings \<Rightarrow> time \<Rightarrow> nat \<Rightarrow> nat \<Rightarrow> order_status \<Rightarrow> string option \<Rightarrow> order handler" where
  "setStatus push cfg now actorId orderId status reason s =
     (case status_guards actorId orderId status s of
        Inl e \<Rightarrow> (Inl e, s)
      | Inr ord \<Rightarrow>
          let updated = ord\<lparr>o_currentStatus := status, o_updatedAt := now\<rparr>
          in hbind (hmodify (\<lambda>s. pushHistory orderId (o_currentStatus ord) status (Some actorId) reason (setOrderStatus now orderId status s))) (\<lambda>_.
             hbind (notifyUser (push (o_userId ord)) (o_userId ord)
                 (if status = CANCELLED then ''ORDER_CANCELLED'' else ''ORDER_STATUS_UPDATE'')
                 (if status = CANCELLED then ''Order cancelled'' else ''Order status updated'') (Some (status_event orderId status))) (\<lambda>_.
             hbind (if status = READY_FOR_PICKUP then notifyAvailableRidersForOrder push cfg now orderId else hreturn (0, 0)) (\<lambda>_.
             hreturn updated))) s)"

section \<open>Staff intervention\<close>

definition interveneInTransaction :: "time \<Rightarrow> nat \<Rightarrow> nat \<Rightarrow> order_status \<Rightarrow> string \<Rightarrow> (order \<times> (decimal \<times> int) option) tx" where
  "interveneInTransaction now orderId staffId status reason s =
     ebind (orThrow (tfind (\<lambda>x. o_id x = orderId) (orders s)) (NotFound ''Order not found.'')) (\<lambda>ord.
     require (status \<in> set ADMIN_INTERVENTION_ORDER_STATUSES)
       (BadRequest ''Payment confirmation and cancellation must use their dedicated financial workflows.'') (
     require (canTransitionOrder (o_currentStatus ord) status) (BadRequest ''Invalid order transition'') (
     ebind (if status = COMPLETED
            then ebind (completeOrder now ord None (''Staff intervention: '' @ reason) s) (\<lambda>(rewards, s1). Inr (Some rewards, s1))
            else Inr (None, pushHistory orderId (o_currentStatus ord) status None (Some (''Staff intervention: '' @ reason))
                   (setOrderStatus now orderId status s))) (\<lambda>(rewards, s1).
     let s2 = audit staffId ''order.status.update'' ''Order'' (show_nat orderId) s1
     in ebind (orThrow (tfind (\<lambda>x. o_id x = orderId) (orders s2)) RecordNotFound) (\<lambda>ord'.
        Inr ((ord', rewards), s2))))))"

definition updateOrderStatus :: "(nat \<Rightarrow> exn option) \<Rightarrow> rider_settings \<Rightarrow> time \<Rightarrow> nat \<Rightarrow> nat \<Rightarrow> order_status \<Rightarrow> string \<Rightarrow> order handler" where
  "updateOrderStatus push cfg now orderId staffId status reason =
     hbind (transaction (interveneInTransaction now orderId staffId status reason)) (\<lambda>(ord, rewards).
     hbind (notifyUser (push (o_userId ord)) (o_userId ord) ''ORDER_STATUS_UPDATE'' ''Order status updated''
       (Some (status_event (o_id ord) (o_currentStatus ord)))) (\<lambda>_.
     hbind (if status = READY_FOR_PICKUP then notifyAvailableRidersForOrder push cfg now orderId else hreturn (0, 0)) (\<lambda>_.
     hbind (case rewards of
         Some (cashback, points) \<Rightarrow> if 0 < points \<or> cashback \<noteq> 0
           then notifyUser (push (o_userId ord)) (o_userId ord) ''REWARD_UPDATE'' ''Rewards earned''
                  (Some (''rewards-earned:'' @ show_nat (o_id ord)))
           else hreturn ()
       | None \<Rightarrow> hreturn ()) (\<lambda>_.
     hreturn ord))))"

section \<open>Cancellation\<close>

definition refund_label :: "refund_status \<Rightarrow> string" where
  "refund_label st = (case st of R_PENDING \<Rightarrow> ''pending'' | R_PROCESSING \<Rightarrow> ''processing'' | R_SUCCEEDED \<Rightarrow> ''succeeded''
     | R_FAILED \<Rightarrow> ''failed'' | R_NEEDS_ATTENTION \<Rightarrow> ''needs_attention'' | R_MANUAL_REVIEW \<Rightarrow> ''manual_review'')"

definition cancel_ref :: "nat \<Rightarrow> string" where
  "cancel_ref orderId = ''ORDER-CANCEL-'' @ show_nat orderId"

definition refund_key :: "nat \<Rightarrow> string" where
  "refund_key orderId = ''ORDER-REFUND-'' @ show_nat orderId"

definition reversal_ref :: "order \<Rightarrow> string" where
  "reversal_ref ord = ''ORDER-CANCEL-'' @ o_orderNumber ord"

definition klump_note :: string where
  "klump_note = ''Complete the customer refund in the Klump merchant dashboard, then record its reference here.''"

definition upsertOrderRefund :: "order \<Rightarrow> nat \<Rightarrow> nat \<Rightarrow> decimal \<Rightarrow> bool \<Rightarrow> bool \<Rightarrow> string \<Rightarrow> refund tx" where
  "upsertOrderRefund ord userId paymentId amount isWallet isKlump reason s =
     (case tfind (\<lambda>r. rf_orderId r = o_id ord) (refunds s) of
        Some r \<Rightarrow> Inr (r, s)
      | None \<Rightarrow>
          let mk = (\<lambda>i. \<lparr>rf_id = i, rf_orderId = o_id ord, rf_userId = userId, rf_paymentId = paymentId, rf_amount = amount,
                rf_currency = o_currency ord, rf_provider = (if isWallet then MANUAL else if isKlump then KLUMP else PAYSTACK),
                rf_status = (if isWallet then R_SUCCEEDED else if isKlump then R_MANUAL_REVIEW else R_PENDING),
                rf_idempotencyKey = refund_key (o_id ord), rf_providerRefundId = None, rf_reason = reason,
                rf_failureReason = (if isKlump then Some klump_note else None)\<rparr>)
          in require (tfind (\<lambda>r. rf_idempotencyKey r = refund_key (o_id ord)) (refunds s) = None) UniqueViolation
               (Inr (mk (next_id (refunds s)), s\<lparr>refunds := tinsert mk (refunds s)\<rparr>)))"

definition markRefunded :: "nat \<Rightarrow> db \<Rightarrow> db result" where
  "markRefunded paymentId s =
     ebind (orThrow (tfind (\<lambda>p. pay_id p = paymentId) (payments s)) RecordNotFound) (\<lambda>payment.
     Inr (updatePayment paymentId (\<lambda>p. p\<lparr>pay_status := if pay_amount payment \<le> refunded_total paymentId s
       then P_REFUNDED else P_PARTIALLY_REFUNDED\<rparr>) s))"

definition reverseSettlement :: "order \<Rightarrow> db \<Rightarrow> db result" where
  "reverseSettlement ord s =
     (case (tfind (\<lambda>w. sw_storeId w = o_storeId ord) (storeWallets s),
            tfind (\<lambda>t. swt_reference t = Some (settlement_ref ord)) (storeWalletTxs s)) of
        (Some w, Some t) \<Rightarrow> createStoreWalletTx (sw_id w) (swt_amount t) DEBIT (reversal_ref ord) (Some (o_id ord))
            (Note ''Settlement reversal after customer cancellation'') (incrementStoreWallet (sw_id w) (- swt_amount t) s)
      | _ \<Rightarrow> Inr s)"

definition reverseCashback :: "nat \<Rightarrow> db \<Rightarrow> db" where
  "reverseCashback orderId s = s\<lparr>cashbacks := tupdate (\<lambda>c. cb_orderId c = orderId \<and> cb_status c = ''AVAILABLE'')
     (\<lambda>c. c\<lparr>cb_status := ''REVERSED''\<rparr>) (cashbacks s)\<rparr>"

definition withdrawOrder :: "time \<Rightarrow> nat \<Rightarrow> order \<Rightarrow> string \<Rightarrow> db \<Rightarrow> db result" where
  "withdrawOrder now userId ord reason s =
     ebind (eiter restockItem (order_lines (o_id ord) s) s) (\<lambda>s1.
     Inr (pushHistory (o_id ord) (o_currentStatus ord) CANCELLED (Some userId) (Some reason)
       (cancelFulfilment (o_id ord) (setOrderStatus now (o_id ord) CANCELLED s1))))"

definition refund_target :: "nat \<Rightarrow> db \<Rightarrow> (allocation \<times> payment_group \<times> nat) option" where
  "refund_target orderId s = Option.bind (order_group orderId s) (\<lambda>(al, g). map_option (\<lambda>pid. (al, g, pid)) (g_paymentId g))"

definition refundCancelled :: "nat \<Rightarrow> order \<Rightarrow> string \<Rightarrow> nat \<Rightarrow> decimal \<Rightarrow> bool \<Rightarrow> bool \<Rightarrow> (string \<times> nat) tx" where
  "refundCancelled userId ord reason pid amount isWallet isKlump s1 =
     ebind (if isWallet then creditReward userId (o_total ord) (cancel_ref (o_id ord)) (''Refund for '' @ o_orderNumber ord) s1
            else Inr s1) (\<lambda>s2.
     ebind (upsertOrderRefund ord userId pid amount isWallet isKlump reason s2) (\<lambda>(refund, s3).
     ebind (if rf_status refund = R_SUCCEEDED then markRefunded pid s3 else Inr s3) (\<lambda>s4.
     ebind (reverseSettlement ord s4) (\<lambda>s5.
     Inr ((if isWallet then ''refunded'' else refund_label (rf_status refund), rf_id refund),
       reverseCashback (o_id ord) s5)))))"

definition cancelInTransaction :: "time \<Rightarrow> nat \<Rightarrow> nat \<Rightarrow> string \<Rightarrow> (string \<times> nat) tx" where
  "cancelInTransaction now userId orderId reason s =
     ebind (orThrow (tfind (\<lambda>x. o_id x = orderId \<and> o_userId x = userId) (orders s)) (NotFound ''Order not found.'')) (\<lambda>ord.
     require (o_currentStatus ord \<in> {CONFIRMED, PREPARING}) (BadRequest ''This order can no longer be cancelled.'') (
     ebind (withdrawOrder now userId ord reason s) (\<lambda>s1.
     ebind (orThrow (refund_target orderId s) (Conflict ''The order payment cannot be located for refund.'')) (\<lambda>(al, g, pid).
     refundCancelled userId ord reason pid (al_amount al) (g_paymentMethod g = WALLET)
       (map_option pay_provider (tfind (\<lambda>p. pay_id p = pid) (payments s)) = Some KLUMP) s1))))"

definition cancel_order :: "refund_env \<Rightarrow> time \<Rightarrow> nat \<Rightarrow> nat \<Rightarrow> string \<Rightarrow> (string \<times> nat) handler" where
  "cancel_order env now userId orderId reason =
     hbind (transaction (cancelInTransaction now userId orderId reason)) (\<lambda>(label, refundId).
     if label = ''pending''
     then hcatch (hbind (processRefund env refundId) (\<lambda>r. hreturn (refund_label (rf_status r), refundId)))
            (\<lambda>_. hreturn (''failed'', refundId))
     else hbind (notifyUser (rv_push env) userId ''ORDER_CANCELLED''
            (if label = ''manual_review'' then ''Refund under review'' else ''Refund completed'') None) (\<lambda>_.
          hreturn (label, refundId)))"

section \<open>Returns\<close>

definition return_window :: time where
  "return_window = 14 * 24 * 60 * 60 * 1000"

definition valid_return :: "order_item list \<Rightarrow> nat \<times> int \<Rightarrow> bool" where
  "valid_return items = (\<lambda>(itemId, q). case List.find (\<lambda>i. oi_id i = itemId) items of
     None \<Rightarrow> False | Some i \<Rightarrow> \<not> (q < 1 \<or> int (oi_quantity i) < q))"

definition requestReturn :: "time \<Rightarrow> nat \<Rightarrow> nat \<Rightarrow> string \<Rightarrow> (nat \<times> int) list \<Rightarrow> order_return handler" where
  "requestReturn now userId orderId reason items s =
     (case (ebind (orThrow (tfind (\<lambda>x. o_id x = orderId \<and> o_userId x = userId) (orders s)) (NotFound ''Order not found.'')) (\<lambda>ord.
            require (o_currentStatus ord \<in> {DELIVERED, COMPLETED}) (BadRequest ''Only delivered orders can be returned.'') (
            require (\<not> return_window < now - o_updatedAt ord) (BadRequest ''The 14-day return window has expired.'') (
            require (tfind (\<lambda>r. rt_orderId r = orderId \<and> rt_status r \<in> {''PENDING'', ''APPROVED''}) (orderReturns s) = None)
              (Conflict ''An active return request already exists for this order.'') (
            require (list_all (valid_return (order_lines orderId s)) items)
              (BadRequest ''Return items or quantities are invalid.'') (
            Inr (\<lambda>i. \<lparr>rt_id = i, rt_orderId = orderId, rt_userId = userId, rt_reason = reason,
                rt_items = map (\<lambda>(k, q). (k, nat q)) items, rt_status = ''PENDING''\<rparr>))))))) of
        Inl e \<Rightarrow> (Inl e, s)
      | Inr mk \<Rightarrow> (Inr (mk (next_id (orderReturns s))), s\<lparr>orderReturns := tinsert mk (orderReturns s)\<rparr>))"

section \<open>Moves along the order table\<close>

text \<open>
  What the order table promises of a change of the database: every order that was there is there
  still, in a status the table reaches from its old one.
\<close>

definition order_moves :: "db \<Rightarrow> db \<Rightarrow> bool" where
  "order_moves s s' \<longleftrightarrow> (\<forall>k a. status_of k s = Some a \<longrightarrow>
     (\<exists>ys. status_path ORDER_STATUS_TRANSITIONS a ys \<and> status_of k s' = Some (last (a # ys))))"

lemma order_moves_same: "(\<And>k. status_of k s' = status_of k s) \<Longrightarrow> order_moves s s'"
  unfolding order_moves_def by (auto intro!: exI [of _ "[]"])

lemma order_moves_refl [simp]: "order_moves s s"
  by (rule order_moves_same) simp

lemma order_moves_orders: "orders s' = orders s \<Longrightarrow> order_moves s s'"
  by (rule order_moves_same) (simp add: status_of_def)

lemma order_moves_trans:
  assumes "order_moves s t" and "order_moves t u"
  shows "order_moves s u"
  unfolding order_moves_def
proof (intro allI impI)
  fix k a assume "status_of k s = Some a"
  then obtain ys where ys: "status_path ORDER_STATUS_TRANSITIONS a ys" "status_of k t = Some (last (a # ys))"
    using assms(1) unfolding order_moves_def by blast
  then obtain zs where zs: "status_path ORDER_STATUS_TRANSITIONS (last (a # ys)) zs" "status_of k u = Some (last (last (a # ys) # zs))"
    using assms(2) unfolding order_moves_def by blast
  have "last (a # ys @ zs) = last (last (a # ys) # zs)" by (cases zs) simp_all
  then show "\<exists>ys. status_path ORDER_STATUS_TRANSITIONS a ys \<and> status_of k u = Some (last (a # ys))"
    using ys zs by (intro exI [of _ "ys @ zs"]) (simp add: order_machine.path_append)
qed

lemma order_moves_set:
  assumes "status_of oid s = Some a" and "canTransitionOrder a b" and "\<And>k. status_of k s' = (if k = oid then Some b else status_of k s)"
  shows "order_moves s s'"
  unfolding order_moves_def
proof (intro allI impI)
  fix k a' assume k: "status_of k s = Some a'"
  show "\<exists>ys. status_path ORDER_STATUS_TRANSITIONS a' ys \<and> status_of k s' = Some (last (a' # ys))"
  proof (cases "k = oid")
    case True
    then have "a' = a" using k assms(1) by simp
    then show ?thesis using True assms(2,3) by (intro exI [of _ "[b]"]) (simp add: canTransitionOrder_def)
  next
    case False
    then show ?thesis using k assms(3) by (intro exI [of _ "[]"]) simp
  qed
qed

lemma order_moves_tupdate:
  assumes "orders s' = tupdate (\<lambda>x. o_id x = oid \<and> Q x) (\<lambda>x. x\<lparr>o_currentStatus := b, o_updatedAt := now\<rparr>) (orders s)"
    and "\<And>x. Q x \<Longrightarrow> canTransitionOrder (o_currentStatus x) b"
  shows "order_moves s s'"
  unfolding order_moves_def
proof (intro allI impI)
  fix k a assume "status_of k s = Some a"
  then obtain x where x: "tfind (\<lambda>x. o_id x = k) (orders s) = Some x" "a = o_currentStatus x" by (auto simp: status_of_def)
  have "tfind (\<lambda>x. o_id x = k) (orders s') = Some (if o_id x = oid \<and> Q x then x\<lparr>o_currentStatus := b, o_updatedAt := now\<rparr> else x)"
    using x(1) by (simp add: assms(1) tfind_tupdate)
  then have "status_of k s' = Some (if o_id x = oid \<and> Q x then b else a)" by (simp add: status_of_def x(2))
  moreover have "canTransitionOrder a b" if "Q x" using assms(2) that x(2) by simp
  ultimately show "\<exists>ys. status_path ORDER_STATUS_TRANSITIONS a ys \<and> status_of k s' = Some (last (a # ys))"
    by (intro exI [of _ "if o_id x = oid \<and> Q x then [b] else []"]) (auto simp: canTransitionOrder_def)
qed

lemma setOrderStatus_moves:
  assumes "tfind (\<lambda>x. o_id x = oid) (orders s) = Some ord" and "canTransitionOrder (o_currentStatus ord) b"
    and "orders s' = orders (setOrderStatus now oid b s)"
  shows "order_moves s s'"
proof (rule order_moves_set [of oid s "o_currentStatus ord" b])
  show "status_of oid s = Some (o_currentStatus ord)" using assms(1) by (simp add: status_of_def)
  then show "status_of k s' = (if k = oid then Some b else status_of k s)" for k
    using status_of_setOrderStatus [of k now oid b s] assms(3) by (auto simp: status_of_def)
qed (fact assms(2))

section \<open>Cancelling an order\<close>

lemma keyed_find_and:
  assumes "tkeyed key t" and "tfind (\<lambda>x. key x = k \<and> Q x) t = Some r"
  shows "tfind (\<lambda>x. key x = k) t = Some r"
  using keyed_table.find_unique [of key t r] assms tfind_SomeD [OF assms(2)] by auto

lemma withdrawOrder_effect:
  assumes "withdrawOrder now u ord reason s = Inr s1"
  shows "stock k s1 = stock k s + line_quantity k (order_lines (o_id ord) s)"
    and "status_of j s1 = (if j = o_id ord then map_option (\<lambda>_. CANCELLED) (status_of j s) else status_of j s)"
    and "\<exists>a b c d e f. s1 = s\<lparr>storeProducts := a, orders := b, deliveries := c, pickups := d, qrCredentials := e, statusHistory := f\<rparr>"
    and "orders s1 = orders (setOrderStatus now (o_id ord) CANCELLED s)"
proof -
  obtain s0 where r: "eiter restockItem (order_lines (o_id ord) s) s = Inr s0"
    and s1: "s1 = pushHistory (o_id ord) (o_currentStatus ord) CANCELLED (Some u) (Some reason)
       (cancelFulfilment (o_id ord) (setOrderStatus now (o_id ord) CANCELLED s0))"
    using assms by (auto simp: withdrawOrder_def tx_simps)
  obtain sps where s0: "s0 = s\<lparr>storeProducts := sps\<rparr>" by (rule restock_frame [OF r])
  note defs = s1 pushHistory_def cancelFulfilment_def setOrderStatus_def
  show "stock k s1 = stock k s + line_quantity k (order_lines (o_id ord) s)"
    using restock_all [OF r, of k] by (simp add: defs stock_def)
  have "status_of j s1 = status_of j (setOrderStatus now (o_id ord) CANCELLED s0)" "status_of j s0 = status_of j s"
    by (simp_all add: s1 status_of_def pushHistory_def cancelFulfilment_def s0)
  then show "status_of j s1 = (if j = o_id ord then map_option (\<lambda>_. CANCELLED) (status_of j s) else status_of j s)"
    by (auto simp: status_of_setOrderStatus)
  have "s1 = s\<lparr>storeProducts := storeProducts s1, orders := orders s1, deliveries := deliveries s1, pickups := pickups s1,
      qrCredentials := qrCredentials s1, statusHistory := statusHistory s1\<rparr>" by (simp add: defs s0)
  then show "\<exists>a b c d e f. s1 = s\<lparr>storeProducts := a, orders := b, deliveries := c, pickups := d, qrCredentials := e, statusHistory := f\<rparr>"
    by blast
  show "orders s1 = orders (setOrderStatus now (o_id ord) CANCELLED s)" by (simp add: defs s0)
qed

lemma upsertOrderRefund_effect:
  assumes "upsertOrderRefund ord u p a w kl reason s = Inr (r, s')"
  shows "\<exists>x. s' = s\<lparr>refunds := x\<rparr>" and "tfind (\<lambda>r. rf_orderId r = o_id ord) (refunds s') = Some r"
proof -
  have "s' = s\<lparr>refunds := refunds s'\<rparr>" "tfind (\<lambda>r. rf_orderId r = o_id ord) (refunds s') = Some r"
    using assms by (auto simp: upsertOrderRefund_def Let_def tx_simps tfind_tinsert split: option.splits)
  then show "\<exists>x. s' = s\<lparr>refunds := x\<rparr>" "tfind (\<lambda>r. rf_orderId r = o_id ord) (refunds s') = Some r" by blast+
qed

lemma markRefunded_frame: "markRefunded p s = Inr s' \<Longrightarrow> \<exists>x. s' = s\<lparr>payments := x\<rparr>"
  by (auto simp: markRefunded_def tx_simps updatePayment_def)

definition settled_amount :: "order \<Rightarrow> db \<Rightarrow> decimal" where
  "settled_amount ord s = (case tfind (\<lambda>t. swt_reference t = Some (settlement_ref ord)) (storeWalletTxs s) of
     None \<Rightarrow> 0 | Some t \<Rightarrow> swt_amount t)"

lemma reverseSettlement_effect:
  assumes "store_wallet_ok s" and "reverseSettlement ord s = Inr s'"
  shows "\<exists>x y. s' = s\<lparr>storeWallets := x, storeWalletTxs := y\<rparr>" and "store_wallet_ok s'"
    and "tfind (\<lambda>w. sw_storeId w = o_storeId ord) (storeWallets s) \<noteq> None \<Longrightarrow>
      store_balance (o_storeId ord) s' = store_balance (o_storeId ord) s - settled_amount ord s"
proof -
  consider (rev) w t where "tfind (\<lambda>w. sw_storeId w = o_storeId ord) (storeWallets s) = Some w"
      "tfind (\<lambda>t. swt_reference t = Some (settlement_ref ord)) (storeWalletTxs s) = Some t"
      "createStoreWalletTx (sw_id w) (swt_amount t) DEBIT (reversal_ref ord) (Some (o_id ord))
            (Note ''Settlement reversal after customer cancellation'') (incrementStoreWallet (sw_id w) (- swt_amount t) s) = Inr s'"
    | (none) "s' = s" "tfind (\<lambda>w. sw_storeId w = o_storeId ord) (storeWallets s) = None \<or> settled_amount ord s = 0"
    using assms(2) by (auto simp: reverseSettlement_def settled_amount_def split: option.splits)
  then have "(\<exists>x y. s' = s\<lparr>storeWallets := x, storeWalletTxs := y\<rparr>) \<and> store_wallet_ok s' \<and>
    (tfind (\<lambda>w. sw_storeId w = o_storeId ord) (storeWallets s) \<noteq> None \<longrightarrow>
      store_balance (o_storeId ord) s' = store_balance (o_storeId ord) s - settled_amount ord s)"
  proof cases
    case rev
    have "store_wallet_off (sw_id w) (0 + - swt_amount t) (incrementStoreWallet (sw_id w) (- swt_amount t) s)"
      by (rule incrementStoreWallet_off [OF store_wallet_found_off [OF assms(1) rev(1)]])
    from createStoreWalletTx_off [OF this rev(3)] have ok: "store_wallet_ok s'" by (intro store_wallet_off_ok [of "sw_id w"]) simp
    have f: "\<exists>x y. s' = s\<lparr>storeWallets := x, storeWalletTxs := y\<rparr>"
      using rev(3) by (auto simp: createStoreWalletTx_def tx_simps incrementStoreWallet_def)
    have "storeWallets s' = tupdate (\<lambda>x. sw_id x = sw_id w) (\<lambda>x. x\<lparr>sw_balance := sw_balance x + - swt_amount t\<rparr>) (storeWallets s)"
      using rev(3) by (auto simp: createStoreWalletTx_def tx_simps incrementStoreWallet_def)
    then have "tfind (\<lambda>x. sw_storeId x = o_storeId ord) (storeWallets s') = Some (w\<lparr>sw_balance := sw_balance w + - swt_amount t\<rparr>)"
      using rev(1) by (simp add: tfind_tupdate)
    then show ?thesis using ok f rev(1,2) by (simp add: store_balance_def settled_amount_def)
  next
    case none
    have "s = s\<lparr>storeWallets := storeWallets s, storeWalletTxs := storeWalletTxs s\<rparr>" by simp
    then have "\<exists>x y. s = s\<lparr>storeWallets := x, storeWalletTxs := y\<rparr>" by blast
    then show ?thesis using none assms(1) by auto
  qed
  then show "\<exists>x y. s' = s\<lparr>storeWallets := x, storeWalletTxs := y\<rparr>" "store_wallet_ok s'"
    "tfind (\<lambda>w. sw_storeId w = o_storeId ord) (storeWallets s) \<noteq> None \<Longrightarrow>
      store_balance (o_storeId ord) s' = store_balance (o_storeId ord) s - settled_amount ord s" by blast+
qed

lemma refundCancelled_steps:
  assumes "refundCancelled u ord reason pid amount isWallet isKlump s1 = Inr ((label, rid), s')" and "wallet_ok s1"
  obtains refund s2 s3 s4 s5 where
    "wallet_ok s2" "\<forall>v. user_balance v s2 = user_balance v s1 + (if v = u \<and> isWallet then o_total ord else 0)"
    "\<exists>x y. s2 = s1\<lparr>wallets := x, walletTxs := y\<rparr>" "\<exists>x. s3 = s2\<lparr>refunds := x\<rparr>"
    "tfind (\<lambda>r. rf_orderId r = o_id ord) (refunds s3) = Some refund" "rf_id refund = rid" "\<exists>x. s4 = s3\<lparr>payments := x\<rparr>"
    "reverseSettlement ord s4 = Inr s5" "s' = reverseCashback (o_id ord) s5"
proof -
  obtain s2 refund s3 s4 s5 where c:
    "(if isWallet then creditReward u (o_total ord) (cancel_ref (o_id ord)) (''Refund for '' @ o_orderNumber ord) s1 else Inr s1) = Inr s2"
    "upsertOrderRefund ord u pid amount isWallet isKlump reason s2 = Inr (refund, s3)"
    "(if rf_status refund = R_SUCCEEDED then markRefunded pid s3 else Inr s3) = Inr s4"
    "reverseSettlement ord s4 = Inr s5" "rf_id refund = rid" "s' = reverseCashback (o_id ord) s5"
    using assms(1) unfolding refundCancelled_def by (auto elim!: ebindE)
  have same: "s1 = s1\<lparr>wallets := wallets s1, walletTxs := walletTxs s1\<rparr>" "s3 = s3\<lparr>payments := payments s3\<rparr>" by simp_all
  have "wallet_ok s2 \<and> (\<forall>v. user_balance v s2 = user_balance v s1 + (if v = u \<and> isWallet then o_total ord else 0)) \<and>
      (\<exists>x y. s2 = s1\<lparr>wallets := x, walletTxs := y\<rparr>)"
  proof (cases isWallet)
    case True
    then have "creditReward u (o_total ord) (cancel_ref (o_id ord)) (''Refund for '' @ o_orderNumber ord) s1 = Inr s2" using c(1) by simp
    from creditReward_effect [OF assms(2) this] show ?thesis using True by simp
  next
    case False
    then have "s2 = s1" using c(1) by simp
    moreover have "\<exists>x y. s1 = s1\<lparr>wallets := x, walletTxs := y\<rparr>" by (intro exI) (rule same(1))
    ultimately show ?thesis using False assms(2) by simp
  qed
  moreover have "\<exists>x. s4 = s3\<lparr>payments := x\<rparr>"
  proof (cases "rf_status refund = R_SUCCEEDED")
    case True
    then have "markRefunded pid s3 = Inr s4" using c(3) by simp
    then show ?thesis by (rule markRefunded_frame)
  next
    case False
    then have "s4 = s3" using c(3) by simp
    then show ?thesis by (intro exI [of _ "payments s3"]) simp
  qed
  ultimately show thesis
    using that [of s2 s3 refund s4 s5] c(4-6) upsertOrderRefund_effect [OF c(2)] by blast
qed

lemma cancel_steps:
  assumes "cancelInTransaction now u oid reason s = Inr (x, s')"
  obtains ord al g pid kl s1 where
    "tfind (\<lambda>x. o_id x = oid \<and> o_userId x = u) (orders s) = Some ord" "o_currentStatus ord \<in> {CONFIRMED, PREPARING}"
    "order_group oid s = Some (al, g)" "withdrawOrder now u ord reason s = Inr s1" "g_paymentId g = Some pid"
    "refundCancelled u ord reason pid (al_amount al) (g_paymentMethod g = WALLET) kl s1 = Inr (x, s')"
proof -
  obtain ord s1 al g pid kl where "tfind (\<lambda>x. o_id x = oid \<and> o_userId x = u) (orders s) = Some ord"
    "o_currentStatus ord \<in> {CONFIRMED, PREPARING}" "withdrawOrder now u ord reason s = Inr s1" "refund_target oid s = Some (al, g, pid)"
    "refundCancelled u ord reason pid (al_amount al) (g_paymentMethod g = WALLET) kl s1 = Inr (x, s')"
    using assms unfolding cancelInTransaction_def by (auto elim!: ebindE simp: require_Inr_iff orThrow_Inr_iff)
  then show thesis using that by (auto simp: refund_target_def bind_eq_Some_conv)
qed

text \<open>
  (C18) A customer cancels a paid order that is not ready yet: the whole stock of its lines comes
  back, the order is cancelled, the order total goes to the customer's wallet exactly when the
  wallet paid it and no other balance moves, what the store had been credited for the order is
  taken back from it, both ledgers stay consistent, one refund row stands for the order, and the
  order cannot be cancelled again.
\<close>

theorem cancel_undoes_order:
  assumes "cancelInTransaction now u oid reason s = Inr ((label, rid), s')" and "wallet_ok s" and "store_wallet_ok s"
    and "tkeyed o_id (orders s)"
  shows "\<exists>ord al g. tfind (\<lambda>x. o_id x = oid) (orders s) = Some ord \<and> o_userId ord = u \<and> order_group oid s = Some (al, g) \<and>
    o_currentStatus ord \<in> {CONFIRMED, PREPARING} \<and> status_of oid s' = Some CANCELLED \<and> order_moves s s' \<and>
    (\<forall>k. stock k s' = stock k s + line_quantity k (order_lines oid s)) \<and>
    (\<forall>v. user_balance v s' = user_balance v s + (if v = u \<and> g_paymentMethod g = WALLET then o_total ord else 0)) \<and>
    (tfind (\<lambda>w. sw_storeId w = o_storeId ord) (storeWallets s) \<noteq> None \<longrightarrow>
       store_balance (o_storeId ord) s' = store_balance (o_storeId ord) s - settled_amount ord s) \<and>
    wallet_ok s' \<and> store_wallet_ok s' \<and> map_option rf_id (tfind (\<lambda>r. rf_orderId r = oid) (refunds s')) = Some rid \<and>
    cancelInTransaction now' u oid reason' s' = Inl (BadRequest ''This order can no longer be cancelled.'')"
proof -
  obtain ord al g pid kl s1 where c1:
    "tfind (\<lambda>x. o_id x = oid \<and> o_userId x = u) (orders s) = Some ord" "o_currentStatus ord \<in> {CONFIRMED, PREPARING}"
    "order_group oid s = Some (al, g)" "withdrawOrder now u ord reason s = Inr s1" "g_paymentId g = Some pid"
    "refundCancelled u ord reason pid (al_amount al) (g_paymentMethod g = WALLET) kl s1 = Inr ((label, rid), s')"
    by (rule cancel_steps [OF assms(1)])
  have oid: "o_id ord = oid" using c1(1) by (auto dest: tfind_SomeD)
  obtain a b d e f h where s1: "s1 = s\<lparr>storeProducts := a, orders := b, deliveries := d, pickups := e, qrCredentials := f, statusHistory := h\<rparr>"
    using withdrawOrder_effect(3) [OF c1(4)] by blast
  have "wallet_ok s1" using assms(2) by (simp add: s1 wallet_ok_def)
  with c1(6) obtain refund s2 s3 s4 s5 where c2:
    "wallet_ok s2" "\<forall>v. user_balance v s2 = user_balance v s1 + (if v = u \<and> g_paymentMethod g = WALLET then o_total ord else 0)"
    "\<exists>x y. s2 = s1\<lparr>wallets := x, walletTxs := y\<rparr>" "\<exists>x. s3 = s2\<lparr>refunds := x\<rparr>"
    "tfind (\<lambda>r. rf_orderId r = oid) (refunds s3) = Some refund" "rf_id refund = rid" "\<exists>x. s4 = s3\<lparr>payments := x\<rparr>"
    "reverseSettlement ord s4 = Inr s5" "s' = reverseCashback oid s5"
    unfolding oid [symmetric] by (rule refundCancelled_steps)
  note c = c1(1-4) c2
  note w = withdrawOrder_effect [OF c(4)]
  have ord: "tfind (\<lambda>x. o_id x = oid) (orders s) = Some ord" "o_id ord = oid" "o_userId ord = u"
    using keyed_find_and [OF assms(4) c(1)] tfind_SomeD [OF c(1)] by auto
  obtain x y z p where s4: "s4 = s1\<lparr>wallets := x, walletTxs := y, refunds := z, payments := p\<rparr>" and s3: "refunds s4 = refunds s3"
    "wallets s4 = wallets s2" "walletTxs s4 = walletTxs s2" using c(7,8,11) by auto
  have "store_wallet_ok s4" using assms(3) by (simp add: s4 s1 store_wallet_ok_def)
  note r = reverseSettlement_effect [OF this c(12)]
  obtain q t where s5: "s5 = s4\<lparr>storeWallets := q, storeWalletTxs := t\<rparr>" using r(1) by blast
  have sto: "store_balance k s4 = store_balance k s" "settled_amount ord s4 = settled_amount ord s" for k
    by (simp_all add: s4 s1 store_balance_def settled_amount_def)
  have st: "status_of k s' = status_of k s1" "stock k s' = stock k s1" for k by (simp_all add: c(13) reverseCashback_def s5 s4 status_of_def stock_def)
  have can: "status_of oid s' = Some CANCELLED" using w(2) ord(1,2) st by (simp add: status_of_def)
  have "order_moves s s'"
  proof (rule order_moves_set)
    show "status_of oid s = Some (o_currentStatus ord)" using ord(1) by (simp add: status_of_def)
    then show "status_of k s' = (if k = oid then Some CANCELLED else status_of k s)" for k using w(2) ord(2) st by simp
    show "canTransitionOrder (o_currentStatus ord) CANCELLED" using c(2) by (auto simp: canTransitionOrder_def)
  qed
  moreover have "user_balance v s' = user_balance v s2" "user_balance v s1 = user_balance v s" for v
    using s3 by (simp_all add: c(13) reverseCashback_def s5 user_balance_def s1)
  moreover have "wallet_ok s'" using c(5) s3 by (simp add: c(13) reverseCashback_def s5 wallet_ok_def)
  moreover have "store_wallet_ok s'" "store_balance k s' = store_balance k s5" for k
    using r(2) by (simp_all add: c(13) reverseCashback_def store_wallet_ok_def store_balance_def)
  moreover have "storeWallets s4 = storeWallets s" by (simp add: s4 s1)
  moreover have "map_option rf_id (tfind (\<lambda>r. rf_orderId r = oid) (refunds s')) = Some rid"
    using c(9,10) s3 by (simp add: c(13) reverseCashback_def s5)
  moreover have "cancelInTransaction now' u oid reason' s' = Inl (BadRequest ''This order can no longer be cancelled.'')"
  proof -
    have "orders s' = orders s1" by (simp add: c(13) reverseCashback_def s5 s4)
    then have "tfind (\<lambda>x. o_id x = oid \<and> o_userId x = u) (orders s') = Some (ord\<lparr>o_currentStatus := CANCELLED, o_updatedAt := now\<rparr>)"
      using w(4) c(1) ord(2) by (simp add: setOrderStatus_def tfind_tupdate)
    then show ?thesis by (simp add: cancelInTransaction_def)
  qed
  ultimately show ?thesis using ord c(2,3,6) can w(1) st(2) r(3) sto by simp
qed

section \<open>Reordering fills the cart with what is available\<close>

definition line_of :: "nat \<Rightarrow> nat \<Rightarrow> db \<Rightarrow> int" where
  "line_of cid p s = (case tfind (is_line cid p) (cartItems s) of None \<Rightarrow> 0 | Some i \<Rightarrow> int (ci_quantity i))"

lemma addInTransaction_other:
  assumes "addInTransaction cid p q s = Inr s'" and "p' \<noteq> p"
  shows "tfind (is_line cid p') (cartItems s') = tfind (is_line cid p') (cartItems s)"
proof -
  have "tfind (is_line cid p') (tupdate (is_line cid p) (\<lambda>i. i\<lparr>ci_quantity := a, ci_unitPrice := b\<rparr>) t) = tfind (is_line cid p') t" for a b t
    using assms(2) by (intro tfind_tupdate_other) (auto simp: is_line_def)
  moreover have "\<not> is_line cid p' \<lparr>ci_id = a, ci_cartId = cid, ci_storeProductId = p, ci_quantity = b, ci_unitPrice = c\<rparr>" for a b c
    using assms(2) by (simp add: is_line_def)
  ultimately show ?thesis using assms
    by (auto simp: addInTransaction_def validateQuantity_def Let_def tx_simps tfind_tinsert split: option.splits)
qed

lemma addInTransaction_line:
  assumes "addInTransaction cid p q s = Inr s'"
  shows "line_of cid p' s' = line_of cid p' s + (if p' = p then q else 0)" and "carts s' = carts s"
proof -
  obtain offer line where a: "tfind (is_line cid p) (cartItems s') = Some line"
    "int (ci_quantity line) = (case tfind (is_line cid p) (cartItems s) of None \<Rightarrow> 0 | Some i \<Rightarrow> int (ci_quantity i)) + q"
    "carts s' = carts s" using addInTransaction_quantity [OF assms] by metis
  then show "line_of cid p' s' = line_of cid p' s + (if p' = p then q else 0)" "carts s' = carts s"
    using addInTransaction_other [OF assms, of p'] by (auto simp: line_of_def)
qed

lemma reorder_items_effect:
  assumes "reorder_items cid items s = Inr ((added, skipped), s')" and "cart_inv_but cid s"
  shows "cart_inv_but cid s' \<and> items \<in> shuffles added (map fst skipped) \<and> carts s' = carts s \<and>
    line_of cid p s' = line_of cid p s + line_quantity p added \<and> (\<forall>i \<in> set added. 1 \<le> oi_quantity i)"
  using assms
proof (induction items arbitrary: s added skipped)
  case Nil
  then show ?case by (simp add: line_quantity_def)
next
  case (Cons i items)
  show ?case
  proof (cases "addInTransaction cid (oi_storeProductId i) (int (oi_quantity i)) s")
    case (Inl e)
    then obtain sk m where r: "reorder_items cid items s = Inr ((added, sk), s')" "skipped = (i, m) # sk"
      using Cons.prems(1) by (auto simp: tx_simps split: if_splits)
    from Cons.IH [OF r(1) Cons.prems(2)] show ?thesis by (auto simp: r(2) intro: Cons_in_shuffles_rightI)
  next
    case (Inr s1)
    then obtain ad where r: "reorder_items cid items s1 = Inr ((ad, skipped), s')" "added = i # ad"
      using Cons.prems(1) by (auto simp: tx_simps)
    have "1 \<le> oi_quantity i" using Inr by (simp add: addInTransaction_def validateQuantity_def tx_simps)
    then show ?thesis
      using Cons.IH [OF r(1) addInTransaction_but [OF Cons.prems(2) Inr]] addInTransaction_line(1) [OF Inr, of p] addInTransaction_line(2) [OF Inr]
      by (auto simp: r(2) line_quantity_def intro: Cons_in_shuffles_leftI)
  qed
qed

text \<open>
  Reordering goes through the lines of the old order one by one: each ends up either among
  the added or among the skipped lines, in the order they had; the cart gains exactly the
  quantities of the added lines, its totals stay the sums over its lines, and the answer is
  \<open>success\<close> only when nothing was skipped.
\<close>

theorem reorder_partitions:
  assumes "cart_inv s" and "reorderInTransaction u items s = Inr ((st, view, added, skipped), s')"
  shows "cart_inv s' \<and> items \<in> shuffles added (map fst skipped) \<and> (st = ''success'' \<longleftrightarrow> skipped = []) \<and>
    (\<forall>p. cart_quantity u p s' = cart_quantity u p s + line_quantity p added)"
proof -
  obtain cart s1 s2 where l: "lock u s = Inr (cart, s1)" and a: "reorder_items (c_id cart) items s1 = Inr ((added, skipped), s2)"
    and r: "recalculate (c_id cart) False s2 = Inr (view, s')" and st: "st = (if skipped \<noteq> [] then ''partial'' else ''success'')"
    using assms(2) by (auto simp: reorderInTransaction_def tx_simps)
  note e = reorder_items_effect [OF a lock_inv(3) [OF assms(1) l]]
  have "cart_inv s'" using e recalculate_inv [OF _ r] by blast
  moreover have "cart_quantity u p s' = cart_quantity u p s + line_quantity p added" for p
  proof -
    have f: "tfind (\<lambda>c. c_userId c = u) (carts s1) = Some cart" by (rule lock_find [OF l])
    then have "cart_quantity u p s2 = line_of (c_id cart) p s2" "cart_quantity u p s1 = line_of (c_id cart) p s1"
      using e by (simp_all add: cart_quantity_def line_of_def)
    then show ?thesis using e [of p] recalculate_lines [OF r, of u p] lock_quantity [OF assms(1) l, of p] by simp
  qed
  ultimately show ?thesis using e st by simp
qed

section \<open>Status changes by stores and staff\<close>

lemma notify_each_orders: "(\<And>u s. orders (snd (f u s)) = orders s) \<Longrightarrow> orders (snd (notify_each f us s)) = orders s"
  by (induction us arbitrary: s) (auto split: prod.split, metis snd_conv)

lemma notifyAvailableRiders_orders [simp]: "orders (snd (notifyAvailableRidersForOrder push cfg now oid s)) = orders s"
  by (auto simp: notifyAvailableRidersForOrder_def Let_def case_prod_beta notify_each_orders split: option.split)

lemma setStatus_moves: "order_moves s (snd (setStatus push cfg now actor oid st reason s))"
proof (cases "status_guards actor oid st s")
  case (Inr ord)
  then have "tfind (\<lambda>x. o_id x = oid) (orders s) = Some ord" "canTransitionOrder (o_currentStatus ord) st"
    by (auto simp: status_guards_def tx_simps)
  then show ?thesis
  proof (rule setOrderStatus_moves)
    show "orders (snd (setStatus push cfg now actor oid st reason s)) = orders (setOrderStatus now oid st s)"
      using Inr by (auto simp: setStatus_def Let_def hbind_def hmodify_def hreturn_def pushHistory_def split: sum.split prod.split
          dest!: arg_cong [of "notifyUser _ _ _ _ _ _" _ "\<lambda>p. orders (snd p)"] arg_cong [of "notifyAvailableRidersForOrder _ _ _ _ _" _ "\<lambda>p. orders (snd p)"])
  qed
qed (simp add: setStatus_def)

lemma reward_step_tables [simp]:
  "orders (qualifyReferral u s) = orders s" "deliveries (qualifyReferral u s) = deliveries s"
  "qrCredentials (qualifyReferral u s) = qrCredentials s" "riderEarnings (qualifyReferral u s) = riderEarnings s"
  "wallets (qualifyReferral u s) = wallets s" "statusHistory (qualifyReferral u s) = statusHistory s"
  "orders (addPoints u n s) = orders s" "deliveries (addPoints u n s) = deliveries s"
  "qrCredentials (addPoints u n s) = qrCredentials s" "riderEarnings (addPoints u n s) = riderEarnings s"
  "wallets (addPoints u n s) = wallets s" "statusHistory (addPoints u n s) = statusHistory s"
  "orders (upsertCashback x a b s) = orders s" "deliveries (upsertCashback x a b s) = deliveries s"
  "qrCredentials (upsertCashback x a b s) = qrCredentials s" "riderEarnings (upsertCashback x a b s) = riderEarnings s"
  "wallets (upsertCashback x a b s) = wallets s" "statusHistory (upsertCashback x a b s) = statusHistory s"
  by (simp_all add: qualifyReferral_def addPoints_def upsertCashback_def split: option.split)

lemma completeOrder_tables:
  assumes "completeOrder now ord by reason s = Inr (r, s')"
  shows "orders s' = orders (setOrderStatus now (o_id ord) COMPLETED s)" and "deliveries s' = deliveries s"
    and "qrCredentials s' = qrCredentials s" and "riderEarnings s' = riderEarnings s" and "wallets s' = wallets s"
    and "statusHistory s' = statusHistory (pushHistory (o_id ord) (o_currentStatus ord) COMPLETED by (Some reason) s)"
proof -
  define s1 where "s1 = pushHistory (o_id ord) (o_currentStatus ord) COMPLETED by (Some reason) (setOrderStatus now (o_id ord) COMPLETED s)"
  obtain c a b n where s': "s' = qualifyReferral (o_userId ord) (addPoints (o_userId ord) n (if c then upsertCashback ord a b s1 else s1))"
    using assms unfolding completeOrder_def require_Inr_iff Let_def s1_def [symmetric] by blast
  show "orders s' = orders (setOrderStatus now (o_id ord) COMPLETED s)" "deliveries s' = deliveries s"
    "qrCredentials s' = qrCredentials s" "riderEarnings s' = riderEarnings s" "wallets s' = wallets s"
    "statusHistory s' = statusHistory (pushHistory (o_id ord) (o_currentStatus ord) COMPLETED by (Some reason) s)"
    unfolding s' by (cases c; simp add: s1_def pushHistory_def setOrderStatus_def)+
qed

lemma completeOrder_walletTxs:
  assumes "completeOrder now ord by reason s = Inr (r, s')"
  shows "walletTxs s' = walletTxs s"
proof -
  define s1 where "s1 = pushHistory (o_id ord) (o_currentStatus ord) COMPLETED by (Some reason) (setOrderStatus now (o_id ord) COMPLETED s)"
  obtain c a b n where s': "s' = qualifyReferral (o_userId ord) (addPoints (o_userId ord) n (if c then upsertCashback ord a b s1 else s1))"
    using assms unfolding completeOrder_def require_Inr_iff Let_def s1_def [symmetric] by blast
  have "walletTxs (qualifyReferral u t) = walletTxs t" "walletTxs (addPoints u m t) = walletTxs t" "walletTxs (upsertCashback x y z t) = walletTxs t"
    for u t m x y z by (simp_all add: qualifyReferral_def addPoints_def upsertCashback_def split: option.split)
  then show ?thesis unfolding s' by (cases c) (simp_all add: s1_def pushHistory_def setOrderStatus_def)
qed

lemma refundCancelled_orders:
  assumes "refundCancelled u ord reason pid amount w kl s = Inr (x, s')"
  shows "orders s' = orders s"
proof -
  obtain s2 refund s3 s4 s5 where c:
    "(if w then creditReward u (o_total ord) (cancel_ref (o_id ord)) (''Refund for '' @ o_orderNumber ord) s else Inr s) = Inr s2"
    "upsertOrderRefund ord u pid amount w kl reason s2 = Inr (refund, s3)"
    "(if rf_status refund = R_SUCCEEDED then markRefunded pid s3 else Inr s3) = Inr s4"
    "reverseSettlement ord s4 = Inr s5" "s' = reverseCashback (o_id ord) s5"
    using assms unfolding refundCancelled_def by (auto elim!: ebindE)
  have "orders s2 = orders s"
    using c(1) by (auto simp: creditReward_def upsertCredit_def createWalletTx_def tx_simps split: if_splits option.splits)
  moreover have "orders s3 = orders s2" using upsertOrderRefund_effect(1) [OF c(2)] by auto
  moreover have "orders s4 = orders s3" using c(3) markRefunded_frame [of pid s3 s4] by (auto split: if_splits)
  moreover have "orders s5 = orders s4"
    using c(4) by (auto simp: reverseSettlement_def createStoreWalletTx_def tx_simps incrementStoreWallet_def split: option.splits)
  ultimately show ?thesis by (simp add: c(5) reverseCashback_def)
qed

lemma intervene_moves:
  assumes "interveneInTransaction now oid staff st reason s = Inr (x, s')"
  shows "order_moves s s'"
proof -
  obtain ord rewards s1 where o: "tfind (\<lambda>x. o_id x = oid) (orders s) = Some ord" "canTransitionOrder (o_currentStatus ord) st"
    and r: "(if st = COMPLETED
            then ebind (completeOrder now ord None (''Staff intervention: '' @ reason) s) (\<lambda>(rewards, s1). Inr (Some rewards, s1))
            else Inr (None, pushHistory oid (o_currentStatus ord) st None (Some (''Staff intervention: '' @ reason))
                   (setOrderStatus now oid st s))) = Inr (rewards, s1)" and s': "orders s' = orders s1"
    using assms unfolding interveneInTransaction_def Let_def
    by (elim ebindE) (auto simp: require_Inr_iff orThrow_Inr_iff audit_def elim!: ebindE)
  have "o_id ord = oid" using o(1) by (auto dest: tfind_SomeD)
  then have "orders s1 = orders (setOrderStatus now oid st s)"
    using r by (cases "st = COMPLETED") (auto simp: pushHistory_def dest!: completeOrder_tables(1) elim!: ebindE)
  then show ?thesis using o s' by (intro setOrderStatus_moves [of oid s ord st]) simp_all
qed

lemma cancel_moves:
  assumes "cancelInTransaction now u oid reason s = Inr (x, s')" and "tkeyed o_id (orders s)"
  shows "order_moves s s'"
proof -
  obtain ord al g pid kl s1 where c:
    "tfind (\<lambda>x. o_id x = oid \<and> o_userId x = u) (orders s) = Some ord" "o_currentStatus ord \<in> {CONFIRMED, PREPARING}"
    "order_group oid s = Some (al, g)" "withdrawOrder now u ord reason s = Inr s1" "g_paymentId g = Some pid"
    "refundCancelled u ord reason pid (al_amount al) (g_paymentMethod g = WALLET) kl s1 = Inr (x, s')"
    by (rule cancel_steps [OF assms(1)])
  have "tfind (\<lambda>x. o_id x = o_id ord) (orders s) = Some ord"
    using keyed_find_and [OF assms(2) c(1)] by (rule tfind_key)
  moreover have "orders s' = orders (setOrderStatus now (o_id ord) CANCELLED s)"
    using refundCancelled_orders [OF c(6)] withdrawOrder_effect(4) [OF c(4)] by simp
  moreover have "canTransitionOrder (o_currentStatus ord) CANCELLED" using c(2) by (auto simp: canTransitionOrder_def)
  ultimately show ?thesis by (intro setOrderStatus_moves)
qed

section \<open>Returns\<close>

text \<open>
  A return is asked for by the customer of a delivered order within fourteen days, for lines
  of that order and at most the ordered quantities, and while it is open a second one is refused.
\<close>

theorem return_within_order:
  assumes "requestReturn now u oid reason items s = (Inr r, s')"
  shows "(\<exists>ord. tfind (\<lambda>x. o_id x = oid \<and> o_userId x = u) (orders s) = Some ord \<and> o_currentStatus ord \<in> {DELIVERED, COMPLETED} \<and>
      now \<le> o_updatedAt ord + return_window) \<and>
    (\<forall>(k, q) \<in> set (rt_items r). \<exists>i \<in> set (order_lines oid s). oi_id i = k \<and> 1 \<le> q \<and> q \<le> oi_quantity i) \<and>
    (now' \<le> now \<longrightarrow> requestReturn now' u oid reason' items' s' =
       (Inl (Conflict ''An active return request already exists for this order.''), s'))"
proof -
  obtain ord where o: "tfind (\<lambda>x. o_id x = oid \<and> o_userId x = u) (orders s) = Some ord" "o_currentStatus ord \<in> {DELIVERED, COMPLETED}"
    "\<not> return_window < now - o_updatedAt ord" "list_all (valid_return (order_lines oid s)) items"
    and r: "rt_items r = map (\<lambda>(k, q). (k, nat q)) items" "rt_orderId r = oid" "rt_status r = ''PENDING''"
      "orders s' = orders s" "r \<in> set (rows (orderReturns s'))"
    using assms by (auto simp: requestReturn_def tx_simps split: sum.splits)
  have "\<exists>i \<in> set (order_lines oid s). oi_id i = k \<and> 1 \<le> q \<and> q \<le> oi_quantity i" if "(k, q) \<in> set (rt_items r)" for k q
  proof -
    obtain z where z: "(k, z) \<in> set items" "q = nat z" using \<open>(k, q) \<in> set (rt_items r)\<close> by (auto simp: r(1))
    then have "valid_return (order_lines oid s) (k, z)" using o(4) by (auto simp: list_all_iff)
    then show ?thesis using z(2) by (auto simp: valid_return_def find_Some_iff split: option.splits)
  qed
  moreover have "requestReturn now' u oid reason' items' s' =
       (Inl (Conflict ''An active return request already exists for this order.''), s')" if "now' \<le> now"
  proof -
    have "tfind (\<lambda>r. rt_orderId r = oid \<and> (rt_status r = ''PENDING'' \<or> rt_status r = ''APPROVED'')) (orderReturns s') \<noteq> None"
      using r(2,3,5) unfolding tfind_None_iff by blast
    then show ?thesis using o(1-3) \<open>now' \<le> now\<close> r(4) by (auto simp: requestReturn_def)
  qed
  ultimately show ?thesis using o(1-3) by (auto simp: algebra_simps)
qed

section \<open>Examples\<close>

definition paid_group :: payment_group where
  "paid_group = \<lparr>g_id = 2, g_userId = 7, g_activeCartId = None, g_cartSnapshot = [],
     g_snapshotInput = \<lparr>in_cartId = None, in_fulfillmentType = None, in_deliveryMethod = None, in_addressId = None, in_address = None,
       in_pickupStationId = None, in_paymentMethod = None\<rparr>,
     g_paymentMethod = WALLET, g_totalAmount = 10000, g_discountAmount = 0, g_currency = ''NGN'', g_paymentId = Some 6, g_status = P_PAID\<rparr>"

definition sold_line :: order_item where
  "sold_line = \<lparr>oi_id = 1, oi_orderId = 5, oi_storeProductId = 1, oi_productId = 1, oi_productName = ''Rice'', oi_productCode = None,
     oi_quantity = 2, oi_unitPrice = 5000, oi_totalPrice = 10000\<rparr>"

definition paid_db :: db where
  "paid_db = shop\<lparr>orders := \<lparr>rows = [settled_order], next_id = 6\<rparr>,
     orderItems := \<lparr>rows = [sold_line, sold_line\<lparr>oi_id := 2, oi_storeProductId := 2, oi_quantity := 9\<rparr>], next_id = 3\<rparr>,
     groups := \<lparr>rows = [paid_group], next_id = 3\<rparr>,
     allocations := \<lparr>rows = [\<lparr>al_id = 1, al_paymentGroupId = 2, al_orderId = 5, al_amount = 10000\<rparr>], next_id = 2\<rparr>,
     payments := \<lparr>rows = [\<lparr>pay_id = 6, pay_amount = 10000, pay_currency = ''NGN'', pay_status = P_PAID, pay_paymentMethod = WALLET,
       pay_provider = MANUAL, pay_transactionRef = Some ''T'', pay_providerRef = None, pay_paymentUrl = None, pay_metadata = no_meta,
       pay_failureReason = None, pay_createdAt = 0\<rparr>], next_id = 7\<rparr>,
     storeWallets := \<lparr>rows = [\<lparr>sw_id = 1, sw_storeId = 1, sw_balance = 8250\<rparr>], next_id = 2\<rparr>,
     storeWalletTxs := \<lparr>rows = [\<lparr>swt_id = 1, swt_walletId = 1, swt_amount = 8250, swt_type = CREDIT,
       swt_reference = Some ''ORDER-PUR-1'', swt_orderId = Some 5, swt_description = Note ''settlement''\<rparr>], next_id = 2\<rparr>\<rparr>"

abbreviation "cancelled_order \<equiv> cancelInTransaction 9 7 5 ''late'' paid_db"

theorem cancel_undoes_order_witness:
  "\<not> isl cancelled_order \<and> stock 1 (snd (projr cancelled_order)) = stock 1 paid_db + 2 \<and>
   user_balance 7 (snd (projr cancelled_order)) = user_balance 7 paid_db + 10000 \<and>
   store_balance 1 (snd (projr cancelled_order)) = store_balance 1 paid_db - 8250"
proof -
  have ok: "\<not> isl cancelled_order" by code_simp
  then have run: "cancelled_order = Inr ((fst (fst (projr cancelled_order)), snd (fst (projr cancelled_order))), snd (projr cancelled_order))"
    by (cases cancelled_order) auto
  have w: "wallet_ok paid_db" "store_wallet_ok paid_db" "tkeyed o_id (orders paid_db)"
    by (simp_all add: paid_db_def shop_def wallet_ok_def store_wallet_ok_def ledger_off_def ledger_sum_def store_effect_def tkeyed_def
        empty_db_def tempty_def settled_order_def)
  have e: "tfind (\<lambda>x. o_id x = 5) (orders paid_db) = Some settled_order" "order_group 5 paid_db = Some (\<lparr>al_id = 1, al_paymentGroupId = 2, al_orderId = 5, al_amount = 10000\<rparr>, paid_group)" "g_paymentMethod paid_group = WALLET"
    "tfind (\<lambda>w. sw_storeId w = 1) (storeWallets paid_db) \<noteq> None" "settled_amount settled_order paid_db = 8250"
    "line_quantity 1 (order_lines 5 paid_db) = 2"
    by (simp_all add: paid_db_def tfind_def settled_order_def order_group_def paid_group_def settled_amount_def settlement_ref_def
        line_quantity_def order_lines_def tfilter_def sold_line_def)
  obtain ord al g where t: "tfind (\<lambda>x. o_id x = 5) (orders paid_db) = Some ord" "order_group 5 paid_db = Some (al, g)"
    "\<forall>k. stock k (snd (projr cancelled_order)) = stock k paid_db + line_quantity k (order_lines 5 paid_db)"
    "\<forall>v. user_balance v (snd (projr cancelled_order)) = user_balance v paid_db + (if v = 7 \<and> g_paymentMethod g = WALLET then o_total ord else 0)"
    "tfind (\<lambda>w. sw_storeId w = o_storeId ord) (storeWallets paid_db) \<noteq> None \<longrightarrow>
       store_balance (o_storeId ord) (snd (projr cancelled_order)) = store_balance (o_storeId ord) paid_db - settled_amount ord paid_db"
    using cancel_undoes_order [OF run w, of 9 "''late''"] by blast
  have "ord = settled_order" using t(1) e(1) by simp
  moreover have "o_total settled_order = 10000" "o_storeId settled_order = 1" by (simp_all add: settled_order_def)
  ultimately show ?thesis using t e ok by simp
qed

abbreviation "reordered \<equiv> reorderInTransaction 7 (order_lines 5 paid_db) paid_db"

theorem reorder_partitions_witness:
  "\<not> isl reordered \<and> fst (fst (projr reordered)) = ''partial'' \<and>
   cart_quantity 7 1 (snd (projr reordered)) = cart_quantity 7 1 paid_db + 2"
proof -
  have ok: "\<not> isl reordered" "fst (fst (projr reordered)) = ''partial''" by code_simp+
  have a: "fst (snd (snd (fst (projr reordered)))) = [sold_line]" by code_simp
  from ok obtain st v ad sk s' where run: "reordered = Inr ((st, v, ad, sk), s')" by (cases reordered) auto
  have "cart_inv paid_db" using shop_inv by (simp add: paid_db_def cart_inv_def cart_rows_ok_def totals_ok_def items_of_def)
  from reorder_partitions [OF this run] run ok a show ?thesis by (simp add: line_quantity_def sold_line_def)
qed

definition done_db :: db where
  "done_db = paid_db\<lparr>orders := \<lparr>rows = [settled_order\<lparr>o_currentStatus := DELIVERED\<rparr>], next_id = 6\<rparr>\<rparr>"

theorem return_within_order_witness:
  "fst (requestReturn 1000 7 5 ''broken'' [(1, 1)] (snd (requestReturn 1000 7 5 ''broken'' [(1, 1)] done_db))) =
     Inl (Conflict ''An active return request already exists for this order.'') \<and>
   \<not> isl (fst (requestReturn 1000 7 5 ''broken'' [(1, 1)] done_db))"
proof -
  have ok: "\<not> isl (fst (requestReturn 1000 7 5 ''broken'' [(1, 1)] done_db))" by code_simp
  then have "requestReturn 1000 7 5 ''broken'' [(1, 1)] done_db =
      (Inr (projr (fst (requestReturn 1000 7 5 ''broken'' [(1, 1)] done_db))), snd (requestReturn 1000 7 5 ''broken'' [(1, 1)] done_db))"
    by (cases "requestReturn 1000 7 5 ''broken'' [(1, 1)] done_db"; cases "fst (requestReturn 1000 7 5 ''broken'' [(1, 1)] done_db)") auto
  from return_within_order [OF this, of 1000 "''broken''" "[(1, 1)]"] ok show ?thesis by simp
qed

end
