(* ===== verification/Scanning.thy ===== *)
theory Scanning
  imports Orders
begin

text \<open>
  Packing and handing over an order with QR codes and product scans
  (\<^verbatim>\<open>src/scanning/scanning.service.ts\<close>).  The hash of a token and the fresh token are parameters.  A
  phase is the string \<open>PACKING\<close> or \<open>RIDER_PICKUP\<close>; a request names a store exactly in the first.
\<close>

section \<open>Payloads\<close>

text \<open>
  What \<open>new URL(p).searchParams.get(k)\<close> gives for an address with a host: the text between the
  first \<open>?\<close> and the first \<open>#\<close>, cut into pairs and decoded.  A host with a character that
  no host may have makes the address invalid.
\<close>

definition hex_value :: "char \<Rightarrow> nat option" where
  "hex_value c = (let n = of_char c :: nat in
     if 48 \<le> n \<and> n \<le> 57 then Some (n - 48) else if 65 \<le> n \<and> n \<le> 70 then Some (n - 55)
     else if 97 \<le> n \<and> n \<le> 102 then Some (n - 87) else None)"

fun form_decode :: "string \<Rightarrow> string" where
  "form_decode (c # a # b # cs) =
     (if c = CHR ''+'' then CHR '' '' # form_decode (a # b # cs)
      else if c = CHR ''%'' then
        (case (hex_value a, hex_value b) of
           (Some x, Some y) \<Rightarrow> char_of (16 * x + y) # form_decode cs
         | _ \<Rightarrow> c # form_decode (a # b # cs))
      else c # form_decode (a # b # cs))"
| "form_decode cs = map (\<lambda>c. if c = CHR ''+'' then CHR '' '' else c) cs"

definition url_host :: "string \<Rightarrow> string" where
  "url_host rest = takeWhile (\<lambda>c. c \<notin> {CHR ''/'', CHR ''?'', CHR ''#''}) rest"

definition valid_host :: "string \<Rightarrow> bool" where
  "valid_host h \<longleftrightarrow> list_all (\<lambda>c. c \<notin> {CHR '' '', CHR ''<'', CHR ''>'', CHR ''['', CHR '']'', CHR ''^'', CHR ''|''}) h"

definition search_pairs :: "string \<Rightarrow> (string \<times> string) list" where
  "search_pairs rest =
     (let query = takeWhile (\<lambda>c. c \<noteq> CHR ''#'') (tl (dropWhile (\<lambda>c. c \<noteq> CHR ''?'') (takeWhile (\<lambda>c. c \<noteq> CHR ''#'') rest)))
      in map (\<lambda>p. (form_decode (takeWhile (\<lambda>c. c \<noteq> CHR ''='') p), form_decode (tl (dropWhile (\<lambda>c. c \<noteq> CHR ''='') p))))
           (filter (\<lambda>p. p \<noteq> []) (split_at CHR ''&'' query)))"

definition scheme :: string where
  "scheme = ''purse://''"

definition search_param :: "string \<Rightarrow> string \<Rightarrow> string option result" where
  "search_param url k =
     (let rest = drop (length scheme) url
      in if valid_host (url_host rest) then Inr (map_of (search_pairs rest) k) else Inl (ProviderError ''Invalid URL''))"

definition token_of :: "string \<Rightarrow> string result" where
  "token_of payload =
     (let trimmed = trim payload
      in if take (length scheme) trimmed \<noteq> scheme then Inr trimmed
         else (case search_param trimmed ''token'' of
           Inr (Some v) \<Rightarrow> if v = [] then Inl (BadRequest ''Malformed order QR payload.'') else Inr v
         | _ \<Rightarrow> Inl (BadRequest ''Malformed order QR payload.'')))"

text \<open>A fresh token is base64url text, which \<open>encodeURIComponent\<close> leaves as it is.\<close>

definition base64url :: "string \<Rightarrow> bool" where
  "base64url t \<longleftrightarrow> t \<noteq> [] \<and> list_all (\<lambda>c. let n = of_char c :: nat in
     48 \<le> n \<and> n \<le> 57 \<or> 65 \<le> n \<and> n \<le> 90 \<or> 97 \<le> n \<and> n \<le> 122 \<or> c = CHR ''-'' \<or> c = CHR ''_'') t"

definition qr_payload :: "string \<Rightarrow> string" where
  "qr_payload token = scheme @ ''order-handoff?token='' @ token"

section \<open>Issuing a QR code\<close>

definition qr_lifetime :: time where
  "qr_lifetime = 30 * 60 * 1000"

definition live_credential :: "time \<Rightarrow> nat \<Rightarrow> string \<Rightarrow> qr_credential \<Rightarrow> bool" where
  "live_credential now orderId purpose q \<longleftrightarrow>
     qc_orderId q = orderId \<and> qc_purpose q = purpose \<and> qc_status q = ''ACTIVE'' \<and> now < qc_expiresAt q"

text \<open>The token hash is a unique column.\<close>

definition issue_qr :: "(string \<Rightarrow> string) \<Rightarrow> time \<Rightarrow> string \<Rightarrow> nat \<Rightarrow> string \<Rightarrow> bool \<Rightarrow> (qr_credential \<times> string) handler" where
  "issue_qr hash now token orderId purpose force s =
     (if tfind (live_credential now orderId purpose) (qrCredentials s) \<noteq> None \<and> \<not> force
      then (Inl (Conflict ''A valid QR already exists. Regenerate it to replace the current credential.''), s)
      else
        let s1 = (if force then s\<lparr>qrCredentials := tupdate (\<lambda>q. qc_orderId q = orderId \<and> qc_purpose q = purpose \<and> qc_status q = ''ACTIVE'')
                    (\<lambda>q. q\<lparr>qc_status := ''REVOKED''\<rparr>) (qrCredentials s)\<rparr> else s);
            mk = (\<lambda>i. \<lparr>qc_id = i, qc_orderId = orderId, qc_purpose = purpose, qc_tokenHash = hash token, qc_status = ''ACTIVE'',
              qc_expiresAt = now + qr_lifetime, qc_consumedById = None\<rparr>)
        in if tfind (\<lambda>q. qc_tokenHash q = hash token) (qrCredentials s1) \<noteq> None then (Inl UniqueViolation, s1)
           else (Inr (mk (next_id (qrCredentials s1)), qr_payload token), s1\<lparr>qrCredentials := tinsert mk (qrCredentials s1)\<rparr>))"

definition order_delivery :: "nat \<Rightarrow> db \<Rightarrow> delivery option" where
  "order_delivery orderId s = tfind (\<lambda>d. d_orderId d = orderId) (deliveries s)"

definition customerQr :: "(string \<Rightarrow> string) \<Rightarrow> time \<Rightarrow> string \<Rightarrow> nat \<Rightarrow> nat \<Rightarrow> bool \<Rightarrow> (qr_credential \<times> string) handler" where
  "customerQr hash now token userId orderId regenerate s =
     (case tfind (\<lambda>x. o_id x = orderId \<and> o_userId x = userId) (orders s) of
        None \<Rightarrow> (Inl (NotFound ''Order not found.''), s)
      | Some ord \<Rightarrow>
          let delivered = (order_delivery orderId s \<noteq> None)
          in if (if delivered then o_currentStatus ord = OUT_FOR_DELIVERY else o_currentStatus ord = READY_FOR_PICKUP)
             then issue_qr hash now token orderId (if delivered then ''CUSTOMER_DELIVERY'' else ''STORE_PICKUP'') regenerate s
             else (Inl (BadRequest (if delivered
                then ''The customer delivery QR becomes available when the order is out for delivery.''
                else ''The collection QR becomes available when the order is ready for pickup.'')), s))"

definition storeAccess :: "nat \<Rightarrow> nat \<Rightarrow> db \<Rightarrow> unit result" where
  "storeAccess userId storeId s =
     require (tfind (\<lambda>st. st_id st = storeId \<and> store_operator userId st) (stores s) \<noteq> None)
       (Forbidden ''Store access is required.'') (Inr ())"

definition handoffQr :: "(string \<Rightarrow> string) \<Rightarrow> time \<Rightarrow> string \<Rightarrow> nat \<Rightarrow> nat \<Rightarrow> nat \<Rightarrow> (qr_credential \<times> string) handler" where
  "handoffQr hash now token userId storeId orderId s =
     hbind (hlift (ebind (storeAccess userId storeId s) (\<lambda>_.
       ebind (orThrow (tfind (\<lambda>x. o_id x = orderId \<and> o_storeId x = storeId) (orders s)) (NotFound ''Order not found.'')) (\<lambda>ord.
       require (o_currentStatus ord \<in> {READY_FOR_PICKUP, RIDER_ASSIGNED}) (BadRequest ''Order is not ready for rider handoff.'') (Inr ())))))
       (\<lambda>_. issue_qr hash now token orderId ''RIDER_PICKUP'' True) s"

section \<open>Checklists\<close>

definition riderOrder :: "nat \<Rightarrow> nat \<Rightarrow> db \<Rightarrow> (order \<times> delivery) result" where
  "riderOrder riderId orderId s =
     (case (tfind (\<lambda>x. o_id x = orderId) (orders s), order_delivery orderId s) of
        (Some ord, Some d) \<Rightarrow> require (d_riderId d = Some riderId) (Forbidden ''This order is not assigned to the rider.'') (Inr (ord, d))
      | _ \<Rightarrow> Inl (Forbidden ''This order is not assigned to the rider.''))"

record checklist_row =
  cl_orderItemId :: nat
  cl_barcode :: "string option"
  cl_expected :: nat
  cl_scanned :: nat
  cl_complete :: bool

definition scanned :: "string \<Rightarrow> nat \<Rightarrow> db \<Rightarrow> nat" where
  "scanned phase itemId s = tsum (\<lambda>x. if is_orderItemId x = itemId \<and> is_phase x = phase \<and> is_status x = ''VERIFIED''
     then is_quantity x else 0) (itemScans s)"

definition line_offer :: "order_item \<Rightarrow> db \<Rightarrow> store_product option" where
  "line_offer i s = tfind (\<lambda>p. sp_id p = oi_storeProductId i) (storeProducts s)"

definition line_barcode :: "order_item \<Rightarrow> db \<Rightarrow> string option" where
  "line_barcode i s = (case line_offer i s of None \<Rightarrow> None
     | Some sp \<Rightarrow> (case sp_barcode sp of Some b \<Rightarrow> Some b
         | None \<Rightarrow> (case Option.bind (product_of sp s) p_barcode of Some b \<Rightarrow> Some b | None \<Rightarrow> sp_sku sp)))"

definition checklist_of :: "string \<Rightarrow> nat \<Rightarrow> db \<Rightarrow> checklist_row list" where
  "checklist_of phase orderId s = map (\<lambda>i. \<lparr>cl_orderItemId = oi_id i, cl_barcode = line_barcode i s, cl_expected = oi_quantity i,
     cl_scanned = scanned phase (oi_id i) s, cl_complete = (oi_quantity i \<le> scanned phase (oi_id i) s)\<rparr>) (order_lines orderId s)"

definition checklist :: "nat \<Rightarrow> nat \<Rightarrow> nat option \<Rightarrow> db \<Rightarrow> checklist_row list result" where
  "checklist actorId orderId storeId s = (case storeId of
     None \<Rightarrow> ebind (riderOrder actorId orderId s) (\<lambda>_. Inr (checklist_of ''RIDER_PICKUP'' orderId s))
   | Some k \<Rightarrow>
       ebind (orThrow (tfind (\<lambda>x. o_id x = orderId \<and> o_storeId x = k) (orders s)) (NotFound ''Order not found.'')) (\<lambda>ord.
       ebind (storeAccess actorId (o_storeId ord) s) (\<lambda>_. Inr (checklist_of ''PACKING'' orderId s))))"

section \<open>Scanning\<close>

text \<open>Every scan of an order's QR leaves a row, also a rejected one.\<close>

definition scanOrder :: "(string \<Rightarrow> string) \<Rightarrow> time \<Rightarrow> nat \<Rightarrow> string \<Rightarrow> (qr_credential \<times> checklist_row list) handler" where
  "scanOrder hash now riderId payload s =
     (case token_of payload of
        Inl e \<Rightarrow> (Inl e, s)
      | Inr token \<Rightarrow> (case tfind (\<lambda>q. qc_tokenHash q = hash token) (qrCredentials s) of
          None \<Rightarrow> (Inl (NotFound ''Order QR is invalid.''), s)
        | Some q \<Rightarrow>
            let failure = (if qc_status q \<noteq> ''ACTIVE'' then Some ''QR is no longer active.''
                  else if qc_expiresAt q \<le> now then Some ''QR has expired.''
                  else if Option.bind (order_delivery (qc_orderId q) s) d_riderId \<noteq> Some riderId
                  then Some ''Order is not assigned to this rider.'' else None);
                s1 = s\<lparr>orderScans := tinsert (\<lambda>i. \<lparr>os_id = i, os_orderId = qc_orderId q, os_credentialId = Some (qc_id q), os_actorId = riderId,
                  os_purpose = qc_purpose q, os_outcome = (if failure = None then ''VERIFIED'' else ''REJECTED''),
                  os_failureReason = failure\<rparr>) (orderScans s)\<rparr>
            in case failure of
                 Some f \<Rightarrow> (Inl (Forbidden f), s1)
               | None \<Rightarrow> (case checklist riderId (qc_orderId q) None s1 of Inl e \<Rightarrow> (Inl e, s1) | Inr c \<Rightarrow> (Inr (q, c), s1))))"

definition code_matches :: "string \<Rightarrow> db \<Rightarrow> order_item \<Rightarrow> bool" where
  "code_matches code s i \<longleftrightarrow> oi_productCode i = Some code \<or>
     (case line_offer i s of None \<Rightarrow> False
      | Some sp \<Rightarrow> sp_barcode sp = Some code \<or> sp_sku sp = Some code \<or> Option.bind (product_of sp s) p_barcode = Some code)"

definition scanItem :: "nat \<Rightarrow> nat \<Rightarrow> nat option \<Rightarrow> string \<Rightarrow> nat \<Rightarrow> checklist_row list tx" where
  "scanItem actorId orderId storeId code quantity s =
     ebind (checklist actorId orderId storeId s) (\<lambda>_.
     let phase = (if storeId = None then ''RIDER_PICKUP'' else ''PACKING''); normalized = toUpperCase (trim code)
     in ebind (orThrow (tfind (\<lambda>i. oi_orderId i = orderId \<and> code_matches normalized s i) (orderItems s))
          (BadRequest ''Scanned product is not part of this order.'')) (\<lambda>item.
        require (\<not> oi_quantity item < scanned phase (oi_id item) s + quantity) (Conflict ''Scan quantity exceeds the ordered quantity.'') (
        let s1 = s\<lparr>itemScans := tinsert (\<lambda>i. \<lparr>is_id = i, is_orderItemId = oi_id item, is_storeProductId = oi_storeProductId item,
              is_actorId = actorId, is_phase = phase, is_barcode = normalized, is_quantity = quantity, is_status = ''VERIFIED''\<rparr>) (itemScans s)\<rparr>
        in ebind (checklist actorId orderId storeId s1) (\<lambda>c. Inr (c, s1)))))"

section \<open>Packing, pickup and delivery\<close>

definition packing_guards :: "nat \<Rightarrow> nat \<Rightarrow> nat \<Rightarrow> db \<Rightarrow> (order \<times> checklist_row list) result" where
  "packing_guards actorId storeId orderId s =
     ebind (checklist actorId orderId (Some storeId) s) (\<lambda>rs.
     require (list_all cl_complete rs) (Conflict ''Every order item must be scanned before packing is completed.'') (
     ebind (orThrow (tfind (\<lambda>x. o_id x = orderId) (orders s)) RecordNotFound) (\<lambda>ord.
     require (o_currentStatus ord \<in> {CONFIRMED, PREPARING}) (BadRequest ''Order cannot be marked ready from its current state.'') (
     Inr (ord, rs)))))"

definition completePacking :: "(nat \<Rightarrow> exn option) \<Rightarrow> rider_settings \<Rightarrow> time \<Rightarrow> nat \<Rightarrow> nat \<Rightarrow> nat \<Rightarrow> (checklist_row list) handler" where
  "completePacking push cfg now actorId storeId orderId s =
     (case packing_guards actorId storeId orderId s of
        Inl e \<Rightarrow> (Inl e, s)
      | Inr (ord, rs) \<Rightarrow>
          hbind (hmodify (\<lambda>s. pushHistory orderId (o_currentStatus ord) READY_FOR_PICKUP (Some actorId)
            (Some ''All products scanned and packing completed.'') (setOrderStatus now orderId READY_FOR_PICKUP s))) (\<lambda>_.
          hbind (notifyUser (push (o_userId ord)) (o_userId ord) ''ORDER_STATUS_UPDATE'' ''Order ready for pickup''
            (Some (status_event orderId READY_FOR_PICKUP))) (\<lambda>_.
          hbind (notifyAvailableRidersForOrder push cfg now orderId) (\<lambda>_. hreturn rs))) s)"

definition validCredential :: "(string \<Rightarrow> string) \<Rightarrow> time \<Rightarrow> nat \<Rightarrow> string \<Rightarrow> string \<Rightarrow> db \<Rightarrow> qr_credential result" where
  "validCredential hash now orderId purpose payload s =
     ebind (token_of payload) (\<lambda>token.
     ebind (orThrow (tfind (\<lambda>q. qc_tokenHash q = hash token) (qrCredentials s))
       (Forbidden ''QR credential is invalid or already used.'')) (\<lambda>q.
     require (qc_orderId q = orderId \<and> qc_purpose q = purpose \<and> qc_status q = ''ACTIVE'')
       (Forbidden ''QR credential is invalid or already used.'') (
     require (\<not> qc_expiresAt q \<le> now) (Forbidden ''QR credential has expired.'') (Inr q))))"

definition consumeCredential :: "time \<Rightarrow> nat \<Rightarrow> nat \<Rightarrow> db \<Rightarrow> db result" where
  "consumeCredential now credentialId riderId s =
     (let P = (\<lambda>q. qc_id q = credentialId \<and> qc_status q = ''ACTIVE'' \<and> now < qc_expiresAt q)
      in require (tcount P (qrCredentials s) \<noteq> 0) (Conflict ''QR credential was already consumed.'')
           (Inr (s\<lparr>qrCredentials := tupdate P (\<lambda>q. q\<lparr>qc_status := ''CONSUMED'', qc_consumedById := Some riderId\<rparr>) (qrCredentials s)\<rparr>)))"

definition progressDelivery :: "time \<Rightarrow> nat \<Rightarrow> order_status \<Rightarrow> (delivery \<Rightarrow> delivery) \<Rightarrow> db \<Rightarrow> db result" where
  "progressDelivery now orderId st f s =
     require (order_delivery orderId s \<noteq> None) RecordNotFound
       (Inr (setOrderStatus now orderId st s\<lparr>deliveries := tupdate (\<lambda>d. d_orderId d = orderId) f (deliveries s)\<rparr>))"

definition pickup_guards :: "(string \<Rightarrow> string) \<Rightarrow> time \<Rightarrow> nat \<Rightarrow> nat \<Rightarrow> string \<Rightarrow> db \<Rightarrow> (order \<times> qr_credential \<times> checklist_row list) result" where
  "pickup_guards hash now riderId orderId payload s =
     ebind (riderOrder riderId orderId s) (\<lambda>(ord, d).
     ebind (validCredential hash now orderId ''RIDER_PICKUP'' payload s) (\<lambda>q.
     ebind (checklist riderId orderId None s) (\<lambda>rs.
     require (list_all cl_complete rs) (Conflict ''Every item must be scanned before pickup confirmation.'') (
     require (o_currentStatus ord \<in> {READY_FOR_PICKUP, RIDER_ASSIGNED}) (BadRequest ''Order is not ready for rider pickup.'') (
     Inr (ord, q, rs))))))"

definition confirmPickup :: "(string \<Rightarrow> string) \<Rightarrow> time \<Rightarrow> nat \<Rightarrow> nat \<Rightarrow> string \<Rightarrow> (checklist_row list) tx" where
  "confirmPickup hash now riderId orderId payload s =
     ebind (pickup_guards hash now riderId orderId payload s) (\<lambda>(ord, q, rs).
     ebind (consumeCredential now (qc_id q) riderId s) (\<lambda>s1.
     ebind (progressDelivery now orderId PICKED_UP (\<lambda>d. d\<lparr>d_status := D_PICKED_UP, d_pickedUpAt := Some now\<rparr>) s1) (\<lambda>s2.
     Inr (rs, pushHistory orderId (o_currentStatus ord) PICKED_UP (Some riderId)
       (Some ''Rider QR and product checklist verified.'') s2))))"

definition delivery_guards :: "(string \<Rightarrow> string) \<Rightarrow> time \<Rightarrow> nat \<Rightarrow> nat \<Rightarrow> string \<Rightarrow> db \<Rightarrow> (order \<times> delivery \<times> qr_credential) result" where
  "delivery_guards hash now riderId orderId payload s =
     ebind (riderOrder riderId orderId s) (\<lambda>(ord, d).
     ebind (validCredential hash now orderId ''CUSTOMER_DELIVERY'' payload s) (\<lambda>q.
     require (o_currentStatus ord = OUT_FOR_DELIVERY) (BadRequest ''Order is not ready for delivery confirmation.'') (
     Inr (ord, d, q))))"

definition deliverInTransaction :: "time \<Rightarrow> nat \<Rightarrow> order \<Rightarrow> delivery \<Rightarrow> qr_credential \<Rightarrow> (decimal \<times> int) tx" where
  "deliverInTransaction now riderId ord d q s =
     ebind (consumeCredential now (qc_id q) riderId s) (\<lambda>s1.
     ebind (progressDelivery now (o_id ord) DELIVERED (\<lambda>d. d\<lparr>d_status := D_DELIVERED, d_deliveredAt := Some now\<rparr>) s1) (\<lambda>s2.
     ebind (releaseRiderEarning (d_id d) s2) (\<lambda>s3.
     completeOrder now (ord\<lparr>o_currentStatus := DELIVERED\<rparr>) None ''System completed the order after customer QR verification.''
       (pushHistory (o_id ord) (o_currentStatus ord) DELIVERED (Some riderId) (Some ''Customer delivery QR verified.'') s3))))"

definition confirmDelivery :: "(string \<Rightarrow> string) \<Rightarrow> exn option \<Rightarrow> time \<Rightarrow> nat \<Rightarrow> nat \<Rightarrow> string \<Rightarrow> unit handler" where
  "confirmDelivery hash push now riderId orderId payload s =
     (case delivery_guards hash now riderId orderId payload s of
        Inl e \<Rightarrow> (Inl e, s)
      | Inr (ord, d, q) \<Rightarrow>
          hbind (transaction (deliverInTransaction now riderId ord d q)) (\<lambda>(cashback, points).
          hbind (notifyUser push (o_userId ord) ''DELIVERY_COMPLETED'' ''Order delivered''
            (Some (''delivery-completed:'' @ show_nat orderId))) (\<lambda>_.
          if 0 < points \<or> cashback \<noteq> 0
          then notifyUser push (o_userId ord) ''REWARD_UPDATE'' ''Rewards earned'' (Some (''rewards-earned:'' @ show_nat orderId))
          else hreturn ())) s)"

section \<open>A payload carries its token\<close>

lemma split_at_none: "d \<notin> set cs \<Longrightarrow> split_at d cs = [cs]"
  by (induction cs) auto

lemma form_decode_plain: "CHR ''+'' \<notin> set cs \<Longrightarrow> CHR ''%'' \<notin> set cs \<Longrightarrow> form_decode cs = cs"
  by (induction cs rule: form_decode.induct) auto

lemma base64url_chars: "base64url t \<Longrightarrow> c \<in> {CHR ''+'', CHR ''%'', CHR ''&'', CHR ''#''} \<Longrightarrow> c \<notin> set t"
  by (auto simp: base64url_def list_all_iff Let_def)

lemma base64url_no_space: "base64url t \<Longrightarrow> \<not> is_space (last t)"
proof -
  assume t: "base64url t"
  then have "last t \<in> set t" by (simp add: base64url_def)
  then have "48 \<le> (of_char (last t) :: nat) \<and> of_char (last t) \<le> (57 :: nat) \<or> 65 \<le> (of_char (last t) :: nat) \<and> of_char (last t) \<le> (90 :: nat) \<or>
      97 \<le> (of_char (last t) :: nat) \<and> of_char (last t) \<le> (122 :: nat) \<or> last t = CHR ''-'' \<or> last t = CHR ''_''"
    using t unfolding base64url_def list_all_iff Let_def by blast
  then show "\<not> is_space (last t)" by (auto simp: is_space_def)
qed

text \<open>
  The payload of an issued QR code gives back the token it was made from, so that the hash
  the service looks up is the stored one.
\<close>

theorem qr_payload_roundtrip:
  assumes "base64url t"
  shows "token_of (qr_payload t) = Inr t"
proof -
  note ne = base64url_chars [OF assms]
  have "trim (qr_payload t) = qr_payload t"
  proof -
    have "t \<noteq> []" using assms by (simp add: base64url_def)
    then obtain u where "rev (qr_payload t) = last t # u"
      by (cases t rule: rev_cases) (simp_all add: qr_payload_def)
    then have "dropWhile is_space (rev (qr_payload t)) = rev (qr_payload t)" using base64url_no_space [OF assms] by simp
    moreover have "dropWhile is_space (qr_payload t) = qr_payload t" by (simp add: qr_payload_def scheme_def is_space_def)
    ultimately show ?thesis by (simp only: trim_def rev_rev_ident)
  qed
  moreover have "take (length scheme) (qr_payload t) = scheme" by (simp add: qr_payload_def)
  moreover have "search_param (qr_payload t) ''token'' = Inr (Some t)"
  proof -
    let ?r = "''order-handoff?token='' @ t"
    have r: "drop (length scheme) (qr_payload t) = ?r" by (simp add: qr_payload_def)
    have h: "url_host ?r = ''order-handoff''" by (simp add: url_host_def)
    have nh: "takeWhile (\<lambda>c. c \<noteq> CHR ''#'') u = u" if "CHR ''#'' \<notin> set u" for u using that by (intro takeWhile_eq_all_conv [THEN iffD2]) auto
    have "CHR ''#'' \<notin> set t" "CHR ''&'' \<notin> set t" "CHR ''+'' \<notin> set t" "CHR ''%'' \<notin> set t" using ne by blast+
    then have "search_pairs ?r = [(''token'', t)]"
      by (simp add: search_pairs_def nh split_at_none form_decode_plain)
    moreover have "valid_host ''order-handoff''" by (simp add: valid_host_def)
    ultimately show ?thesis unfolding search_param_def Let_def r h by simp
  qed
  ultimately show ?thesis using assms by (simp add: token_of_def base64url_def)
qed

theorem qr_payload_roundtrip_witness: "token_of (qr_payload ''aZ0-_9'') = Inr ''aZ0-_9''"
  by (rule qr_payload_roundtrip) (simp add: base64url_def)

section \<open>No line is scanned more than it was ordered\<close>

definition scans_ok :: "db \<Rightarrow> bool" where
  "scans_ok s \<longleftrightarrow> tkeyed oi_id (orderItems s) \<and>
     (\<forall>i \<in> set (rows (orderItems s)). \<forall>phase. scanned phase (oi_id i) s \<le> oi_quantity i)"

datatype scan_op = ScanItem nat nat "nat option" string nat | Pickup time nat nat string

definition scan_step :: "(string \<Rightarrow> string) \<Rightarrow> scan_op \<Rightarrow> db \<Rightarrow> db result" where
  "scan_step hash a s = (case a of
     ScanItem actor oid storeId code q \<Rightarrow> ebind (scanItem actor oid storeId code q s) (\<lambda>(_, s'). Inr s')
   | Pickup now rider oid payload \<Rightarrow> ebind (confirmPickup hash now rider oid payload s) (\<lambda>(_, s'). Inr s'))"

lemma scanned_cong: "itemScans s' = itemScans s \<Longrightarrow> scanned p i s' = scanned p i s"
  by (simp add: scanned_def)

lemma scanItem_cases:
  assumes "scanItem actor oid storeId code q s = Inr (c, s')"
  obtains item phase row where "item \<in> set (order_lines oid s)" "scanned phase (oi_id item) s + q \<le> oi_quantity item"
    "phase = (if storeId = None then ''RIDER_PICKUP'' else ''PACKING'')" "c = checklist_of phase oid s'"
    "s' = s\<lparr>itemScans := tinsert row (itemScans s)\<rparr>"
    "\<forall>p k. scanned p k s' = scanned p k s + (if k = oi_id item \<and> p = phase then q else 0)"
proof -
  define phase where "phase = (if storeId = None then ''RIDER_PICKUP'' else ''PACKING'')"
  obtain item where i: "tfind (\<lambda>i. oi_orderId i = oid \<and> code_matches (toUpperCase (trim code)) s i) (orderItems s) = Some item"
    "\<not> oi_quantity item < scanned phase (oi_id item) s + q"
    and s': "s' = s\<lparr>itemScans := tinsert (\<lambda>i. \<lparr>is_id = i, is_orderItemId = oi_id item, is_storeProductId = oi_storeProductId item,
              is_actorId = actor, is_phase = phase, is_barcode = toUpperCase (trim code), is_quantity = q, is_status = ''VERIFIED''\<rparr>) (itemScans s)\<rparr>"
    and c: "checklist actor oid storeId s' = Inr c"
    using assms unfolding scanItem_def phase_def [symmetric] Let_def by (auto simp: require_Inr_iff orThrow_Inr_iff elim!: ebindE)
  have "item \<in> set (order_lines oid s)" using tfind_SomeD [OF i(1)] by (simp add: order_lines_def tfilter_def)
  moreover have "c = checklist_of phase oid s'"
    using c by (auto simp: checklist_def phase_def tx_simps split: option.splits)
  moreover have "scanned p k s' = scanned p k s + (if k = oi_id item \<and> p = phase then q else 0)" for p k
    by (auto simp: s' scanned_def tsum_tinsert)
  ultimately show thesis using that [OF _ _ phase_def _ s'] i(2) by simp
qed

lemma confirmPickup_cases:
  assumes "confirmPickup hash now rider oid payload s = Inr (rs, s')"
  obtains ord d q s1 where "tfind (\<lambda>x. o_id x = oid) (orders s) = Some ord" "order_delivery oid s = Some d"
    "d_riderId d = Some rider" "o_currentStatus ord \<in> {READY_FOR_PICKUP, RIDER_ASSIGNED}"
    "rs = checklist_of ''RIDER_PICKUP'' oid s" "list_all cl_complete rs" "validCredential hash now oid ''RIDER_PICKUP'' payload s = Inr q"
    "consumeCredential now (qc_id q) rider s = Inr s1"
    "s' = pushHistory oid (o_currentStatus ord) PICKED_UP (Some rider) (Some ''Rider QR and product checklist verified.'')
       (setOrderStatus now oid PICKED_UP s1\<lparr>deliveries := tupdate (\<lambda>d. d_orderId d = oid)
         (\<lambda>d. d\<lparr>d_status := D_PICKED_UP, d_pickedUpAt := Some now\<rparr>) (deliveries s1)\<rparr>)"
proof -
  obtain ord q s1 where g: "pickup_guards hash now rider oid payload s = Inr (ord, q, rs)" and c: "consumeCredential now (qc_id q) rider s = Inr s1"
    and s': "s' = pushHistory oid (o_currentStatus ord) PICKED_UP (Some rider) (Some ''Rider QR and product checklist verified.'')
       (setOrderStatus now oid PICKED_UP s1\<lparr>deliveries := tupdate (\<lambda>d. d_orderId d = oid)
         (\<lambda>d. d\<lparr>d_status := D_PICKED_UP, d_pickedUpAt := Some now\<rparr>) (deliveries s1)\<rparr>)"
    using assms unfolding confirmPickup_def by (auto simp: progressDelivery_def require_Inr_iff elim!: ebindE)
  obtain d where "riderOrder rider oid s = Inr (ord, d)" "validCredential hash now oid ''RIDER_PICKUP'' payload s = Inr q"
    "checklist rider oid None s = Inr rs" "list_all cl_complete rs" "o_currentStatus ord \<in> {READY_FOR_PICKUP, RIDER_ASSIGNED}"
    using g unfolding pickup_guards_def by (auto simp: require_Inr_iff elim!: ebindE)
  note f = this
  have "tfind (\<lambda>x. o_id x = oid) (orders s) = Some ord" "order_delivery oid s = Some d" "d_riderId d = Some rider"
    using f(1) by (auto simp: riderOrder_def tx_simps split: option.splits)
  moreover have "rs = checklist_of ''RIDER_PICKUP'' oid s" using f(3) by (auto simp: checklist_def tx_simps)
  ultimately show thesis using that f(2,4,5) c s' by blast
qed

lemma consumeCredential_frame: "consumeCredential now k r s = Inr s1 \<Longrightarrow> \<exists>x. s1 = s\<lparr>qrCredentials := x\<rparr>"
  by (auto simp: consumeCredential_def Let_def tx_simps)

interpretation scan_system: tx_system "scan_step hash" scans_ok for hash
proof
  fix s s' a assume ok: "scans_ok s" and step: "scan_step hash a s = Inr s'"
  show "scans_ok s'"
  proof (cases a)
    case (ScanItem actor oid storeId code q)
    with step obtain c where "scanItem actor oid storeId code q s = Inr (c, s')" by (auto simp: scan_step_def tx_simps)
    then obtain item phase row where sc: "item \<in> set (order_lines oid s)" "scanned phase (oi_id item) s + q \<le> oi_quantity item"
      "s' = s\<lparr>itemScans := tinsert row (itemScans s)\<rparr>"
      "\<forall>p k. scanned p k s' = scanned p k s + (if k = oi_id item \<and> p = phase then q else 0)" by (rule scanItem_cases)
    have "i = item" if "i \<in> set (rows (orderItems s))" "oi_id i = oi_id item" for i
      using tkeyed_inj [of oi_id "orderItems s" i item] ok that sc(1) by (auto simp: scans_ok_def order_lines_def tfilter_def)
    then show ?thesis using ok sc(2,4) unfolding scans_ok_def by (auto simp: sc(3))
  next
    case (Pickup now rider oid payload)
    with step obtain c where "confirmPickup hash now rider oid payload s = Inr (c, s')" by (auto simp: scan_step_def tx_simps)
    then obtain ord :: order and q :: qr_credential and s1 where c: "consumeCredential now (qc_id q) rider s = Inr s1"
      "s' = pushHistory oid (o_currentStatus ord) PICKED_UP (Some rider) (Some ''Rider QR and product checklist verified.'')
         (setOrderStatus now oid PICKED_UP s1\<lparr>deliveries := tupdate (\<lambda>d. d_orderId d = oid)
         (\<lambda>d. d\<lparr>d_status := D_PICKED_UP, d_pickedUpAt := Some now\<rparr>) (deliveries s1)\<rparr>)" by (rule confirmPickup_cases) (rule that)
    from consumeCredential_frame [OF c(1)] obtain x where "s1 = s\<lparr>qrCredentials := x\<rparr>" ..
    then show ?thesis using ok by (simp add: scans_ok_def scanned_def c(2) pushHistory_def setOrderStatus_def)
  qed
qed


section \<open>A delivery is confirmed once\<close>

lemma completeOrder_points:
  assumes "completeOrder now ord by reason s = Inr ((a, p), s')"
  shows "p = \<lfloor>o_total ord / 1000\<rfloor>" and "points_of v s' = points_of v s + (if v = o_userId ord then p else 0)"
proof -
  define s1 where "s1 = pushHistory (o_id ord) (o_currentStatus ord) COMPLETED by (Some reason) (setOrderStatus now (o_id ord) COMPLETED s)"
  obtain c x y where s': "s' = qualifyReferral (o_userId ord) (addPoints (o_userId ord) p (if c then upsertCashback ord x y s1 else s1))"
    and p: "p = \<lfloor>o_total ord / 1000\<rfloor>"
    using assms unfolding completeOrder_def require_Inr_iff Let_def s1_def [symmetric] by blast
  have "points_of v (qualifyReferral u t) = points_of v t" for u t
    by (simp add: points_of_def qualifyReferral_def split: option.split)
  moreover have "points_of v (upsertCashback ord x y s1) = points_of v s" "points_of v s1 = points_of v s"
    by (simp_all add: points_of_def upsertCashback_def s1_def pushHistory_def setOrderStatus_def)
  ultimately show "points_of v s' = points_of v s + (if v = o_userId ord then p else 0)" by (simp add: s' points_of_addPoints)
  show "p = \<lfloor>o_total ord / 1000\<rfloor>" by (rule p)
qed

lemma releaseRiderEarning_not_held:
  assumes "releaseRiderEarning did s = Inr s'" and "tfind (\<lambda>e. re_deliveryId e = did) (riderEarnings s') = Some e"
  shows "re_status e \<noteq> ''HELD''"
  using assms(1)
proof (cases rule: releaseRiderEarning_cases)
  case skip
  then have "re_status e = ''RELEASED'' \<or> tcount (\<lambda>x. re_id x = re_id e \<and> re_status x = ''HELD'') (riderEarnings s) = 0"
    using assms(2) by simp
  then show ?thesis using assms(2) skip(1) by (auto simp: tcount_zero_iff tfind_None_iff dest!: tfind_SomeD)
next
  case (release x profile w s1 s2)
  have "riderEarnings s' = riderEarnings s1"
    using release(7,8) by (auto simp: createWalletTx_def tx_simps incrementWallet_def)
  then show ?thesis using assms(2) release(1) by (auto simp: release(4) tfind_tupdate split: if_splits)
qed

lemma deliverInTransaction_effect:
  assumes "deliverInTransaction now rider ord d q s = Inr ((cash, points), s')"
    and "tfind (\<lambda>x. o_id x = o_id ord) (orders s) = Some ord" and "o_currentStatus ord = OUT_FOR_DELIVERY"
    and "order_delivery (o_id ord) s = Some d"
  shows "status_of (o_id ord) s' = Some COMPLETED" and "order_moves s s'"
    and "map_option d_status (order_delivery (o_id ord) s') = Some D_DELIVERED"
    and "\<forall>e. tfind (\<lambda>e. re_deliveryId e = d_id d) (riderEarnings s') = Some e \<longrightarrow> re_status e \<noteq> ''HELD''"
    and "wallet_ok s \<Longrightarrow> wallet_ok s'"
    and "points_of v s' = points_of v s + (if v = o_userId ord then \<lfloor>o_total ord / 1000\<rfloor> else 0)"
proof -
  obtain s1 s2 s3 where c: "consumeCredential now (qc_id q) rider s = Inr s1"
    "progressDelivery now (o_id ord) DELIVERED (\<lambda>d. d\<lparr>d_status := D_DELIVERED, d_deliveredAt := Some now\<rparr>) s1 = Inr s2"
    "releaseRiderEarning (d_id d) s2 = Inr s3"
    "completeOrder now (ord\<lparr>o_currentStatus := DELIVERED\<rparr>) None ''System completed the order after customer QR verification.''
       (pushHistory (o_id ord) (o_currentStatus ord) DELIVERED (Some rider) (Some ''Customer delivery QR verified.'') s3) = Inr ((cash, points), s')"
    using assms(1) unfolding deliverInTransaction_def by (auto elim!: ebindE)
  obtain x where s1: "s1 = s\<lparr>qrCredentials := x\<rparr>" using consumeCredential_frame [OF c(1)] by blast
  have s2: "s2 = setOrderStatus now (o_id ord) DELIVERED s1\<lparr>deliveries := tupdate (\<lambda>d. d_orderId d = o_id ord)
      (\<lambda>d. d\<lparr>d_status := D_DELIVERED, d_deliveredAt := Some now\<rparr>) (deliveries s1)\<rparr>"
    using c(2) by (simp add: progressDelivery_def tx_simps)
  note fr = settlement_frameD [OF releaseRiderEarning_frame(1) [OF c(3)]]
  note t = completeOrder_tables [OF c(4)]
  have o3: "orders s3 = orders (setOrderStatus now (o_id ord) DELIVERED s)" by (simp add: fr s2 s1 setOrderStatus_def)
  have "orders s' = orders (setOrderStatus now (o_id ord) COMPLETED s3)" using t(1) by (simp add: pushHistory_def setOrderStatus_def)
  moreover have f3: "tfind (\<lambda>x. o_id x = o_id ord) (orders s3) = Some (ord\<lparr>o_currentStatus := DELIVERED, o_updatedAt := now\<rparr>)"
    using assms(2) by (simp add: o3 setOrderStatus_def tfind_tupdate)
  ultimately have "order_moves s3 s'" by (intro setOrderStatus_moves) (auto simp: canTransitionOrder_def)
  moreover have "order_moves s s3" using assms(2,3) o3 by (intro setOrderStatus_moves) (auto simp: canTransitionOrder_def)
  ultimately show "order_moves s s'" by (blast intro: order_moves_trans)
  show "status_of (o_id ord) s' = Some COMPLETED"
    using t(1) f3 by (simp add: status_of_def pushHistory_def setOrderStatus_def tfind_tupdate)
  have "d_orderId d = o_id ord" using assms(4) by (auto simp: order_delivery_def dest: tfind_SomeD)
  then show "map_option d_status (order_delivery (o_id ord) s') = Some D_DELIVERED"
    using assms(4) t(2) by (simp add: order_delivery_def pushHistory_def fr s2 s1 tfind_tupdate setOrderStatus_def)
  show "\<forall>e. tfind (\<lambda>e. re_deliveryId e = d_id d) (riderEarnings s') = Some e \<longrightarrow> re_status e \<noteq> ''HELD''"
    using releaseRiderEarning_not_held [OF c(3)] t(4) by (simp add: pushHistory_def)
  show "wallet_ok s'" if "wallet_ok s"
  proof -
    have "wallet_ok s3" using that by (intro releaseRiderEarning_wallet_ok [OF c(3)]) (simp add: wallet_ok_def s2 s1 setOrderStatus_def)
    moreover have "walletTxs s' = walletTxs s3" using completeOrder_walletTxs [OF c(4)] by (simp add: pushHistory_def)
    ultimately show ?thesis using t(5) by (simp add: wallet_ok_def pushHistory_def)
  qed
  have "rewardAccounts s3 = rewardAccounts s2" by (subst releaseRiderEarning_frame(1) [OF c(3), unfolded settlement_frame_def]) simp
  then have "rewardAccounts s3 = rewardAccounts s" by (simp add: s2 s1 setOrderStatus_def)
  then show "points_of v s' = points_of v s + (if v = o_userId ord then \<lfloor>o_total ord / 1000\<rfloor> else 0)"
    using completeOrder_points [OF c(4)] by (simp add: points_of_def pushHistory_def)
qed

lemma confirmDelivery_runs:
  assumes "confirmDelivery hash push now rider oid payload s = (Inr (), s')"
  obtains ord d q cash points s1 where "delivery_guards hash now rider oid payload s = Inr (ord, d, q)"
    "deliverInTransaction now rider ord d q s = Inr ((cash, points), s1)" "\<exists>x. s' = s1\<lparr>notifications := x\<rparr>"
proof -
  obtain ord d q where g: "delivery_guards hash now rider oid payload s = Inr (ord, d, q)"
    using assms by (auto simp: confirmDelivery_def split: sum.splits)
  then obtain cash points s1 where t: "deliverInTransaction now rider ord d q s = Inr ((cash, points), s1)"
    using assms by (auto simp: confirmDelivery_def hbind_def transaction_def split: sum.splits)
  let ?n = "\<lambda>s. notifyUser push (o_userId ord) ''DELIVERY_COMPLETED'' ''Order delivered'' (Some (''delivery-completed:'' @ show_nat oid)) s"
  let ?m = "\<lambda>s. notifyUser push (o_userId ord) ''REWARD_UPDATE'' ''Rewards earned'' (Some (''rewards-earned:'' @ show_nat oid)) s"
  have fr: "\<exists>x. snd (?n s1) = s1\<lparr>notifications := x\<rparr>" "\<exists>x. snd (?m t) = t\<lparr>notifications := x\<rparr>" for t
    by (intro exI, rule notifyUser_frame)+
  have "s' = snd (?n s1) \<or> s' = snd (?m (snd (?n s1)))"
    using assms g t by (auto simp: confirmDelivery_def hbind_def transaction_def hreturn_def split: sum.splits prod.splits if_splits)
  then have "\<exists>x. s' = s1\<lparr>notifications := x\<rparr>" using fr(1) fr(2) [of "snd (?n s1)"] by auto
  then show thesis using that g t by blast
qed
text \<open>
  (C19) When the rider confirms a delivery with the customer's code, the order was out for
  delivery and is now completed, the delivery is delivered, no fee of it is held any more, the
  ledger of wallets stays consistent, the customer has earned the points of the order total, and
  the delivery cannot be confirmed a second time, whatever code is shown.
\<close>

theorem delivery_confirmed_once:
  assumes "confirmDelivery hash push now rider oid payload s = (Inr (), s')" and "wallet_ok s"
  shows "\<exists>ord d. tfind (\<lambda>x. o_id x = oid) (orders s) = Some ord \<and> order_delivery oid s = Some d \<and> d_riderId d = Some rider \<and>
    o_currentStatus ord = OUT_FOR_DELIVERY \<and> status_of oid s' = Some COMPLETED \<and> order_moves s s' \<and>
    map_option d_status (order_delivery oid s') = Some D_DELIVERED \<and>
    (\<forall>e. tfind (\<lambda>e. re_deliveryId e = d_id d) (riderEarnings s') = Some e \<longrightarrow> re_status e \<noteq> ''HELD'') \<and> wallet_ok s' \<and>
    points_of (o_userId ord) s' = points_of (o_userId ord) s + \<lfloor>o_total ord / 1000\<rfloor> \<and>
    isl (fst (confirmDelivery hash push' now' rider' oid payload' s'))"
proof -
  obtain ord d q cash points s1 where r: "delivery_guards hash now rider oid payload s = Inr (ord, d, q)"
    "deliverInTransaction now rider ord d q s = Inr ((cash, points), s1)" "\<exists>x. s' = s1\<lparr>notifications := x\<rparr>"
    by (rule confirmDelivery_runs [OF assms(1)])
  have g: "tfind (\<lambda>x. o_id x = oid) (orders s) = Some ord" "order_delivery oid s = Some d" "d_riderId d = Some rider"
    "o_currentStatus ord = OUT_FOR_DELIVERY"
    using r(1) by (auto simp: delivery_guards_def riderOrder_def tx_simps split: option.splits)
  have oid: "o_id ord = oid" using g(1) by (auto dest: tfind_SomeD)
  note e = deliverInTransaction_effect [OF r(2), unfolded oid, OF g(1,4,2)]
  obtain x where s': "s' = s1\<lparr>notifications := x\<rparr>" using r(3) by blast
  have "isl (fst (confirmDelivery hash push' now' rider' oid payload' s'))"
  proof (rule ccontr)
    assume "\<not> isl (fst (confirmDelivery hash push' now' rider' oid payload' s'))"
    then have "confirmDelivery hash push' now' rider' oid payload' s' = (Inr (), snd (confirmDelivery hash push' now' rider' oid payload' s'))"
      by (cases "confirmDelivery hash push' now' rider' oid payload' s'"; cases "fst (confirmDelivery hash push' now' rider' oid payload' s')") auto
    then obtain o' d' q' where "delivery_guards hash now' rider' oid payload' s' = Inr (o', d', q')" by (rule confirmDelivery_runs) (rule that)
    then have "status_of oid s' = Some OUT_FOR_DELIVERY"
      by (auto simp: delivery_guards_def riderOrder_def tx_simps status_of_def split: option.splits)
    moreover have "status_of oid s' = status_of oid s1" by (simp add: s' status_of_def)
    ultimately show False using e(1) by simp
  qed
  moreover have "status_of k s' = status_of k s1" for k by (simp add: s' status_of_def)
  moreover have "order_delivery k s' = order_delivery k s1" "riderEarnings s' = riderEarnings s1" "points_of k s' = points_of k s1"
    "wallet_ok s' = wallet_ok s1" for k by (simp_all add: s' order_delivery_def points_of_def wallet_ok_def)
  ultimately show ?thesis using g e(1,3,4) e(2) e(5) [OF assms(2)] e(6) [of "o_userId ord"] by (simp add: order_moves_def)
qed

lemma completePacking_moves: "order_moves s (snd (completePacking push cfg now actor sid oid s))"
proof (cases "packing_guards actor sid oid s")
  case (Inr p)
  then obtain ord rs where p: "p = (ord, rs)" "tfind (\<lambda>x. o_id x = oid) (orders s) = Some ord" "o_currentStatus ord \<in> {CONFIRMED, PREPARING}"
    by (cases p) (auto simp: packing_guards_def tx_simps)
  have o': "orders (snd (completePacking push cfg now actor sid oid s)) = orders (setOrderStatus now oid READY_FOR_PICKUP s)"
    using Inr by (auto simp: completePacking_def p(1) hbind_def hmodify_def hreturn_def pushHistory_def split: sum.split prod.split
        dest!: arg_cong [of "notifyUser _ _ _ _ _ _" _ "\<lambda>p. orders (snd p)"] arg_cong [of "notifyAvailableRidersForOrder _ _ _ _ _" _ "\<lambda>p. orders (snd p)"])
  show ?thesis unfolding order_moves_def
  proof (intro allI impI)
    fix k a assume k: "status_of k s = Some a"
    have "status_of k (snd (completePacking push cfg now actor sid oid s)) = (if k = oid then Some READY_FOR_PICKUP else Some a)"
    proof -
      have "status_of k (snd (completePacking push cfg now actor sid oid s)) = status_of k (setOrderStatus now oid READY_FOR_PICKUP s)"
        using o' by (simp add: status_of_def)
      then show ?thesis using k by (auto simp: status_of_setOrderStatus)
    qed
    moreover have "status_path ORDER_STATUS_TRANSITIONS a (if a = CONFIRMED then [PREPARING, READY_FOR_PICKUP] else [READY_FOR_PICKUP])" if "k = oid"
      using that k p(2,3) by (auto simp: status_of_def)
    ultimately show "\<exists>ys. status_path ORDER_STATUS_TRANSITIONS a ys \<and>
        status_of k (snd (completePacking push cfg now actor sid oid s)) = Some (last (a # ys))"
      by (intro exI [of _ "if k = oid then (if a = CONFIRMED then [PREPARING, READY_FOR_PICKUP] else [READY_FOR_PICKUP]) else []"]) auto
  qed
qed (simp add: completePacking_def)

text \<open>Packing skips a status of the order table: a confirmed order becomes ready without being prepared.\<close>

lemma packing_skips_preparing: "\<not> canTransitionOrder CONFIRMED READY_FOR_PICKUP"
  by (simp add: canTransitionOrder_def)

section \<open>Examples\<close>

definition qr_of :: "string \<Rightarrow> qr_credential" where
  "qr_of purpose = \<lparr>qc_id = 1, qc_orderId = 5, qc_purpose = purpose, qc_tokenHash = ''T0k'', qc_status = ''ACTIVE'', qc_expiresAt = 5000,
     qc_consumedById = None\<rparr>"

definition handoff_db :: db where
  "handoff_db = job_db\<lparr>orders := \<lparr>rows = [settled_order\<lparr>o_storeId := 3, o_currentStatus := RIDER_ASSIGNED\<rparr>], next_id = 6\<rparr>,
     deliveries := \<lparr>rows = [job\<lparr>d_riderId := Some 12, d_status := D_ASSIGNED\<rparr>], next_id = 10\<rparr>,
     orderItems := \<lparr>rows = [\<lparr>oi_id = 1, oi_orderId = 5, oi_storeProductId = 1, oi_productId = 1, oi_productName = ''Rice'',
       oi_productCode = Some ''R1'', oi_quantity = 2, oi_unitPrice = 5000, oi_totalPrice = 10000\<rparr>], next_id = 2\<rparr>,
     qrCredentials := \<lparr>rows = [qr_of ''RIDER_PICKUP''], next_id = 2\<rparr>\<rparr>"

abbreviation "scans \<equiv> [ScanItem 12 5 None '' r1 '' 1, ScanItem 12 5 None ''R1'' 5, ScanItem 12 5 None ''R1'' 1]"
abbreviation "packed_db \<equiv> run_ops (scan_step id) scans handoff_db"
abbreviation "picked_up \<equiv> confirmPickup id 100 12 5 (qr_payload ''T0k'') packed_db"


definition out_db :: db where
  "out_db = handoff_db\<lparr>orders := \<lparr>rows = [settled_order\<lparr>o_storeId := 3, o_currentStatus := OUT_FOR_DELIVERY\<rparr>], next_id = 6\<rparr>,
     deliveries := \<lparr>rows = [job\<lparr>d_riderId := Some 12, d_status := D_OUT_FOR_DELIVERY\<rparr>], next_id = 10\<rparr>,
     users := \<lparr>rows = [\<lparr>u_id = 7, u_email = ''a@x'', u_firstName = None, u_lastName = None, u_phoneNumber = None, u_status = ACTIVE,
       u_passwordHash = None, u_isEmailVerified = True\<rparr>], next_id = 13\<rparr>,
     riderEarnings := \<lparr>rows = [held_fee], next_id = 2\<rparr>,
     wallets := \<lparr>rows = [\<lparr>w_id = 1, w_userId = 12, w_balance = 0\<rparr>], next_id = 2\<rparr>,
     qrCredentials := \<lparr>rows = [qr_of ''CUSTOMER_DELIVERY''], next_id = 2\<rparr>\<rparr>"

abbreviation "handed_over \<equiv> confirmDelivery id None 100 12 5 (qr_payload ''T0k'') out_db"

theorem delivery_confirmed_once_witness:
  "fst handed_over = Inr () \<and> status_of 5 (snd handed_over) = Some COMPLETED \<and>
   points_of 7 (snd handed_over) = points_of 7 out_db + 10 \<and> isl (fst (confirmDelivery id None 100 12 5 (qr_payload ''T0k'') (snd handed_over)))"
proof -
  have ok: "fst handed_over = Inr ()" by code_simp
  then have run: "handed_over = (Inr (), snd handed_over)" by (cases handed_over) simp
  have w: "wallet_ok out_db" by (simp add: out_db_def handoff_db_def job_db_def empty_db_def tempty_def wallet_ok_def ledger_off_def ledger_sum_def tkeyed_def)
  have o: "tfind (\<lambda>x. o_id x = 5) (orders out_db) = Some (settled_order\<lparr>o_storeId := 3, o_currentStatus := OUT_FOR_DELIVERY\<rparr>)"
    by (simp add: out_db_def tfind_def settled_order_def)
  have "o_userId (settled_order\<lparr>o_storeId := 3, o_currentStatus := OUT_FOR_DELIVERY\<rparr>) = 7"
    "\<lfloor>o_total (settled_order\<lparr>o_storeId := 3, o_currentStatus := OUT_FOR_DELIVERY\<rparr>) / 1000\<rfloor> = 10" by (simp_all add: settled_order_def)
  with delivery_confirmed_once [OF run w, of None 100 12 "qr_payload ''T0k''"] o ok show ?thesis by auto
qed

end
