(* ===== verification/Wallets.thy ===== *)
theory Wallets
  imports Scanning
begin

text \<open>
  The wallets of stores (\<^verbatim>\<open>src/stores/store-wallet.service.ts\<close>) and of riders
  (\<^verbatim>\<open>src/riders/rider-wallet.service.ts\<close>): balances, statements and withdrawal requests.  A request
  reads the balance first and writes in a transaction later, so it is modelled as two steps, the
  check and the commit, which other requests may come between.
\<close>

section \<open>Store wallets\<close>

definition assertOwner :: "nat \<Rightarrow> nat \<Rightarrow> db \<Rightarrow> unit result" where
  "assertOwner userId storeId s =
     require (tfind (\<lambda>st. st_id st = storeId \<and> st_ownerUserId st = userId) (stores s) \<noteq> None)
       (NotFound ''Store not found or you do not own it.'') (Inr ())"

definition requireWallet :: "nat \<Rightarrow> db \<Rightarrow> store_wallet result" where
  "requireWallet storeId s = orThrow (tfind (\<lambda>w. sw_storeId w = storeId) (storeWallets s))
     (BadRequest ''This store does not have a wallet yet. Complete an order first.'')"

definition getStoreWallet :: "nat \<Rightarrow> nat \<Rightarrow> db \<Rightarrow> decimal result" where
  "getStoreWallet userId storeId s = ebind (assertOwner userId storeId s) (\<lambda>_. Inr (store_balance storeId s))"

definition storeTransactions :: "nat \<Rightarrow> nat \<Rightarrow> nat \<Rightarrow> nat \<Rightarrow> db \<Rightarrow> store_wallet_tx listing result" where
  "storeTransactions userId storeId page limit s =
     ebind (assertOwner userId storeId s) (\<lambda>_.
     ebind (requireWallet storeId s) (\<lambda>w.
     Inr (listing_of page limit (rev (tfilter (\<lambda>t. swt_walletId t = sw_id w) (storeWalletTxs s))))))"

text \<open>The two-decimal amount of the request and where it is to be paid.\<close>

record store_withdrawal_input =
  sx_amount :: decimal
  sx_bankName :: string
  sx_accountNumber :: string
  sx_accountName :: string
  sx_mode :: string

definition checkStoreWithdrawal :: "nat \<Rightarrow> nat \<Rightarrow> store_withdrawal_input \<Rightarrow> db \<Rightarrow> store_wallet result" where
  "checkStoreWithdrawal userId storeId dto s =
     ebind (assertOwner userId storeId s) (\<lambda>_.
     ebind (requireWallet storeId s) (\<lambda>w.
     require (\<not> sx_amount dto \<le> 0) (BadRequest ''Withdrawal amount must be greater than zero.'') (
     require (\<not> sw_balance w < sx_amount dto) (BadRequest ''Insufficient balance.'') (Inr w))))"

definition store_withdrawal_ref :: "nat \<Rightarrow> time \<Rightarrow> string" where
  "store_withdrawal_ref storeId now = ''SW-'' @ show_nat storeId @ ''-'' @ show_nat (nat now)"

definition commitStoreWithdrawal :: "time \<Rightarrow> nat \<Rightarrow> nat \<Rightarrow> store_withdrawal_input \<Rightarrow> withdrawal tx" where
  "commitStoreWithdrawal now storeId walletId dto s =
     require (tfind (\<lambda>w. sw_id w = walletId) (storeWallets s) \<noteq> None) RecordNotFound (
     ebind (createStoreWalletTx walletId (sx_amount dto) DEBIT (store_withdrawal_ref storeId now) None
         (Note (''Withdrawal request - '' @ sx_mode dto @ '' mode'')) (incrementStoreWallet walletId (- sx_amount dto) s)) (\<lambda>s1.
     let mk = (\<lambda>i. \<lparr>wd_id = i, wd_ownerId = storeId, wd_amount = sx_amount dto, wd_status = W_PENDING, wd_mode = sx_mode dto,
           wd_bankName = sx_bankName dto, wd_accountNumber = sx_accountNumber dto, wd_accountName = sx_accountName dto\<rparr>)
     in Inr (mk (next_id (storeWithdrawals s1)), s1\<lparr>storeWithdrawals := tinsert mk (storeWithdrawals s1)\<rparr>)))"

definition requestStoreWithdrawal :: "time \<Rightarrow> nat \<Rightarrow> nat \<Rightarrow> store_withdrawal_input \<Rightarrow> withdrawal tx" where
  "requestStoreWithdrawal now userId storeId dto s =
     ebind (checkStoreWithdrawal userId storeId dto s) (\<lambda>w. commitStoreWithdrawal now storeId (sw_id w) dto s)"

definition getStoreWithdrawals :: "nat \<Rightarrow> nat \<Rightarrow> db \<Rightarrow> withdrawal list result" where
  "getStoreWithdrawals userId storeId s =
     ebind (assertOwner userId storeId s) (\<lambda>_. Inr (rev (tfilter (\<lambda>w. wd_ownerId w = storeId) (storeWithdrawals s))))"

section \<open>Rider wallets\<close>

definition rider_of :: "nat \<Rightarrow> db \<Rightarrow> rider_profile option" where
  "rider_of userId s = tfind (\<lambda>p. rp_userId p = userId) (riderProfiles s)"

record rider_wallet_view =
  rw_balance :: decimal
  rw_held :: decimal
  rw_available :: decimal

definition getRiderWallet :: "nat \<Rightarrow> db \<Rightarrow> rider_wallet_view" where
  "getRiderWallet userId s = \<lparr>rw_balance = user_balance userId s,
     rw_held = (case rider_of userId s of None \<Rightarrow> 0
       | Some p \<Rightarrow> \<Sum>e\<leftarrow>tfilter (\<lambda>e. re_riderId e = rp_id p \<and> re_status e = ''HELD'') (riderEarnings s). re_amount e),
     rw_available = user_balance userId s\<rparr>"

definition riderTransactions :: "nat \<Rightarrow> nat \<Rightarrow> nat \<Rightarrow> db \<Rightarrow> wallet_tx list \<times> nat" where
  "riderTransactions userId page limit s = (case tfind (\<lambda>w. w_userId w = userId) (wallets s) of
     None \<Rightarrow> ([], 0)
   | Some w \<Rightarrow> let ts = rev (tfilter (\<lambda>t. wt_walletId t = w_id w) (walletTxs s)) in (page_of page (page_limit limit) ts, length ts))"

text \<open>An account identifier of zero is as good as none.\<close>

definition payout_account :: "nat \<Rightarrow> nat option \<Rightarrow> db \<Rightarrow> rider_bank option" where
  "payout_account profileId bankAccountId s = tfind (\<lambda>b. rb_profileId b = profileId \<and>
     (case bankAccountId of Some k \<Rightarrow> if k \<noteq> 0 then rb_id b = k else rb_isPrimary b | None \<Rightarrow> rb_isPrimary b)) (riderBanks s)"

definition checkRiderWithdrawal :: "nat \<Rightarrow> decimal \<Rightarrow> nat option \<Rightarrow> db \<Rightarrow> (wallet option \<times> rider_bank) result" where
  "checkRiderWithdrawal userId amount bankAccountId s =
     (let wallet = tfind (\<lambda>w. w_userId w = userId) (wallets s);
          available = (case wallet of None \<Rightarrow> 0 | Some w \<Rightarrow> w_balance w);
          chosen = (bankAccountId \<noteq> None \<and> bankAccountId \<noteq> Some 0)
      in require (\<not> amount \<le> 0) (BadRequest ''Withdrawal amount must be greater than zero.'') (
         require (\<not> available < amount) (BadRequest ''Insufficient balance.'') (
         ebind (orThrow (rider_of userId s) (NotFound ''Rider profile not found.'')) (\<lambda>profile.
         ebind (orThrow (payout_account (rp_id profile) bankAccountId s)
           (BadRequest (if chosen then ''The selected bank account does not belong to this rider.''
              else ''A primary bank account is required before withdrawal.''))) (\<lambda>bank.
         require (rb_verificationStatus bank = DOC_APPROVED)
           (BadRequest (if chosen then ''The selected bank account is not verified.''
              else ''A verified primary bank account is required before withdrawal.''))
           (Inr (wallet, bank)))))))"

definition rider_withdrawal_ref :: "nat \<Rightarrow> time \<Rightarrow> string" where
  "rider_withdrawal_ref userId now = ''RW-'' @ show_nat userId @ ''-'' @ show_nat (nat now)"

definition commitRiderWithdrawal :: "time \<Rightarrow> nat \<Rightarrow> decimal \<Rightarrow> string \<Rightarrow> wallet option \<Rightarrow> rider_bank \<Rightarrow> withdrawal tx" where
  "commitRiderWithdrawal now userId amount mode wallet bank s =
     (case tfind (\<lambda>w. w_userId w = userId) (wallets s) of
        None \<Rightarrow> Inl RecordNotFound
      | Some row \<Rightarrow>
          let k = (case wallet of None \<Rightarrow> w_id row | Some w \<Rightarrow> w_id w)
          in ebind (createWalletTx k amount DEBIT (rider_withdrawal_ref userId now) (''Withdrawal request - '' @ mode @ '' mode'')
                 (incrementWallet (w_id row) (- amount) s)) (\<lambda>s1.
             let mk = (\<lambda>i. \<lparr>wd_id = i, wd_ownerId = userId, wd_amount = amount, wd_status = W_PENDING, wd_mode = mode,
                   wd_bankName = rb_bankName bank, wd_accountNumber = rb_accountNumber bank, wd_accountName = rb_accountName bank\<rparr>)
             in Inr (mk (next_id (withdrawals s1)), s1\<lparr>withdrawals := tinsert mk (withdrawals s1)\<rparr>)))"

definition requestRiderWithdrawal :: "time \<Rightarrow> nat \<Rightarrow> decimal \<Rightarrow> nat option \<Rightarrow> string \<Rightarrow> withdrawal tx" where
  "requestRiderWithdrawal now userId amount bankAccountId mode s =
     ebind (checkRiderWithdrawal userId amount bankAccountId s) (\<lambda>(wallet, bank).
     commitRiderWithdrawal now userId amount mode wallet bank s)"

definition getRiderWithdrawals :: "nat \<Rightarrow> db \<Rightarrow> withdrawal list" where
  "getRiderWithdrawals userId s = rev (tfilter (\<lambda>w. wd_ownerId w = userId) (withdrawals s))"

section \<open>Withdrawing from a store wallet\<close>

lemma commitStoreWithdrawal_effect:
  assumes "commitStoreWithdrawal now sid (sw_id w) dto s = Inr (wd, s')" and "store_wallet_ok s"
    and "tfind (\<lambda>w. sw_storeId w = sid) (storeWallets s) = Some w"
  shows "store_balance sid s' = store_balance sid s - sx_amount dto" and "store_wallet_ok s'"
    and "tfind (\<lambda>w. sw_storeId w = sid) (storeWallets s') = Some (w\<lparr>sw_balance := sw_balance w - sx_amount dto\<rparr>)"
    and "rows (storeWithdrawals s') = rows (storeWithdrawals s) @ [wd]" "wd_amount wd = sx_amount dto" "wd_status wd = W_PENDING"
    and "wd_ownerId wd = sid" and "stores s' = stores s"
proof -
  obtain s1 where c: "createStoreWalletTx (sw_id w) (sx_amount dto) DEBIT (store_withdrawal_ref sid now) None
         (Note (''Withdrawal request - '' @ sx_mode dto @ '' mode'')) (incrementStoreWallet (sw_id w) (- sx_amount dto) s) = Inr s1"
    and w: "wd = \<lparr>wd_id = next_id (storeWithdrawals s1), wd_ownerId = sid, wd_amount = sx_amount dto, wd_status = W_PENDING, wd_mode = sx_mode dto,
           wd_bankName = sx_bankName dto, wd_accountNumber = sx_accountNumber dto, wd_accountName = sx_accountName dto\<rparr>"
    and r: "rows (storeWithdrawals s') = rows (storeWithdrawals s1) @ [wd]"
    and s': "storeWallets s' = storeWallets s1" "storeWalletTxs s' = storeWalletTxs s1" "stores s' = stores s1"
    using assms(1) unfolding commitStoreWithdrawal_def Let_def by (auto simp: require_Inr_iff elim!: ebindE)
  have t: "storeWallets s1 = tupdate (\<lambda>x. sw_id x = sw_id w) (\<lambda>x. x\<lparr>sw_balance := sw_balance x + - sx_amount dto\<rparr>) (storeWallets s)"
    "storeWithdrawals s1 = storeWithdrawals s" "stores s1 = stores s"
    using c by (auto simp: createStoreWalletTx_def tx_simps incrementStoreWallet_def)
  show f: "tfind (\<lambda>w. sw_storeId w = sid) (storeWallets s') = Some (w\<lparr>sw_balance := sw_balance w - sx_amount dto\<rparr>)"
    using assms(3) by (simp add: s' t tfind_tupdate)
  then show "store_balance sid s' = store_balance sid s - sx_amount dto" using assms(3) by (simp add: store_balance_def)
  from createStoreWalletTx_off [OF incrementStoreWallet_off [OF store_wallet_found_off [OF assms(2,3)], of "- sx_amount dto"] c]
  have "store_wallet_ok s1" by (intro store_wallet_off_ok [of "sw_id w"]) simp
  then show "store_wallet_ok s'" using s' by (simp add: store_wallet_ok_def)
  show "rows (storeWithdrawals s') = rows (storeWithdrawals s) @ [wd]" "wd_amount wd = sx_amount dto" "wd_status wd = W_PENDING"
    "wd_ownerId wd = sid" "stores s' = stores s" using r t s' by (simp_all add: w)
qed

text \<open>
  A store withdrawal that is served without another request in between is asked for by the
  owner of the store, takes exactly the amount, leaves a balance that is not negative and a
  consistent ledger, and records one pending withdrawal; but when two requests both pass the check
  before either is committed, both are served, and the balance goes below zero whenever the two
  amounts together exceed it.
\<close>

theorem store_withdrawals:
  assumes "checkStoreWithdrawal u sid dto s = Inr w" and "commitStoreWithdrawal now sid (sw_id w) dto s = Inr (wd, s1)"
    and "store_wallet_ok s"
  shows "0 \<le> store_balance sid s1 \<and> store_balance sid s1 = store_balance sid s - sx_amount dto \<and> 0 < sx_amount dto \<and>
    store_wallet_ok s1 \<and> (\<exists>st \<in> set (rows (stores s)). st_id st = sid \<and> st_ownerUserId st = u) \<and>
    rows (storeWithdrawals s1) = rows (storeWithdrawals s) @ [wd] \<and> wd_amount wd = sx_amount dto \<and> wd_status wd = W_PENDING \<and>
    (checkStoreWithdrawal u sid dto' s = Inr w \<and> commitStoreWithdrawal now' sid (sw_id w) dto' s1 = Inr (wd', s2) \<longrightarrow>
       store_wallet_ok s2 \<and> store_balance sid s2 = store_balance sid s - sx_amount dto - sx_amount dto')"
proof -
  have g: "tfind (\<lambda>w. sw_storeId w = sid) (storeWallets s) = Some w" "0 < sx_amount dto" "sx_amount dto \<le> sw_balance w"
    "tfind (\<lambda>st. st_id st = sid \<and> st_ownerUserId st = u) (stores s) \<noteq> None"
    using assms(1) by (auto simp: checkStoreWithdrawal_def assertOwner_def requireWallet_def tx_simps)
  note c = commitStoreWithdrawal_effect [OF assms(2,3) g(1)]
  have "store_wallet_ok s2 \<and> store_balance sid s2 = store_balance sid s - sx_amount dto - sx_amount dto'"
    if "commitStoreWithdrawal now' sid (sw_id w) dto' s1 = Inr (wd', s2)"
  proof -
    have "commitStoreWithdrawal now' sid (sw_id (w\<lparr>sw_balance := sw_balance w - sx_amount dto\<rparr>)) dto' s1 = Inr (wd', s2)" using that by simp
    note d = commitStoreWithdrawal_effect [OF this c(2,3)]
    show ?thesis using c(1) d(1,2) by simp
  qed
  moreover have "\<exists>st \<in> set (rows (stores s)). st_id st = sid \<and> st_ownerUserId st = u" using g(4) by (auto simp: tfind_None_iff)
  moreover have "store_balance sid s = sw_balance w" using g(1) by (simp add: store_balance_def)
  ultimately show ?thesis using c g(2,3) by simp
qed

section \<open>Withdrawing from a rider's wallet\<close>

text \<open>
  A rider's withdrawal that is served goes to a verified bank account of that rider, takes
  exactly the positive amount from the rider's wallet and from no other, leaves a balance that is
  not negative and a consistent ledger.
\<close>

theorem rider_withdrawal:
  assumes "requestRiderWithdrawal now u a bid mode s = Inr (wd, s')" and "wallet_ok s"
  shows "0 < a \<and> 0 \<le> user_balance u s' \<and> (\<forall>v. user_balance v s' = user_balance v s - (if v = u then a else 0)) \<and> wallet_ok s' \<and>
    rows (withdrawals s') = rows (withdrawals s) @ [wd] \<and> wd_amount wd = a \<and>
    (\<exists>p b. rider_of u s = Some p \<and> b \<in> set (rows (riderBanks s)) \<and> rb_profileId b = rp_id p \<and> rb_verificationStatus b = DOC_APPROVED \<and>
       wd_accountNumber wd = rb_accountNumber b)"
proof -
  obtain wallet bank where c: "checkRiderWithdrawal u a bid s = Inr (wallet, bank)" and r: "commitRiderWithdrawal now u a mode wallet bank s = Inr (wd, s')"
    using assms(1) by (auto simp: requestRiderWithdrawal_def tx_simps)
  obtain p where g: "0 < a" "a \<le> user_balance u s" "rider_of u s = Some p" "payout_account (rp_id p) bid s = Some bank"
    "rb_verificationStatus bank = DOC_APPROVED" "wallet = tfind (\<lambda>w. w_userId w = u) (wallets s)"
    using c by (auto simp: checkRiderWithdrawal_def Let_def tx_simps user_balance_def)
  have b: "bank \<in> set (rows (riderBanks s))" "rb_profileId bank = rp_id p"
    using g(4) by (auto simp: payout_account_def dest: tfind_SomeD)
  obtain w s1 where w: "tfind (\<lambda>w. w_userId w = u) (wallets s) = Some w"
    and t: "createWalletTx (w_id w) a DEBIT (rider_withdrawal_ref u now) (''Withdrawal request - '' @ mode @ '' mode'')
         (incrementWallet (w_id w) (- a) s) = Inr s1"
    and s': "wallets s' = wallets s1" "walletTxs s' = walletTxs s1" "rows (withdrawals s') = rows (withdrawals s1) @ [wd]"
      "wd_amount wd = a" "wd_accountNumber wd = rb_accountNumber bank"
    using r g(6) unfolding commitRiderWithdrawal_def Let_def by (auto split: option.splits elim!: ebindE)
  from createWalletTx_off [OF incrementWallet_off [OF wallet_found_off [OF assms(2) w], of "- a"] t]
  have "wallet_ok s1" by (intro wallet_off_ok [of "w_id w"]) simp
  then have "wallet_ok s'" using s' by (simp add: wallet_ok_def)
  moreover have "wallets s' = tupdate (\<lambda>x. w_id x = w_id w) (\<lambda>x. x\<lparr>w_balance := w_balance x + - a\<rparr>) (wallets s)" "withdrawals s1 = withdrawals s"
    using t s' by (auto simp: createWalletTx_def tx_simps incrementWallet_def)
  note user_balance_update [OF assms(2) w this(1)] this(2)
  ultimately show ?thesis using g b s' by auto
qed

section \<open>Examples\<close>

definition store_payout :: store_withdrawal_input where
  "store_payout = \<lparr>sx_amount = 6000, sx_bankName = ''GTB'', sx_accountNumber = ''01'', sx_accountName = ''Shop'', sx_mode = ''MANUAL''\<rparr>"

abbreviation "first_payout \<equiv> commitStoreWithdrawal 1 1 1 store_payout paid_db"
abbreviation "second_payout \<equiv> commitStoreWithdrawal 2 1 1 store_payout (snd (projr first_payout))"

theorem store_withdrawals_witness:
  "\<not> isl first_payout \<and> \<not> isl second_payout \<and> store_balance 1 (snd (projr first_payout)) = 2250 \<and>
   store_balance 1 (snd (projr second_payout)) = - 3750"
proof -
  have ok: "\<not> isl first_payout" "\<not> isl second_payout" by code_simp+
  note run = Inr_pairI [OF ok(1) refl] Inr_pairI [OF ok(2) refl]
  let ?w = "\<lparr>sw_id = 1, sw_storeId = 1, sw_balance = 8250\<rparr> :: store_wallet"
  have c: "checkStoreWithdrawal 3 1 store_payout paid_db = Inr ?w" by code_simp
  have w: "store_wallet_ok paid_db" "store_balance 1 paid_db = 8250" "sw_id ?w = 1" "sx_amount store_payout = 6000"
    by (simp_all add: paid_db_def shop_def store_wallet_ok_def ledger_off_def ledger_sum_def store_effect_def tkeyed_def
        empty_db_def tempty_def store_balance_def tfind_def store_payout_def)
  from store_withdrawals [OF c, unfolded w(3), OF run(1) w(1), of store_payout 2 "fst (projr second_payout)" "snd (projr second_payout)"]
  show ?thesis using ok run(2) c w(2,4) by simp
qed

definition earned_db :: db where
  "earned_db = job_db\<lparr>wallets := \<lparr>rows = [\<lparr>w_id = 1, w_userId = 12, w_balance = 500\<rparr>], next_id = 2\<rparr>,
     walletTxs := \<lparr>rows = [\<lparr>wt_id = 1, wt_walletId = 1, wt_amount = 500, wt_type = RELEASE, wt_reference = Some ''DELIVERY-RELEASE-9'',
       wt_description = ''fee''\<rparr>], next_id = 2\<rparr>,
     riderBanks := \<lparr>rows = [\<lparr>rb_id = 3, rb_profileId = 4, rb_bankCode = ''058'', rb_isPrimary = True, rb_verificationStatus = DOC_APPROVED,
       rb_bankName = ''GTB'', rb_accountNumber = ''01'', rb_accountName = ''Bola''\<rparr>], next_id = 4\<rparr>\<rparr>"

abbreviation "rider_payout \<equiv> requestRiderWithdrawal 5 12 200 None ''AUTO'' earned_db"

theorem rider_withdrawal_witness: "\<not> isl rider_payout \<and> user_balance 12 (snd (projr rider_payout)) = user_balance 12 earned_db - 200"
proof -
  have ok: "\<not> isl rider_payout" by code_simp
  then have run: "rider_payout = Inr (fst (projr rider_payout), snd (projr rider_payout))" by (cases rider_payout) auto
  have "wallet_ok earned_db" by (simp add: earned_db_def wallet_ok_def ledger_off_def ledger_sum_def wallet_effect_def tkeyed_def)
  from rider_withdrawal [OF run this] ok show ?thesis by simp
qed

end
