(* ===== verification/Klump.thy ===== *)
theory Klump
  imports Payments
begin

text \<open>
  Financing through the provider Klump (\<^verbatim>\<open>src/bnpl/klump.service.ts\<close>, \<^verbatim>\<open>src/bnpl/klump.client.ts\<close>,
  \<^verbatim>\<open>src/bnpl/klump-webhook.ts\<close>): a checkout is handed to the provider's widget, and its payment
  counts as paid only after the provider itself confirms the transaction.  The network, the
  parser of decimals and the display names of the stores are parameters.
\<close>

section \<open>Configuration and client\<close>

record klump_env =
  ke_pay :: pay_env
  ke_checkout :: checkout_env
  ke_fetch :: fetch
  ke_publicKey :: "string option"
  ke_secretKey :: "string option"
  ke_mode :: "string option"
  ke_redirectUrl :: "string option"
  ke_parse :: "string \<Rightarrow> decimal option"
  ke_storeName :: "nat \<Rightarrow> string"

definition klump_mode :: "klump_env \<Rightarrow> string result" where
  "klump_mode env = (let mode = toLowerCase (case ke_mode env of Some m \<Rightarrow> if m = [] then ''test'' else m | None \<Rightarrow> ''test'')
     in require (mode \<in> {''test'', ''live''}) (BadRequest ''KLUMP_MODE must be test or live.'') (Inr mode))"

definition isLive :: "klump_env \<Rightarrow> bool result" where
  "isLive env = ebind (klump_mode env) (\<lambda>mode. Inr (mode = ''live''))"

definition get_config :: "string option \<Rightarrow> string result" where
  "get_config v = orThrow v (ProviderError ''Configuration key does not exist.'')"

definition configuration :: "klump_env \<Rightarrow> unit result" where
  "configuration env = ebind (get_config (ke_publicKey env)) (\<lambda>_. ebind (get_config (ke_secretKey env)) (\<lambda>_.
     ebind (klump_mode env) (\<lambda>_. Inr ())))"

text \<open>A request that got no answer, or none in JSON, is an error of the parameter \<open>ke_fetch\<close>.\<close>

definition klump_request :: "klump_env \<Rightarrow> string list \<Rightarrow> json result" where
  "klump_request env path = (case ke_secretKey env of
     None \<Rightarrow> Inl (BadGateway ''Klump could not be reached.'')
   | Some _ \<Rightarrow> (case ke_fetch env GET path JNull of
       Inl e \<Rightarrow> Inl (BadGateway ''Klump could not be reached.'')
     | Inr r \<Rightarrow>
         if \<not> hr_ok r \<or> jget ''state'' (hr_body r) = Some (JStr ''error'')
         then Inl (BadGateway (case jget ''message'' (hr_body r) of
                Some (JStr m) \<Rightarrow> if m = [] then ''Klump request failed ('' @ show_nat (hr_status r) @ '').'' else m
              | _ \<Rightarrow> ''Klump request failed ('' @ show_nat (hr_status r) @ '').''))
         else Inr (hr_body r)))"

definition klump_verify :: "klump_env \<Rightarrow> string \<Rightarrow> json result" where
  "klump_verify env reference = klump_request env [''v1'', ''transactions'', reference, ''verify'']"

definition klump_resend :: "klump_env \<Rightarrow> string \<Rightarrow> json result" where
  "klump_resend env reference = klump_request env [''v1'', ''transactions'', reference, ''resend-webhook'']"

section \<open>The provider's data\<close>

definition klump_data :: "json \<Rightarrow> json result" where
  "klump_data event = orThrow (jobject (jget ''data'' event)) (BadRequest ''Klump webhook data is missing.'')"

definition providerReference :: "json \<Rightarrow> string option" where
  "providerReference d = (case jstring (jget ''reference'' d) of Some r \<Rightarrow> Some r | None \<Rightarrow> jstring (jget ''id'' d))"

definition merchantReference :: "json \<Rightarrow> string option" where
  "merchantReference d = (case jstring (jget ''merchant_reference'' d) of
     Some r \<Rightarrow> Some r
   | None \<Rightarrow> (case jobject (jget ''meta_data'' d) of None \<Rightarrow> None | Some m \<Rightarrow> jstring (jget ''merchant_reference'' m)))"

section \<open>Initialization\<close>

definition integerAmount :: "decimal \<Rightarrow> string \<Rightarrow> int result" where
  "integerAmount amount label =
     require (amount = of_int \<lfloor>amount\<rfloor>) (BadRequest (label @ '' must be a whole-number NGN amount.'')) (
     require (\<not> (9007199254740991 < \<lfloor>amount\<rfloor> \<or> \<lfloor>amount\<rfloor> \<le> 0))
       (BadRequest (label @ '' is outside Klump's supported amount range.'')) (Inr \<lfloor>amount\<rfloor>))"

definition payload_item :: "klump_env \<Rightarrow> order \<Rightarrow> (string \<times> int \<times> nat) result" where
  "payload_item env ord = ebind (integerAmount (o_total ord) (''Order '' @ o_orderNumber ord @ '' total'')) (\<lambda>price.
     Inr (ke_storeName env (o_storeId ord) @ '' order '' @ o_orderNumber ord, price, 1))"

definition checkoutPayload :: "klump_env \<Rightarrow> user \<Rightarrow> payment_group \<Rightarrow> order list \<Rightarrow> klump_payload result" where
  "checkoutPayload env customer g ords =
     ebind (integerAmount (g_totalAmount g) ''Klump checkout total'') (\<lambda>amount.
     ebind (emap (payload_item env) ords) (\<lambda>items.
     require ((\<Sum>(name, price, quantity)\<leftarrow>items. price * int quantity) = amount)
       (BadRequest ''Klump item totals do not match checkout total.'') (
     Inr \<lparr>kp_amount = amount, kp_currency = g_currency g, kp_firstName = u_firstName customer, kp_lastName = u_lastName customer,
        kp_email = u_email customer, kp_phone = u_phoneNumber customer,
        kp_redirectUrl = (if truthy_str (ke_redirectUrl env) then ke_redirectUrl env else None),
        kp_paymentGroupId = g_id g, kp_userId = u_id customer, kp_items = items, kp_merchantReference = None\<rparr>)))"

definition onKlump :: "(klump_transaction table \<Rightarrow> klump_transaction table) \<Rightarrow> db \<Rightarrow> db" where
  "onKlump f s = s\<lparr>lending := (lending s)\<lparr>klumpTransactions := f (klumpTransactions (lending s))\<rparr>\<rparr>"

definition klump_where :: "(klump_transaction \<Rightarrow> bool) \<Rightarrow> db \<Rightarrow> klump_transaction option" where
  "klump_where P s = tfind P (klumpTransactions (lending s))"

definition createKlump :: "klump_env \<Rightarrow> nat \<Rightarrow> payment_group \<Rightarrow> nat \<Rightarrow> string \<Rightarrow> klump_payload \<Rightarrow> bool \<Rightarrow> klump_transaction tx" where
  "createKlump env userId g paymentId ref payload live s =
     (let mk = (\<lambda>i. \<lparr>kt_id = i, kt_userId = userId, kt_paymentGroupId = g_id g, kt_paymentId = paymentId, kt_merchantReference = ref,
            kt_providerReference = None, kt_status = K_PENDING, kt_isLive = live,
            kt_checkoutPayload = payload\<lparr>kp_merchantReference := Some ref\<rparr>, kt_verifiedAt = None\<rparr>)
      in require (klump_where (\<lambda>t. kt_paymentId t = paymentId \<or> kt_merchantReference t = ref) s = None) UniqueViolation
           (Inr (mk (next_id (klumpTransactions (lending s))), onKlump (tinsert mk) s)))"

definition klump_ref :: "klump_env \<Rightarrow> nat \<Rightarrow> string" where
  "klump_ref env gid = ''PURSE-KLUMP-'' @ show_nat gid @ ''-'' @ pe_uuid (ke_pay env)"

definition klump_meta :: "nat \<Rightarrow> pay_meta" where
  "klump_meta userId = no_meta\<lparr>pm_purpose := Some ''KLUMP_CHECKOUT'', pm_userId := Some userId\<rparr>"

definition startKlump :: "klump_env \<Rightarrow> nat \<Rightarrow> payment_group \<Rightarrow> klump_transaction tx" where
  "startKlump env userId g s =
     ebind (orThrow (tfind (\<lambda>u. u_id u = g_userId g) (users s)) RecordNotFound) (\<lambda>customer.
     ebind (groupOrders (g_id g) s) (\<lambda>ords.
     ebind (checkoutPayload env customer g ords) (\<lambda>payload.
     let ref = klump_ref env (g_id g)
     in ebind (case group_payment g s of
            Some p \<Rightarrow> Inr (p, s)
          | None \<Rightarrow> createPayment (g_totalAmount g) (g_currency g) P_PENDING KLUMP_BNPL KLUMP ref None None (klump_meta userId)
              (pe_now (ke_pay env)) s) (\<lambda>(p, s1).
        ebind (isLive env) (\<lambda>live.
        createKlump env userId g (pay_id p) ref payload live
          (s1\<lparr>groups := tupdate (\<lambda>x. g_id x = g_id g) (\<lambda>x. x\<lparr>g_paymentId := Some (pay_id p), g_status := P_PROCESSING\<rparr>) (groups s1)\<rparr>))))))"

definition klumpInTransaction :: "klump_env \<Rightarrow> nat \<Rightarrow> nat \<Rightarrow> klump_transaction tx" where
  "klumpInTransaction env userId gid s =
     ebind (orThrow (group_of userId gid s) (NotFound ''Checkout payment group was not found.'')) (\<lambda>g.
     require (g_paymentMethod g = KLUMP_BNPL) (Conflict ''The active checkout uses a different payment method.'') (
     require (g_status g \<noteq> P_FAILED) (Conflict ''Checkout has already failed.'') (
     case klump_where (\<lambda>t. kt_paymentGroupId t = gid) s of
       Some t \<Rightarrow> Inr (t, s)
     | None \<Rightarrow>
         require (case group_payment g s of None \<Rightarrow> True | Some p \<Rightarrow> pay_provider p = KLUMP)
           (Conflict ''Checkout has already been initialized with another provider.'')
           (startKlump env userId g s))))"

record klump_start =
  ks_publicKey :: string
  ks_merchantReference :: string
  ks_paymentGroupId :: nat
  ks_status :: klump_status
  ks_live :: bool
  ks_data :: klump_payload

definition presentInitialization :: "klump_env \<Rightarrow> klump_transaction \<Rightarrow> klump_start result" where
  "presentInitialization env t = ebind (get_config (ke_publicKey env)) (\<lambda>k.
     Inr \<lparr>ks_publicKey = k, ks_merchantReference = kt_merchantReference t, ks_paymentGroupId = kt_paymentGroupId t,
       ks_status = kt_status t, ks_live = kt_isLive t, ks_data = kt_checkoutPayload t\<rparr>)"

definition klump_initialize :: "klump_env \<Rightarrow> nat \<Rightarrow> checkout_input \<Rightarrow> klump_start handler" where
  "klump_initialize env userId inp =
     hbind (hlift (configuration env)) (\<lambda>_.
     hbind (checkout_create (ke_pay env) (ke_checkout env) userId (inp\<lparr>in_paymentMethod := Some ''klump_bnpl''\<rparr>)) (\<lambda>checkout.
     hbind (transaction (klumpInTransaction env userId (gs_id checkout))) (\<lambda>t.
     hlift (presentInitialization env t))))"

section \<open>Verification\<close>

definition klump_of_status :: "string \<Rightarrow> klump_status" where
  "klump_of_status st = (if st = ''successful'' then K_SUCCESSFUL else if st = ''abandoned'' then K_ABANDONED
     else if st = ''failed'' then K_FAILED else K_INITIATED)"

text \<open>The answer of the provider against the transaction: what each guard compares.\<close>

definition matching_transaction :: "json \<Rightarrow> db \<Rightarrow> klump_transaction option" where
  "matching_transaction d s = klump_where (\<lambda>t.
     truthy_str (merchantReference d) \<and> merchantReference d = Some (kt_merchantReference t) \<or>
     truthy_str (providerReference d) \<and> kt_providerReference t = providerReference d) s"

definition js_text :: "json option \<Rightarrow> string" where
  "js_text v = (case v of None \<Rightarrow> ''undefined'' | Some x \<Rightarrow> js_String x)"

definition klump_guards :: "klump_env \<Rightarrow> nat option \<Rightarrow> json \<Rightarrow> klump_transaction \<Rightarrow> payment \<Rightarrow> string result" where
  "klump_guards env expectedUserId d t p =
     require (case expectedUserId of None \<Rightarrow> True | Some u \<Rightarrow> kt_userId t = u)
       (Forbidden ''Klump transaction does not belong to this customer.'') (
     require (truthy_str (merchantReference d) \<and> merchantReference d = Some (kt_merchantReference t))
       (BadRequest ''Klump merchant reference does not match checkout.'') (
     ebind (orThrow (if truthy_str (providerReference d) then providerReference d else None)
       (BadRequest ''Klump transaction reference is missing.'')) (\<lambda>returned.
     require (toUpperCase (js_String (jor (jget ''currency'' d) (JStr []))) = pay_currency p)
       (BadRequest ''Klump currency does not match checkout.'') (
     ebind (orThrow (ke_parse env (js_text (jget ''amount'' d))) (BadRequest ''Klump amount is invalid.'')) (\<lambda>amount.
     require (amount = pay_amount p) (BadRequest ''Klump amount does not match checkout.'') (
     require (jget ''is_live'' d = Some (JBool (kt_isLive t))) (BadRequest ''Klump environment does not match checkout.'')
       (Inr returned)))))))"

definition setKlump :: "nat \<Rightarrow> klump_status \<Rightarrow> string option \<Rightarrow> time option \<Rightarrow> db \<Rightarrow> db result" where
  "setKlump k st ref verifiedAt s =
     require (klump_where (\<lambda>t. kt_id t = k) s \<noteq> None) RecordNotFound (
     require (ref = None \<or> klump_where (\<lambda>t. kt_id t \<noteq> k \<and> kt_providerReference t = ref) s = None) UniqueViolation (
     Inr (onKlump (tupdate (\<lambda>t. kt_id t = k) (\<lambda>t. t\<lparr>kt_status := st,
       kt_providerReference := (if ref = None then kt_providerReference t else ref),
       kt_verifiedAt := (if verifiedAt = None then kt_verifiedAt t else verifiedAt)\<rparr>)) s)))"

definition settleKlump :: "klump_env \<Rightarrow> klump_transaction \<Rightarrow> string \<Rightarrow> db \<Rightarrow> db result" where
  "settleKlump env t returned s =
     ebind (orThrow (payment_row (kt_paymentId t) s) RecordNotFound) (\<lambda>current.
     require (pay_status current \<noteq> P_FAILED)
       (Conflict ''A released Klump checkout later succeeded; staff reconciliation is required.'') (
     ebind (if pay_status current \<noteq> P_PAID
        then completeGroup (pe_cfg (ke_pay env)) (pe_now (ke_pay env)) (kt_paymentGroupId t)
               (updatePayment (pay_id current) (\<lambda>p. p\<lparr>pay_status := P_PAID, pay_providerRef := Some returned,
                  pay_metadata := no_meta\<lparr>pm_purpose := Some ''KLUMP_CHECKOUT''\<rparr>\<rparr>) s)
        else Inr s) (\<lambda>s1.
     setKlump (kt_id t) K_SUCCESSFUL (Some returned) (Some (pe_now (ke_pay env))) s1)))"

definition applyVerification :: "klump_env \<Rightarrow> nat option \<Rightarrow> json \<Rightarrow> klump_transaction handler" where
  "applyVerification env expectedUserId d s = (case matching_transaction d s of
     None \<Rightarrow> (Inl (NotFound ''Klump transaction does not match a checkout.''), s)
   | Some t \<Rightarrow>
       (hbind (hlift (ebind (orThrow (payment_row (kt_paymentId t) s) RecordNotFound) (klump_guards env expectedUserId d t))) (\<lambda>returned.
        let st = klump_of_status (toLowerCase (js_String (jor (jget ''status'' d) (JStr []))))
        in if st \<noteq> K_SUCCESSFUL
           then hbind (transact (setKlump (kt_id t) st (Some returned) None)) (\<lambda>_. hreturn t)
           else hbind (transact (settleKlump env t returned)) (\<lambda>_.
                hbind (hmodify (dispatchGroupConfirmations (ke_pay env) [kt_paymentGroupId t])) (\<lambda>_. hreturn t)))) s)"

definition verifyProviderTransaction :: "klump_env \<Rightarrow> string \<Rightarrow> nat option \<Rightarrow> klump_transaction handler" where
  "verifyProviderTransaction env reference expectedUserId =
     hbind (hlift (klump_verify env reference)) (\<lambda>response.
     if jget ''state'' response \<noteq> Some (JStr ''success'') \<or> \<not> jtruthy (jget ''data'' response)
     then hthrow (BadGateway (case jget ''message'' response of
            Some (JStr m) \<Rightarrow> if m = [] then ''Klump verification did not succeed.'' else m
          | _ \<Rightarrow> ''Klump verification did not succeed.''))
     else applyVerification env expectedUserId (the (jget ''data'' response)))"

record klump_view =
  kv_merchantReference :: string
  kv_providerReference :: "string option"
  kv_status :: klump_status
  kv_paymentStatus :: payment_status
  kv_paymentGroupId :: nat
  kv_amount :: decimal
  kv_currency :: string
  kv_live :: bool
  kv_verifiedAt :: "time option"

definition statusById :: "nat \<Rightarrow> nat \<Rightarrow> db \<Rightarrow> klump_view result" where
  "statusById userId k s =
     ebind (orThrow (klump_where (\<lambda>t. kt_id t = k \<and> kt_userId t = userId) s) (NotFound ''Klump checkout was not found.'')) (\<lambda>t.
     ebind (orThrow (payment_row (kt_paymentId t) s) RecordNotFound) (\<lambda>p.
     Inr \<lparr>kv_merchantReference = kt_merchantReference t, kv_providerReference = kt_providerReference t, kv_status = kt_status t,
        kv_paymentStatus = pay_status p, kv_paymentGroupId = kt_paymentGroupId t, kv_amount = pay_amount p,
        kv_currency = pay_currency p, kv_live = kt_isLive t, kv_verifiedAt = kt_verifiedAt t\<rparr>))"

definition klump_verify_request :: "klump_env \<Rightarrow> nat \<Rightarrow> string \<Rightarrow> (klump_view \<times> group_summary) handler" where
  "klump_verify_request env userId reference =
     hbind (verifyProviderTransaction env reference (Some userId)) (\<lambda>t.
     hbind (\<lambda>s. (statusById userId (kt_id t) s, s)) (\<lambda>v.
     hbind (summary userId (kt_paymentGroupId t)) (\<lambda>g. hreturn (v, g))))"

definition klump_status_request :: "nat \<Rightarrow> string \<Rightarrow> db \<Rightarrow> klump_view result" where
  "klump_status_request userId ref s =
     ebind (orThrow (klump_where (\<lambda>t. kt_merchantReference t = ref \<and> kt_userId t = userId) s)
       (NotFound ''Klump checkout was not found.'')) (\<lambda>t. statusById userId (kt_id t) s)"

section \<open>Webhooks\<close>

definition noteKlumpEvent :: "string \<Rightarrow> string \<Rightarrow> db \<Rightarrow> db" where
  "noteKlumpEvent eventId eventType s =
     (if tfind (\<lambda>w. we_eventId w = eventId) (webhookEvents s) \<noteq> None then s
      else s\<lparr>webhookEvents := tinsert (\<lambda>i. \<lparr>we_id = i, we_provider = ''KLUMP'', we_eventId = eventId, we_eventType = eventType,
        we_processed = False, we_errorMessage = None, we_paymentId = None\<rparr>) (webhookEvents s)\<rparr>)"

definition closeKlumpEvent :: "string \<Rightarrow> exn option \<Rightarrow> nat option \<Rightarrow> db \<Rightarrow> db" where
  "closeKlumpEvent eventId err pid s = s\<lparr>webhookEvents := tupdate (\<lambda>w. we_eventId w = eventId)
     (\<lambda>w. w\<lparr>we_processed := (err = None), we_errorMessage := err,
       we_paymentId := (if err = None \<and> pid \<noteq> None then pid else we_paymentId w)\<rparr>) (webhookEvents s)\<rparr>"

definition noteKlumpProgress :: "string \<Rightarrow> json \<Rightarrow> (nat option) handler" where
  "noteKlumpProgress eventType d s =
     (case (if truthy_str (merchantReference d)
            then klump_where (\<lambda>t. merchantReference d = Some (kt_merchantReference t)) s else None) of
        None \<Rightarrow> (Inr None, s)
      | Some t \<Rightarrow>
          hbind (transact (setKlump (kt_id t)
              (if eventType = ''klump.payment.transaction.abandoned'' then K_ABANDONED else K_INITIATED)
              (if truthy_str (providerReference d) then providerReference d else None) None))
            (\<lambda>_. hreturn (Some (kt_paymentId t))) s)"

definition klump_action :: "klump_env \<Rightarrow> string \<Rightarrow> json \<Rightarrow> (nat option) handler" where
  "klump_action env eventType event =
     hbind (hlift (klump_data event)) (\<lambda>d.
     if eventType = ''klump.payment.transaction.successful''
     then hbind (hlift (orThrow (if truthy_str (providerReference d) then providerReference d else None)
            (BadRequest ''Klump webhook reference is missing.''))) (\<lambda>reference.
          hbind (verifyProviderTransaction env reference None) (\<lambda>t. hreturn (Some (kt_paymentId t))))
     else if eventType \<in> {''klump.payment.transaction.initiated'', ''klump.payment.transaction.abandoned''}
     then noteKlumpProgress eventType d
     else hreturn None)"

definition klump_event_id :: "string \<Rightarrow> string" where
  "klump_event_id webhookId = ''KLUMP:'' @ webhookId"

text \<open>Whether the event was a duplicate.\<close>

definition handleKlumpWebhook :: "klump_env \<Rightarrow> string \<Rightarrow> json \<Rightarrow> bool handler" where
  "handleKlumpWebhook env webhookId event s =
     (let eventId = klump_event_id webhookId; eventType = event_type event
      in if (case tfind (\<lambda>w. we_eventId w = eventId) (webhookEvents s) of None \<Rightarrow> False | Some w \<Rightarrow> we_processed w)
         then (Inr True, s)
         else hbind (hmodify (noteKlumpEvent eventId eventType)) (\<lambda>_.
              hcatch (hbind (klump_action env eventType event) (\<lambda>pid.
                      hbind (hmodify (closeKlumpEvent eventId None pid)) (\<lambda>_. hreturn False)))
                (\<lambda>e. hbind (hmodify (closeKlumpEvent eventId (Some e) None)) (\<lambda>_. hthrow e))) s)"

definition klump_resend_request :: "klump_env \<Rightarrow> nat \<Rightarrow> string \<Rightarrow> json handler" where
  "klump_resend_request env actorId reference =
     hbind (hlift (klump_resend env reference)) (\<lambda>result.
     hbind (hmodify (audit actorId ''KLUMP_WEBHOOK_RESEND_REQUESTED'' ''KlumpTransaction'' reference)) (\<lambda>_. hreturn result))"

text \<open>\<open>hmac\<close> is the hexadecimal HMAC-SHA-512 of the serialized body.\<close>

definition is_hex :: "char \<Rightarrow> bool" where
  "is_hex c \<longleftrightarrow> c \<in> set ''0123456789abcdefABCDEF''"

definition verifyKlumpWebhook :: "(string \<Rightarrow> json \<Rightarrow> string) \<Rightarrow> string option \<Rightarrow> json \<Rightarrow> string \<Rightarrow> unit result" where
  "verifyKlumpWebhook hmac signature body secret = (case signature of
     None \<Rightarrow> Inl (Unauthorized ''Invalid Klump webhook signature.'')
   | Some sig \<Rightarrow>
       require (length sig = 128 \<and> list_all is_hex sig) (Unauthorized ''Invalid Klump webhook signature.'') (
       require (toLowerCase sig = hmac secret body) (Unauthorized ''Invalid Klump webhook signature.'') (Inr ())))"

definition klump_webhook :: "klump_env \<Rightarrow> (string \<Rightarrow> json \<Rightarrow> string) \<Rightarrow> string option \<Rightarrow> string option \<Rightarrow> json \<Rightarrow> bool handler" where
  "klump_webhook env hmac signature webhookId body =
     hbind (hlift (get_config (ke_secretKey env))) (\<lambda>secret.
     hbind (hlift (verifyKlumpWebhook hmac signature body secret)) (\<lambda>_.
     case webhookId of
       Some i \<Rightarrow> if i = [] \<or> 191 < length i then hthrow (BadRequest ''A valid X-Klump-Webhook-Id header is required.'')
                else handleKlumpWebhook env i body
     | None \<Rightarrow> hthrow (BadRequest ''A valid X-Klump-Webhook-Id header is required.'')))"

section \<open>Only confirmed transactions are paid\<close>

lemma setKlump_frame: "setKlump k st ref v s = Inr s' \<Longrightarrow> \<exists>l. s' = s\<lparr>lending := l\<rparr>"
  by (auto simp: setKlump_def require_Inr_iff onKlump_def)

lemma dispatch_tables:
  "payments (dispatchGroupConfirmations env gids s) = payments s" "lending (dispatchGroupConfirmations env gids s) = lending s"
  "webhookEvents (dispatchGroupConfirmations env gids s) = webhookEvents s"
  by (simp_all add: dispatchGroupConfirmations_def processOrderConfirmations_frame)

lemma klump_guards_Inr:
  assumes "klump_guards env e d t p = Inr ret"
  shows "e \<noteq> None \<longrightarrow> e = Some (kt_userId t)" and "merchantReference d = Some (kt_merchantReference t)" and "providerReference d = Some ret"
    and "toUpperCase (js_String (jor (jget ''currency'' d) (JStr []))) = pay_currency p"
    and "ke_parse env (js_text (jget ''amount'' d)) = Some (pay_amount p)" and "jget ''is_live'' d = Some (JBool (kt_isLive t))"
  using assms unfolding klump_guards_def
  by (auto elim!: ebindE simp: require_Inr_iff orThrow_Inr_iff split: option.splits if_splits)

definition mark_paid :: "string \<Rightarrow> payment \<Rightarrow> payment" where
  "mark_paid returned p = p\<lparr>pay_status := P_PAID, pay_providerRef := Some returned,
     pay_metadata := no_meta\<lparr>pm_purpose := Some ''KLUMP_CHECKOUT''\<rparr>\<rparr>"

lemma settleKlump_cases:
  assumes "settleKlump env t ret s = Inr s'"
  obtains q s1 where "payment_row (kt_paymentId t) s = Some q" "pay_status q \<noteq> P_FAILED"
    "pay_status q = P_PAID \<and> s1 = s \<or> pay_status q \<noteq> P_PAID \<and>
       completeGroup (pe_cfg (ke_pay env)) (pe_now (ke_pay env)) (kt_paymentGroupId t) (updatePayment (pay_id q) (mark_paid ret) s) = Inr s1"
    "setKlump (kt_id t) K_SUCCESSFUL (Some ret) (Some (pe_now (ke_pay env))) s1 = Inr s'"
  using assms unfolding settleKlump_def mark_paid_def [abs_def]
  by (auto elim!: ebindE simp: require_Inr_iff orThrow_Inr_iff split: if_splits)

lemma settleKlump_payments:
  assumes "settleKlump env t ret s = Inr s'"
  shows "\<exists>q. payment_row (kt_paymentId t) s = Some q \<and> pay_status q \<noteq> P_FAILED \<and>
    (payments s' = payments s \<or> payments s' = tupdate (\<lambda>p. pay_id p = pay_id q) (mark_paid ret) (payments s))"
proof -
  obtain q s1 where q: "payment_row (kt_paymentId t) s = Some q" "pay_status q \<noteq> P_FAILED"
    and c: "pay_status q = P_PAID \<and> s1 = s \<or> pay_status q \<noteq> P_PAID \<and>
       completeGroup (pe_cfg (ke_pay env)) (pe_now (ke_pay env)) (kt_paymentGroupId t) (updatePayment (pay_id q) (mark_paid ret) s) = Inr s1"
    and k: "setKlump (kt_id t) K_SUCCESSFUL (Some ret) (Some (pe_now (ke_pay env))) s1 = Inr s'"
    by (rule settleKlump_cases [OF assms])
  have "payments s' = payments s1" using setKlump_frame [OF k] by auto
  moreover have "payments s1 = payments s \<or> payments s1 = tupdate (\<lambda>p. pay_id p = pay_id q) (mark_paid ret) (payments s)"
    using c completeGroup_frame(1) by (fastforce simp: updatePayment_def)
  ultimately show ?thesis using q by (intro exI [of _ q]) simp
qed

definition klump_state :: "json \<Rightarrow> klump_status" where
  "klump_state d = klump_of_status (toLowerCase (js_String (jor (jget ''status'' d) (JStr []))))"

lemma applyVerification_payments:
  assumes "applyVerification env e d s = (r, s')"
  shows "payments s' = payments s \<or> (\<exists>t q ret. matching_transaction d s = Some t \<and> payment_row (kt_paymentId t) s = Some q \<and>
    klump_guards env e d t q = Inr ret \<and> klump_state d = K_SUCCESSFUL \<and> pay_status q \<noteq> P_FAILED \<and>
    payments s' = tupdate (\<lambda>p. pay_id p = pay_id q) (mark_paid ret) (payments s))"
proof (cases "matching_transaction d s")
  case None
  then show ?thesis using assms by (simp add: applyVerification_def)
next
  case (Some t)
  let ?g = "ebind (orThrow (payment_row (kt_paymentId t) s) RecordNotFound) (klump_guards env e d t)"
  show ?thesis
  proof (cases ?g)
    case (Inl x)
    then show ?thesis using assms Some by (simp add: applyVerification_def handler_simps)
  next
    case (Inr ret)
    then obtain q where q: "payment_row (kt_paymentId t) s = Some q" "klump_guards env e d t q = Inr ret"
      by (auto simp: ebind_Inr_iff orThrow_Inr_iff)
    show ?thesis
    proof (cases "klump_state d = K_SUCCESSFUL")
      case False
      then have "(r, s') = hbind (transact (setKlump (kt_id t) (klump_state d) (Some ret) None)) (\<lambda>_. hreturn t) s"
        using assms Some Inr by (simp add: applyVerification_def hbind_run [of "hlift _"] hlift_def klump_state_def [symmetric])
      then show ?thesis
        by (auto simp: handler_simps split: sum.splits dest: setKlump_frame)
    next
      case True
      then have run: "(r, s') = hbind (transact (settleKlump env t ret)) (\<lambda>_.
          hbind (hmodify (dispatchGroupConfirmations (ke_pay env) [kt_paymentGroupId t])) (\<lambda>_. hreturn t)) s"
        using assms Some Inr by (simp add: applyVerification_def hbind_run [of "hlift _"] hlift_def klump_state_def [symmetric])
      show ?thesis
      proof (cases "settleKlump env t ret s")
        case (Inl x)
        then show ?thesis using run by (simp add: handler_simps)
      next
        case (Inr s1)
        then have "payments s' = payments s1" using run by (simp add: handler_simps dispatch_tables)
        then show ?thesis using settleKlump_payments [OF Inr] q True Some by auto
      qed
    qed
  qed
qed

text \<open>
  (C32) A verification marks at most the payment of one Klump transaction as paid, and only when
  the provider's answer reports success for the very reference of that transaction, in the
  currency and with the exact amount of its payment and in the same environment, test or live;
  a customer can only have transactions of their own verified.
\<close>

theorem klump_paid_only_if_verified:
  assumes "verifyProviderTransaction env reference e s = (r, s')"
    and "p \<in> set (rows (payments s'))" and "pay_status p = P_PAID" and "p \<notin> set (rows (payments s))"
    and "tkeyed pay_id (payments s)"
  shows "\<exists>response d t q. klump_verify env reference = Inr response \<and> jget ''state'' response = Some (JStr ''success'') \<and>
    jget ''data'' response = Some d \<and> matching_transaction d s = Some t \<and> payment_row (kt_paymentId t) s = Some q \<and>
    pay_id p = kt_paymentId t \<and> pay_amount p = pay_amount q \<and> pay_status q \<noteq> P_FAILED \<and> klump_state d = K_SUCCESSFUL \<and>
    merchantReference d = Some (kt_merchantReference t) \<and> (e \<noteq> None \<longrightarrow> e = Some (kt_userId t)) \<and>
    toUpperCase (js_String (jor (jget ''currency'' d) (JStr []))) = pay_currency q \<and>
    ke_parse env (js_text (jget ''amount'' d)) = Some (pay_amount q) \<and> jget ''is_live'' d = Some (JBool (kt_isLive t))"
proof -
  have "s' \<noteq> s" using assms(2,4) by auto
  then obtain response where v: "klump_verify env reference = Inr response"
    using assms(1) by (cases "klump_verify env reference") (auto simp: verifyProviderTransaction_def handler_simps)
  have st: "jget ''state'' response = Some (JStr ''success'')" "jtruthy (jget ''data'' response)"
    using assms(1) v \<open>s' \<noteq> s\<close> by (auto simp: verifyProviderTransaction_def handler_simps split: if_splits)
  then obtain d where d: "jget ''data'' response = Some d" by (cases "jget ''data'' response") auto
  have "applyVerification env e d s = (r, s')"
    using assms(1) v st d by (simp add: verifyProviderTransaction_def handler_simps)
  from applyVerification_payments [OF this] assms(2,4) obtain t q ret where t: "matching_transaction d s = Some t"
    and q: "payment_row (kt_paymentId t) s = Some q" and g: "klump_guards env e d t q = Inr ret"
    and k: "klump_state d = K_SUCCESSFUL" "pay_status q \<noteq> P_FAILED"
    and p: "payments s' = tupdate (\<lambda>p. pay_id p = pay_id q) (mark_paid ret) (payments s)" by auto
  obtain x where x: "x \<in> set (rows (payments s))" "pay_id x = pay_id q" "p = mark_paid ret x"
    using assms(2,4) by (auto simp: p split: if_splits)
  have "pay_id q = kt_paymentId t" using q by (auto simp: payment_row_def dest: tfind_SomeD)
  moreover have "x = q"
    using payment_table.find_unique [OF assms(5) x(1)] q x(2) calculation by (simp add: payment_row_def)
  ultimately show ?thesis using v st(1) d t q k klump_guards_Inr [OF g] x by (auto simp: mark_paid_def)
qed

lemma checkoutPayload_amounts:
  assumes "checkoutPayload env customer g ords = Inr payload"
  shows "of_int (kp_amount payload) = g_totalAmount g" and "0 < kp_amount payload"
    and "(\<Sum>(name, price, quantity)\<leftarrow>kp_items payload. price * int quantity) = kp_amount payload"
    and "kp_currency payload = g_currency g" and "kp_paymentGroupId payload = g_id g"
  using assms unfolding checkoutPayload_def integerAmount_def
  by (auto elim!: ebindE simp: require_Inr_iff)

lemma createPayment_frame:
  assumes "createPayment a c st m pr ref p1 p2 meta now s = Inr (p, s')"
  shows "\<exists>ps. s' = s\<lparr>payments := ps\<rparr>" and "pay_amount p = a" and "pay_currency p = c" and "pay_provider p = pr"
  using assms by (auto simp: createPayment_def Let_def require_Inr_iff)

lemma startKlump_effect:
  assumes "startKlump env u g s = Inr (t, s')"
  obtains customer ords payload pid where "checkoutPayload env customer g ords = Inr payload"
    "kt_checkoutPayload t = payload\<lparr>kp_merchantReference := Some (kt_merchantReference t)\<rparr>" "kt_paymentGroupId t = g_id g"
    "kt_paymentId t = pid" "klumpTransactions (lending s') = tinsert (\<lambda>i. t\<lparr>kt_id := i\<rparr>) (klumpTransactions (lending s))"
    "kt_id t = next_id (klumpTransactions (lending s))"
    "groups s' = tupdate (\<lambda>x. g_id x = g_id g) (\<lambda>x. x\<lparr>g_paymentId := Some pid, g_status := P_PROCESSING\<rparr>) (groups s)"
proof -
  obtain customer ords payload p s1 live where pl: "checkoutPayload env customer g ords = Inr payload"
    and p: "(case group_payment g s of Some p \<Rightarrow> Inr (p, s)
          | None \<Rightarrow> createPayment (g_totalAmount g) (g_currency g) P_PENDING KLUMP_BNPL KLUMP (klump_ref env (g_id g)) None None (klump_meta u)
              (pe_now (ke_pay env)) s) = Inr (p, s1)"
    and c: "createKlump env u g (pay_id p) (klump_ref env (g_id g)) payload live
          (s1\<lparr>groups := tupdate (\<lambda>x. g_id x = g_id g) (\<lambda>x. x\<lparr>g_paymentId := Some (pay_id p), g_status := P_PROCESSING\<rparr>) (groups s1)\<rparr>) = Inr (t, s')"
    using assms unfolding startKlump_def Let_def by (auto elim!: ebindE simp: orThrow_Inr_iff)
  have "groups s1 = groups s" "lending s1 = lending s" using p createPayment_frame(1) by (fastforce split: option.splits)+
  then show thesis using c pl
    by (intro that [of customer ords payload "pay_id p"]) (auto simp: createKlump_def Let_def require_Inr_iff onKlump_def)
qed

text \<open>
  Initializing a Klump checkout hands the provider whole naira amounts that add up to the
  total of the payment group exactly, marks the group as being processed, and is idempotent:
  initializing the same group again returns the same transaction and changes nothing.
\<close>

theorem klump_initialized_once:
  assumes "klumpInTransaction env u gid s = Inr (t, s')" and "group_of u gid s = Some g"
    and "klump_where (\<lambda>t. kt_paymentGroupId t = gid) s = None"
  shows "g_paymentMethod g = KLUMP_BNPL \<and> kt_paymentGroupId t = gid \<and> of_int (kp_amount (kt_checkoutPayload t)) = g_totalAmount g \<and>
    (\<Sum>(name, price, quantity)\<leftarrow>kp_items (kt_checkoutPayload t). price * int quantity) = kp_amount (kt_checkoutPayload t) \<and>
    group_of u gid s' = Some (g\<lparr>g_paymentId := Some (kt_paymentId t), g_status := P_PROCESSING\<rparr>) \<and>
    klumpInTransaction env' u gid s' = Inr (t, s')"
proof -
  have m: "g_paymentMethod g = KLUMP_BNPL" and st: "startKlump env u g s = Inr (t, s')"
    using assms by (auto simp: klumpInTransaction_def ebind_Inr_iff orThrow_Inr_iff require_Inr_iff)
  have g: "g_id g = gid" "g_userId g = u" using assms(2) by (auto simp: group_of_def dest: tfind_SomeD)
  obtain customer ords payload pid where pl: "checkoutPayload env customer g ords = Inr payload"
    and t: "kt_checkoutPayload t = payload\<lparr>kp_merchantReference := Some (kt_merchantReference t)\<rparr>" "kt_paymentGroupId t = g_id g"
      "kt_paymentId t = pid" "kt_id t = next_id (klumpTransactions (lending s))"
    and k: "klumpTransactions (lending s') = tinsert (\<lambda>i. t\<lparr>kt_id := i\<rparr>) (klumpTransactions (lending s))"
    and gs: "groups s' = tupdate (\<lambda>x. g_id x = g_id g) (\<lambda>x. x\<lparr>g_paymentId := Some pid, g_status := P_PROCESSING\<rparr>) (groups s)"
    by (rule startKlump_effect [OF st])
  have "klump_where (\<lambda>t. kt_paymentGroupId t = gid) s' = Some t"
    using assms(3) t(2,4) g(1) by (simp add: klump_where_def k tfind_tinsert flip: t(4))
  moreover have g': "group_of u gid s' = Some (g\<lparr>g_paymentId := Some (kt_paymentId t), g_status := P_PROCESSING\<rparr>)"
    using assms(2) g t(3) by (auto simp: group_of_def gs tfind_tupdate)
  ultimately have "klumpInTransaction env' u gid s' = Inr (t, s')"
    using m by (simp add: klumpInTransaction_def)
  then show ?thesis using m t g g' checkoutPayload_amounts [OF pl] by simp
qed

section \<open>Examples\<close>

text \<open>A customer's transaction over 719 naira, and an answer of the provider that confirms it.\<close>

definition klump_answer :: json where
  "klump_answer = JObj [(''reference'', JStr ''KLP-1''), (''merchant_reference'', JStr ''PURSE-KLUMP-1-u''), (''currency'', JStr ''ngn''),
     (''amount'', JNum 719), (''is_live'', JBool False), (''status'', JStr ''successful'')]"

definition klump_example :: klump_env where
  "klump_example = \<lparr>ke_pay = pay_example ''success'' 0 '''', ke_checkout = example_env,
     ke_fetch = (\<lambda>_ _ _. Inr \<lparr>hr_status = 200, hr_body = JObj [(''state'', JStr ''success''), (''data'', klump_answer)]\<rparr>),
     ke_publicKey = Some ''pk'', ke_secretKey = Some ''sk'', ke_mode = None, ke_redirectUrl = None,
     ke_parse = (\<lambda>x. if x = ''719'' then Some 719 else None), ke_storeName = (\<lambda>_. ''Shop'')\<rparr>"

definition klump_group :: payment_group where
  "klump_group = \<lparr>g_id = 1, g_userId = 7, g_activeCartId = Some 1, g_cartSnapshot = [], g_snapshotInput = home_delivery,
     g_paymentMethod = KLUMP_BNPL, g_totalAmount = 719, g_discountAmount = 0, g_currency = ''NGN'', g_paymentId = None, g_status = P_PENDING\<rparr>"

definition klump_open :: db where
  "klump_open = shop\<lparr>groups := \<lparr>rows = [klump_group], next_id = 2\<rparr>,
     orders := \<lparr>rows = [settled_order\<lparr>o_total := 719\<rparr>], next_id = 6\<rparr>,
     allocations := \<lparr>rows = [\<lparr>al_id = 1, al_paymentGroupId = 1, al_orderId = 5, al_amount = 719\<rparr>], next_id = 2\<rparr>\<rparr>"

abbreviation "klump_started \<equiv> klumpInTransaction klump_example 7 1 klump_open"

theorem klump_initialized_once_witness:
  "kp_amount (kt_checkoutPayload (fst (projr klump_started))) = 719 \<and>
   klumpInTransaction klump_example 7 1 (snd (projr klump_started)) = Inr (fst (projr klump_started), snd (projr klump_started))"
proof -
  have f: "\<not> isl klump_started" "group_of 7 1 klump_open = Some klump_group" "klump_where (\<lambda>t. kt_paymentGroupId t = 1) klump_open = None"
    by code_simp+
  from f(1) have run: "klump_started = Inr (fst (projr klump_started), snd (projr klump_started))" by (cases klump_started) auto
  from klump_initialized_once [OF run f(2,3), of klump_example]
  show ?thesis by (simp add: klump_group_def)
qed

definition open_payment :: payment where
  "open_payment = \<lparr>pay_id = 1, pay_amount = 719, pay_currency = ''NGN'', pay_status = P_PENDING, pay_paymentMethod = KLUMP_BNPL,
     pay_provider = KLUMP, pay_transactionRef = Some ''PURSE-KLUMP-1-u'', pay_providerRef = None, pay_paymentUrl = None,
     pay_metadata = no_meta, pay_failureReason = None, pay_createdAt = 0\<rparr>"

definition open_transaction :: klump_transaction where
  "open_transaction = \<lparr>kt_id = 1, kt_userId = 7, kt_paymentGroupId = 1, kt_paymentId = 1, kt_merchantReference = ''PURSE-KLUMP-1-u'',
     kt_providerReference = None, kt_status = K_PENDING, kt_isLive = False, kt_checkoutPayload = \<lparr>kp_amount = 719, kp_currency = ''NGN'',
       kp_firstName = None, kp_lastName = None, kp_email = ''a@x'', kp_phone = None, kp_redirectUrl = None, kp_paymentGroupId = 1,
       kp_userId = 7, kp_items = [], kp_merchantReference = None\<rparr>, kt_verifiedAt = None\<rparr>"

definition klump_waiting :: db where
  "klump_waiting = empty_db\<lparr>payments := \<lparr>rows = [open_payment], next_id = 2\<rparr>,
     groups := \<lparr>rows = [klump_group\<lparr>g_status := P_PAID, g_activeCartId := None\<rparr>], next_id = 2\<rparr>,
     lending := (lending empty_db)\<lparr>klumpTransactions := \<lparr>rows = [open_transaction], next_id = 2\<rparr>\<rparr>\<rparr>"

abbreviation "klump_verified \<equiv> verifyProviderTransaction klump_example ''KLP-1'' (Some 7) klump_waiting"

theorem klump_paid_only_if_verified_witness:
  "mark_paid ''KLP-1'' open_payment \<in> set (rows (payments (snd klump_verified))) \<and>
   (\<exists>t. matching_transaction klump_answer klump_waiting = Some t \<and> kt_paymentId t = 1 \<and> klump_state klump_answer = K_SUCCESSFUL)"
proof -
  have p: "payments (snd klump_verified) = \<lparr>rows = [mark_paid ''KLP-1'' open_payment], next_id = 2\<rparr>" by code_simp
  have k: "tkeyed pay_id (payments klump_waiting)" "pay_status (mark_paid ''KLP-1'' open_payment) = P_PAID"
    "mark_paid ''KLP-1'' open_payment \<notin> set (rows (payments klump_waiting))" "pay_id (mark_paid ''KLP-1'' open_payment) = 1"
    by (simp_all add: klump_waiting_def open_payment_def mark_paid_def tkeyed_def)
  have v: "klump_verify klump_example ''KLP-1'' = Inr (JObj [(''state'', JStr ''success''), (''data'', klump_answer)])" by code_simp
  have m: "mark_paid ''KLP-1'' open_payment \<in> set (rows (payments (snd klump_verified)))" by (simp add: p)
  obtain response d u q where c: "klump_verify klump_example ''KLP-1'' = Inr response" "jget ''data'' response = Some d"
      "matching_transaction d klump_waiting = Some u" "pay_id (mark_paid ''KLP-1'' open_payment) = kt_paymentId u" "klump_state d = K_SUCCESSFUL"
    using klump_paid_only_if_verified [OF prod.collapse [symmetric] m k(2,3,1)] by blast
  have "d = klump_answer" using v c(1,2) by simp
  then show ?thesis using m c(3-5) k(4) by (intro conjI exI [of _ u]) simp_all
qed

end
