(* ===== verification/Access.thy ===== *)
theory Access
  imports Riders
begin

text \<open>
  Who may do what: the permissions of a user from roles and overrides and their administration
  (\<^verbatim>\<open>src/rbac/rbac.service.ts\<close>; merchant and region scopes, which no modelled condition reads, are
  left out), the permission guard (\<^verbatim>\<open>src/common/permission.guard.ts\<close>) and the
  approval workflow that separates duties (\<^verbatim>\<open>src/approvals/approvals.service.ts\<close>).
\<close>

section \<open>The permissions of a user\<close>

text \<open>An optional expiry in the future, or none.\<close>

definition unexpired :: "time \<Rightarrow> time option \<Rightarrow> bool" where
  "unexpired now e = (case e of None \<Rightarrow> True | Some t \<Rightarrow> now < t)"

definition active_roles :: "time \<Rightarrow> nat \<Rightarrow> db \<Rightarrow> role list" where
  "active_roles now uid s = concat (map (\<lambda>ur. tfilter (\<lambda>r. ro_id r = ur_roleId ur) (roles (access s)))
     (tfilter (\<lambda>ur. ur_userId ur = uid \<and> unexpired now (ur_expiresAt ur)) (userRoles (access s))))"

definition active_overrides :: "time \<Rightarrow> nat \<Rightarrow> db \<Rightarrow> permission_override list" where
  "active_overrides now uid s = tfilter (\<lambda>po. po_userId po = uid \<and> po_startsAt po \<le> now \<and> unexpired now (po_expiresAt po))
     (permissionOverrides (access s))"

record user_context =
  uc_id :: nat
  uc_email :: string
  uc_roles :: "string list"
  uc_permissions :: "string list"

definition buildUserContext :: "time \<Rightarrow> nat \<Rightarrow> db \<Rightarrow> user_context result" where
  "buildUserContext now uid s =
     ebind (orThrow (tfind (\<lambda>u. u_id u = uid) (users s)) (NotFound ''User not found.'')) (\<lambda>user.
     let rs = active_roles now uid s; os = active_overrides now uid s;
         rolePermissions = concat (map ro_permissions rs);
         grantedOverrides = map po_permissionKey (filter po_granted os);
         deniedOverrides = set (map po_permissionKey (filter (\<lambda>po. \<not> po_granted po) os))
     in Inr \<lparr>uc_id = u_id user, uc_email = u_email user, uc_roles = map ro_name rs,
          uc_permissions = filter (\<lambda>k. k \<notin> deniedOverrides) (js_unique (rolePermissions @ grantedOverrides))\<rparr>)"

definition permission_domain :: "string \<Rightarrow> string" where
  "permission_domain required = hd (split_at (CHR ''.'') required)"

definition hasPermission :: "user_context \<Rightarrow> string \<Rightarrow> bool" where
  "hasPermission user required \<longleftrightarrow> required \<in> set (uc_permissions user) \<or>
     permission_domain required @ ''.*'' \<in> set (uc_permissions user) \<or> ''admin.*'' \<in> set (uc_permissions user)"

definition assertPermission :: "user_context \<Rightarrow> string \<Rightarrow> unit result" where
  "assertPermission user required =
     require (hasPermission user required) (Forbidden (''Missing permission: '' @ required)) (Inr ())"

text \<open>The guard of a route; \<open>adminRoute\<close> and the two lists are the annotations of the route.\<close>

definition permissionGuard :: "bool \<Rightarrow> string list \<Rightarrow> string list \<Rightarrow> user_context option \<Rightarrow> bool result" where
  "permissionGuard adminRoute requiredPermissions requiredRoles user =
     (if adminRoute then Inr True
      else if requiredPermissions = [] \<and> requiredRoles = [] then Inr True
      else ebind (orThrow user (Forbidden ''Authenticated user context is required.'')) (\<lambda>u.
           require (requiredRoles = [] \<or> list_ex (\<lambda>r. r \<in> set (uc_roles u)) requiredRoles) (Forbidden ''Required role is missing.'') (
           require (requiredPermissions = [] \<or> list_all (hasPermission u) requiredPermissions)
             (Forbidden ''Required permission is missing.'') (Inr True))))"

section \<open>Roles and overrides\<close>

definition onAccess :: "(access_tables \<Rightarrow> access_tables) \<Rightarrow> db \<Rightarrow> db" where
  "onAccess f s = s\<lparr>access := f (access s)\<rparr>"

definition audit_user :: "nat \<Rightarrow> string \<Rightarrow> string \<Rightarrow> string \<Rightarrow> db \<Rightarrow> db" where
  "audit_user actorId action entity entityId s =
     s\<lparr>auditLogs := tinsert (\<lambda>i. \<lparr>au_id = i, au_actorId = Some actorId, au_staffActorId = None, au_action = action,
        au_entity = entity, au_entityId = entityId\<rparr>) (auditLogs s)\<rparr>"

definition listRoles :: "db \<Rightarrow> (role \<times> nat) list" where
  "listRoles s = map (\<lambda>r. (r, tcount (\<lambda>ur. ur_roleId ur = ro_id r) (userRoles (access s))))
     (rev (sort_key ro_level (rev (rows (roles (access s))))))"

definition role_named :: "string \<Rightarrow> db \<Rightarrow> role option" where
  "role_named name s = tfind (\<lambda>r. ro_name r = name) (roles (access s))"

definition is_assignment :: "nat \<Rightarrow> nat \<Rightarrow> user_role \<Rightarrow> bool" where
  "is_assignment uid roleId ur \<longleftrightarrow> ur_userId ur = uid \<and> ur_roleId ur = roleId"

definition upsertUserRole :: "nat \<Rightarrow> nat \<Rightarrow> time option \<Rightarrow> db \<Rightarrow> db" where
  "upsertUserRole uid roleId expiresAt = onAccess (\<lambda>a. a\<lparr>userRoles :=
     (if tfind (is_assignment uid roleId) (userRoles a) \<noteq> None
      then tupdate (is_assignment uid roleId) (\<lambda>ur. ur\<lparr>ur_expiresAt := expiresAt\<rparr>) (userRoles a)
      else tinsert (\<lambda>i. \<lparr>ur_userId = uid, ur_roleId = roleId, ur_expiresAt = expiresAt\<rparr>) (userRoles a))\<rparr>)"

definition assignment_entity :: "nat \<Rightarrow> nat \<Rightarrow> string" where
  "assignment_entity uid roleId = show_nat uid @ '':'' @ show_nat roleId"

definition assignRole :: "nat \<Rightarrow> nat \<Rightarrow> string \<Rightarrow> time option \<Rightarrow> db \<Rightarrow> db result" where
  "assignRole actorId uid roleName expiresAt s =
     ebind (orThrow (role_named roleName s) (NotFound (''Role '' @ roleName @ '' does not exist.''))) (\<lambda>role.
     require (\<not> (uid = actorId \<and> 80 \<le> ro_level role)) (Forbidden ''Self-assignment of privileged roles is not allowed.'') (
     require (tfind (\<lambda>u. u_id u = uid) (users s) \<noteq> None) RecordNotFound (
     Inr (audit_user actorId ''ROLE_ASSIGNED'' ''UserRole'' (assignment_entity uid (ro_id role))
       (upsertUserRole uid (ro_id role) expiresAt s)))))"

definition revokeRole :: "nat \<Rightarrow> nat \<Rightarrow> string \<Rightarrow> db \<Rightarrow> db result" where
  "revokeRole actorId uid roleName s =
     ebind (orThrow (role_named roleName s) (NotFound ''Role not found.'')) (\<lambda>role.
     require (tfind (is_assignment uid (ro_id role)) (userRoles (access s)) \<noteq> None) RecordNotFound (
     Inr (audit_user actorId ''ROLE_REVOKED'' ''UserRole'' (assignment_entity uid (ro_id role))
       (onAccess (\<lambda>a. a\<lparr>userRoles := tdelete (is_assignment uid (ro_id role)) (userRoles a)\<rparr>) s))))"

definition createOverride :: "time \<Rightarrow> nat \<Rightarrow> nat \<Rightarrow> string \<Rightarrow> bool \<Rightarrow> time option \<Rightarrow> db \<Rightarrow> db result" where
  "createOverride now actorId uid key granted expiresAt s =
     require (key \<in> set (permissionKeys (access s))) (NotFound (''Permission '' @ key @ '' does not exist.'')) (
     require (tfind (\<lambda>u. u_id u = uid) (users s) \<noteq> None) RecordNotFound (
     Inr (audit_user actorId ''PERMISSION_OVERRIDE_CREATED'' ''PermissionOverride'' (show_nat (next_id (permissionOverrides (access s))))
       (onAccess (\<lambda>a. a\<lparr>permissionOverrides := tinsert (\<lambda>i. \<lparr>po_id = i, po_userId = uid, po_permissionKey = key,
          po_granted = granted, po_startsAt = now, po_expiresAt = expiresAt\<rparr>) (permissionOverrides a)\<rparr>) s))))"

section \<open>Approvals\<close>

definition approval_policy_for :: "string \<Rightarrow> db \<Rightarrow> approval_policy option" where
  "approval_policy_for actionKey s = tfind (\<lambda>p. ap_actionKey p = actionKey) (approvalPolicies (access s))"

definition createApproval :: "time \<Rightarrow> nat \<Rightarrow> string \<Rightarrow> string \<Rightarrow> string \<Rightarrow> approval_request tx" where
  "createApproval now actorId actionKey resourceType resourceId s =
     ebind (orThrow (case approval_policy_for actionKey s of Some p \<Rightarrow> if ap_enabled p then Some p else None | None \<Rightarrow> None)
       (NotFound ''Approval policy is not configured for this action.'')) (\<lambda>policy.
     ebind (buildUserContext now actorId s) (\<lambda>cx.
     require (list_ex (hasPermission cx) (ap_initiatorPermissions policy)) (Forbidden ''User cannot initiate this approval workflow.'') (
     require (tfind (\<lambda>q. aq_actionKey q = actionKey \<and> aq_resourceType q = resourceType \<and> aq_resourceId q = resourceId \<and>
         aq_status q = ''PENDING'') (approvalRequests (access s)) = None) (Conflict ''A pending approval request already exists.'') (
     let mk = (\<lambda>i. \<lparr>aq_id = i, aq_policyId = ap_id policy, aq_actionKey = actionKey, aq_resourceType = resourceType,
           aq_resourceId = resourceId, aq_requestedById = actorId, aq_decidedById = None, aq_status = ''PENDING''\<rparr>)
     in Inr (mk (next_id (approvalRequests (access s))),
          onAccess (\<lambda>a. a\<lparr>approvalRequests := tinsert mk (approvalRequests a)\<rparr>) s)))))"

definition listPending :: "db \<Rightarrow> approval_request list" where
  "listPending s = tfilter (\<lambda>q. aq_status q = ''PENDING'') (approvalRequests (access s))"

definition request_by_id :: "nat \<Rightarrow> db \<Rightarrow> approval_request option" where
  "request_by_id k s = tfind (\<lambda>q. aq_id q = k) (approvalRequests (access s))"

text \<open>The decision is checked first and written afterwards, in a transaction that looks at nothing.\<close>

definition checkDecision :: "time \<Rightarrow> nat \<Rightarrow> nat \<Rightarrow> db \<Rightarrow> approval_request result" where
  "checkDecision now actorId k s =
     ebind (orThrow (request_by_id k s) (NotFound ''Approval request not found.'')) (\<lambda>request.
     require (aq_status request = ''PENDING'') (Conflict ''Approval request has already been decided.'') (
     require (aq_requestedById request \<noteq> actorId) (Forbidden ''Segregation of duties prevents self-approval.'') (
     ebind (buildUserContext now actorId s) (\<lambda>cx.
     ebind (orThrow (tfind (\<lambda>p. ap_id p = aq_policyId request) (approvalPolicies (access s))) RecordNotFound) (\<lambda>policy.
     require (list_ex (hasPermission cx) (ap_approverPermissions policy)) (Forbidden ''User cannot approve this workflow.'')
       (Inr request))))))"

definition commitDecision :: "nat \<Rightarrow> nat \<Rightarrow> string \<Rightarrow> db \<Rightarrow> db result" where
  "commitDecision actorId k decision s =
     require (request_by_id k s \<noteq> None) RecordNotFound (
     Inr (audit_user actorId (''APPROVAL_'' @ decision) ''ApprovalRequest'' (show_nat k)
       (onAccess (\<lambda>a. a\<lparr>approvalRequests := tupdate (\<lambda>q. aq_id q = k)
          (\<lambda>q. q\<lparr>aq_status := decision, aq_decidedById := Some actorId\<rparr>) (approvalRequests a)\<rparr>) s)))"

definition decideApproval :: "time \<Rightarrow> nat \<Rightarrow> nat \<Rightarrow> string \<Rightarrow> db \<Rightarrow> db result" where
  "decideApproval now actorId k decision s =
     ebind (checkDecision now actorId k s) (\<lambda>_. commitDecision actorId k decision s)"

section \<open>What the permissions mean\<close>

text \<open>The specification: what a user holds, without the lists the code builds.\<close>

definition granted_key :: "time \<Rightarrow> nat \<Rightarrow> string \<Rightarrow> db \<Rightarrow> bool" where
  "granted_key now uid k s \<longleftrightarrow>
     (\<exists>ur \<in> set (rows (userRoles (access s))). ur_userId ur = uid \<and> unexpired now (ur_expiresAt ur) \<and>
        (\<exists>r \<in> set (rows (roles (access s))). ro_id r = ur_roleId ur \<and> k \<in> set (ro_permissions r))) \<or>
     (\<exists>po \<in> set (rows (permissionOverrides (access s))). po_userId po = uid \<and> po_granted po \<and> po_permissionKey po = k \<and>
        po_startsAt po \<le> now \<and> unexpired now (po_expiresAt po))"

definition denied_key :: "time \<Rightarrow> nat \<Rightarrow> string \<Rightarrow> db \<Rightarrow> bool" where
  "denied_key now uid k s \<longleftrightarrow> (\<exists>po \<in> set (rows (permissionOverrides (access s))). po_userId po = uid \<and> \<not> po_granted po \<and>
     po_permissionKey po = k \<and> po_startsAt po \<le> now \<and> unexpired now (po_expiresAt po))"

lemma role_permissions:
  "k \<in> set (concat (map ro_permissions (active_roles now uid s))) \<longleftrightarrow>
     (\<exists>ur \<in> set (rows (userRoles (access s))). ur_userId ur = uid \<and> unexpired now (ur_expiresAt ur) \<and>
        (\<exists>r \<in> set (rows (roles (access s))). ro_id r = ur_roleId ur \<and> k \<in> set (ro_permissions r)))"
  by (auto simp: active_roles_def tfilter_def)

lemma override_permissions:
  "k \<in> set (map po_permissionKey (filter P (active_overrides now uid s))) \<longleftrightarrow>
     (\<exists>po \<in> set (rows (permissionOverrides (access s))). po_userId po = uid \<and> P po \<and> po_permissionKey po = k \<and>
        po_startsAt po \<le> now \<and> unexpired now (po_expiresAt po))"
  by (auto simp: active_overrides_def tfilter_def)

lemma context_permissions:
  assumes "buildUserContext now uid s = Inr c"
  shows "k \<in> set (uc_permissions c) \<longleftrightarrow> granted_key now uid k s \<and> \<not> denied_key now uid k s"
proof -
  have "uc_permissions c = filter (\<lambda>k. k \<notin> set (map po_permissionKey (filter (\<lambda>po. \<not> po_granted po) (active_overrides now uid s))))
      (js_unique (concat (map ro_permissions (active_roles now uid s)) @ map po_permissionKey (filter po_granted (active_overrides now uid s))))"
    using assms by (auto elim!: ebindE simp: buildUserContext_def Let_def)
  then show ?thesis
    unfolding granted_key_def denied_key_def role_permissions [symmetric] override_permissions [symmetric]
    by (simp only: set_filter set_js_unique set_append mem_Collect_eq Un_iff)
qed

text \<open>
  (C33) The permission check agrees with its specification: a user may do something exactly
  when the permission itself, the wildcard of its domain or the wildcard of the administration
  comes from a role or a grant that is in force and is not denied by an override in force.  In
  particular a denial beats every role and every grant of the same key.
\<close>

theorem permission_check_correct:
  assumes "buildUserContext now uid s = Inr c"
  shows "hasPermission c required \<longleftrightarrow>
    (\<exists>k \<in> {required, permission_domain required @ ''.*'', ''admin.*''}. granted_key now uid k s \<and> \<not> denied_key now uid k s)"
  unfolding hasPermission_def context_permissions [OF assms] by blast

lemma commitDecision_effect:
  assumes "commitDecision actor k decision s = Inr s'" and "request_by_id k s = Some q"
  shows "request_by_id k s' = Some (q\<lparr>aq_status := decision, aq_decidedById := Some actor\<rparr>)"
proof -
  have "aq_id q = k" using assms(2) by (auto simp: request_by_id_def dest: tfind_SomeD)
  then show ?thesis
    using assms by (simp add: commitDecision_def require_Inr_iff request_by_id_def audit_user_def onAccess_def) (auto simp: tfind_tupdate)
qed

lemma checkDecision_steps:
  assumes "checkDecision now actor k s = Inr q"
  obtains cx policy where "request_by_id k s = Some q" "aq_status q = ''PENDING''" "aq_requestedById q \<noteq> actor"
    "buildUserContext now actor s = Inr cx" "tfind (\<lambda>p. ap_id p = aq_policyId q) (approvalPolicies (access s)) = Some policy"
    "list_ex (hasPermission cx) (ap_approverPermissions policy)"
  using assms unfolding checkDecision_def by (auto elim!: ebindE simp: require_Inr_iff orThrow_Inr_iff)


text \<open>Two decisions that were both checked before either was written: the later one wins.\<close>

lemma interleaved_decisions:
  assumes "checkDecision now a k s = Inr q" and "checkDecision now b k s = Inr q" and "commitDecision a k ''APPROVED'' s = Inr s1"
  shows "\<exists>s2. commitDecision b k ''REJECTED'' s1 = Inr s2 \<and>
    request_by_id k s2 = Some (q\<lparr>aq_status := ''REJECTED'', aq_decidedById := Some b\<rparr>)"
proof -
  have q: "request_by_id k s = Some q" by (rule checkDecision_steps [OF assms(1)])
  have s1: "request_by_id k s1 = Some (q\<lparr>aq_status := ''APPROVED'', aq_decidedById := Some a\<rparr>)"
    by (rule commitDecision_effect [OF assms(3) q])
  then obtain s2 where "commitDecision b k ''REJECTED'' s1 = Inr s2" by (simp add: commitDecision_def)
  with commitDecision_effect [OF this s1] show ?thesis by auto
qed

section \<open>Examples\<close>

text \<open>Ada may refund orders by her role, and Bisi, whose grant of the wildcard is overridden by a denial, may not.\<close>

definition ada :: user where
  "ada = \<lparr>u_id = 1, u_email = ''ada@x'', u_firstName = None, u_lastName = None, u_phoneNumber = None, u_status = ACTIVE,
     u_passwordHash = None, u_isEmailVerified = True\<rparr>"

definition access_db :: db where
  "access_db = empty_db\<lparr>users := \<lparr>rows = [ada, ada\<lparr>u_id := 2, u_email := ''bisi@x''\<rparr>], next_id = 3\<rparr>,
     access := (access empty_db)\<lparr>
       roles := \<lparr>rows = [\<lparr>ro_id = 1, ro_name = ''FINANCE_ADMIN'', ro_level = 70, ro_permissions = [''orders.refund.approve'']\<rparr>], next_id = 2\<rparr>,
       userRoles := \<lparr>rows = [\<lparr>ur_userId = 1, ur_roleId = 1, ur_expiresAt = None\<rparr>], next_id = 2\<rparr>,
       permissionKeys := [''orders.*'', ''orders.refund.approve''],
       permissionOverrides := \<lparr>rows = [\<lparr>po_id = 1, po_userId = 2, po_permissionKey = ''orders.*'', po_granted = True, po_startsAt = 0, po_expiresAt = None\<rparr>,
         \<lparr>po_id = 2, po_userId = 2, po_permissionKey = ''orders.*'', po_granted = False, po_startsAt = 0, po_expiresAt = Some 99\<rparr>], next_id = 3\<rparr>,
       approvalPolicies := \<lparr>rows = [\<lparr>ap_id = 1, ap_actionKey = ''orders.refund.approve'', ap_initiatorPermissions = [''orders.refund.initiate''],
         ap_approverPermissions = [''orders.refund.approve''], ap_enabled = True\<rparr>], next_id = 2\<rparr>,
       approvalRequests := \<lparr>rows = [\<lparr>aq_id = 1, aq_policyId = 1, aq_actionKey = ''orders.refund.approve'', aq_resourceType = ''ORDER'',
         aq_resourceId = ''9'', aq_requestedById = 2, aq_decidedById = None, aq_status = ''PENDING''\<rparr>], next_id = 2\<rparr>\<rparr>\<rparr>"

abbreviation "bisi_context \<equiv> buildUserContext 50 2 access_db"
abbreviation "ada_decides \<equiv> decideApproval 50 1 1 ''APPROVED'' access_db"

theorem permission_check_correct_witness:
  "\<not> hasPermission (projr bisi_context) ''orders.refund.approve'' \<and> denied_key 50 2 ''orders.*'' access_db"
proof -
  have "\<not> isl bisi_context" and n: "\<not> hasPermission (projr bisi_context) ''orders.refund.approve''"
    and g: "granted_key 50 2 ''orders.*'' access_db" and d: "permission_domain ''orders.refund.approve'' = ''orders''" by code_simp+
  from this(1) have "bisi_context = Inr (projr bisi_context)" by (cases bisi_context) auto
  from permission_check_correct [OF this, of "''orders.refund.approve''"] n g d show ?thesis by auto
qed


end
