(* ===== verification/Bnpl.thy ===== *)
theory Bnpl
  imports Wallets Payments
begin

text \<open>
  Buying now and paying later (\<^verbatim>\<open>src/bnpl/bnpl.service.ts\<close>): the terms of an instalment plan, the
  calendar dates the instalments fall due on, the application with its encrypted document, the
  review by the staff, the confirmation that turns an approved application into a paid checkout,
  and the repayments.  The cipher is a parameter; instants count milliseconds from 1970 on.
\<close>

section \<open>The calendar of UTC dates\<close>

text \<open>
  Days are counted from 1 January 1970, months from 0.  The year of a day is searched upwards
  from 1970, which finds the year of every day from then on.
\<close>

definition day_from_year :: "int \<Rightarrow> int" where
  "day_from_year y = 365 * (y - 1970) + (y - 1969) div 4 - (y - 1901) div 100 + (y - 1601) div 400"

definition leap :: "int \<Rightarrow> bool" where
  "leap y \<longleftrightarrow> 4 dvd y \<and> (\<not> 100 dvd y \<or> 400 dvd y)"

definition month_days :: "int \<Rightarrow> int list" where
  "month_days y = [31, if leap y then 29 else 28, 31, 30, 31, 30, 31, 31, 30, 31, 30, 31]"

fun split_days :: "int list \<Rightarrow> int \<Rightarrow> nat \<times> int" where
  "split_days [] d = (0, d)"
| "split_days (n # ns) d = (if d < n then (0, d) else (case split_days ns (d - n) of (m, r) \<Rightarrow> (Suc m, r)))"

lemma day_from_year_Suc: "day_from_year (y + 1) = day_from_year y + (if leap y then 366 else 365)"
proof -
  have *: "(z + 1) div n = z div n + (if n dvd z + 1 then 1 else 0)" if "0 < n" for z n :: int
  proof (cases "n dvd z + 1")
    case True
    then obtain k where k: "z + 1 = n * k" by (auto elim: dvdE)
    then have "z div n = k - 1"
      using that by (intro div_pos_pos_trivial [THEN trans] int_div_pos_eq [of z n "k - 1" "n - 1"]) (auto simp: algebra_simps)
    then show ?thesis using k that True by simp
  next
    case False
    define r where "r = z mod n"
    have r: "0 \<le> r" "r < n" and z: "z = n * (z div n) + r" using that by (simp_all add: r_def)
    have "r + 1 \<noteq> n"
    proof
      assume "r + 1 = n"
      then have "z + 1 = n * (z div n + 1)" using z by (simp add: algebra_simps)
      then show False using False by (metis dvd_triv_left)
    qed
    then have "r + 1 < n" using r by simp
    then have "(z + 1) div n = z div n"
      using z r by (intro int_div_pos_eq [of "z + 1" n "z div n" "r + 1"]) auto
    then show ?thesis using False by simp
  qed
  have "n dvd y - c \<longleftrightarrow> n dvd y" if "n dvd c" for n c :: int
    using that by (metis diff_add_cancel dvd_add dvd_diff)
  from this [of 4 1968] this [of 100 1900] this [of 400 1600]
  have a: "4 dvd y - 1968 \<longleftrightarrow> 4 dvd y" "100 dvd y - 1900 \<longleftrightarrow> 100 dvd y" "400 dvd y - 1600 \<longleftrightarrow> 400 dvd y" by simp_all
  have b: "400 dvd y \<Longrightarrow> 100 dvd y" "100 dvd y \<Longrightarrow> 4 dvd y"
    using dvd_trans [of 100 400 y] dvd_trans [of 4 100 y] by simp_all
  have e: "(y + 1 - 1969) div 4 = (y - 1969) div 4 + (if 4 dvd y then 1 else 0)"
    "(y + 1 - 1901) div 100 = (y - 1901) div 100 + (if 100 dvd y then 1 else 0)"
    "(y + 1 - 1601) div 400 = (y - 1601) div 400 + (if 400 dvd y then 1 else 0)"
    using * [of 4 "y - 1969"] * [of 100 "y - 1901"] * [of 400 "y - 1601"] a by (simp_all add: algebra_simps)
  have sum: "365 * (y + 1 - 1970) + (A + i) - (B + j) + (C + k) = 365 * (y - 1970) + A - B + C + (365 + i - j + k)"
    for A B C i j k :: int by simp
  have days: "365 + (if f then 1 else 0) - (if h then 1 else 0) + (if c then 1 else 0)
      = (if f \<and> (\<not> h \<or> c) then 366 else (365 :: int))" if "c \<longrightarrow> h" "h \<longrightarrow> f" for c h f
    using that by (cases f; cases h; cases c) simp_all
  show ?thesis unfolding day_from_year_def e sum leap_def
    by (rule arg_cong [OF days]) (rule impI, erule b)+
qed

function year_from :: "int \<Rightarrow> int \<Rightarrow> int" where
  "year_from y d = (if day_from_year (y + 1) \<le> d then year_from (y + 1) d else y)"
  by auto
termination
  by (relation "measure (\<lambda>(y, d). nat (d - day_from_year y))") (auto simp: day_from_year_Suc split: if_splits)

declare year_from.simps [simp del]

definition utc_fields :: "int \<Rightarrow> int \<times> nat \<times> int" where
  "utc_fields d = (let y = year_from 1970 d; (m, r) = split_days (month_days y) (d - day_from_year y) in (y, m, r + 1))"

definition make_day :: "int \<Rightarrow> nat \<Rightarrow> int \<Rightarrow> int" where
  "make_day y m dt = (let y' = y + int (m div 12)
     in day_from_year y' + sum_list (take (m mod 12) (month_days y')) + dt - 1)"

definition ms_per_day :: int where
  "ms_per_day = 86400000"

definition dueDate :: "time \<Rightarrow> nat \<Rightarrow> time" where
  "dueDate start monthOffset =
     (let (y, m, dd) = utc_fields (start div ms_per_day);
          (y1, m1, _) = utc_fields (make_day y (m + monthOffset) 1);
          (_, _, lastDay) = utc_fields (make_day y1 (m1 + 1) 0)
      in make_day y1 m1 (min dd lastDay) * ms_per_day)"

lemma year_from_spec:
  assumes "day_from_year y \<le> d"
  shows "day_from_year (year_from y d) \<le> d \<and> d < day_from_year (year_from y d + 1) \<and> y \<le> year_from y d"
  using assms
proof (induction y d rule: year_from.induct)
  case (1 y d)
  show ?case
  proof (cases "day_from_year (y + 1) \<le> d")
    case True
    then show ?thesis using 1(1) [OF True True] by (simp add: year_from.simps [of y d])
  next
    case False
    then show ?thesis using 1(2) by (simp add: year_from.simps [of y d])
  qed
qed

lemma day_from_year_mono: "y \<le> z \<Longrightarrow> day_from_year y \<le> day_from_year z"
proof (induction z rule: int_ge_induct)
  case (step z)
  then show ?case by (auto simp: day_from_year_Suc)
qed simp

lemma year_from_unique:
  assumes "day_from_year y \<le> d" "d < day_from_year (y + 1)" "1970 \<le> y"
  shows "year_from 1970 d = y"
proof -
  let ?z = "year_from 1970 d"
  have z: "day_from_year ?z \<le> d" "d < day_from_year (?z + 1)"
    using year_from_spec [of 1970 d] day_from_year_mono [OF assms(3)] assms(1) by auto
  have "\<not> y + 1 \<le> ?z" using day_from_year_mono [of "y + 1" ?z] z assms by linarith
  moreover have "\<not> ?z + 1 \<le> y" using day_from_year_mono [of "?z + 1" y] z assms by linarith
  ultimately show ?thesis by simp
qed

lemma sum_month_days: "sum_list (month_days y) = (if leap y then 366 else 365)"
  by (simp add: month_days_def)

lemma length_month_days [simp]: "length (month_days y) = 12"
  by (simp add: month_days_def)

lemma month_days_pos: "m < 12 \<Longrightarrow> 28 \<le> month_days y ! m \<and> month_days y ! m \<le> 31"
  by (auto simp: month_days_def nth_Cons split: nat.splits)

lemma split_days_take:
  assumes "m < length ns" "0 \<le> r" "r < ns ! m" "\<forall>n \<in> set ns. 0 \<le> n"
  shows "split_days ns (sum_list (take m ns) + r) = (m, r)"
  using assms
proof (induction ns arbitrary: m)
  case (Cons n ns)
  show ?case
  proof (cases m)
    case (Suc k)
    then have "split_days ns (sum_list (take k ns) + r) = (k, r)" using Cons by simp
    moreover have "0 \<le> sum_list (take k ns)"
      using Cons.prems(4) by (intro sum_list_nonneg) (auto dest: in_set_takeD)
    ultimately show ?thesis using Suc Cons.prems by (simp add: algebra_simps)
  qed (use Cons.prems in simp)
qed simp

lemma utc_fields_make_day:
  assumes "1970 \<le> y" "m < 12" "1 \<le> dt" "dt \<le> month_days y ! m"
  shows "utc_fields (make_day y m dt) = (y, m, dt)"
proof -
  let ?r = "sum_list (take m (month_days y)) + (dt - 1)"
  have nn: "\<forall>n \<in> set (month_days y). 0 \<le> n" by (simp add: month_days_def)
  have "sum_list (take (Suc m) (month_days y)) \<le> sum_list (month_days y)"
    using sum_list_append [of "take (Suc m) (month_days y)" "drop (Suc m) (month_days y)"]
      sum_list_nonneg [of "drop (Suc m) (month_days y)"] nn
    by (metis append_take_drop_id in_set_dropD le_add_same_cancel1)
  moreover have "0 \<le> sum_list (take m (month_days y))"
    using nn by (intro sum_list_nonneg) (auto dest: in_set_takeD)
  ultimately have r: "0 \<le> ?r" "?r < sum_list (month_days y)"
    using assms by (auto simp: take_Suc_conv_app_nth)
  have d: "make_day y m dt = day_from_year y + ?r" using assms(2) by (simp add: make_day_def)
  have "year_from 1970 (make_day y m dt) = y"
    using r assms(1) unfolding d by (intro year_from_unique) (auto simp: day_from_year_Suc sum_month_days split: if_splits)
  moreover have "split_days (month_days y) ?r = (m, dt - 1)"
    using assms nn by (intro split_days_take) auto
  ultimately show ?thesis by (simp add: utc_fields_def d)
qed

lemma split_days_spec:
  assumes "split_days ns d = (m, r)" "0 \<le> d" "d < sum_list ns"
  shows "m < length ns \<and> 0 \<le> r \<and> r < ns ! m \<and> d = sum_list (take m ns) + r"
  using assms
proof (induction ns arbitrary: d m)
  case (Cons n ns)
  show ?case
  proof (cases "d < n")
    case False
    then obtain k where k: "split_days ns (d - n) = (k, r)" "m = Suc k" using Cons.prems by (auto split: prod.splits)
    with Cons.IH [OF k(1)] False Cons.prems show ?thesis by simp
  qed (use Cons.prems in simp)
qed simp

lemma utc_fields_valid:
  assumes "utc_fields d = (y, m, dt)" "0 \<le> d"
  shows "1970 \<le> y \<and> m < 12 \<and> 1 \<le> dt \<and> dt \<le> month_days y ! m \<and> make_day y m dt = d"
proof -
  have y: "y = year_from 1970 d" and s: "split_days (month_days y) (d - day_from_year y) = (m, dt - 1)"
    using assms(1) by (auto simp: utc_fields_def Let_def split: prod.splits)
  have "day_from_year 1970 = 0" by (simp add: day_from_year_def)
  then have z: "day_from_year y \<le> d" "d < day_from_year (y + 1)" "1970 \<le> y"
    using year_from_spec [of 1970 d] assms(2) y by auto
  have "d - day_from_year y < sum_list (month_days y)"
    using z by (auto simp: day_from_year_Suc sum_month_days split: if_splits)
  then show ?thesis using split_days_spec [OF s] z by (auto simp: make_day_def)
qed

lemma make_day_zero:
  assumes "m < 12"
  shows "make_day y (m + 1) 0 = make_day y m (month_days y ! m)"
proof (cases "m = 11")
  case True
  then show ?thesis by (simp add: make_day_def day_from_year_Suc month_days_def)
next
  case False
  then show ?thesis using assms by (simp add: make_day_def take_Suc_conv_app_nth)
qed

text \<open>
  An instalment falls due in the month that many months later, on the day of the month the
  customer confirmed on, or on the last day of a shorter month.
\<close>

lemma dueDate_fields:
  fixes k :: nat
  assumes "0 \<le> start" "utc_fields (start div ms_per_day) = (y, m, dd)"
  defines "y' \<equiv> y + int ((m + k) div 12)" and "m' \<equiv> (m + k) mod 12"
  shows "dueDate start k = make_day y' m' (min dd (month_days y' ! m')) * ms_per_day"
    and "utc_fields (dueDate start k div ms_per_day) = (y', m', min dd (month_days y' ! m'))"
proof -
  have "0 \<le> start div ms_per_day" using assms(1) by (simp add: ms_per_day_def pos_imp_zdiv_nonneg_iff)
  then have v: "1970 \<le> y" "m < 12" "1 \<le> dd" using utc_fields_valid [OF assms(2)] by auto
  have y: "1970 \<le> y'" and m: "m' < 12" using v by (auto simp: y'_def m'_def)
  note b = month_days_pos [OF m, of y']
  have "make_day y (m + k) 1 = make_day y' m' 1" by (simp add: make_day_def y'_def m'_def)
  then have f1: "utc_fields (make_day y (m + k) 1) = (y', m', 1)"
    using utc_fields_make_day [OF y m, of 1] b by simp
  have f2: "utc_fields (make_day y' (m' + 1) 0) = (y', m', month_days y' ! m')"
    unfolding make_day_zero [OF m] using utc_fields_make_day [OF y m] b by simp
  show d: "dueDate start k = make_day y' m' (min dd (month_days y' ! m')) * ms_per_day"
    unfolding dueDate_def assms(2) Let_def prod.case f1 f2 by (rule refl)
  have "ms_per_day \<noteq> 0" by (simp add: ms_per_day_def)
  then show "utc_fields (dueDate start k div ms_per_day) = (y', m', min dd (month_days y' ! m'))"
    unfolding d using utc_fields_make_day [OF y m, of "min dd (month_days y' ! m')"] v b by simp
qed

section \<open>The terms of a plan\<close>

text \<open>\<open>decimal.js\<close> rounds a quotient to twenty significant digits, which is the parameter \<open>dv\<close>.\<close>

definition installmentTerms :: "(decimal \<Rightarrow> decimal \<Rightarrow> decimal) \<Rightarrow> string \<Rightarrow> string \<Rightarrow> decimal \<Rightarrow> nat \<Rightarrow> decimal \<Rightarrow> plan_terms result" where
  "installmentTerms dv prov label amount months rate =
     ebind (money amount) (\<lambda>p.
     let totalPayable = toDecimalPlaces2 (p * (dv rate 100 + 1));
         monthlyAmount = toDecimalPlaces2Down (dv totalPayable (of_nat months))
     in Inr \<lparr>tm_provider = prov, tm_label = label, tm_principal = p, tm_months = months, tm_interestRate = rate,
          tm_totalPayable = totalPayable, tm_monthlyAmount = monthlyAmount,
          tm_finalInstallment = totalPayable - monthlyAmount * (of_nat months - 1), tm_schedule = []\<rparr>)"

definition installment_amount :: "plan_terms \<Rightarrow> nat \<Rightarrow> decimal" where
  "installment_amount terms index =
     (if index + 1 = tm_months terms then tm_finalInstallment terms else tm_monthlyAmount terms)"

definition schedule_of :: "time \<Rightarrow> plan_terms \<Rightarrow> (nat \<times> decimal \<times> time \<times> string) list" where
  "schedule_of now terms = map (\<lambda>index. (index + 1, installment_amount terms index, dueDate now (index + 1), ''DUE'')) [0..<tm_months terms]"

section \<open>The plans\<close>

definition active_plans :: "string \<Rightarrow> db \<Rightarrow> bnpl_plan list" where
  "active_plans prov s = sort_key bp_months (tfilter (\<lambda>p. bp_provider p = prov \<and> bp_isActive p) (bnplPlans (lending s)))"

record plans_view =
  pv_provider :: string
  pv_cartTotal :: decimal
  pv_currency :: string
  pv_plans :: "(nat \<times> plan_terms) list"

definition plans :: "(decimal \<Rightarrow> decimal \<Rightarrow> decimal) \<Rightarrow> nat \<Rightarrow> string \<Rightarrow> nat \<Rightarrow> plans_view handler" where
  "plans dv userId prov cartId = hbind (transaction (get_cart userId)) (\<lambda>view s.
     (require (vw_cartId view = cartId) (NotFound ''Cart not found.'') (
      ebind (orThrow (tfind (\<lambda>c. c_id c = vw_cartId view) (carts s)) RecordNotFound) (\<lambda>cart.
      ebind (emap (\<lambda>p. ebind (installmentTerms dv (bp_provider p) (bp_label p) (vw_subtotal view) (bp_months p) (bp_interestRate p))
               (\<lambda>terms. Inr (bp_id p, terms))) (active_plans prov s)) (\<lambda>ps.
      Inr \<lparr>pv_provider = prov, pv_cartTotal = vw_subtotal view, pv_currency = c_currency cart, pv_plans = ps\<rparr>))), s))"

definition allPlans :: "db \<Rightarrow> bnpl_plan list" where
  "allPlans s = rows (bnplPlans (lending s))"

text \<open>The plan as the staff enters it; every field of an update is optional.\<close>

record plan_input =
  pli_provider :: "string option"
  pli_label :: "string option"
  pli_months :: "nat option"
  pli_interestRate :: "decimal option"
  pli_isActive :: "bool option"

definition plan_data :: "plan_input \<Rightarrow> bnpl_plan \<Rightarrow> bnpl_plan" where
  "plan_data dto p = p\<lparr>
     bp_provider := case_option (bp_provider p) id (pli_provider dto),
     bp_label := case_option (bp_label p) id (pli_label dto),
     bp_months := case_option (bp_months p) id (pli_months dto),
     bp_interestRate := case_option (bp_interestRate p) id (pli_interestRate dto),
     bp_isActive := case_option (bp_isActive p) id (pli_isActive dto)\<rparr>"

definition onPlans :: "(bnpl_plan table \<Rightarrow> bnpl_plan table) \<Rightarrow> db \<Rightarrow> db" where
  "onPlans f s = s\<lparr>lending := (lending s)\<lparr>bnplPlans := f (bnplPlans (lending s))\<rparr>\<rparr>"

definition createPlan :: "nat \<Rightarrow> plan_input \<Rightarrow> bnpl_plan tx" where
  "createPlan actorId dto s = (case (pli_provider dto, pli_label dto, pli_months dto, pli_interestRate dto) of
     (Some prov, Some label, Some months, Some rate) \<Rightarrow>
       let mk = (\<lambda>i. \<lparr>bp_id = i, bp_provider = prov, bp_label = label, bp_months = months, bp_interestRate = rate,
             bp_isActive = (pli_isActive dto = Some True)\<rparr>);
           i = next_id (bnplPlans (lending s))
       in Inr (mk i, audit actorId ''BNPL_PLAN_SAVED'' ''BnplPlan'' (show_nat i) (onPlans (tinsert mk) s))
   | _ \<Rightarrow> Inl (ProviderError ''A required column is missing.''))"

definition savePlan :: "nat \<Rightarrow> plan_input \<Rightarrow> nat option \<Rightarrow> bnpl_plan tx" where
  "savePlan actorId dto i s =
     (if \<not> truthy_id i then createPlan actorId dto s
      else ebind (orThrow (tfind (\<lambda>p. Some (bp_id p) = i) (bnplPlans (lending s))) (NotFound ''Plan not found.'')) (\<lambda>p.
        Inr (plan_data dto p, audit actorId ''BNPL_PLAN_SAVED'' ''BnplPlan'' (show_nat (bp_id p))
          (onPlans (tupdate (\<lambda>r. bp_id r = bp_id p) (plan_data dto)) s))))"

section \<open>Documents\<close>

text \<open>
  What the service takes from outside: the configured key, the random bytes and the cipher
  (AES-256-GCM: key, vector and plain text to the sixteen-byte tag and the body; the inverse
  fails when the tag does not fit), and the environment of the checkout.
\<close>

record bnpl_env =
  be_now :: time
  be_key :: string
  be_iv :: "nat \<Rightarrow> nat list"
  be_cipher :: "nat list \<Rightarrow> nat list \<Rightarrow> nat list \<Rightarrow> nat list \<times> nat list"
  be_decipher :: "nat list \<Rightarrow> nat list \<Rightarrow> nat list \<Rightarrow> nat list \<Rightarrow> nat list result"
  be_checkout :: checkout_env

definition hex_digit :: "char \<Rightarrow> nat option" where
  "hex_digit c = (let n = of_char c :: nat in
     if 48 \<le> n \<and> n \<le> 57 then Some (n - 48) else if 97 \<le> n \<and> n \<le> 102 then Some (n - 87)
     else if 65 \<le> n \<and> n \<le> 70 then Some (n - 55) else None)"

fun hex_bytes :: "string \<Rightarrow> nat list" where
  "hex_bytes (a # b # cs) = (case (hex_digit a, hex_digit b) of (Some x, Some y) \<Rightarrow> (16 * x + y) # hex_bytes cs | _ \<Rightarrow> [])"
| "hex_bytes _ = []"

definition bnpl_key :: "string \<Rightarrow> nat list result" where
  "bnpl_key v = require (length v = 64 \<and> (\<forall>c \<in> set v. hex_digit c \<noteq> None))
     (ServiceUnavailable ''BNPL document encryption is not configured.'') (Inr (hex_bytes v))"

definition encrypt :: "bnpl_env \<Rightarrow> nat \<Rightarrow> nat list \<Rightarrow> nat list result" where
  "encrypt env n data = ebind (bnpl_key (be_key env)) (\<lambda>key.
     let (tag, body) = be_cipher env key (be_iv env n) data in Inr (be_iv env n @ tag @ body))"

definition decrypt :: "bnpl_env \<Rightarrow> nat list \<Rightarrow> nat list result" where
  "decrypt env data = ebind (bnpl_key (be_key env)) (\<lambda>key.
     be_decipher env key (take 12 data) (take 16 (drop 12 data)) (drop 28 data))"

definition documentMime :: "nat list \<Rightarrow> string result" where
  "documentMime data =
     (if take 5 data = [37, 80, 68, 70, 45] then Inr ''application/pdf''
      else if take 8 data = [137, 80, 78, 71, 13, 10, 26, 10] then Inr ''image/png''
      else if take 3 data = [255, 216, 255] then Inr ''image/jpeg''
      else Inl (BadRequest ''Document must be a PDF, PNG, or JPEG.''))"

definition document_name :: "string \<Rightarrow> string" where
  "document_name mime = ''verification'' @ (if mime = ''application/pdf'' then ''.pdf'' else if mime = ''image/png'' then ''.png'' else ''.jpg'')"

section \<open>Applications\<close>

record bnpl_request =
  bq_cartId :: nat
  bq_deliveryMethod :: string
  bq_addressId :: "nat option"
  bq_pickupStationId :: "nat option"
  bq_provider :: string
  bq_planId :: nat
  bq_employerName :: string
  bq_monthlyIncome :: decimal
  bq_accountNumber :: string
  bq_bankName :: string

definition request_input :: "bnpl_request \<Rightarrow> checkout_input" where
  "request_input dto = \<lparr>in_cartId = Some (bq_cartId dto), in_fulfillmentType = None,
     in_deliveryMethod = Some (bq_deliveryMethod dto),
     in_addressId = (if truthy_id (bq_addressId dto) then bq_addressId dto else None), in_address = None,
     in_pickupStationId = (if truthy_id (bq_pickupStationId dto) then bq_pickupStationId dto else None),
     in_paymentMethod = None\<rparr>"

definition last4 :: "string \<Rightarrow> string" where
  "last4 cs = drop (length cs - 4) cs"

record application_view =
  av_applicationId :: nat
  av_userId :: nat
  av_cartId :: nat
  av_status :: string
  av_planId :: nat
  av_plan :: plan_terms
  av_quote :: string
  av_bankName :: string
  av_accountNumber :: string
  av_reviewReason :: "string option"
  av_paymentGroupId :: "nat option"
  av_consentAt :: time
  av_confirmedAt :: "time option"

definition present :: "bnpl_application \<Rightarrow> application_view" where
  "present a = \<lparr>av_applicationId = ba_id a, av_userId = ba_userId a, av_cartId = ba_cartId a,
     av_status = toLowerCase (ba_status a), av_planId = ba_planId a, av_plan = ba_terms a, av_quote = ba_quoteFingerprint a,
     av_bankName = ba_bankName a, av_accountNumber = ''******'' @ ba_accountLast4 a, av_reviewReason = ba_reviewReason a,
     av_paymentGroupId = ba_paymentGroupId a, av_consentAt = ba_consentAt a, av_confirmedAt = ba_confirmedAt a\<rparr>"

definition onApplications :: "(bnpl_application table \<Rightarrow> bnpl_application table) \<Rightarrow> db \<Rightarrow> db" where
  "onApplications f s = s\<lparr>lending := (lending s)\<lparr>bnplApplications := f (bnplApplications (lending s))\<rparr>\<rparr>"

definition application :: "nat \<Rightarrow> db \<Rightarrow> bnpl_application option" where
  "application k s = tfind (\<lambda>a. ba_id a = k) (bnplApplications (lending s))"

definition owned_application :: "nat \<Rightarrow> nat \<Rightarrow> db \<Rightarrow> bnpl_application result" where
  "owned_application userId k s =
     orThrow (tfind (\<lambda>a. ba_id a = k \<and> ba_userId a = userId) (bnplApplications (lending s))) (NotFound ''BNPL application not found.'')"

definition updateApplication :: "nat \<Rightarrow> (bnpl_application \<Rightarrow> bnpl_application) \<Rightarrow> db \<Rightarrow> db" where
  "updateApplication k f = onApplications (tupdate (\<lambda>a. ba_id a = k) f)"

definition new_application ::
    "bnpl_env \<Rightarrow> nat \<Rightarrow> bnpl_request \<Rightarrow> string \<Rightarrow> nat list \<Rightarrow> nat list \<Rightarrow> bnpl_plan \<Rightarrow> quote \<Rightarrow> plan_terms \<Rightarrow> nat \<Rightarrow> bnpl_application" where
  "new_application env userId dto mime document account plan q terms i = \<lparr>ba_id = i, ba_userId = userId, ba_cartId = bq_cartId dto,
     ba_activeCartId = Some (bq_cartId dto), ba_planId = bp_id plan, ba_status = ''PENDING_REVIEW'',
     ba_employerName = bq_employerName dto, ba_monthlyIncome = bq_monthlyIncome dto, ba_accountNumber = account,
     ba_accountLast4 = last4 (bq_accountNumber dto), ba_bankName = bq_bankName dto, ba_documentData = document,
     ba_documentName = document_name mime, ba_documentMime = mime, ba_consentAt = be_now env,
     ba_checkoutInput = request_input dto, ba_quoteFingerprint = ce_quoteFp (be_checkout env) q, ba_terms = terms,
     ba_paymentGroupId = None, ba_reviewedById = None, ba_reviewReason = None, ba_reviewedAt = None, ba_confirmedAt = None\<rparr>"

definition applyInTransaction :: "bnpl_env \<Rightarrow> nat \<Rightarrow> bnpl_request \<Rightarrow> string \<Rightarrow> nat list \<Rightarrow> nat list \<Rightarrow> application_view tx" where
  "applyInTransaction env userId dto mime document account s =
     ebind (lock userId s) (\<lambda>(_, s1).
     require (tfind (\<lambda>a. ba_activeCartId a = Some (bq_cartId dto)) (bnplApplications (lending s1)) = None)
       (Unprocessable ''A BNPL application already exists for this cart.'') (
     require (tfind (\<lambda>g. g_activeCartId g = Some (bq_cartId dto)) (groups s1) = None)
       (Conflict ''Resolve the unpaid checkout before applying for BNPL.'') (
     ebind (orThrow (tfind (\<lambda>p. bp_id p = bq_planId dto \<and> bp_provider p = bq_provider dto \<and> bp_isActive p) (bnplPlans (lending s1)))
       (BadRequest ''Installment plan is unavailable.'')) (\<lambda>plan.
     ebind (quoteInTransaction (ce_div (be_checkout env)) (ce_now (be_checkout env)) userId (request_input dto) s1) (\<lambda>q.
     ebind (installmentTerms (ce_div (be_checkout env)) (bp_provider plan) (bp_label plan) (q_total q) (bp_months plan) (bp_interestRate plan)) (\<lambda>terms.
     let mk = new_application env userId dto mime document account plan q terms
     in Inr (present (mk (next_id (bnplApplications (lending s1)))), onApplications (tinsert mk) s1)))))))"

definition apply_bnpl :: "bnpl_env \<Rightarrow> nat \<Rightarrow> bnpl_request \<Rightarrow> nat list option \<Rightarrow> application_view tx" where
  "apply_bnpl env userId dto file s = (case file of
     None \<Rightarrow> Inl (BadRequest ''Verification document is required.'')
   | Some buffer \<Rightarrow>
       require (buffer \<noteq> []) (BadRequest ''Verification document is required.'') (
       ebind (documentMime buffer) (\<lambda>mime.
       require (length buffer \<le> 5 * 1024 * 1024) (BadRequest ''Document exceeds 5 MB.'') (
       ebind (encrypt env 0 buffer) (\<lambda>document.
       ebind (encrypt env 1 (map of_char (bq_accountNumber dto))) (\<lambda>account.
       applyInTransaction env userId dto mime document account s))))))"

definition get_application :: "nat \<Rightarrow> nat \<Rightarrow> db \<Rightarrow> application_view result" where
  "get_application userId k s = ebind (owned_application userId k s) (\<lambda>a. Inr (present a))"

definition my_applications :: "nat \<Rightarrow> db \<Rightarrow> application_view list" where
  "my_applications userId s = map present (take 100 (rev (tfilter (\<lambda>a. ba_userId a = userId) (bnplApplications (lending s)))))"

definition list_applications :: "nat \<Rightarrow> nat \<Rightarrow> db \<Rightarrow> (application_view \<times> string \<times> decimal) list" where
  "list_applications page limit s = map (\<lambda>a. (present a, ba_employerName a, ba_monthlyIncome a))
     (page_of page limit (rev (rows (bnplApplications (lending s)))))"

definition cancel_application :: "nat \<Rightarrow> nat \<Rightarrow> application_view tx" where
  "cancel_application userId k s =
     ebind (owned_application userId k s) (\<lambda>a.
     require (ba_status a \<in> {''PENDING_REVIEW'', ''APPROVED''}) (Conflict ''Application cannot be cancelled.'') (
     let f = (\<lambda>a. a\<lparr>ba_status := ''CANCELLED'', ba_activeCartId := None\<rparr>)
     in Inr (present (f a), updateApplication k f s)))"

section \<open>Review and documents\<close>

record staff =
  stf_id :: nat
  stf_email :: string
  stf_role :: staff_role
  stf_permissions :: "string list"
  stf_sessionId :: nat
  stf_mustChangePassword :: bool

definition review_application :: "time \<Rightarrow> staff \<Rightarrow> nat \<Rightarrow> string \<Rightarrow> string \<Rightarrow> application_view tx" where
  "review_application now staff k decision reason s =
     ebind (orThrow (application k s) (NotFound ''Application not found.'')) (\<lambda>a.
     require (ba_status a = ''PENDING_REVIEW'') (Conflict ''Application has already been reviewed.'') (
     ebind (orThrow (tfind (\<lambda>u. u_id u = ba_userId a) (users s)) RecordNotFound) (\<lambda>user.
     require (toLowerCase (u_email user) \<noteq> toLowerCase (stf_email staff)) (Forbidden ''You cannot review your own application.'') (
     let f = (\<lambda>a. a\<lparr>ba_status := decision, ba_reviewedById := Some (stf_id staff), ba_reviewedAt := Some now,
           ba_reviewReason := Some reason,
           ba_activeCartId := (if decision = ''REJECTED'' then None else ba_activeCartId a)\<rparr>);
         s1 = audit (stf_id staff) (''BNPL_'' @ decision) ''BnplApplication'' (show_nat k) (updateApplication k f s)
     in Inr (present (f a), s1\<lparr>notifications := tinsert (\<lambda>i. \<lparr>n_id = i, n_recipientId = ba_userId a,
          n_type = ''SYSTEM_ANNOUNCEMENT'', n_title = ''BNPL application reviewed'', n_eventKey = None, n_isRead = False\<rparr>)
          (notifications s1)\<rparr>)))))"

definition view_document :: "bnpl_env \<Rightarrow> nat \<Rightarrow> nat \<Rightarrow> (nat list \<times> string \<times> string) handler" where
  "view_document env staffId k s = (case application k s of
     None \<Rightarrow> (Inl (NotFound ''Application not found.''), s)
   | Some a \<Rightarrow> (ebind (decrypt env (ba_documentData a)) (\<lambda>buffer. Inr (buffer, ba_documentMime a, ba_documentName a)),
       audit staffId ''BNPL_DOCUMENT_VIEWED'' ''BnplApplication'' (show_nat k) s))"

section \<open>Confirmation\<close>

text \<open>A provider without a method of its own leaves the choice to the stored request.\<close>

definition credit_method :: "string \<Rightarrow> checkout_input \<Rightarrow> payment_method" where
  "credit_method prov inp = (if prov = ''nextgen_purse'' then NEXTGEN_PURSE
     else if prov = ''easybuy'' then EASYBUY else if prov = ''wallet_bnpl'' then WALLET_BNPL else checkoutMethod inp)"

definition createInstallment :: "nat \<Rightarrow> time \<Rightarrow> plan_terms \<Rightarrow> nat \<Rightarrow> bnpl_installment table \<Rightarrow> bnpl_installment table" where
  "createInstallment k now terms index t =
     (if tfind (\<lambda>i. bi_applicationId i = k \<and> bi_sequence i = index + 1) t \<noteq> None then t
      else tinsert (\<lambda>i. \<lparr>bi_id = i, bi_applicationId = k, bi_sequence = index + 1, bi_amount = installment_amount terms index,
        bi_amountPaid = 0, bi_status = ''PENDING'', bi_dueAt = dueDate now (index + 1)\<rparr>) t)"

definition createInstallments :: "nat \<Rightarrow> time \<Rightarrow> plan_terms \<Rightarrow> db \<Rightarrow> db" where
  "createInstallments k now terms s =
     s\<lparr>installments := fold (createInstallment k now terms) [0..<tm_months terms] (installments s)\<rparr>"

definition confirm_row :: "time \<Rightarrow> nat \<Rightarrow> bnpl_application \<Rightarrow> bnpl_application" where
  "confirm_row now gid a = a\<lparr>ba_status := ''CONFIRMED'', ba_activeCartId := None, ba_paymentGroupId := Some gid,
     ba_confirmedAt := Some now, ba_terms := (ba_terms a)\<lparr>tm_schedule := schedule_of now (ba_terms a)\<rparr>\<rparr>"

definition confirmApproved :: "bnpl_env \<Rightarrow> nat \<Rightarrow> bnpl_application \<Rightarrow> nat tx" where
  "confirmApproved env userId a s =
     require (ba_status a = ''APPROVED'') (Forbidden ''BNPL application must be approved before confirmation.'') (
     ebind (orThrow (tfind (\<lambda>p. bp_id p = ba_planId a) (bnplPlans (lending s))) RecordNotFound) (\<lambda>plan.
     require (bp_isActive plan) (Conflict ''This financing plan has been disabled.'') (
     ebind (createInTransaction (be_checkout env) userId (ba_checkoutInput a)
         (Some (credit_method (tm_provider (ba_terms a)) (ba_checkoutInput a), ba_quoteFingerprint a, ba_id a)) s)
       (\<lambda>(g, s1).
     require (\<forall>b \<in> set (rows (bnplApplications (lending s1))). ba_id b \<noteq> ba_id a \<longrightarrow> ba_paymentGroupId b \<noteq> Some (g_id g)) UniqueViolation (
     Inr (g_id g, createInstallments (ba_id a) (be_now env) (ba_terms a)
       (updateApplication (ba_id a) (confirm_row (be_now env) (g_id g)) s1)))))))"

definition confirmInTransaction :: "bnpl_env \<Rightarrow> nat \<Rightarrow> nat \<Rightarrow> nat tx" where
  "confirmInTransaction env userId k s =
     ebind (owned_application userId k s) (\<lambda>a. case ba_paymentGroupId a of
       Some gid \<Rightarrow> if ba_status a = ''CONFIRMED'' \<and> gid \<noteq> 0 then Inr (gid, s) else confirmApproved env userId a s
     | None \<Rightarrow> confirmApproved env userId a s)"

definition confirm_application :: "bnpl_env \<Rightarrow> nat \<Rightarrow> nat \<Rightarrow> (application_view \<times> group_summary) handler" where
  "confirm_application env userId k =
     hbind (transaction (confirmInTransaction env userId k)) (\<lambda>gid.
     hbind (\<lambda>s. (get_application userId k s, s)) (\<lambda>a.
     hbind (summary userId gid) (\<lambda>g. hreturn (a, g))))"

section \<open>Repayments\<close>

definition own_confirmed :: "nat \<Rightarrow> db \<Rightarrow> bnpl_installment \<Rightarrow> bool" where
  "own_confirmed userId s i = (case application (bi_applicationId i) s of
     None \<Rightarrow> False | Some a \<Rightarrow> ba_userId a = userId \<and> ba_status a = ''CONFIRMED'')"

record repayment_view =
  ry_installment :: bnpl_installment
  ry_outstanding :: decimal
  ry_status :: string
  ry_repayments :: "bnpl_repayment list"

definition repayment_list :: "time \<Rightarrow> nat \<Rightarrow> db \<Rightarrow> repayment_view list" where
  "repayment_list now userId s =
     map (\<lambda>i. \<lparr>ry_installment = i, ry_outstanding = bi_amount i - bi_amountPaid i,
            ry_status = (if bi_status i = ''PENDING'' \<and> bi_dueAt i < now then ''OVERDUE'' else bi_status i),
            ry_repayments = rev (tfilter (\<lambda>r. br_installmentId r = bi_id i) (repayments s))\<rparr>)
       (sort_key bi_dueAt (tfilter (own_confirmed userId s) (installments s)))"

definition payRepayment :: "pay_env \<Rightarrow> nat \<Rightarrow> nat \<Rightarrow> bool \<Rightarrow> nat handler" where
  "payRepayment env userId installmentId byWallet s =
     (case tfind (\<lambda>i. bi_id i = installmentId \<and> own_confirmed userId s i) (installments s) of
        None \<Rightarrow> (Inl (NotFound ''BNPL installment not found.''), s)
      | Some i \<Rightarrow>
          if bi_status i = ''PAID'' then (Inl (Conflict ''Installment has already been paid.''), s)
          else initializeBnplRepayment env userId (bi_id i) (bi_amount i - bi_amountPaid i) byWallet s)"

section \<open>Checkout leaves lending alone\<close>

definition lends :: "db \<Rightarrow> lending_tables \<times> bnpl_installment table" where
  "lends s = (lending s, installments s)"

lemma settlement_lends:
  assumes "settlement_frame s s'"
  shows "lends s' = lends s"
  unfolding lends_def by (subst assms [unfolded settlement_frame_def], simp)+

lemma confirmOrder_lends:
  assumes "confirmOrder cfg now u ord s = Inr s'"
  shows "lends s' = lends s"
proof -
  define t where "t = pushHistory (o_id ord) ORDER_RECEIVED CONFIRMED None
                 (Some ''Payment or approved financing confirmed.'') (setOrderStatus now (o_id ord) CONFIRMED s)"
  obtain s1 where s': "s' = upsertConfirmation now (o_id ord) u s1"
    and s1: "if o_currentStatus ord = ORDER_RECEIVED then settleOrder cfg (o_id ord) t = Inr s1 else s1 = s"
    using assms by (auto simp: confirmOrder_def ebind_Inr_iff t_def split: if_splits)
  have "lends t = lends s" by (simp add: t_def lends_def pushHistory_def setOrderStatus_def)
  then have "lends s1 = lends s" using s1 settlement_lends [OF settleOrder_frame] by (auto split: if_splits)
  then show ?thesis by (simp add: s' upsertConfirmation_def lends_def)
qed

lemma cart_frame_lends: "cart_frame s s' \<Longrightarrow> lends s' = lends s"
  by (auto simp: cart_frame_def lends_def)

lemma completeGroup_lends:
  assumes "completeGroup cfg now gid s = Inr s'"
  shows "lends s' = lends s"
  using assms
proof (cases rule: completeGroup_cases)
  case (run g ords s1 s2)
  have "lends s1 = lends s" using confirmOrder_lends by (rule eiter_frame [OF run(4)])
  moreover have "lends s2 = lends s1" using emptyCart_frame [OF run(5)] by (rule cart_frame_lends)
  ultimately show ?thesis by (simp add: run(6) lends_def)
qed simp

lemma reserve_lends: "eiter reserveItem items s = Inr s' \<Longrightarrow> lends s' = lends s"
  by (erule eiter_frame) (auto simp: reserveItem_def Let_def require_Inr_iff lends_def)

lemma createOrder_lends:
  assumes "createOrder env u q ord s = Inr (row, s')"
  shows "lends s' = lends s"
proof -
  obtain s1 user where r: "eiter reserveItem (qo_items ord) s = Inr s1"
    and s': "s' = createFulfilment env q (next_id (orders s1)) (
       let s3 = createLines (next_id (orders s1)) (qo_items ord) (s1\<lparr>orders := tinsert (new_order env user q ord) (orders s1)\<rparr>)
       in s3\<lparr>statusHistory := tinsert (\<lambda>i. \<lparr>sh_id = i, sh_orderId = next_id (orders s1), sh_fromStatus = None,
                   sh_toStatus = ORDER_RECEIVED, sh_changedById = None, sh_reason = None\<rparr>) (statusHistory s3)\<rparr>)"
    using assms by (auto simp: createOrder_def Let_def tx_simps)
  have f: "lends (createFulfilment env q n t) = lends t" for n t by (simp add: createFulfilment_def Let_def lends_def)
  have "lends (createLines n items t) = lends t" for n items t
    using createLines_items [of n items t] by (auto simp: lends_def)
  then have "lends s' = lends s1" unfolding s' f Let_def by (simp add: lends_def)
  then show ?thesis using reserve_lends [OF r] by simp
qed

lemma createInTransaction_lends:
  assumes "createInTransaction env u inp credit s = Inr (g, s')"
  shows "lends s' = lends s"
proof -
  obtain cart s0 where l: "lock u s = Inr (cart, s0)"
    and c: "s' = s0 \<or> createFresh env u (c_id cart) inp credit s0 = Inr (g, s')"
    using assms by (auto simp: createInTransaction_def ebind_Inr_iff require_Inr_iff split: option.splits)
  have s0: "lends s0 = lends s" using l by (auto simp: lock_def Let_def lends_def split: option.splits)
  from c show ?thesis
  proof
    assume "createFresh env u (c_id cart) inp credit s0 = Inr (g, s')"
    then obtain q ords s1 gid s2 m where o: "createOrders env u q s0 = Inr (ords, s1)"
      and gr: "createGroup u (c_id cart) inp q m ords s1 = (gid, s2)"
      and p: "(if m = WALLET \<or> credit \<noteq> None then payImmediately env u q m (map_option (snd \<circ> snd) credit) gid s2 else Inr s2) = Inr s'"
      by (rule createFresh_steps)
    have "lends (snd (ords, s1)) = lends (snd ([] :: order list, s0))"
      using o unfolding createOrders_def
      by (rule eiter_frame) (auto simp: ebind_Inr_iff split: prod.splits dest: createOrder_lends)
    moreover have "lends s2 = lends s1"
    proof -
      have "lends (createAllocations gid ords t) = lends t" for t
        unfolding createAllocations_def by (induction ords arbitrary: t) (simp_all add: lends_def)
      then show ?thesis using gr by (auto simp: createGroup_def Let_def lends_def)
    qed
    moreover have "lends s' = lends s2"
    proof (cases "m = WALLET \<or> credit \<noteq> None")
      case True
      then have "payImmediately env u q m (map_option (snd \<circ> snd) credit) gid s2 = Inr s'" using p by simp
      then obtain a b ref where d: "(if m = WALLET then debitCheckout u (q_total q) gid ref s2 else Inr s2) = Inr a"
        and ab: "\<exists>ps gs. b = a\<lparr>payments := ps, groups := gs\<rparr>" and cg: "completeGroup (ce_cfg env) (ce_now env) gid b = Inr s'"
        by (rule payImmediately_steps)
      have "lends a = lends s2" using d
        by (auto simp: debitCheckout_def debitWallet_def createWalletTx_def Let_def tx_simps lends_def split: if_splits)
      moreover have "lends b = lends a" using ab by (auto simp: lends_def)
      ultimately show ?thesis using completeGroup_lends [OF cg] by simp
    qed (use p in simp)
    ultimately show ?thesis using s0 by simp
  qed (use s0 in simp)
qed

section \<open>What every application satisfies\<close>

definition terms_ok :: "plan_terms \<Rightarrow> bool" where
  "terms_ok t \<longleftrightarrow> tm_totalPayable t = tm_monthlyAmount t * (of_nat (tm_months t) - 1) + tm_finalInstallment t"

definition application_ok :: "bnpl_application \<Rightarrow> bool" where
  "application_ok a \<longleftrightarrow> ba_status a \<in> {''PENDING_REVIEW'', ''APPROVED'', ''REJECTED'', ''CANCELLED'', ''CONFIRMED''} \<and>
     ba_activeCartId a = (if ba_status a \<in> {''PENDING_REVIEW'', ''APPROVED''} then Some (ba_cartId a) else None) \<and>
     (ba_status a \<in> {''APPROVED'', ''REJECTED'', ''CONFIRMED''} \<longrightarrow> ba_reviewedById a \<noteq> None) \<and>
     (ba_paymentGroupId a \<noteq> None \<longleftrightarrow> ba_status a = ''CONFIRMED'') \<and> terms_ok (ba_terms a)"

definition bnpl_ok :: "db \<Rightarrow> bool" where
  "bnpl_ok s \<longleftrightarrow> tkeyed ba_id (bnplApplications (lending s)) \<and>
     (\<forall>a \<in> set (rows (bnplApplications (lending s))). application_ok a \<and>
       (\<forall>b \<in> set (rows (bnplApplications (lending s))).
          ba_activeCartId a \<noteq> None \<and> ba_activeCartId b = ba_activeCartId a \<longrightarrow> ba_id b = ba_id a))"

datatype bnpl_op =
    Apply nat bnpl_request "nat list option"
  | CancelApplication nat nat
  | Review staff nat bool string
  | Confirm nat nat
  | SavePlan nat plan_input "nat option"

fun bnpl_step :: "bnpl_env \<times> bnpl_op \<Rightarrow> db \<Rightarrow> db result" where
  "bnpl_step (env, Apply u dto file) s = ebind (apply_bnpl env u dto file s) (\<lambda>(_, s'). Inr s')"
| "bnpl_step (env, CancelApplication u k) s = ebind (cancel_application u k s) (\<lambda>(_, s'). Inr s')"
| "bnpl_step (env, Review st k approve reason) s =
     ebind (review_application (be_now env) st k (if approve then ''APPROVED'' else ''REJECTED'') reason s) (\<lambda>(_, s'). Inr s')"
| "bnpl_step (env, Confirm u k) s = ebind (confirmInTransaction env u k s) (\<lambda>(_, s'). Inr s')"
| "bnpl_step (env, SavePlan st dto i) s = ebind (savePlan st dto i s) (\<lambda>(_, s'). Inr s')"

lemma bnpl_ok_cong: "bnplApplications (lending s') = bnplApplications (lending s) \<Longrightarrow> bnpl_ok s' = bnpl_ok s"
  by (simp add: bnpl_ok_def)

lemma application_found: "application k s = Some a \<Longrightarrow> a \<in> set (rows (bnplApplications (lending s))) \<and> ba_id a = k"
  by (auto simp: application_def dest: tfind_SomeD)

lemma owned_application_found:
  assumes "owned_application u k s = Inr a" and "bnpl_ok s"
  shows "application k s = Some a" and "ba_userId a = u"
proof -
  have a: "a \<in> set (rows (bnplApplications (lending s)))" "ba_id a = k" and u: "ba_userId a = u"
    using assms(1) by (auto simp: owned_application_def orThrow_Inr_iff dest: tfind_SomeD)
  show "application k s = Some a"
    using application_table.find_unique [OF _ a(1)] assms(2) a(2) by (simp add: application_def bnpl_ok_def)
  show "ba_userId a = u" by (rule u)
qed

lemma updateApplication_apps:
  "bnplApplications (lending (updateApplication k f s)) = tupdate (\<lambda>a. ba_id a = k) f (bnplApplications (lending s))"
  by (simp add: updateApplication_def onApplications_def)

lemma updateApplication_ok:
  assumes "bnpl_ok s" and "application k s = Some a"
    and "application_ok (f a)" and "\<And>r. ba_id (f r) = ba_id r" and "ba_activeCartId (f a) \<in> {None, ba_activeCartId a}"
  shows "bnpl_ok (updateApplication k f s)"
proof -
  let ?t = "bnplApplications (lending s)" and ?t' = "bnplApplications (lending (updateApplication k f s))"
  have key: "tkeyed ba_id ?t" using assms(1) by (simp add: bnpl_ok_def)
  have t': "?t' = tupdate (\<lambda>a. ba_id a = k) f ?t" by (rule updateApplication_apps)
  have only: "r = a" if "r \<in> set (rows ?t)" "ba_id r = k" for r
    using application_table.find_unique [OF key that(1)] that(2) assms(2) by (simp add: application_def)
  have rowD: "\<exists>r \<in> set (rows ?t). x = (if ba_id r = k then f a else r) \<and> ba_id x = ba_id r \<and>
      ba_activeCartId x \<in> {None, ba_activeCartId r} \<and> application_ok x" if "x \<in> set (rows ?t')" for x
  proof -
    from that obtain r where r: "r \<in> set (rows ?t)" "x = (if ba_id r = k then f r else r)" by (auto simp: t')
    show ?thesis
    proof (cases "ba_id r = k")
      case True
      then have "r = a" by (rule only [OF r(1)])
      then show ?thesis using r True assms(3-5) by (intro bexI [of _ r]) auto
    next
      case False
      then show ?thesis using r assms(1) by (intro bexI [of _ r]) (auto simp: bnpl_ok_def)
    qed
  qed
  have keyed: "tkeyed ba_id ?t'" unfolding t' using key assms(4) by (intro application_table.update_keyed) auto
  have pair: "application_ok x \<and> (ba_activeCartId x \<noteq> None \<and> ba_activeCartId y = ba_activeCartId x \<longrightarrow> ba_id y = ba_id x)"
    if x: "x \<in> set (rows ?t')" and y: "y \<in> set (rows ?t')" for x y
  proof (intro conjI impI)
    obtain r where r: "r \<in> set (rows ?t)" "ba_id x = ba_id r" "ba_activeCartId x \<in> {None, ba_activeCartId r}" "application_ok x"
      using rowD [OF x] by blast
    obtain q where q: "q \<in> set (rows ?t)" "ba_id y = ba_id q" "ba_activeCartId y \<in> {None, ba_activeCartId q}"
      using rowD [OF y] by blast
    show "application_ok x" by (rule r(4))
    assume "ba_activeCartId x \<noteq> None \<and> ba_activeCartId y = ba_activeCartId x"
    then have "ba_activeCartId r \<noteq> None" "ba_activeCartId q = ba_activeCartId r" using r(3) q(3) by auto
    then have "ba_id q = ba_id r" using assms(1) r(1) q(1) unfolding bnpl_ok_def by blast
    then show "ba_id y = ba_id x" using r(2) q(2) by simp
  qed
  show ?thesis
    unfolding bnpl_ok_def
  proof (intro conjI ballI)
    show "tkeyed ba_id ?t'" by (rule keyed)
    show "application_ok x" if "x \<in> set (rows ?t')" for x using pair [OF that that] by (rule conjunct1)
    show "ba_activeCartId x \<noteq> None \<and> ba_activeCartId y = ba_activeCartId x \<longrightarrow> ba_id y = ba_id x"
      if "x \<in> set (rows ?t')" "y \<in> set (rows ?t')" for x y using pair [OF that] by (rule conjunct2)
  qed
qed

lemma installmentTerms_ok: "installmentTerms dv p l a m r = Inr t \<Longrightarrow> terms_ok t \<and> tm_months t = m \<and> tm_schedule t = []"
  by (auto simp: installmentTerms_def ebind_Inr_iff Let_def terms_ok_def)

lemma apply_ok:
  assumes "applyInTransaction env u dto mime doc acc s = Inr (v, s')" and "bnpl_ok s"
  shows "bnpl_ok s'"
proof -
  obtain c s1 plan q terms where l: "lock u s = Inr (c, s1)"
    and free: "tfind (\<lambda>a. ba_activeCartId a = Some (bq_cartId dto)) (bnplApplications (lending s1)) = None"
    and t: "installmentTerms (ce_div (be_checkout env)) (bp_provider plan) (bp_label plan) (q_total q) (bp_months plan) (bp_interestRate plan) = Inr terms"
    and s': "s' = onApplications (tinsert (new_application env u dto mime doc acc plan q terms)) s1"
    using assms(1) unfolding applyInTransaction_def by (auto elim!: ebindE simp: require_Inr_iff orThrow_Inr_iff Let_def split: prod.splits)
  have s1: "lending s1 = lending s" using l by (auto simp: lock_def Let_def split: option.splits)
  let ?mk = "new_application env u dto mime doc acc plan q terms" and ?t = "bnplApplications (lending s)"
  have t': "bnplApplications (lending s') = tinsert ?mk ?t" by (simp add: s' onApplications_def s1)
  have new: "application_ok (?mk i)" "ba_activeCartId (?mk i) = Some (bq_cartId dto)" "ba_id (?mk i) = i" for i
    using installmentTerms_ok [OF t] by (simp_all add: new_application_def application_ok_def)
  have old: "ba_activeCartId a \<noteq> Some (bq_cartId dto)" if "a \<in> set (rows ?t)" for a
    using free that by (auto simp: tfind_None_iff s1)
  have keyed: "tkeyed ba_id (tinsert ?mk ?t)"
    using assms(2) new(3) by (intro application_table.insert_keyed) (simp_all add: bnpl_ok_def)
  have all_ok: "application_ok a" if "a \<in> set (rows ?t)" for a using assms(2) that by (simp add: bnpl_ok_def)
  have unique: "ba_id b = ba_id a" if "a \<in> set (rows ?t)" "b \<in> set (rows ?t)" "ba_activeCartId a \<noteq> None \<and> ba_activeCartId b = ba_activeCartId a" for a b
    using assms(2) that unfolding bnpl_ok_def by metis
  let ?n = "?mk (next_id ?t)"
  have rows: "set (rows (tinsert ?mk ?t)) = insert ?n (set (rows ?t))" by simp
  show ?thesis
    unfolding bnpl_ok_def t'
  proof (intro conjI ballI impI)
    show "tkeyed ba_id (tinsert ?mk ?t)" by (rule keyed)
    show "application_ok a" if "a \<in> set (rows (tinsert ?mk ?t))" for a using that all_ok new(1) by auto
    fix a b
    assume a: "a \<in> set (rows (tinsert ?mk ?t))" and b: "b \<in> set (rows (tinsert ?mk ?t))"
      and ab: "ba_activeCartId a \<noteq> None \<and> ba_activeCartId b = ba_activeCartId a"
    consider "a \<in> set (rows ?t)" "b \<in> set (rows ?t)" | "a = ?n" "b = ?n"
      | "a \<in> set (rows ?t)" "b = ?n" | "a = ?n" "b \<in> set (rows ?t)" using a b unfolding rows by blast
    then show "ba_id b = ba_id a"
    proof cases
      case 3
      then show ?thesis using ab old [of a] new(2) by metis
    next
      case 4
      then show ?thesis using ab old [of b] new(2) by metis
    qed (use unique ab in \<open>blast, simp\<close>)
  qed
qed

lemma application_okD:
  assumes "bnpl_ok s" and "application k s = Some a"
  shows "application_ok a"
  using assms application_found [OF assms(2)] by (simp add: bnpl_ok_def)

lemma cancel_ok:
  assumes "cancel_application u k s = Inr (v, s')" and "bnpl_ok s"
  shows "bnpl_ok s'"
proof -
  obtain a where a: "owned_application u k s = Inr a" and st: "ba_status a \<in> {''PENDING_REVIEW'', ''APPROVED''}"
    and s': "s' = updateApplication k (\<lambda>a. a\<lparr>ba_status := ''CANCELLED'', ba_activeCartId := None\<rparr>) s"
    using assms(1) by (auto simp: cancel_application_def ebind_Inr_iff require_Inr_iff Let_def)
  note f = owned_application_found [OF a assms(2)]
  have "application_ok (a\<lparr>ba_status := ''CANCELLED'', ba_activeCartId := None\<rparr>)"
    using application_okD [OF assms(2) f(1)] st by (auto simp: application_ok_def)
  then show ?thesis unfolding s' by (intro updateApplication_ok [OF assms(2) f(1)]) simp_all
qed

lemma review_steps:
  assumes "review_application now st k d reason s = Inr (v, s')"
  obtains a user f where "application k s = Some a" "ba_status a = ''PENDING_REVIEW''"
    "tfind (\<lambda>u. u_id u = ba_userId a) (users s) = Some user" "toLowerCase (u_email user) \<noteq> toLowerCase (stf_email st)"
    "f = (\<lambda>a. a\<lparr>ba_status := d, ba_reviewedById := Some (stf_id st), ba_reviewedAt := Some now,
           ba_reviewReason := Some reason, ba_activeCartId := (if d = ''REJECTED'' then None else ba_activeCartId a)\<rparr>)"
    "lending s' = lending (updateApplication k f s)" "v = present (f a)"
  using assms unfolding review_application_def
  by (auto elim!: ebindE simp: require_Inr_iff orThrow_Inr_iff Let_def audit_def)

lemma review_ok:
  assumes "review_application now st k d reason s = Inr (v, s')" and "bnpl_ok s" and "d \<in> {''APPROVED'', ''REJECTED''}"
  shows "bnpl_ok s'"
proof -
  obtain a user f where a: "application k s = Some a" and st: "ba_status a = ''PENDING_REVIEW''"
    and f: "f = (\<lambda>a. a\<lparr>ba_status := d, ba_reviewedById := Some (stf_id st), ba_reviewedAt := Some now,
           ba_reviewReason := Some reason, ba_activeCartId := (if d = ''REJECTED'' then None else ba_activeCartId a)\<rparr>)"
    and s': "lending s' = lending (updateApplication k f s)" by (rule review_steps [OF assms(1)])
  have "application_ok (f a)" using application_okD [OF assms(2) a] st assms(3) by (auto simp: application_ok_def f)
  then have "bnpl_ok (updateApplication k f s)"
    by (rule updateApplication_ok [OF assms(2) a]) (simp_all add: f)
  then show ?thesis using bnpl_ok_cong [of s' "updateApplication k f s"] s' by simp
qed

lemma confirmApproved_steps:
  assumes "confirmApproved env u a s = Inr (gid, s')"
  obtains plan g s1 where "ba_status a = ''APPROVED''" "tfind (\<lambda>p. bp_id p = ba_planId a) (bnplPlans (lending s)) = Some plan"
    "bp_isActive plan" "createInTransaction (be_checkout env) u (ba_checkoutInput a)
         (Some (credit_method (tm_provider (ba_terms a)) (ba_checkoutInput a), ba_quoteFingerprint a, ba_id a)) s = Inr (g, s1)"
    "gid = g_id g" "s' = createInstallments (ba_id a) (be_now env) (ba_terms a) (updateApplication (ba_id a) (confirm_row (be_now env) gid) s1)"
  using assms unfolding confirmApproved_def by (auto elim!: ebindE simp: require_Inr_iff orThrow_Inr_iff)

lemma confirm_ok:
  assumes "confirmInTransaction env u k s = Inr (gid, s')" and "bnpl_ok s"
  shows "bnpl_ok s'"
proof -
  obtain a where a: "owned_application u k s = Inr a" and c: "s' = s \<or> confirmApproved env u a s = Inr (gid, s')"
    using assms(1) by (auto simp: confirmInTransaction_def ebind_Inr_iff split: option.splits if_splits)
  note f = owned_application_found [OF a assms(2)]
  have id: "ba_id a = k" using application_found [OF f(1)] by simp
  from c show ?thesis
  proof
    assume "confirmApproved env u a s = Inr (gid, s')"
    then obtain plan g s1 where st: "ba_status a = ''APPROVED''"
      and cr: "createInTransaction (be_checkout env) u (ba_checkoutInput a)
         (Some (credit_method (tm_provider (ba_terms a)) (ba_checkoutInput a), ba_quoteFingerprint a, ba_id a)) s = Inr (g, s1)"
      and s': "s' = createInstallments (ba_id a) (be_now env) (ba_terms a) (updateApplication (ba_id a) (confirm_row (be_now env) gid) s1)"
      by (rule confirmApproved_steps)
    have l: "lending s1 = lending s" using createInTransaction_lends [OF cr] by (simp add: lends_def)
    have "bnpl_ok s1" using assms(2) bnpl_ok_cong [of s1 s] l by simp
    moreover have "application k s1 = Some a" using f(1) by (simp add: application_def l)
    moreover have "application_ok (confirm_row (be_now env) gid a)"
      using application_okD [OF assms(2) f(1)] st by (auto simp: application_ok_def confirm_row_def terms_ok_def)
    ultimately have "bnpl_ok (updateApplication k (confirm_row (be_now env) gid) s1)"
      by (rule updateApplication_ok) (simp_all add: confirm_row_def)
    then show ?thesis using bnpl_ok_cong [of s' "updateApplication k (confirm_row (be_now env) gid) s1"]
      by (simp add: s' id createInstallments_def)
  qed (use assms(2) in simp)
qed

lemma bnpl_step_ok:
  assumes "bnpl_ok s" and "bnpl_step op s = Inr s'"
  shows "bnpl_ok s'"
proof -
  obtain env x where op: "op = (env, x)" by (cases op)
  show ?thesis
  proof (cases x)
    case (Apply u dto upload)
    then obtain v buffer mime doc acc where "applyInTransaction env u dto mime doc acc s = Inr (v, s')"
      using assms(2) op unfolding apply_bnpl_def by (auto elim!: ebindE simp: apply_bnpl_def require_Inr_iff split: option.splits)
    then show ?thesis by (rule apply_ok) (rule assms(1))
  next
    case (CancelApplication u k)
    then show ?thesis using assms op cancel_ok by (auto simp: ebind_Inr_iff)
  next
    case (Review st k approve reason)
    then obtain v where "review_application (be_now env) st k (if approve then ''APPROVED'' else ''REJECTED'') reason s = Inr (v, s')"
      using assms(2) op by (auto simp: ebind_Inr_iff)
    then show ?thesis using assms(1) by (rule review_ok) simp
  next
    case (Confirm u k)
    then show ?thesis using assms op confirm_ok by (auto simp: ebind_Inr_iff)
  next
    case (SavePlan st dto i)
    then obtain p where "savePlan st dto i s = Inr (p, s')" using assms(2) op by (auto simp: ebind_Inr_iff)
    then have "bnplApplications (lending s') = bnplApplications (lending s)"
      by (auto simp: savePlan_def createPlan_def onPlans_def audit_def ebind_Inr_iff Let_def split: if_splits option.splits)
    then show ?thesis using assms(1) bnpl_ok_cong by metis
  qed
qed

interpretation bnpl_system: tx_system bnpl_step bnpl_ok
  by unfold_locales (rule bnpl_step_ok)

section \<open>Properties of the terms\<close>

text \<open>The quotient of \<open>decimal.js\<close> is exact up to its twenty significant digits.\<close>

definition near_quotient :: "(decimal \<Rightarrow> decimal \<Rightarrow> decimal) \<Rightarrow> bool" where
  "near_quotient dv \<longleftrightarrow> (\<forall>x y. 0 \<le> x \<and> 0 < y \<longrightarrow> \<bar>dv x y - x / y\<bar> \<le> x / y / 10 ^ 19)"

lemma near_quotient_nonneg:
  assumes "near_quotient dv" "0 \<le> x" "0 < y"
  shows "0 \<le> dv x y"
proof -
  have "\<bar>dv x y - x / y\<bar> \<le> x / y / 10 ^ 19" using assms by (simp add: near_quotient_def)
  moreover have "x / y / 10 ^ 19 \<le> x / y" using assms by (simp add: field_simps)
  ultimately show ?thesis by linarith
qed

lemma installment_split:
  fixes T :: decimal
  assumes "near_quotient dv" "cents T" "0 \<le> T" "T \<le> 10 ^ 15" "0 < m"
  defines "M \<equiv> toDecimalPlaces2Down (dv T (of_nat m))"
  shows "0 \<le> M" and "M * of_nat m \<le> T" and "T \<le> M * of_nat m + of_nat m / 100"
proof -
  obtain K where K: "T = of_int K / 100" using assms(2) by (rule centsE)
  define q where "q = dv T (of_nat m)"
  define N where "N = \<lfloor>q * 100\<rfloor>"
  have m: "(0 :: decimal) < of_nat m" using assms(5) by simp
  have q0: "0 \<le> q" using near_quotient_nonneg [OF assms(1,3) m] by (simp add: q_def)
  then have M: "M = of_int N / 100" by (simp add: M_def toDecimalPlaces2Down_def q_def N_def)
  have "0 \<le> N" using q0 by (simp add: N_def)
  then show "0 \<le> M" by (simp add: M)
  have e: "\<bar>q - T / of_nat m\<bar> \<le> T / of_nat m / 10 ^ 19" using assms(1,3) m by (simp add: near_quotient_def q_def)
  have "\<bar>q - T / of_nat m\<bar> * of_nat m \<le> T / of_nat m / 10 ^ 19 * of_nat m" using e m by (intro mult_right_mono) simp_all
  moreover have "q * of_nat m - T = (q - T / of_nat m) * of_nat m" using m by (simp add: left_diff_distrib)
  then have "\<bar>q * of_nat m - T\<bar> = \<bar>q - T / of_nat m\<bar> * of_nat m" using m by (simp add: abs_mult)
  ultimately have "\<bar>q * of_nat m - T\<bar> \<le> T / 10 ^ 19" using m by simp
  moreover have "T / 10 ^ 19 < 1 / 100" using assms(4) by (simp add: field_simps)
  ultimately have qm: "\<bar>q * of_nat m - T\<bar> < 1 / 100" by simp
  have "of_int N \<le> q * 100" "q * 100 < of_int N + 1" unfolding N_def by linarith+
  then have "of_int N * of_nat m \<le> q * 100 * of_nat m" "q * 100 * of_nat m \<le> (of_int N + 1) * of_nat m"
    using m by (simp_all add: mult_right_mono)
  then have "of_int N * of_nat m \<le> 100 * (q * of_nat m)" "100 * (q * of_nat m) \<le> (of_int N + 1) * of_nat m"
    by (simp_all add: mult_ac)
  moreover have "100 * (q * of_nat m) < of_int K + 1" "of_int K - 1 < 100 * (q * of_nat m)"
    using qm unfolding K abs_less_iff by linarith+
  ultimately have "of_int N * of_nat m < of_int K + (1 :: decimal)" "of_int K - 1 < (of_int N + 1) * (of_nat m :: decimal)"
    by linarith+
  then have "of_int (N * int m) < (of_int (K + 1) :: decimal)" "of_int (K - 1) < (of_int ((N + 1) * int m) :: decimal)"
    by simp_all
  then have "N * int m < K + 1" "K - 1 < (N + 1) * int m" by (simp_all only: of_int_less_iff)
  then have "N * int m \<le> K" "K \<le> (N + 1) * int m" by linarith+
  then have "of_int (N * int m) \<le> (of_int K :: decimal)" "of_int K \<le> (of_int ((N + 1) * int m) :: decimal)"
    by (simp_all only: of_int_le_iff)
  then show "M * of_nat m \<le> T" "T \<le> M * of_nat m + of_nat m / 100"
    unfolding M K by (simp_all add: field_simps)
qed

lemma sum_installments:
  assumes "0 < tm_months t" "terms_ok t"
  shows "(\<Sum>i\<leftarrow>[0..<tm_months t]. installment_amount t i) = tm_totalPayable t"
proof -
  obtain n where n: "tm_months t = Suc n" using assms(1) by (auto simp: gr0_conv_Suc)
  have "map (installment_amount t) [0..<n] = map (\<lambda>_. tm_monthlyAmount t) [0..<n]"
    by (simp add: installment_amount_def n)
  then have "(\<Sum>i\<leftarrow>[0..<n]. installment_amount t i) = of_nat n * tm_monthlyAmount t"
    by (simp only: sum_list_triv length_map length_upt diff_zero)
  then show ?thesis using assms(2) by (simp add: n terms_ok_def installment_amount_def [of t n])
qed

text \<open>
  (C28) The terms of a plan: the customer pays at least the principal back, in as many
  instalments as the plan has months, that add up to the total payable exactly; all but the last
  are equal, and the last exceeds them by at most one kobo for every month.
\<close>

theorem terms_pay_off:
  assumes "installmentTerms dv prov label amount m rate = Inr t"
    and "near_quotient dv" and "0 < m" and "0 \<le> rate" and "tm_totalPayable t \<le> 10 ^ 15"
  shows "tm_principal t \<le> tm_totalPayable t \<and> (\<Sum>i\<leftarrow>[0..<m]. installment_amount t i) = tm_totalPayable t \<and>
    0 \<le> tm_monthlyAmount t \<and> tm_monthlyAmount t \<le> tm_finalInstallment t \<and>
    tm_finalInstallment t \<le> tm_monthlyAmount t + of_nat m / 100 \<and> cents (tm_monthlyAmount t) \<and> cents (tm_finalInstallment t)"
proof -
  obtain p where p: "money amount = Inr p"
    and t: "tm_principal t = p" "tm_months t = m" "tm_totalPayable t = toDecimalPlaces2 (p * (dv rate 100 + 1))"
      "tm_monthlyAmount t = toDecimalPlaces2Down (dv (tm_totalPayable t) (of_nat m))"
      "tm_finalInstallment t = tm_totalPayable t - tm_monthlyAmount t * (of_nat m - 1)"
    using assms(1) by (auto simp: installmentTerms_def ebind_Inr_iff Let_def)
  have p0: "0 \<le> p" "cents p" using money_nonneg [OF p] money_cents [OF p] by simp_all
  have "0 \<le> dv rate 100" using near_quotient_nonneg [OF assms(2,4)] by simp
  then have "p \<le> p * (dv rate 100 + 1)" using p0(1) by (simp add: algebra_simps)
  then have "toDecimalPlaces2 p \<le> tm_totalPayable t" unfolding t(3) by (rule toDecimalPlaces2_mono)
  then have pt: "p \<le> tm_totalPayable t" using half_up.rnd_fix [OF p0(2)] by simp
  have c: "cents (tm_totalPayable t)" unfolding t(3) by (rule half_up.rnd_grid)
  note s = installment_split [OF assms(2) c _ assms(5,3), folded t(4)]
  have cm: "cents (tm_monthlyAmount t)" unfolding t(4) by (rule round_down.rnd_grid)
  have "tm_monthlyAmount t * (of_nat m - 1) = tm_monthlyAmount t * of_nat (m - 1)" using assms(3) by (simp add: of_nat_diff)
  then have "tm_finalInstallment t = tm_totalPayable t - tm_monthlyAmount t * of_nat (m - 1)" unfolding t(5) by (rule arg_cong)
  then have cf: "cents (tm_finalInstallment t)" using cents_diff [OF c cents_mult_nat [OF cm]] by (rule ssubst)
  have "terms_ok t" using installmentTerms_ok [OF assms(1)] by simp
  then have "(\<Sum>i\<leftarrow>[0..<m]. installment_amount t i) = tm_totalPayable t" using sum_installments [of t] assms(3) t(2) by simp
  moreover have "0 \<le> tm_totalPayable t" using p0(1) pt by simp
  note s = s [OF this]
  have "tm_monthlyAmount t \<le> tm_finalInstallment t" "tm_finalInstallment t \<le> tm_monthlyAmount t + of_nat m / 100"
    using s(2,3) unfolding t(5) by (simp_all add: algebra_simps)
  ultimately show ?thesis using s(1) pt cm cf t(1) by blast
qed

section \<open>Confirming an application\<close>

definition installments_of :: "nat \<Rightarrow> bnpl_installment table \<Rightarrow> bnpl_installment list" where
  "installments_of k t = tfilter (\<lambda>i. bi_applicationId i = k) t"

lemma createInstallments_rows:
  assumes "installments_of k t = []"
  shows "map (\<lambda>i. (bi_sequence i, bi_amount i, bi_dueAt i)) (installments_of k (fold (createInstallment k now terms) [0..<n] t)) =
    map (\<lambda>j. (j + 1, installment_amount terms j, dueDate now (j + 1))) [0..<n]"
proof (induction n)
  case 0
  then show ?case using assms by simp
next
  case (Suc n)
  let ?t = "fold (createInstallment k now terms) [0..<n] t"
  have "map fst (map (\<lambda>i. (bi_sequence i, bi_amount i, bi_dueAt i)) (installments_of k ?t)) = map Suc [0..<n]"
    unfolding Suc.IH by simp
  then have "map bi_sequence (installments_of k ?t) = map Suc [0..<n]" by (simp add: o_def)
  then have "Suc n \<notin> bi_sequence ` set (installments_of k ?t)" by (metis (no_types) list.set_map set_upt image_Suc_atLeastLessThan atLeastLessThan_iff less_irrefl)
  then have "tfind (\<lambda>i. bi_applicationId i = k \<and> bi_sequence i = n + 1) ?t = None"
    unfolding tfind_None_iff installments_of_def tfilter_def by (auto simp: image_iff)
  then have "installments_of k (createInstallment k now terms n ?t) = installments_of k ?t @
      [\<lparr>bi_id = next_id ?t, bi_applicationId = k, bi_sequence = n + 1, bi_amount = installment_amount terms n,
        bi_amountPaid = 0, bi_status = ''PENDING'', bi_dueAt = dueDate now (n + 1)\<rparr>]"
    by (simp add: createInstallment_def installments_of_def tfilter_def)
  then show ?case using Suc.IH by simp
qed

lemma lock_Some: "tfind (\<lambda>c. c_userId c = u) (carts s) = Some cart \<Longrightarrow> lock u s = Inr (cart, s)"
  by (simp add: lock_def)

lemma createInTransaction_credit:
  assumes "createInTransaction env u inp (Some (m, fp, k)) s = Inr (g, s')"
    and "tfind (\<lambda>c. c_userId c = u) (carts s) = Some cart"
  shows "\<exists>q. quoteInTransaction (ce_div env) (ce_now env) u inp s = Inr q \<and> ce_quoteFp env q = fp"
  using assms(1) unfolding createInTransaction_def lock_Some [OF assms(2)]
  by (auto elim!: ebindE simp: require_Inr_iff createFresh_def split: option.splits)

text \<open>
  (C29) An application is confirmed only after a member of the staff approved it and while the
  checkout still costs and contains what the customer applied for.  The confirmation fixes one
  instalment for every month, due that many months later and together the total payable of the
  agreed terms, and is not repeated: confirming again returns the same payment group and changes
  nothing.
\<close>

theorem application_confirmed:
  assumes "confirmInTransaction env u k s = Inr (gid, s')" and "bnpl_ok s"
    and "owned_application u k s = Inr a" and "ba_status a \<noteq> ''CONFIRMED''"
    and "installments_of k (installments s) = []" and "0 < tm_months (ba_terms a)"
    and "tfind (\<lambda>c. c_userId c = u) (carts s) = Some cart"
  shows "ba_status a = ''APPROVED'' \<and> ba_reviewedById a \<noteq> None \<and>
    (\<exists>q. quoteInTransaction (ce_div (be_checkout env)) (ce_now (be_checkout env)) u (ba_checkoutInput a) s = Inr q \<and>
       ce_quoteFp (be_checkout env) q = ba_quoteFingerprint a) \<and>
    application k s' = Some (confirm_row (be_now env) gid a) \<and>
    map bi_sequence (installments_of k (installments s')) = map Suc [0..<tm_months (ba_terms a)] \<and>
    map bi_dueAt (installments_of k (installments s')) = map (\<lambda>j. dueDate (be_now env) (Suc j)) [0..<tm_months (ba_terms a)] \<and>
    (\<Sum>i\<leftarrow>installments_of k (installments s'). bi_amount i) = tm_totalPayable (ba_terms a) \<and>
    (gid \<noteq> 0 \<longrightarrow> confirmInTransaction env' u k s' = Inr (gid, s'))"
proof -
  note f = owned_application_found [OF assms(3,2)]
  note ok = application_okD [OF assms(2) f(1)]
  have id: "ba_id a = k" using application_found [OF f(1)] by simp
  have "confirmApproved env u a s = Inr (gid, s')"
    using assms(1,3,4) by (auto simp: confirmInTransaction_def split: option.splits)
  then obtain plan g s1 where st: "ba_status a = ''APPROVED''"
    and cr: "createInTransaction (be_checkout env) u (ba_checkoutInput a)
         (Some (credit_method (tm_provider (ba_terms a)) (ba_checkoutInput a), ba_quoteFingerprint a, ba_id a)) s = Inr (g, s1)"
    and s': "s' = createInstallments (ba_id a) (be_now env) (ba_terms a) (updateApplication (ba_id a) (confirm_row (be_now env) gid) s1)"
    by (rule confirmApproved_steps)
  have l: "lending s1 = lending s" "installments s1 = installments s"
    using createInTransaction_lends [OF cr] by (simp_all add: lends_def)
  let ?a = "confirm_row (be_now env) gid a"
  have own: "tfind (\<lambda>a. ba_id a = k) (bnplApplications (lending s)) = Some a" using f(1) by (simp add: application_def)
  have apps: "bnplApplications (lending s') = tupdate (\<lambda>a. ba_id a = k) (confirm_row (be_now env) gid) (bnplApplications (lending s))"
    by (simp add: s' createInstallments_def updateApplication_apps id l)
  have new: "application k s' = Some ?a"
    using own id by (simp add: application_def apps tfind_tupdate confirm_row_def)
  have rows: "map (\<lambda>i. (bi_sequence i, bi_amount i, bi_dueAt i)) (installments_of k (installments s')) =
      map (\<lambda>j. (j + 1, installment_amount (ba_terms a) j, dueDate (be_now env) (j + 1))) [0..<tm_months (ba_terms a)]"
    using createInstallments_rows [OF assms(5)] by (simp add: s' createInstallments_def updateApplication_def onApplications_def id l)
  from arg_cong [OF rows, of "map fst"] arg_cong [OF rows, of "map (\<lambda>x. fst (snd x))"] arg_cong [OF rows, of "map (\<lambda>x. snd (snd x))"]
  have cols: "map bi_sequence (installments_of k (installments s')) = map Suc [0..<tm_months (ba_terms a)]"
    "map bi_amount (installments_of k (installments s')) = map (installment_amount (ba_terms a)) [0..<tm_months (ba_terms a)]"
    "map bi_dueAt (installments_of k (installments s')) = map (\<lambda>j. dueDate (be_now env) (Suc j)) [0..<tm_months (ba_terms a)]"
    by (simp_all add: o_def)
  have "owned_application u k s' = Inr ?a"
    using own f(2) id assms(3) unfolding owned_application_def apps
    by (auto simp: orThrow_Inr_iff tfind_tupdate confirm_row_def)
  then have "gid \<noteq> 0 \<longrightarrow> confirmInTransaction env' u k s' = Inr (gid, s')"
    by (simp add: confirmInTransaction_def confirm_row_def)
  moreover have "ba_reviewedById a \<noteq> None" using ok st by (simp add: application_ok_def)
  moreover have "(\<Sum>i\<leftarrow>installments_of k (installments s'). bi_amount i) = tm_totalPayable (ba_terms a)"
    unfolding cols(2) using sum_installments [OF assms(6)] ok by (simp add: application_ok_def)
  ultimately show ?thesis using st createInTransaction_credit [OF cr assms(7)] new cols(1,3) by blast
qed

text \<open>
  (C30) Whatever requests are served, every application has one of the five statuses, blocks its
  cart exactly while it is open, so that no cart has two open applications, has a payment group
  exactly when it is confirmed, and was reviewed by the staff when it is approved, rejected or
  confirmed.
\<close>

theorem applications_well_formed:
  assumes "bnpl_ok s"
  shows "bnpl_ok (run_ops bnpl_step ops s)"
  using assms by (rule bnpl_system.run_inv)

text \<open>
  A review that is served decides an application that was still pending, is made by
  somebody with another e-mail address than the applicant's, records who decided and why, and
  cannot be repeated.
\<close>

theorem review_once_by_another:
  assumes "review_application now st k d reason s = Inr (v, s')" and "d \<in> {''APPROVED'', ''REJECTED''}"
  shows "\<exists>a user a'. application k s = Some a \<and> ba_status a = ''PENDING_REVIEW'' \<and>
    tfind (\<lambda>u. u_id u = ba_userId a) (users s) = Some user \<and> toLowerCase (u_email user) \<noteq> toLowerCase (stf_email st) \<and>
    application k s' = Some a' \<and> ba_status a' = d \<and> ba_reviewedById a' = Some (stf_id st) \<and> ba_reviewReason a' = Some reason \<and>
    (\<forall>now' st' d' reason'. review_application now' st' k d' reason' s' = Inl (Conflict ''Application has already been reviewed.''))"
proof -
  obtain a user f where a: "application k s = Some a" "ba_status a = ''PENDING_REVIEW''"
    and u: "tfind (\<lambda>u. u_id u = ba_userId a) (users s) = Some user" "toLowerCase (u_email user) \<noteq> toLowerCase (stf_email st)"
    and f: "f = (\<lambda>a. a\<lparr>ba_status := d, ba_reviewedById := Some (stf_id st), ba_reviewedAt := Some now,
           ba_reviewReason := Some reason, ba_activeCartId := (if d = ''REJECTED'' then None else ba_activeCartId a)\<rparr>)"
    and s': "lending s' = lending (updateApplication k f s)" by (rule review_steps [OF assms(1)])
  have new: "application k s' = Some (f a)"
    using a(1) application_found [OF a(1)] by (simp add: application_def s' updateApplication_apps tfind_tupdate f)
  have "review_application now' st' k d' reason' s' = Inl (Conflict ''Application has already been reviewed.'')" for now' st' d' reason'
    using assms(2) by (auto simp: review_application_def new f)
  then show ?thesis using a u new by (intro exI [of _ a] exI [of _ user] exI [of _ "f a"]) (simp add: f)
qed

text \<open>
  An instalment falls due in the month that many months after the confirmation, on the
  same day of the month, or on the last day when that month is shorter, so that the dates of a
  plan are in strictly increasing order.
\<close>

theorem due_dates_monthly:
  assumes "0 \<le> start" and "utc_fields (start div ms_per_day) = (y, m, dd)"
  shows "\<exists>y' m'. y' * 12 + int m' = y * 12 + int m + int k \<and> m' < 12 \<and>
      utc_fields (dueDate start k div ms_per_day) = (y', m', min dd (month_days y' ! m')) \<and>
      dueDate start k < dueDate start (Suc k)"
proof -
  let ?y = "\<lambda>k. y + int ((m + k) div 12)" and ?m = "\<lambda>k. (m + k) mod 12"
  have "0 \<le> start div ms_per_day" using assms(1) by (simp add: ms_per_day_def pos_imp_zdiv_nonneg_iff)
  then have dd: "1 \<le> dd" using utc_fields_valid [OF assms(2)] by simp
  have n: "int ((m + k) div 12) * 12 + int ((m + k) mod 12) = int m + int k"
    by (metis div_mult_mod_eq of_nat_add of_nat_mult of_nat_numeral)
  have l: "make_day (?y k) (?m k) (min dd (month_days (?y k) ! ?m k)) \<le> make_day (?y k) (?m k) (month_days (?y k) ! ?m k)"
    by (simp add: make_day_def Let_def)
  have r: "make_day (?y (Suc k)) (?m (Suc k)) 1 \<le> make_day (?y (Suc k)) (?m (Suc k)) (min dd (month_days (?y (Suc k)) ! ?m (Suc k)))"
    using dd month_days_pos [of "?m (Suc k)" "?y (Suc k)"] by (simp add: make_day_def Let_def)
  have "make_day (?y k) (?m k + 1) 0 + 1 = make_day (?y (Suc k)) (?m (Suc k)) 1"
  proof (cases "?m k = 11")
    case True
    then have "(m + Suc k) div 12 = (m + k) div 12 + 1" "?m (Suc k) = 0" by (simp_all add: div_Suc mod_Suc)
    then show ?thesis using True by (simp add: make_day_def add_ac)
  next
    case False
    then have "Suc ((m + k) mod 12) \<noteq> 12" by simp
    then have "(m + Suc k) div 12 = (m + k) div 12" "?m (Suc k) = ?m k + 1" by (simp_all add: div_Suc mod_Suc)
    moreover have "?m k + 1 < 12" using \<open>Suc ((m + k) mod 12) \<noteq> 12\<close> mod_less_divisor [of 12 "m + k"] by linarith
    ultimately show ?thesis by (simp add: make_day_def Let_def)
  qed
  then have "make_day (?y k) (?m k) (min dd (month_days (?y k) ! ?m k))
      < make_day (?y (Suc k)) (?m (Suc k)) (min dd (month_days (?y (Suc k)) ! ?m (Suc k)))"
    using l r make_day_zero [of "?m k" "?y k"] by simp
  then have "dueDate start k < dueDate start (Suc k)"
    unfolding dueDate_fields(1) [OF assms] by (simp add: ms_per_day_def)
  then show ?thesis using dueDate_fields(2) [OF assms, of k] n
    by (intro exI [of _ "?y k"] exI [of _ "?m k"]) simp
qed

text \<open>
  (C31) What the staff downloads is, byte for byte, what the customer uploaded: decryption takes
  the stored document apart the way encryption put it together.  Of the cipher this needs its
  sixteen-byte tag and that decryption with the same key, vector and tag undoes encryption.
\<close>

theorem document_roundtrip:
  assumes "encrypt env n data = Inr stored"
    and "length (be_iv env n) = 12" and "\<forall>key iv d. length (fst (be_cipher env key iv d)) = 16"
    and "\<forall>key iv d. be_decipher env key iv (fst (be_cipher env key iv d)) (snd (be_cipher env key iv d)) = Inr d"
  shows "decrypt env stored = Inr data"
proof -
  obtain key where key: "bnpl_key (be_key env) = Inr key"
    and st: "stored = be_iv env n @ fst (be_cipher env key (be_iv env n) data) @ snd (be_cipher env key (be_iv env n) data)"
    using assms(1) by (fastforce simp: encrypt_def ebind_Inr_iff split_beta)
  have "take 12 stored = be_iv env n" "take 16 (drop 12 stored) = fst (be_cipher env key (be_iv env n) data)"
    "drop 28 stored = snd (be_cipher env key (be_iv env n) data)"
    using assms(2,3) by (simp_all add: st)
  then show ?thesis using assms(4) by (simp add: decrypt_def key)
qed

section \<open>Examples\<close>

definition example_bnpl :: bnpl_env where
  "example_bnpl = \<lparr>be_now = 2592000000, be_key = replicate 64 (CHR ''a''), be_iv = (\<lambda>n. replicate 12 n),
     be_cipher = (\<lambda>key iv d. (replicate 16 0, rev d)), be_decipher = (\<lambda>key iv tag d. Inr (rev d)),
     be_checkout = example_env\<rparr>"

definition example_terms :: plan_terms where
  "example_terms = \<lparr>tm_provider = ''nextgen_purse'', tm_label = ''Three months'', tm_principal = 719, tm_months = 3,
     tm_interestRate = 5, tm_totalPayable = 75495 / 100, tm_monthlyAmount = 25165 / 100, tm_finalInstallment = 25165 / 100,
     tm_schedule = []\<rparr>"

definition filed_application :: bnpl_application where
  "filed_application = \<lparr>ba_id = 1, ba_userId = 7, ba_cartId = 1, ba_activeCartId = Some 1, ba_planId = 1,
     ba_status = ''PENDING_REVIEW'', ba_employerName = ''Acme'', ba_monthlyIncome = 500, ba_accountNumber = [], ba_accountLast4 = ''6789'',
     ba_bankName = ''Bank'', ba_documentData = [], ba_documentName = ''verification.pdf'', ba_documentMime = ''application/pdf'',
     ba_consentAt = 0, ba_checkoutInput = home_delivery, ba_quoteFingerprint = '''', ba_terms = example_terms,
     ba_paymentGroupId = None, ba_reviewedById = None, ba_reviewReason = None, ba_reviewedAt = None, ba_confirmedAt = None\<rparr>"

definition lending_db :: "bnpl_application \<Rightarrow> db" where
  "lending_db a = shop_ready\<lparr>lending := (lending shop_ready)\<lparr>
     bnplPlans := \<lparr>rows = [\<lparr>bp_id = 1, bp_provider = ''nextgen_purse'', bp_label = ''Three months'', bp_months = 3,
       bp_interestRate = 5, bp_isActive = True\<rparr>], next_id = 2\<rparr>,
     bnplApplications := \<lparr>rows = [a], next_id = 2\<rparr>\<rparr>\<rparr>"

definition credit_staff :: staff where
  "credit_staff = \<lparr>stf_id = 4, stf_email = ''credit@purse.com'', stf_role = CREDIT_BNPL_ADMIN, stf_permissions = [],
     stf_sessionId = 1, stf_mustChangePassword = False\<rparr>"

abbreviation "review_run \<equiv> review_application 5 credit_staff 1 ''APPROVED'' ''Good standing'' (lending_db filed_application)"

definition approved_application :: bnpl_application where
  "approved_application = filed_application\<lparr>ba_status := ''APPROVED'', ba_reviewedById := Some 4\<rparr>"

abbreviation "confirm_run \<equiv> confirmInTransaction example_bnpl 7 1 (lending_db approved_application)"

lemma lending_ok: "bnpl_ok (lending_db filed_application)" "bnpl_ok (lending_db approved_application)"
  by code_simp+

lemma lending_runs:
  "review_run = Inr (fst (projr review_run), snd (projr review_run))"
  "confirm_run = Inr (1, snd (projr confirm_run))"
proof -
  have "\<not> isl review_run" by code_simp
  from Inr_pairI [OF this refl] show "review_run = Inr (fst (projr review_run), snd (projr review_run))" .
  have "(case confirm_run of Inl e \<Rightarrow> False | Inr r \<Rightarrow> fst r = 1)" by code_simp
  then have "\<not> isl confirm_run" "fst (projr confirm_run) = 1" by (simp_all split: sum.splits)
  from Inr_pairI [OF this] show "confirm_run = Inr (1, snd (projr confirm_run))" .
qed

theorem terms_pay_off_witness:
  "installmentTerms (/) ''nextgen_purse'' ''Three months'' 719 3 5 = Inr example_terms \<and>
   (\<Sum>i\<leftarrow>[0..<3]. installment_amount example_terms i) = 75495 / 100"
proof -
  have t: "installmentTerms (/) ''nextgen_purse'' ''Three months'' 719 3 5 = Inr example_terms" by code_simp
  moreover have "near_quotient (/)" by (simp add: near_quotient_def)
  ultimately have "(\<Sum>i\<leftarrow>[0..<3]. installment_amount example_terms i) = tm_totalPayable example_terms"
    using terms_pay_off [OF t] by (simp add: example_terms_def)
  then show ?thesis using t by (simp add: example_terms_def)
qed

theorem application_confirmed_witness:
  "(\<Sum>i\<leftarrow>installments_of 1 (installments (snd (projr confirm_run))). bi_amount i) = 75495 / 100 \<and>
   map bi_dueAt (installments_of 1 (installments (snd (projr confirm_run)))) = [5011200000, 7689600000, 10281600000] \<and>
   confirmInTransaction example_bnpl 7 1 (snd (projr confirm_run)) = Inr (1, snd (projr confirm_run))"
proof -
  have o: "owned_application 7 1 (lending_db approved_application) = Inr approved_application"
    "installments_of 1 (installments (lending_db approved_application)) = []"
    "tfind (\<lambda>c. c_userId c = 7) (carts (lending_db approved_application)) = Some cart7" by code_simp+
  have a: "ba_status approved_application \<noteq> ''CONFIRMED''" "0 < tm_months (ba_terms approved_application)"
    "be_now example_bnpl = 2592000000" "tm_months (ba_terms approved_application) = 3"
    "tm_totalPayable (ba_terms approved_application) = 75495 / 100"
    by (simp_all add: approved_application_def filed_application_def example_terms_def example_bnpl_def)
  have "map (\<lambda>j. dueDate 2592000000 (Suc j)) [0..<3] = [5011200000, 7689600000, 10281600000]" by code_simp
  then show ?thesis
    using application_confirmed [OF lending_runs(2) lending_ok(2) o(1) a(1) o(2) a(2) o(3), of example_bnpl] a(3-5) by simp
qed

theorem applications_well_formed_witness:
  "bnpl_ok (run_ops bnpl_step [(example_bnpl, CancelApplication 7 1)] (lending_db filed_application))"
  by (rule applications_well_formed [OF lending_ok(1)])

theorem review_once_by_another_witness:
  "\<exists>a'. application 1 (snd (projr review_run)) = Some a' \<and> ba_status a' = ''APPROVED'' \<and> ba_reviewedById a' = Some 4"
  using review_once_by_another [OF lending_runs(1)] by (auto simp: credit_staff_def)

theorem due_dates_monthly_witness:
  "utc_fields (1706659200000 div ms_per_day) = (2024, 0, 31) \<and> utc_fields (dueDate 1706659200000 1 div ms_per_day) = (2024, 1, 29)"
proof -
  have f: "utc_fields (1706659200000 div ms_per_day) = (2024, 0, 31)" by code_simp
  obtain y' m' where "y' * 12 + int m' = 2024 * 12 + int 0 + int 1" "m' < 12"
    "utc_fields (dueDate 1706659200000 1 div ms_per_day) = (y', m', min 31 (month_days y' ! m'))"
    using due_dates_monthly [OF _ f, of 1] by auto
  moreover from this(1,2) have "m' = 1" "y' = 2024" by presburger+
  ultimately show ?thesis using f by (simp add: month_days_def leap_def)
qed

theorem document_roundtrip_witness:
  "decrypt example_bnpl (projr (encrypt example_bnpl 0 [37, 80, 68, 70, 45])) = Inr [37, 80, 68, 70, 45]"
proof -
  have "encrypt example_bnpl 0 [37, 80, 68, 70, 45] = Inr (projr (encrypt example_bnpl 0 [37, 80, 68, 70, 45]))" by code_simp
  then show ?thesis by (rule document_roundtrip) (simp_all add: example_bnpl_def)
qed

end
