(* ===== verification/Staff.thy ===== *)
theory Staff
  imports Access Bnpl
begin

text \<open>
  The staff of the administration (\<^verbatim>\<open>src/staff/staff.service.ts\<close>, \<^verbatim>\<open>src/staff/staff-jwt.guard.ts\<close>,
  \<^verbatim>\<open>src/staff/staff-permission.guard.ts\<close>): the permissions of each role, logging in and out, the
  accounts and their sessions, and the two guards of the administration's routes.  Passwords,
  the hash of a session secret, signed tokens and e-mails are parameters.
\<close>

section \<open>Roles and permissions\<close>

primrec STAFF_PERMISSIONS :: "staff_role \<Rightarrow> string list" where
  "STAFF_PERMISSIONS SUPER_ADMIN = [''admin.*'']"
| "STAFF_PERMISSIONS OPERATIONS_ADMIN = [''users.view'', ''stores.view'', ''stores.update'', ''products.view'', ''orders.view'',
     ''orders.cancel'', ''orders.status.update'', ''deliveries.view'', ''deliveries.assign'', ''deliveries.status.update'',
     ''reports.view'', ''roles.assign'', ''roles.revoke'', ''rewards.manage'', ''support.tickets.manage'', ''chats.moderate'']"
| "STAFF_PERMISSIONS FINANCE_ADMIN = [''orders.view'', ''orders.refund.approve'', ''payments.view'', ''payments.reconcile'',
     ''payments.reverse'', ''wallets.view'', ''wallets.credit'', ''wallets.debit'', ''reports.view'', ''reports.export'', ''rewards.manage'']"
| "STAFF_PERMISSIONS RISK_COMPLIANCE_ADMIN = [''users.view'', ''users.freeze'', ''riders.view'', ''kyc.read'', ''kyc.review'', ''risk.flag'',
     ''risk.blacklist.create'', ''risk.blacklist.remove'', ''audit.view'', ''reports.view'']"
| "STAFF_PERMISSIONS MERCHANT_ADMIN = [''stores.view'', ''stores.create'', ''stores.update'', ''stores.activate'', ''stores.suspend'',
     ''merchants.approve'', ''merchants.suspend'', ''products.view'', ''products.create'', ''products.update'', ''inventory.adjust'', ''orders.view'']"
| "STAFF_PERMISSIONS CUSTOMER_SUPPORT_ADMIN = [''users.view'', ''users.update'', ''users.freeze'', ''orders.view'', ''orders.cancel'',
     ''orders.refund.initiate'', ''products.view'', ''stores.view'', ''support.tickets.manage'', ''chats.moderate'']"
| "STAFF_PERMISSIONS CREDIT_BNPL_ADMIN = [''users.view'', ''bnpl.loan.create'', ''bnpl.limit.adjust'', ''bnpl.repayment.restructure'',
     ''reports.view'', ''bnpl.repayments.view'']"
| "STAFF_PERMISSIONS AUDIT_OBSERVER_ADMIN = [''users.view'', ''stores.view'', ''products.view'', ''orders.view'', ''payments.view'',
     ''deliveries.view'', ''riders.view'', ''kyc.read'', ''reports.view'', ''reports.export'', ''audit.view'', ''audit.export'']"
| "STAFF_PERMISSIONS REGIONAL_ADMIN = [''users.view'', ''stores.view'', ''stores.update'', ''products.view'', ''orders.view'',
     ''orders.cancel'', ''deliveries.view'', ''deliveries.assign'', ''riders.view'', ''reports.view'']"
| "STAFF_PERMISSIONS COMPLIANCE_LEAD = [''users.view'', ''users.freeze'', ''riders.view'', ''kyc.read'', ''kyc.review'', ''risk.flag'',
     ''risk.blacklist.create'', ''audit.view'', ''audit.export'', ''reports.view'']"

definition getStaffPermissions :: "staff_role \<Rightarrow> string list" where
  "getStaffPermissions role = STAFF_PERMISSIONS role"

text \<open>\<open>candidate.endsWith('.*')\<close> and \<open>permission.startsWith(candidate.slice(0, -1))\<close>\<close>

definition wildcard_allows :: "string \<Rightarrow> string \<Rightarrow> bool" where
  "wildcard_allows entry permission \<longleftrightarrow> 2 \<le> length entry \<and> drop (length entry - 2) entry = ''.*'' \<and>
     take (length entry - 1) permission = butlast entry"

definition staff_allowed :: "string list \<Rightarrow> string \<Rightarrow> bool" where
  "staff_allowed granted permission \<longleftrightarrow> permission \<in> set granted \<or> ''*'' \<in> set granted \<or> ''admin.*'' \<in> set granted \<or>
     list_ex (\<lambda>c. wildcard_allows c permission) granted"

definition staffPermissionGuard :: "string list \<Rightarrow> staff option \<Rightarrow> bool result" where
  "staffPermissionGuard required st =
     (if required = [] then Inr True
      else let granted = (case st of None \<Rightarrow> [] | Some x \<Rightarrow> stf_permissions x)
           in require (st \<noteq> None \<and> list_all (staff_allowed granted) required)
                (Forbidden ''Required staff permission is missing.'') (Inr True))"

section \<open>Sessions\<close>

record staff_env =
  sv_now :: time
  sv_compare :: "string \<Rightarrow> string \<Rightarrow> bool"
  sv_hash :: "string \<Rightarrow> string"
  sv_secret :: string
  sv_sha :: "string \<Rightarrow> string"
  sv_sign :: "nat \<Rightarrow> string \<Rightarrow> nat \<Rightarrow> string"
  sv_verify :: "string \<Rightarrow> (nat \<times> nat \<times> string) option"
  sv_password :: string
  sv_mail :: "exn option"

definition staff_by_id :: "nat \<Rightarrow> db \<Rightarrow> staff_user option" where
  "staff_by_id k s = tfind (\<lambda>u. sf_id u = k) (staffUsers (access s))"

definition staff_by_email :: "string \<Rightarrow> db \<Rightarrow> staff_user option" where
  "staff_by_email email s = tfind (\<lambda>u. sf_email u = email) (staffUsers (access s))"

definition updateStaff :: "nat \<Rightarrow> (staff_user \<Rightarrow> staff_user) \<Rightarrow> db \<Rightarrow> db" where
  "updateStaff k f = onAccess (\<lambda>a. a\<lparr>staffUsers := tupdate (\<lambda>u. sf_id u = k) f (staffUsers a)\<rparr>)"

definition updateSessions :: "(staff_session \<Rightarrow> bool) \<Rightarrow> (staff_session \<Rightarrow> staff_session) \<Rightarrow> db \<Rightarrow> db" where
  "updateSessions P f = onAccess (\<lambda>a. a\<lparr>staffSessions := tupdate P f (staffSessions a)\<rparr>)"

definition revokeAll :: "time \<Rightarrow> nat \<Rightarrow> db \<Rightarrow> db" where
  "revokeAll now staffId = updateSessions (\<lambda>x. ss_staffUserId x = staffId \<and> ss_revokedAt x = None) (\<lambda>x. x\<lparr>ss_revokedAt := Some now\<rparr>)"

definition issueStaffTokens :: "staff_env \<Rightarrow> nat \<Rightarrow> string \<Rightarrow> string option \<Rightarrow> string option \<Rightarrow> db \<Rightarrow> (string \<times> nat) \<times> db" where
  "issueStaffTokens env staffId email ipAddress userAgent s =
     (let mk = (\<lambda>i. \<lparr>ss_id = i, ss_staffUserId = staffId, ss_sessionTokenHash = sv_sha env (sv_secret env), ss_ipAddress = ipAddress,
            ss_userAgent = userAgent, ss_lastSeenAt = sv_now env, ss_expiresAt = sv_now env + 30 * 24 * 60 * 60 * 1000, ss_revokedAt = None\<rparr>);
          i = next_id (staffSessions (access s))
      in ((sv_sign env staffId email i, i), onAccess (\<lambda>a. a\<lparr>staffSessions := tinsert mk (staffSessions a)\<rparr>) s))"

record staff_login_view =
  sl_accessToken :: string
  sl_mustChangePassword :: bool
  sl_staff :: staff

definition staff_of :: "staff_user \<Rightarrow> nat \<Rightarrow> staff" where
  "staff_of u sessionId = \<lparr>stf_id = sf_id u, stf_email = sf_email u, stf_role = sf_role u,
     stf_permissions = getStaffPermissions (sf_role u), stf_sessionId = sessionId, stf_mustChangePassword = sf_mustChangePassword u\<rparr>"

definition staff_login :: "staff_env \<Rightarrow> string \<Rightarrow> string \<Rightarrow> string option \<Rightarrow> string option \<Rightarrow> staff_login_view tx" where
  "staff_login env rawEmail password ipAddress userAgent s =
     (let email = toLowerCase (trim rawEmail)
      in ebind (orThrow (case staff_by_email email s of Some u \<Rightarrow> if sf_passwordHash u = [] then None else Some u | None \<Rightarrow> None)
           (Unauthorized ''Invalid credentials.'')) (\<lambda>u.
         require (sv_compare env password (sf_passwordHash u) \<and> sf_status u = ACTIVE) (Unauthorized ''Invalid credentials or inactive account.'') (
         let ((token, sid), s1) = issueStaffTokens env (sf_id u) email ipAddress userAgent s
         in Inr (\<lparr>sl_accessToken = token, sl_mustChangePassword = sf_mustChangePassword u, sl_staff = staff_of u sid\<rparr>,
              updateStaff (sf_id u) (\<lambda>u. u\<lparr>sf_lastLoginAt := Some (sv_now env)\<rparr>) s1))))"

definition staff_logout :: "time \<Rightarrow> nat \<Rightarrow> db \<Rightarrow> db" where
  "staff_logout now sessionId = updateSessions (\<lambda>x. ss_id x = sessionId) (\<lambda>x. x\<lparr>ss_revokedAt := Some now\<rparr>)"

definition staff_me :: "nat \<Rightarrow> db \<Rightarrow> (staff_user \<times> string list) result" where
  "staff_me staffId s = ebind (orThrow (staff_by_id staffId s) (NotFound ''Staff account not found.'')) (\<lambda>u.
     Inr (u, getStaffPermissions (sf_role u)))"

definition changePassword :: "staff_env \<Rightarrow> nat \<Rightarrow> string \<Rightarrow> string \<Rightarrow> db \<Rightarrow> db result" where
  "changePassword env staffId currentPassword newPassword s =
     ebind (orThrow (staff_by_id staffId s) (NotFound ''Staff account not found.'')) (\<lambda>u.
     require (sv_compare env currentPassword (sf_passwordHash u)) (BadRequest ''Current password is incorrect.'') (
     require (currentPassword \<noteq> newPassword) (BadRequest ''New password must differ from the current password.'') (
     Inr (revokeAll (sv_now env) staffId
       (updateStaff staffId (\<lambda>u. u\<lparr>sf_passwordHash := sv_hash env newPassword, sf_mustChangePassword := False\<rparr>) s)))))"

text \<open>The session is looked up and touched before the account is checked.\<close>

definition validateSession :: "time \<Rightarrow> nat \<Rightarrow> nat \<Rightarrow> staff_user handler" where
  "validateSession now staffId sessionId s =
     (case tfind (\<lambda>x. ss_id x = sessionId) (staffSessions (access s)) of
        None \<Rightarrow> (Inl (Unauthorized ''Session has expired or been revoked.''), s)
      | Some x \<Rightarrow>
          if ss_staffUserId x \<noteq> staffId \<or> ss_revokedAt x \<noteq> None \<or> ss_expiresAt x \<le> now
          then (Inl (Unauthorized ''Session has expired or been revoked.''), s)
          else let s1 = updateSessions (\<lambda>y. ss_id y = ss_id x) (\<lambda>y. y\<lparr>ss_lastSeenAt := now\<rparr>) s
               in (ebind (orThrow (staff_by_id staffId s1) (Unauthorized ''Staff account is not active.'')) (\<lambda>u.
                   require (sf_status u = ACTIVE) (Unauthorized ''Staff account is not active.'') (Inr u)), s1))"

definition staffJwtGuard :: "staff_env \<Rightarrow> bool \<Rightarrow> string option \<Rightarrow> (staff option) handler" where
  "staffJwtGuard env isPublic token s =
     (if isPublic then (Inr None, s)
      else case token of
        None \<Rightarrow> (Inl (Unauthorized ''Staff authentication cookie is missing.''), s)
      | Some t \<Rightarrow> if t = [] then (Inl (Unauthorized ''Staff authentication cookie is missing.''), s)
          else case sv_verify env t of
            None \<Rightarrow> (Inl (Unauthorized ''Invalid or expired staff token.''), s)
          | Some (sub, sid, typ) \<Rightarrow>
              if typ \<noteq> ''STAFF'' then (Inl (Unauthorized ''Invalid token type.''), s)
              else hbind (validateSession (sv_now env) sub sid) (\<lambda>u. hreturn (Some (staff_of u sid))) s)"

section \<open>Accounts\<close>

record staff_input =
  sfi_email :: string
  sfi_firstName :: string
  sfi_lastName :: string
  sfi_role :: staff_role
  sfi_phoneNumber :: "string option"

definition new_staff :: "staff_env \<Rightarrow> staff_input \<Rightarrow> string \<Rightarrow> nat \<Rightarrow> nat \<Rightarrow> staff_user" where
  "new_staff env dto email createdById i = \<lparr>sf_id = i, sf_email = email, sf_firstName = sfi_firstName dto, sf_lastName = sfi_lastName dto,
     sf_phoneNumber = sfi_phoneNumber dto, sf_passwordHash = sv_hash env (sv_password env), sf_role = sfi_role dto, sf_status = ACTIVE,
     sf_mustChangePassword = True, sf_createdById = Some createdById, sf_lastLoginAt = None\<rparr>"

text \<open>The account and its audit row are kept when the welcome mail cannot be sent.\<close>

definition createStaff :: "staff_env \<Rightarrow> staff_input \<Rightarrow> nat \<Rightarrow> (staff_user \<times> string) handler" where
  "createStaff env dto createdById s =
     (let email = toLowerCase (trim (sfi_email dto)); i = next_id (staffUsers (access s)); mk = new_staff env dto email createdById
      in if staff_by_email email s \<noteq> None then (Inl (Conflict ''A staff account with this email already exists.''), s)
         else if sfi_phoneNumber dto \<noteq> None \<and> tfind (\<lambda>u. sf_phoneNumber u = sfi_phoneNumber dto) (staffUsers (access s)) \<noteq> None
         then (Inl UniqueViolation, s)
         else let s1 = audit createdById ''STAFF_USER_CREATED'' ''StaffUser'' (show_nat i)
                    (onAccess (\<lambda>a. a\<lparr>staffUsers := tinsert mk (staffUsers a)\<rparr>) s)
              in case sv_mail env of Some e \<Rightarrow> (Inl e, s1) | None \<Rightarrow> (Inr (mk i, sv_password env), s1))"

definition staff_findAll :: "nat \<Rightarrow> nat \<Rightarrow> db \<Rightarrow> staff_user listing" where
  "staff_findAll page limit s = listing_of page limit (rev (rows (staffUsers (access s))))"

definition staff_findOne :: "nat \<Rightarrow> db \<Rightarrow> (staff_user \<times> string list) result" where
  "staff_findOne k s = ebind (orThrow (staff_by_id k s) (NotFound (''Staff user #'' @ show_nat k @ '' not found.''))) (\<lambda>u.
     Inr (u, getStaffPermissions (sf_role u)))"

record staff_update =
  sup_role :: "staff_role option"
  sup_firstName :: "string option"
  sup_lastName :: "string option"
  sup_status :: "user_status option"
  sup_phoneNumber :: "string option option"

definition apply_update :: "staff_update \<Rightarrow> staff_user \<Rightarrow> staff_user" where
  "apply_update dto u = u\<lparr>
     sf_role := case_option (sf_role u) id (sup_role dto),
     sf_firstName := (if truthy (sup_firstName dto) then the (sup_firstName dto) else sf_firstName u),
     sf_lastName := (if truthy (sup_lastName dto) then the (sup_lastName dto) else sf_lastName u),
     sf_status := case_option (sf_status u) id (sup_status dto),
     sf_phoneNumber := case_option (sf_phoneNumber u) id (sup_phoneNumber dto)\<rparr>"

definition staff_update_request :: "nat \<Rightarrow> staff_update \<Rightarrow> nat \<Rightarrow> staff_user tx" where
  "staff_update_request k dto actorId s =
     ebind (staff_findOne k s) (\<lambda>(u, _).
     require (case sup_phoneNumber dto of Some (Some n) \<Rightarrow>
         tfind (\<lambda>x. sf_phoneNumber x = Some n \<and> sf_id x \<noteq> k) (staffUsers (access s)) = None | _ \<Rightarrow> True) UniqueViolation (
     Inr (apply_update dto u, audit actorId ''STAFF_USER_UPDATED'' ''StaffUser'' (show_nat k) (updateStaff k (apply_update dto) s))))"

definition deactivate :: "time \<Rightarrow> nat \<Rightarrow> nat \<Rightarrow> db \<Rightarrow> db result" where
  "deactivate now k actorId s =
     require (k \<noteq> actorId) (BadRequest ''You cannot deactivate your own account.'') (
     ebind (staff_findOne k s) (\<lambda>_.
     Inr (audit actorId ''STAFF_USER_DEACTIVATED'' ''StaffUser'' (show_nat k)
       (revokeAll now k (updateStaff k (\<lambda>u. u\<lparr>sf_status := INACTIVE\<rparr>) s)))))"

section \<open>What the staff may do\<close>

definition wildcard_free :: "string list \<Rightarrow> bool" where
  "wildcard_free cs \<longleftrightarrow> list_all (\<lambda>c. last c \<noteq> CHR ''*'') cs"

lemma wildcards:
  assumes "role \<noteq> SUPER_ADMIN" "c \<in> set (STAFF_PERMISSIONS role)"
  shows "drop (length c - 2) c \<noteq> ''.*'' \<and> c \<noteq> ''*'' \<and> c \<noteq> ''admin.*''"
proof -
  have "wildcard_free (STAFF_PERMISSIONS role)" using assms(1) by (cases role) (simp_all add: wildcard_free_def)
  then have l: "last c \<noteq> CHR ''*''" using assms(2) unfolding wildcard_free_def list_all_iff by blast
  have "drop (length c - 2) c \<noteq> ''.*''"
  proof
    assume d: "drop (length c - 2) c = ''.*''"
    then have "length c - 2 < length c" by (metis drop_all linorder_not_less list.distinct(1))
    then have "last c = last (drop (length c - 2) c)" by (simp add: last_drop)
    then show False using l d by simp
  qed
  then show ?thesis using l by auto
qed

text \<open>
  (C35) The guard of the administration's routes lets a member of the staff do everything when
  the role is the super administrator's, and otherwise exactly what the table of the roles lists
  literally: no entry of another role acts as a wildcard.
\<close>

theorem staff_guard_exact:
  assumes "required \<noteq> []"
  shows "staffPermissionGuard required (Some (staff_of u sid)) = Inr True \<longleftrightarrow>
    sf_role u = SUPER_ADMIN \<or> set required \<subseteq> set (STAFF_PERMISSIONS (sf_role u))"
proof (cases "sf_role u = SUPER_ADMIN")
  case True
  then show ?thesis using assms
    by (simp add: staffPermissionGuard_def staff_of_def getStaffPermissions_def staff_allowed_def require_Inr_iff list_all_iff)
next
  case False
  have "staff_allowed (STAFF_PERMISSIONS (sf_role u)) p \<longleftrightarrow> p \<in> set (STAFF_PERMISSIONS (sf_role u))" for p
  proof -
    have "\<not> list_ex (\<lambda>c. wildcard_allows c p) (STAFF_PERMISSIONS (sf_role u))"
      using wildcards [OF False] unfolding wildcard_allows_def list_ex_iff by blast
    then show ?thesis using wildcards [OF False] unfolding staff_allowed_def by blast
  qed
  then show ?thesis using assms False
    by (simp add: staffPermissionGuard_def staff_of_def getStaffPermissions_def require_Inr_iff list_all_iff subset_eq)
qed

lemma revoked_session:
  assumes "tfind (\<lambda>x. ss_id x = sid) (staffSessions (access (revokeAll now k s))) = Some x"
  shows "ss_staffUserId x = k \<longrightarrow> ss_revokedAt x \<noteq> None"
proof -
  have "x \<in> set (rows (tupdate (\<lambda>x. ss_staffUserId x = k \<and> ss_revokedAt x = None) (\<lambda>x. x\<lparr>ss_revokedAt := Some now\<rparr>)
      (staffSessions (access s))))"
    using tfind_SomeD [OF assms] by (simp add: revokeAll_def updateSessions_def onAccess_def)
  then obtain r where "x = (if ss_staffUserId r = k \<and> ss_revokedAt r = None then r\<lparr>ss_revokedAt := Some now\<rparr> else r)"
    unfolding rows_table set_map by blast
  then show ?thesis by (cases "ss_staffUserId r = k \<and> ss_revokedAt r = None") auto
qed

lemma validateSession_revoked:
  assumes "\<And>sid x. tfind (\<lambda>x. ss_id x = sid) (staffSessions (access s)) = Some x \<Longrightarrow> ss_staffUserId x = k \<longrightarrow> ss_revokedAt x \<noteq> None"
  shows "validateSession now k sid s = (Inl (Unauthorized ''Session has expired or been revoked.''), s)"
  using assms [of sid] by (auto simp: validateSession_def split: option.splits)

text \<open>
  (C36) Nobody deactivates their own account, and a member of the staff who was deactivated is
  out at once: every session that was open is refused from then on, and logging in again is
  refused whatever the password.
\<close>

theorem deactivated_staff_out:
  assumes "deactivate now k actor s = Inr s'" and "tkeyed sf_id (staffUsers (access s))" and "staff_by_id k s = Some u"
    and "\<forall>v \<in> set (rows (staffUsers (access s))). sf_email v = sf_email u \<longrightarrow> v = u"
  shows "k \<noteq> actor \<and> validateSession now' k sid s' = (Inl (Unauthorized ''Session has expired or been revoked.''), s') \<and>
    (toLowerCase (trim email) = sf_email u \<longrightarrow> isl (staff_login env email password ip agent s'))"
proof -
  define s1 where "s1 = revokeAll now k (updateStaff k (\<lambda>u. u\<lparr>sf_status := INACTIVE\<rparr>) s)"
  have s': "access s' = access s1" "k \<noteq> actor"
    using assms(1) by (auto simp: deactivate_def require_Inr_iff ebind_Inr_iff audit_def s1_def)
  have "validateSession now' k sid s' = (Inl (Unauthorized ''Session has expired or been revoked.''), s')"
    by (rule validateSession_revoked) (simp add: s' s1_def revoked_session)
  moreover have "isl (staff_login env email password ip agent s')" if e: "toLowerCase (trim email) = sf_email u"
  proof -
    have us: "staffUsers (access s') = tupdate (\<lambda>u. sf_id u = k) (\<lambda>u. u\<lparr>sf_status := INACTIVE\<rparr>) (staffUsers (access s))"
      by (simp add: s' s1_def revokeAll_def updateSessions_def updateStaff_def onAccess_def)
    have k: "sf_id u = k" using assms(3) by (auto simp: staff_by_id_def dest: tfind_SomeD)
    have "sf_status v = INACTIVE" if "staff_by_email (sf_email u) s' = Some v" for v
    proof -
      note v = that [unfolded staff_by_email_def]
      obtain r where r: "r \<in> set (rows (staffUsers (access s)))" "v = (if sf_id r = k then r\<lparr>sf_status := INACTIVE\<rparr> else r)" "sf_email v = sf_email u"
        using tfind_SomeD [OF v] by (auto simp: us)
      then have "sf_email r = sf_email u" by (auto split: if_splits)
      then have "r = u" using assms(4) r(1) by blast
      then show ?thesis using r(2) k by simp
    qed
    then show ?thesis
      by (cases "staff_by_email (sf_email u) s'") (simp_all add: staff_login_def e require_def Let_def)
  qed
  ultimately show ?thesis using s'(2) by blast
qed

text \<open>
  A changed password ends every session that was opened with the old one, and it can only
  be changed by somebody who knows the old one.
\<close>

theorem password_change_ends_sessions:
  assumes "changePassword env k old new s = Inr s'"
  shows "\<exists>u. staff_by_id k s = Some u \<and> sv_compare env old (sf_passwordHash u) \<and> new \<noteq> old \<and>
    validateSession now k sid s' = (Inl (Unauthorized ''Session has expired or been revoked.''), s')"
proof -
  obtain u where u: "staff_by_id k s = Some u" "sv_compare env old (sf_passwordHash u)" "new \<noteq> old"
    and s': "s' = revokeAll (sv_now env) k (updateStaff k (\<lambda>u. u\<lparr>sf_passwordHash := sv_hash env new, sf_mustChangePassword := False\<rparr>) s)"
    using assms unfolding changePassword_def by (auto elim!: ebindE simp: require_Inr_iff orThrow_Inr_iff)
  have "validateSession now k sid s' = (Inl (Unauthorized ''Session has expired or been revoked.''), s')"
    by (rule validateSession_revoked) (simp add: s' revoked_session)
  then show ?thesis using u by blast
qed

section \<open>Examples\<close>

definition clerk :: staff_user where
  "clerk = \<lparr>sf_id = 5, sf_email = ''ngozi@purse.com'', sf_firstName = ''Ngozi'', sf_lastName = ''Eze'', sf_phoneNumber = None,
     sf_passwordHash = ''h:old'', sf_role = FINANCE_ADMIN, sf_status = ACTIVE, sf_mustChangePassword = False, sf_createdById = Some 1, sf_lastLoginAt = None\<rparr>"

definition staff_db :: db where
  "staff_db = empty_db\<lparr>access := (access empty_db)\<lparr>staffUsers := \<lparr>rows = [clerk], next_id = 6\<rparr>,
     staffSessions := \<lparr>rows = [\<lparr>ss_id = 3, ss_staffUserId = 5, ss_sessionTokenHash = ''t'', ss_ipAddress = None, ss_userAgent = None,
       ss_lastSeenAt = 0, ss_expiresAt = 1000, ss_revokedAt = None\<rparr>], next_id = 4\<rparr>\<rparr>\<rparr>"

definition staff_example :: staff_env where
  "staff_example = \<lparr>sv_now = 10, sv_compare = (\<lambda>p h. h = ''h:'' @ p), sv_hash = (\<lambda>p. ''h:'' @ p), sv_secret = ''s'', sv_sha = id,
     sv_sign = (\<lambda>k e i. show_nat k), sv_verify = (\<lambda>_. None), sv_password = ''tmp'', sv_mail = None\<rparr>"

theorem staff_guard_exact_witness:
  "staffPermissionGuard [''payments.view'', ''orders.view''] (Some (staff_of clerk 3)) = Inr True \<and>
   staffPermissionGuard [''orders.cancel''] (Some (staff_of clerk 3)) \<noteq> Inr True"
  using staff_guard_exact [of "[''payments.view'', ''orders.view'']" clerk 3] staff_guard_exact [of "[''orders.cancel'']" clerk 3]
  by (simp add: clerk_def)

theorem deactivated_staff_out_witness:
  "fst (validateSession 11 5 3 staff_db) = Inr clerk \<and>
   isl (fst (validateSession 11 5 3 (projr (deactivate 10 5 1 staff_db)))) \<and>
   isl (staff_login staff_example ''ngozi@purse.com'' ''old'' None None (projr (deactivate 10 5 1 staff_db)))"
proof -
  have v: "fst (validateSession 11 5 3 staff_db) = Inr clerk" and t: "toLowerCase (trim ''ngozi@purse.com'') = sf_email clerk"
    and d: "\<not> isl (deactivate 10 5 1 staff_db)" and c: "staff_by_id 5 staff_db = Some clerk" by code_simp+
  have run: "deactivate 10 5 1 staff_db = Inr (projr (deactivate 10 5 1 staff_db))" using d by (cases "deactivate 10 5 1 staff_db") auto
  have k: "tkeyed sf_id (staffUsers (access staff_db))" "\<forall>v \<in> set (rows (staffUsers (access staff_db))). sf_email v = sf_email clerk \<longrightarrow> v = clerk"
    by (simp_all add: staff_db_def tkeyed_def clerk_def)
  from deactivated_staff_out [OF run k(1) c k(2)] v t show ?thesis by simp
qed

theorem password_change_ends_sessions_witness:
  "isl (fst (validateSession 11 5 3 (projr (changePassword staff_example 5 ''old'' ''new'' staff_db))))"
proof -
  have "\<not> isl (changePassword staff_example 5 ''old'' ''new'' staff_db)" by code_simp
  then have "changePassword staff_example 5 ''old'' ''new'' staff_db = Inr (projr (changePassword staff_example 5 ''old'' ''new'' staff_db))"
    by (cases "changePassword staff_example 5 ''old'' ''new'' staff_db") auto
  from password_change_ends_sessions [OF this, of 11 3] show ?thesis by auto
qed

end
