(* ===== verification/Auth.thy ===== *)
theory Auth
  imports Access
begin

text \<open>
  Accounts and sessions of the customers (\<^verbatim>\<open>src/auth/auth.service.ts\<close>), the guard that authenticates
  a request (\<^verbatim>\<open>src/auth/jwt.guard.ts\<close>) and signing in with Google (\<^verbatim>\<open>src/auth/google-auth.service.ts\<close>).
  Password hashes, SHA-256, signed tokens, random values, the parser of phone numbers and mail
  are parameters of the environment; the hexadecimal digests that \<open>timingSafeEqual\<close> compares as
  bytes are compared as strings.
\<close>

section \<open>Environment\<close>

record auth_env =
  av_now :: time
  av_compare :: "string \<Rightarrow> string \<Rightarrow> bool"
  av_bcrypt :: "string \<Rightarrow> string"
  av_sha :: "string \<Rightarrow> string"
  av_refreshId :: string
  av_signAccess :: "nat \<Rightarrow> string \<Rightarrow> nat \<Rightarrow> string"
  av_signRefresh :: "nat \<Rightarrow> nat \<Rightarrow> string \<Rightarrow> string"
  av_verifyRefresh :: "string \<Rightarrow> (nat \<times> nat \<times> string option) option"
  av_verifyAccess :: "string \<Rightarrow> (nat \<times> nat option) option"
  av_refreshTtl :: "string option"
  av_otp :: string
  av_challengeKey :: string
  av_pepper :: string
  av_otpTtlMinutes :: nat
  av_cooldownSeconds :: nat
  av_maxAttempts :: nat
  av_parsePhone :: "string \<Rightarrow> string result"
  av_mail :: "exn option"

definition normalEmail :: "string \<Rightarrow> string" where
  "normalEmail email = toLowerCase (trim email)"

text \<open>The life time of a token: digits are seconds, a unit may follow, anything else is the default.\<close>

definition is_digit :: "char \<Rightarrow> bool" where
  "is_digit c \<longleftrightarrow> 48 \<le> (of_char c :: nat) \<and> (of_char c :: nat) \<le> 57"

definition digits_value :: "string \<Rightarrow> int" where
  "digits_value ds = foldl (\<lambda>n c. n * 10 + (of_char c - 48)) 0 ds"

definition unit_ms :: "char \<Rightarrow> int option" where
  "unit_ms c = (if c = CHR ''s'' then Some 1000 else if c = CHR ''m'' then Some 60000
     else if c = CHR ''h'' then Some 3600000 else if c = CHR ''d'' then Some 86400000 else None)"

definition durationMs :: "string option \<Rightarrow> int \<Rightarrow> int" where
  "durationMs val fallback = (case val of None \<Rightarrow> fallback | Some v \<Rightarrow>
     if v = [] then fallback
     else if list_all is_digit v then digits_value v * 1000
     else let t = trim v in
       if 2 \<le> length t \<and> list_all is_digit (butlast t)
       then case unit_ms (last t) of None \<Rightarrow> fallback | Some u \<Rightarrow> digits_value (butlast t) * u
       else fallback)"

definition refreshTokenTtlMs :: "auth_env \<Rightarrow> int" where
  "refreshTokenTtlMs env = durationMs (case av_refreshTtl env of None \<Rightarrow> Some ''30d'' | v \<Rightarrow> v) (30 * 24 * 60 * 60000)"

definition user_by_email :: "string \<Rightarrow> db \<Rightarrow> user option" where
  "user_by_email email s = tfind (\<lambda>u. u_email u = email) (users s)"

definition user_by_id :: "nat \<Rightarrow> db \<Rightarrow> user option" where
  "user_by_id k s = tfind (\<lambda>u. u_id u = k) (users s)"

definition session_by_id :: "nat \<Rightarrow> db \<Rightarrow> admin_session option" where
  "session_by_id k s = tfind (\<lambda>x. se_id x = k) (sessions (access s))"

definition updateUser :: "nat \<Rightarrow> (user \<Rightarrow> user) \<Rightarrow> db \<Rightarrow> db" where
  "updateUser k f s = s\<lparr>users := tupdate (\<lambda>u. u_id u = k) f (users s)\<rparr>"

section \<open>One-time codes\<close>

definition hashOtp :: "auth_env \<Rightarrow> string \<Rightarrow> string \<Rightarrow> string" where
  "hashOtp env challengeId otp = av_sha env (av_pepper env @ '':'' @ challengeId @ '':'' @ otp)"

definition cooldownKey :: "string \<Rightarrow> string \<Rightarrow> string" where
  "cooldownKey purpose email = ''otp:cooldown:'' @ purpose @ '':'' @ email"

definition cooldown_live :: "time \<Rightarrow> string \<Rightarrow> db \<Rightarrow> bool" where
  "cooldown_live now key s \<longleftrightarrow> list_ex (\<lambda>(k, e). k = key \<and> now < e) (redis (access s))"

definition set_cooldown :: "string \<Rightarrow> time \<Rightarrow> db \<Rightarrow> db" where
  "set_cooldown key e = onAccess (\<lambda>a. a\<lparr>redis := (key, e) # filter (\<lambda>(k, _). k \<noteq> key) (redis a)\<rparr>)"

definition new_challenge :: "auth_env \<Rightarrow> nat \<Rightarrow> string \<Rightarrow> string \<Rightarrow> nat \<Rightarrow> otp_challenge" where
  "new_challenge env uid email purpose i = \<lparr>ot_id = i, ot_userId = uid, ot_purpose = purpose, ot_target = email,
     ot_challengeKey = av_challengeKey env, ot_codeHash = hashOtp env (av_challengeKey env) (av_otp env),
     ot_expiresAt = av_now env + int (av_otpTtlMinutes env) * 60000, ot_attempts = 0, ot_maxAttempts = av_maxAttempts env\<rparr>"

definition deleteChallenges :: "(otp_challenge \<Rightarrow> bool) \<Rightarrow> db \<Rightarrow> db" where
  "deleteChallenges P = onAccess (\<lambda>a. a\<lparr>otpChallenges := tdelete P (otpChallenges a)\<rparr>)"

text \<open>A code that could not be mailed is deleted again; its cooldown stays.\<close>

definition createAndSendOtp :: "auth_env \<Rightarrow> nat \<Rightarrow> string \<Rightarrow> string \<Rightarrow> unit handler" where
  "createAndSendOtp env uid email purpose s =
     (if cooldown_live (av_now env) (cooldownKey purpose email) s
      then (Inl (TooManyRequests ''Please wait before requesting another OTP.''), s)
      else let s1 = deleteChallenges (\<lambda>c. ot_userId c = uid \<and> ot_purpose c = purpose) s;
               i = next_id (otpChallenges (access s1));
               s2 = onAccess (\<lambda>a. a\<lparr>otpChallenges := tinsert (new_challenge env uid email purpose) (otpChallenges a)\<rparr>) s1;
               s3 = set_cooldown (cooldownKey purpose email) (av_now env + int (av_cooldownSeconds env) * 1000) s2
           in case av_mail env of
                None \<Rightarrow> (Inr (), s3)
              | Some e \<Rightarrow> (Inl e, deleteChallenges (\<lambda>c. ot_id c = i) s3))"

definition current_challenge :: "time \<Rightarrow> nat \<Rightarrow> string \<Rightarrow> string \<Rightarrow> db \<Rightarrow> otp_challenge option" where
  "current_challenge now uid email purpose s =
     List.find (\<lambda>c. ot_userId c = uid \<and> ot_purpose c = purpose \<and> ot_target c = email \<and> now < ot_expiresAt c)
       (rev (rows (otpChallenges (access s))))"

definition consumeOtp :: "auth_env \<Rightarrow> nat \<Rightarrow> string \<Rightarrow> string \<Rightarrow> string \<Rightarrow> unit handler" where
  "consumeOtp env uid email purpose otp s =
     (case current_challenge (av_now env) uid email purpose s of
        None \<Rightarrow> (Inl (BadRequest ''OTP is invalid or has expired.''), s)
      | Some c \<Rightarrow>
          if ot_maxAttempts c \<le> ot_attempts c
          then (Inl (TooManyRequests ''OTP attempt limit reached. Request a new code.''), s)
          else if hashOtp env (ot_challengeKey c) otp \<noteq> ot_codeHash c
          then (Inl (BadRequest ''OTP is invalid or has expired.''),
                onAccess (\<lambda>a. a\<lparr>otpChallenges := tupdate (\<lambda>x. ot_id x = ot_id c) (\<lambda>x. x\<lparr>ot_attempts := ot_attempts x + 1\<rparr>)
                  (otpChallenges a)\<rparr>) s)
          else if tcount (\<lambda>x. ot_id x = ot_id c) (otpChallenges (access s)) \<noteq> 1
          then (Inl (BadRequest ''OTP is invalid or has expired.''), deleteChallenges (\<lambda>x. ot_id x = ot_id c) s)
          else (Inr (), deleteChallenges (\<lambda>x. ot_id x = ot_id c) s))"

section \<open>Sessions\<close>

record token_view =
  tv_accessToken :: string
  tv_refreshToken :: string
  tv_sessionId :: nat
  tv_user :: user_context

definition updateSession :: "(admin_session \<Rightarrow> bool) \<Rightarrow> (admin_session \<Rightarrow> admin_session) \<Rightarrow> db \<Rightarrow> db" where
  "updateSession P f = onAccess (\<lambda>a. a\<lparr>sessions := tupdate P f (sessions a)\<rparr>)"

definition new_session :: "auth_env \<Rightarrow> nat \<Rightarrow> nat \<Rightarrow> admin_session" where
  "new_session env uid i = \<lparr>se_id = i, se_userId = uid, se_sessionTokenHash = av_sha env (av_refreshId env),
     se_refreshRotatedAt = Some (av_now env), se_ipAddress = None, se_userAgent = None, se_lastSeenAt = av_now env,
     se_expiresAt = av_now env + refreshTokenTtlMs env, se_revokedAt = None\<rparr>"

text \<open>The condition of the update that rotates a session: nothing has changed since it was read.\<close>

definition rotatable :: "time \<Rightarrow> nat \<Rightarrow> nat \<Rightarrow> string \<Rightarrow> admin_session \<Rightarrow> bool" where
  "rotatable now uid k expectedHash x \<longleftrightarrow> se_id x = k \<and> se_userId x = uid \<and> (expectedHash \<noteq> [] \<longrightarrow> se_sessionTokenHash x = expectedHash) \<and>
     se_revokedAt x = None \<and> now < se_expiresAt x"

definition rotateSession :: "auth_env \<Rightarrow> admin_session \<Rightarrow> admin_session" where
  "rotateSession env x = x\<lparr>se_sessionTokenHash := av_sha env (av_refreshId env), se_refreshRotatedAt := Some (av_now env),
     se_lastSeenAt := av_now env, se_expiresAt := av_now env + refreshTokenTtlMs env\<rparr>"

definition openSession :: "auth_env \<Rightarrow> nat \<Rightarrow> (nat \<times> string) option \<Rightarrow> nat handler" where
  "openSession env uid existing s =
     (let fresh = av_sha env (av_refreshId env)
      in case existing of
        None \<Rightarrow>
          if tfind (\<lambda>x. se_sessionTokenHash x = fresh) (sessions (access s)) \<noteq> None then (Inl UniqueViolation, s)
          else (Inr (next_id (sessions (access s))), onAccess (\<lambda>a. a\<lparr>sessions := tinsert (new_session env uid) (sessions a)\<rparr>) s)
      | Some (k, expectedHash) \<Rightarrow>
          if tcount (rotatable (av_now env) uid k expectedHash) (sessions (access s)) \<noteq> 1
          then (Inl (Unauthorized ''Refresh token was already rotated or revoked.''), s)
          else if tfind (\<lambda>x. se_sessionTokenHash x = fresh \<and> se_id x \<noteq> k) (sessions (access s)) \<noteq> None then (Inl UniqueViolation, s)
          else (Inr k, updateSession (rotatable (av_now env) uid k expectedHash) (rotateSession env) s))"

definition issueTokens :: "auth_env \<Rightarrow> nat \<Rightarrow> string \<Rightarrow> (nat \<times> string) option \<Rightarrow> token_view handler" where
  "issueTokens env uid email existing =
     hbind (openSession env uid existing) (\<lambda>sid s.
       (ebind (buildUserContext (av_now env) uid s) (\<lambda>cx.
          Inr \<lparr>tv_accessToken = av_signAccess env uid email sid, tv_refreshToken = av_signRefresh env uid sid (av_refreshId env),
            tv_sessionId = sid, tv_user = cx\<lparr>uc_id := uid, uc_email := email\<rparr>\<rparr>), s))"

definition getUserEmail :: "nat \<Rightarrow> db \<Rightarrow> string result" where
  "getUserEmail uid s = (case user_by_id uid s of
     None \<Rightarrow> Inl (Unauthorized ''Account is not active.'')
   | Some u \<Rightarrow> if u_status u = ACTIVE then Inr (u_email u) else Inl (Unauthorized ''Account is not active.''))"

definition createSessionForUser :: "auth_env \<Rightarrow> nat \<Rightarrow> token_view handler" where
  "createSessionForUser env uid s = (case getUserEmail uid s of
     Inl e \<Rightarrow> (Inl e, s) | Inr email \<Rightarrow> issueTokens env uid email None s)"

definition refresh_matches :: "auth_env \<Rightarrow> string option \<Rightarrow> admin_session \<Rightarrow> bool" where
  "refresh_matches env jti x = (if truthy jti then se_sessionTokenHash x = av_sha env (the jti) else se_refreshRotatedAt x = None)"

definition checkRefresh :: "auth_env \<Rightarrow> string \<Rightarrow> db \<Rightarrow> (admin_session \<times> string) result" where
  "checkRefresh env token s =
     ebind (orThrow (av_verifyRefresh env token) (Unauthorized ''Invalid or expired refresh session.'')) (\<lambda>(sub, sid, jti).
     ebind (orThrow (session_by_id sid s) (Unauthorized ''Session has expired or been revoked.'')) (\<lambda>x.
     require (se_userId x = sub \<and> refresh_matches env jti x \<and> se_revokedAt x = None \<and> av_now env < se_expiresAt x)
       (Unauthorized ''Session has expired or been revoked.'') (
     ebind (getUserEmail (se_userId x) s) (\<lambda>email. Inr (x, email)))))"

definition refreshToken :: "auth_env \<Rightarrow> string \<Rightarrow> token_view handler" where
  "refreshToken env token s = (case checkRefresh env token s of
     Inl e \<Rightarrow> (Inl e, s)
   | Inr (x, email) \<Rightarrow> issueTokens env (se_userId x) email (Some (se_id x, se_sessionTokenHash x)) s)"

definition auth_logout :: "time \<Rightarrow> nat \<Rightarrow> db \<Rightarrow> db" where
  "auth_logout now sid = updateSession (\<lambda>x. se_id x = sid) (\<lambda>x. x\<lparr>se_revokedAt := Some now\<rparr>)"

definition updateSessionMetadata :: "time \<Rightarrow> nat \<Rightarrow> string option \<Rightarrow> string option \<Rightarrow> db \<Rightarrow> db result" where
  "updateSessionMetadata now sid ip agent s =
     require (session_by_id sid s \<noteq> None) RecordNotFound (
     Inr (updateSession (\<lambda>x. se_id x = sid) (\<lambda>x. x\<lparr>
       se_ipAddress := (case ip of None \<Rightarrow> se_ipAddress x | v \<Rightarrow> v),
       se_userAgent := (case agent of None \<Rightarrow> se_userAgent x | v \<Rightarrow> v), se_lastSeenAt := now\<rparr>) s))"

section \<open>Accounts\<close>

record register_input =
  ri_email :: string
  ri_password :: string
  ri_firstName :: "string option"
  ri_lastName :: "string option"
  ri_phoneNumber :: "string option"
  ri_referralCode :: "string option"

definition new_user :: "string \<Rightarrow> string option \<Rightarrow> string option \<Rightarrow> string option \<Rightarrow> string option \<Rightarrow> bool \<Rightarrow> nat \<Rightarrow> user" where
  "new_user email passwordHash firstName lastName phone verified i = \<lparr>u_id = i, u_email = email, u_firstName = firstName,
     u_lastName = lastName, u_phoneNumber = phone, u_status = ACTIVE, u_passwordHash = passwordHash, u_isEmailVerified = verified\<rparr>"

text \<open>A new customer with the role of a customer, when that role exists.\<close>

definition createUser :: "(nat \<Rightarrow> user) \<Rightarrow> db \<Rightarrow> user \<times> db" where
  "createUser mk s =
     (let u = mk (next_id (users s)); s1 = s\<lparr>users := tinsert mk (users s)\<rparr>
      in (u, case role_named ''CUSTOMER'' s of
            None \<Rightarrow> s1
          | Some r \<Rightarrow> onAccess (\<lambda>a. a\<lparr>userRoles := tinsert (\<lambda>_. \<lparr>ur_userId = u_id u, ur_roleId = ro_id r, ur_expiresAt = None\<rparr>) (userRoles a)\<rparr>) s1))"

definition checkRegistration :: "auth_env \<Rightarrow> register_input \<Rightarrow> db \<Rightarrow> (string option \<times> referral_profile option) result" where
  "checkRegistration env input s =
     require (user_by_email (normalEmail (ri_email input)) s = None) (Conflict ''Email already exists.'') (
     ebind (if truthy (ri_phoneNumber input) then ebind (av_parsePhone env (the (ri_phoneNumber input))) (\<lambda>p. Inr (Some p)) else Inr None) (\<lambda>phone.
     require (truthy phone \<longrightarrow> tfind (\<lambda>u. u_phoneNumber u = phone) (users s) = None) (Conflict ''Phone number already exists.'') (
     let referrer = (if truthy (ri_referralCode input)
           then tfind (\<lambda>p. rc_code p = toUpperCase (trim (the (ri_referralCode input)))) (referralProfiles (access s)) else None)
     in require (truthy (ri_referralCode input) \<longrightarrow> referrer \<noteq> None) (BadRequest ''Referral code is invalid.'') (Inr (phone, referrer)))))"

definition addReferral :: "referral_profile option \<Rightarrow> user \<Rightarrow> db \<Rightarrow> db" where
  "addReferral referrer u s = (case referrer of
     Some p \<Rightarrow> if rc_userId p \<noteq> u_id u
       then s\<lparr>referrals := tinsert (\<lambda>i. \<lparr>rl_id = i, rl_referrerId = rc_userId p, rl_referredUserId = u_id u, rl_status = ''PENDING'',
              rl_rewardAmount = 0\<rparr>) (referrals s)\<rparr>
       else s
   | None \<Rightarrow> s)"

definition register :: "auth_env \<Rightarrow> register_input \<Rightarrow> (nat \<times> string) handler" where
  "register env input s =
     (case checkRegistration env input s of Inl e \<Rightarrow> (Inl e, s) | Inr (phone, referrer) \<Rightarrow>
        let email = normalEmail (ri_email input);
            (u, s1) = createUser (new_user email (Some (av_bcrypt env (ri_password input))) (ri_firstName input) (ri_lastName input) phone False) s;
            s2 = addReferral referrer u s1
        in hbind (createAndSendOtp env (u_id u) email ''EMAIL_VERIFICATION'') (\<lambda>_. hreturn (u_id u, u_email u)) s2)"

definition login :: "auth_env \<Rightarrow> string \<Rightarrow> string \<Rightarrow> token_view handler" where
  "login env rawEmail password s =
     (let email = normalEmail rawEmail
      in case user_by_email email s of
           None \<Rightarrow> (Inl (Unauthorized ''Invalid credentials.''), s)
         | Some u \<Rightarrow>
             if \<not> truthy (u_passwordHash u) then (Inl (Unauthorized ''Invalid credentials.''), s)
             else if \<not> av_compare env password (the (u_passwordHash u)) \<or> u_status u \<noteq> ACTIVE
             then (Inl (Unauthorized ''Invalid credentials or inactive account.''), s)
             else if \<not> u_isEmailVerified u
             then hbind (createAndSendOtp env (u_id u) email ''EMAIL_VERIFICATION'') (\<lambda>_.
               hthrow (Unauthorized ''Email verification is required. A new verification code has been sent.'')) s
             else issueTokens env (u_id u) (u_email u) None s)"

definition verifyEmailOtp :: "auth_env \<Rightarrow> string \<Rightarrow> string \<Rightarrow> unit handler" where
  "verifyEmailOtp env rawEmail otp s =
     (let email = normalEmail rawEmail
      in case user_by_email email s of
           None \<Rightarrow> (Inl (BadRequest ''Invalid verification request.''), s)
         | Some u \<Rightarrow> hbind (consumeOtp env (u_id u) email ''EMAIL_VERIFICATION'' otp) (\<lambda>_.
             hmodify (updateUser (u_id u) (\<lambda>u. u\<lparr>u_isEmailVerified := True\<rparr>))) s)"

text \<open>Neither request tells whether the account exists or the mail was sent.\<close>

definition resendEmailOtp :: "auth_env \<Rightarrow> string \<Rightarrow> db \<Rightarrow> db" where
  "resendEmailOtp env rawEmail s =
     (let email = normalEmail rawEmail
      in case user_by_email email s of None \<Rightarrow> s
         | Some u \<Rightarrow> if u_isEmailVerified u then s else snd (createAndSendOtp env (u_id u) email ''EMAIL_VERIFICATION'' s))"

definition forgotPassword :: "auth_env \<Rightarrow> string \<Rightarrow> db \<Rightarrow> db" where
  "forgotPassword env rawEmail s =
     (let email = normalEmail rawEmail
      in case user_by_email email s of None \<Rightarrow> s
         | Some u \<Rightarrow> if u_status u = ACTIVE then snd (createAndSendOtp env (u_id u) email ''PASSWORD_RESET'' s) else s)"

definition revokeSessions :: "time \<Rightarrow> nat \<Rightarrow> db \<Rightarrow> db" where
  "revokeSessions now uid = updateSession (\<lambda>x. se_userId x = uid \<and> se_revokedAt x = None) (\<lambda>x. x\<lparr>se_revokedAt := Some now\<rparr>)"

definition resetPassword :: "auth_env \<Rightarrow> string \<Rightarrow> string \<Rightarrow> string \<Rightarrow> unit handler" where
  "resetPassword env rawEmail otp password s =
     (let email = normalEmail rawEmail
      in case user_by_email email s of
           None \<Rightarrow> (Inl (BadRequest ''Invalid password reset request.''), s)
         | Some u \<Rightarrow>
             if u_status u \<noteq> ACTIVE then (Inl (BadRequest ''Invalid password reset request.''), s)
             else hbind (consumeOtp env (u_id u) email ''PASSWORD_RESET'' otp) (\<lambda>_.
               hmodify (\<lambda>s. revokeSessions (av_now env) (u_id u)
                 (updateUser (u_id u) (\<lambda>u. u\<lparr>u_passwordHash := Some (av_bcrypt env password)\<rparr>) s))) s)"

section \<open>The guard\<close>

text \<open>\<open>/^Bearer\s+(.+)$/i\<close>\<close>

definition bearer :: "string \<Rightarrow> string option" where
  "bearer h = (let rest = drop 6 h; r = dropWhile is_space rest
     in if toLowerCase (take 6 h) = ''bearer'' \<and> rest \<noteq> [] \<and> is_space (hd rest)
        then (if r \<noteq> [] then Some r else if 2 \<le> length rest then Some [last rest] else None)
        else None)"

definition request_token :: "string option \<Rightarrow> string option \<Rightarrow> string option" where
  "request_token cookie authorization = (case cookie of Some c \<Rightarrow> Some c
     | None \<Rightarrow> (case authorization of None \<Rightarrow> None | Some h \<Rightarrow> bearer h))"

definition authenticate :: "auth_env \<Rightarrow> nat \<Rightarrow> nat option \<Rightarrow> (user_context \<times> nat option) handler" where
  "authenticate env sub sid s =
     (case getUserEmail sub s of
        Inl e \<Rightarrow> (Inl e, s)
      | Inr _ \<Rightarrow>
          hbind (\<lambda>s. if truthy_id sid then
              (case session_by_id (the sid) s of
                 None \<Rightarrow> (Inl (Unauthorized ''Session has expired or been revoked.''), s)
               | Some x \<Rightarrow>
                   if se_userId x \<noteq> sub \<or> se_revokedAt x \<noteq> None \<or> se_expiresAt x \<le> av_now env
                   then (Inl (Unauthorized ''Session has expired or been revoked.''), s)
                   else (Inr (), updateSession (\<lambda>y. se_id y = se_id x) (\<lambda>y. y\<lparr>se_lastSeenAt := av_now env\<rparr>) s))
            else (Inr (), s))
          (\<lambda>_ s. (ebind (buildUserContext (av_now env) sub s) (\<lambda>cx. Inr (cx, sid)), s)) s)"

definition jwtGuard :: "auth_env \<Rightarrow> bool \<Rightarrow> bool \<Rightarrow> string option \<Rightarrow> string option \<Rightarrow> ((user_context \<times> nat option) option) handler" where
  "jwtGuard env isPublic isAdminRoute cookie authorization s =
     (if isPublic \<or> isAdminRoute then (Inr None, s)
      else let token = request_token cookie authorization in
        if \<not> truthy token then (Inl (Unauthorized ''Authentication cookie or bearer token is missing.''), s)
        else hcatch (\<lambda>s. case av_verifyAccess env (the token) of
              None \<Rightarrow> (Inl (ProviderError ''jwt''), s)
            | Some (sub, sid) \<Rightarrow> hbind (authenticate env sub sid) (\<lambda>v. hreturn (Some v)) s)
          (\<lambda>e s. case e of Unauthorized m \<Rightarrow> (Inl e, s) | _ \<Rightarrow> (Inl (Unauthorized ''Invalid or expired token.''), s)) s)"

section \<open>Signing in with Google\<close>

text \<open>The claims of a verified identity token; a single audience is a list of one.\<close>

record google_claims =
  gc_sub :: string
  gc_email :: "string option"
  gc_email_verified :: bool
  gc_given_name :: "string option"
  gc_family_name :: "string option"
  gc_iss :: "string option"
  gc_aud :: "string list"

definition google_checks :: "string \<Rightarrow> google_claims option \<Rightarrow> google_claims result" where
  "google_checks audience payload =
     ebind (orThrow payload (Unauthorized ''Google account could not be verified.'')) (\<lambda>p.
     require (gc_sub p \<noteq> [] \<and> truthy (gc_email p)) (Unauthorized ''Google account could not be verified.'') (
     require ((gc_iss p = Some ''accounts.google.com'' \<or> gc_iss p = Some ''https://accounts.google.com'') \<and>
         audience \<in> set (gc_aud p) \<and> gc_email_verified p) (Unauthorized ''Google identity verification failed.'') (Inr p)))"

definition google_account :: "string \<Rightarrow> db \<Rightarrow> oauth_account option" where
  "google_account sub s = tfind (\<lambda>oa. oa_provider oa = ''GOOGLE'' \<and> oa_providerAccountId oa = sub) (oauthAccounts (access s))"

definition linkAccount :: "google_claims \<Rightarrow> string \<Rightarrow> user tx" where
  "linkAccount p email s =
     (let (account, s1) = (case user_by_email email s of
            None \<Rightarrow> createUser (new_user email None (gc_given_name p) (gc_family_name p) None True) s
          | Some u \<Rightarrow> if u_isEmailVerified u then (u, s)
              else let f = (\<lambda>u. u\<lparr>u_isEmailVerified := True,
                     u_firstName := (case u_firstName u of None \<Rightarrow> gc_given_name p | v \<Rightarrow> v),
                     u_lastName := (case u_lastName u of None \<Rightarrow> gc_family_name p | v \<Rightarrow> v)\<rparr>)
                   in (f u, updateUser (u_id u) f s))
      in require (u_status account = ACTIVE) (Unauthorized ''Account is not active.'') (
         if tfind (\<lambda>oa. oa_userId oa = u_id account \<and> oa_provider oa = ''GOOGLE'') (oauthAccounts (access s1)) \<noteq> None then Inr (account, s1)
         else Inr (account, onAccess (\<lambda>a. a\<lparr>oauthAccounts := tinsert (\<lambda>i. \<lparr>oa_id = i, oa_userId = u_id account, oa_provider = ''GOOGLE'',
                oa_providerAccountId = gc_sub p\<rparr>) (oauthAccounts a)\<rparr>) s1)))"

definition google_signIn :: "auth_env \<Rightarrow> string \<Rightarrow> google_claims option \<Rightarrow> token_view handler" where
  "google_signIn env audience payload s =
     (case google_checks audience payload of Inl e \<Rightarrow> (Inl e, s) | Inr p \<Rightarrow>
        case google_account (gc_sub p) s of
          Some oa \<Rightarrow> (case user_by_id (oa_userId oa) s of
              None \<Rightarrow> (Inl RecordNotFound, s)
            | Some u \<Rightarrow> if u_status u \<noteq> ACTIVE then (Inl (Unauthorized ''Account is not active.''), s)
                else createSessionForUser env (u_id u) s)
        | None \<Rightarrow> hbind (transaction (linkAccount p (normalEmail (the (gc_email p))))) (\<lambda>u. createSessionForUser env (u_id u)) s)"

section \<open>Codes are guessed a few times and used once\<close>

text \<open>
  Sending a code deletes the earlier ones of the same purpose, so that a user has one challenge
  per purpose: \<open>sole_challenge\<close>.
\<close>

definition sole_challenge :: "nat \<Rightarrow> string \<Rightarrow> otp_challenge \<Rightarrow> db \<Rightarrow> bool" where
  "sole_challenge uid purpose c s \<longleftrightarrow> tkeyed ot_id (otpChallenges (access s)) \<and> c \<in> set (rows (otpChallenges (access s))) \<and>
     ot_userId c = uid \<and> ot_purpose c = purpose \<and>
     (\<forall>d \<in> set (rows (otpChallenges (access s))). ot_userId d = uid \<longrightarrow> ot_purpose d = purpose \<longrightarrow> d = c)"

lemma access_onAccess [simp]: "access (onAccess f s) = f (access s)" "users (onAccess f s) = users s"
  by (simp_all add: onAccess_def)

lemma find_sole: "x \<in> set xs \<Longrightarrow> P x \<Longrightarrow> (\<And>y. y \<in> set xs \<Longrightarrow> P y \<Longrightarrow> y = x) \<Longrightarrow> List.find P xs = Some x"
proof (induction xs)
  case (Cons y ys)
  show ?case
  proof (cases "P y")
    case True
    then have "y = x" by (intro Cons.prems(3)) simp_all
    then show ?thesis using True by simp
  next
    case False
    then have "x \<in> set ys" using Cons.prems(1,2) by (metis set_ConsD)
    moreover have "\<And>z. z \<in> set ys \<Longrightarrow> P z \<Longrightarrow> z = x" using Cons.prems(3) by (meson list.set_intros(2))
    ultimately have "List.find P ys = Some x" using Cons.IH Cons.prems(2) by blast
    then show ?thesis using False by simp
  qed
qed simp

lemma sole_current:
  assumes "sole_challenge uid purpose c s"
  shows "current_challenge now uid email purpose s = (if ot_target c = email \<and> now < ot_expiresAt c then Some c else None)"
proof (cases "ot_target c = email \<and> now < ot_expiresAt c")
  case True
  have "List.find (\<lambda>c. ot_userId c = uid \<and> ot_purpose c = purpose \<and> ot_target c = email \<and> now < ot_expiresAt c)
      (rev (rows (otpChallenges (access s)))) = Some c"
    by (rule find_sole) (use assms True in \<open>simp_all add: sole_challenge_def\<close>)
  then show ?thesis using True by (simp add: current_challenge_def)
next
  case False
  then show ?thesis using assms unfolding current_challenge_def
    by (auto simp: sole_challenge_def find_None_iff)
qed

lemma wrong_code:
  assumes "sole_challenge uid purpose c s" and "ot_target c = email" and "av_now env < ot_expiresAt c"
    and "ot_attempts c < ot_maxAttempts c" and "hashOtp env (ot_challengeKey c) otp \<noteq> ot_codeHash c"
  shows "sole_challenge uid purpose (c\<lparr>ot_attempts := ot_attempts c + 1\<rparr>) (snd (consumeOtp env uid email purpose otp s))"
proof -
  let ?t = "otpChallenges (access s)"
  have t: "otpChallenges (access (snd (consumeOtp env uid email purpose otp s))) =
      tupdate (\<lambda>x. ot_id x = ot_id c) (\<lambda>x. x\<lparr>ot_attempts := ot_attempts x + 1\<rparr>) ?t"
    using assms by (simp add: consumeOtp_def sole_current)
  have u: "d = c" if "d \<in> set (rows ?t)" "ot_id d = ot_id c" for d
    using assms(1) that unfolding sole_challenge_def by (metis tkeyed_inj)
  have k: "tkeyed ot_id (tupdate (\<lambda>x. ot_id x = ot_id c) (\<lambda>x. x\<lparr>ot_attempts := ot_attempts x + 1\<rparr>) ?t)"
    using assms(1) by (simp add: sole_challenge_def otp_table.update_keyed)
  have c: "c \<in> set (rows ?t)" using assms(1) by (simp add: sole_challenge_def)
  have o: "d = c\<lparr>ot_attempts := ot_attempts c + 1\<rparr>"
    if d: "d \<in> set (rows (tupdate (\<lambda>x. ot_id x = ot_id c) (\<lambda>x. x\<lparr>ot_attempts := ot_attempts x + 1\<rparr>) ?t))"
      and e: "ot_userId d = uid" "ot_purpose d = purpose" for d
  proof -
    obtain r where r: "r \<in> set (rows ?t)" "d = (if ot_id r = ot_id c then r\<lparr>ot_attempts := ot_attempts r + 1\<rparr> else r)"
      using d unfolding rows_table set_map by blast
    then have "ot_userId r = uid" "ot_purpose r = purpose" using e by (auto split: if_splits)
    then have "r = c" using assms(1) r(1) unfolding sole_challenge_def by blast
    then show ?thesis using r(2) by simp
  qed
  have "c\<lparr>ot_attempts := ot_attempts c + 1\<rparr> \<in> set (rows (tupdate (\<lambda>x. ot_id x = ot_id c) (\<lambda>x. x\<lparr>ot_attempts := ot_attempts x + 1\<rparr>) ?t))"
    using c unfolding rows_table set_map by (force simp: image_iff)
  then show ?thesis using assms(1) o k unfolding sole_challenge_def t by auto
qed

lemma locked_code:
  assumes "sole_challenge uid purpose c s" and "ot_maxAttempts c \<le> ot_attempts c"
  shows "isl (fst (consumeOtp env uid email purpose otp s)) \<and> snd (consumeOtp env uid email purpose otp s) = s"
  using assms(2) by (simp add: consumeOtp_def sole_current [OF assms(1)])

lemma wrong_codes:
  assumes "sole_challenge uid purpose c s" and "ot_target c = email" and "ot_attempts c \<le> ot_maxAttempts c"
    and "\<forall>(t, g) \<in> set gs. t < ot_expiresAt c \<and> hashOtp env (ot_challengeKey c) g \<noteq> ot_codeHash c"
  shows "sole_challenge uid purpose (c\<lparr>ot_attempts := min (ot_maxAttempts c) (ot_attempts c + length gs)\<rparr>)
    (fold (\<lambda>(t, g) s. snd (consumeOtp (env\<lparr>av_now := t\<rparr>) uid email purpose g s)) gs s)"
  using assms
proof (induction gs arbitrary: c s)
  case Nil
  then show ?case by (simp add: min_def)
next
  case (Cons tg gs)
  obtain t g where tg: "tg = (t, g)" by (cases tg)
  let ?e = "env\<lparr>av_now := t\<rparr>"
  let ?s = "snd (consumeOtp ?e uid email purpose g s)"
  have h: "hashOtp ?e (ot_challengeKey c) g \<noteq> ot_codeHash c" "t < ot_expiresAt c" using Cons.prems(4) by (simp_all add: tg hashOtp_def)
  show ?case
  proof (cases "ot_attempts c < ot_maxAttempts c")
    case True
    have "sole_challenge uid purpose (c\<lparr>ot_attempts := ot_attempts c + 1\<rparr>) ?s"
      using wrong_code [OF Cons.prems(1,2) _ True h(1)] h(2) by simp
    from Cons.IH [OF this] Cons.prems(2,4) True show ?thesis by (simp add: tg)
  next
    case False
    then have "?s = s" using locked_code [OF Cons.prems(1)] by simp
    with Cons.IH [OF Cons.prems(1-3)] Cons.prems(3,4) False show ?thesis by (simp add: tg)
  qed
qed

text \<open>
  (C37) A one-time code cannot be guessed beyond its number of attempts: once that many wrong
  codes were entered, whenever that was, every further code is refused and changes nothing,
  even the right one.
\<close>

theorem otp_lockout:
  assumes "sole_challenge uid purpose c s" and "ot_target c = email" and "ot_attempts c \<le> ot_maxAttempts c"
    and "\<forall>(t, g) \<in> set gs. t < ot_expiresAt c \<and> hashOtp env (ot_challengeKey c) g \<noteq> ot_codeHash c"
    and "ot_maxAttempts c \<le> ot_attempts c + length gs"
    and "s' = fold (\<lambda>(t, g) s. snd (consumeOtp (env\<lparr>av_now := t\<rparr>) uid email purpose g s)) gs s"
  shows "isl (fst (consumeOtp env' uid email' purpose otp s')) \<and> snd (consumeOtp env' uid email' purpose otp s') = s'"
proof -
  have "sole_challenge uid purpose (c\<lparr>ot_attempts := min (ot_maxAttempts c) (ot_attempts c + length gs)\<rparr>) s'"
    using wrong_codes [OF assms(1-4)] assms(6) by simp
  then show ?thesis by (rule locked_code) (simp add: assms(5))
qed

lemma consumeOtp_ok:
  assumes "consumeOtp env uid email purpose otp s = (Inr (), s')"
  obtains c where "current_challenge (av_now env) uid email purpose s = Some c" "ot_attempts c < ot_maxAttempts c"
    "hashOtp env (ot_challengeKey c) otp = ot_codeHash c" "s' = deleteChallenges (\<lambda>x. ot_id x = ot_id c) s"
proof (cases "current_challenge (av_now env) uid email purpose s")
  case None
  then show ?thesis using assms by (simp add: consumeOtp_def)
next
  case (Some c)
  then show ?thesis using assms that [of c] by (auto simp: consumeOtp_def split: if_splits)
qed

text \<open>
  A code is accepted only for the address it was sent to, before it expires and within its
  attempts, and only once: afterwards no code of the same purpose is accepted for that user
  until a new one is sent.
\<close>

theorem otp_single_use:
  assumes "sole_challenge uid purpose c s" and "consumeOtp env uid email purpose otp s = (Inr (), s')"
  shows "ot_target c = email \<and> av_now env < ot_expiresAt c \<and> ot_attempts c < ot_maxAttempts c \<and>
    hashOtp env (ot_challengeKey c) otp = ot_codeHash c \<and>
    consumeOtp env' uid email' purpose otp' s' = (Inl (BadRequest ''OTP is invalid or has expired.''), s')"
proof -
  obtain d where d: "current_challenge (av_now env) uid email purpose s = Some d" "ot_attempts d < ot_maxAttempts d"
    "hashOtp env (ot_challengeKey d) otp = ot_codeHash d" "s' = deleteChallenges (\<lambda>x. ot_id x = ot_id d) s"
    by (rule consumeOtp_ok [OF assms(2)])
  have c: "ot_target c = email \<and> av_now env < ot_expiresAt c" "d = c"
    using d(1) unfolding sole_current [OF assms(1)] by (auto split: if_splits)
  have "current_challenge (av_now env') uid email' purpose s' = None"
    using assms(1) by (auto simp: current_challenge_def find_None_iff d(4) c(2) deleteChallenges_def sole_challenge_def)
  then have "consumeOtp env' uid email' purpose otp' s' = (Inl (BadRequest ''OTP is invalid or has expired.''), s')"
    by (simp add: consumeOtp_def)
  then show ?thesis using c d by simp
qed

text \<open>A code that was sent is the only one, and a second one is refused while the cooldown lasts.\<close>

lemma code_sent:
  assumes "createAndSendOtp env uid email purpose s = (Inr (), s')" and "tkeyed ot_id (otpChallenges (access s))"
  shows "\<exists>i. sole_challenge uid purpose (new_challenge env uid email purpose i) s' \<and>
    (av_now env' < av_now env + int (av_cooldownSeconds env) * 1000 \<longrightarrow>
       createAndSendOtp env' uid email purpose s' = (Inl (TooManyRequests ''Please wait before requesting another OTP.''), s'))"
proof -
  let ?P = "\<lambda>c. ot_userId c = uid \<and> ot_purpose c = purpose" and ?i = "next_id (otpChallenges (access s))"
  have t: "otpChallenges (access s') = tinsert (new_challenge env uid email purpose) (tdelete ?P (otpChallenges (access s)))"
    and r: "redis (access s') = (cooldownKey purpose email, av_now env + int (av_cooldownSeconds env) * 1000) #
      filter (\<lambda>(k, _). k \<noteq> cooldownKey purpose email) (redis (access s))"
    using assms(1) by (auto simp: createAndSendOtp_def Let_def deleteChallenges_def set_cooldown_def split: if_splits option.splits)
  have "tkeyed ot_id (otpChallenges (access s'))"
    unfolding t by (intro otp_table.insert_keyed otp_table.delete_keyed assms(2)) (simp add: new_challenge_def)
  then have "sole_challenge uid purpose (new_challenge env uid email purpose ?i) s'"
    by (auto simp: sole_challenge_def t new_challenge_def)
  moreover have "av_now env' < av_now env + int (av_cooldownSeconds env) * 1000 \<longrightarrow>
       createAndSendOtp env' uid email purpose s' = (Inl (TooManyRequests ''Please wait before requesting another OTP.''), s')"
    by (simp add: createAndSendOtp_def cooldown_live_def r)
  ultimately show ?thesis by blast
qed

section \<open>A session from its first token to its last\<close>

lemma openSession_new:
  assumes "openSession env uid None s = (Inr k, s')"
  shows "k = next_id (sessions (access s)) \<and> sessions (access s') = tinsert (new_session env uid) (sessions (access s)) \<and>
    users s' = users s"
  using assms by (auto simp: openSession_def Let_def split: if_splits)

lemma openSession_rotated:
  assumes "openSession env uid (Some (k, h)) s = (Inr i, s')"
  shows "i = k \<and> tcount (rotatable (av_now env) uid k h) (sessions (access s)) = 1 \<and>
    sessions (access s') = tupdate (rotatable (av_now env) uid k h) (rotateSession env) (sessions (access s)) \<and> users s' = users s"
  using assms by (auto simp: openSession_def updateSession_def Let_def split: if_splits)

lemma issueTokens_ok:
  assumes "issueTokens env uid email existing s = (Inr v, s')"
  shows "openSession env uid existing s = (Inr (tv_sessionId v), s') \<and> tv_accessToken v = av_signAccess env uid email (tv_sessionId v) \<and>
    tv_refreshToken v = av_signRefresh env uid (tv_sessionId v) (av_refreshId env) \<and> uc_id (tv_user v) = uid \<and> uc_email (tv_user v) = email"
  using assms by (auto simp: issueTokens_def hbind_def ebind_Inr_iff split: prod.splits sum.splits)

lemma checkRefresh_ok:
  assumes "checkRefresh env token s = Inr (x, email)"
  shows "\<exists>sid jti. av_verifyRefresh env token = Some (se_userId x, sid, jti) \<and> session_by_id sid s = Some x \<and> se_id x = sid \<and>
    refresh_matches env jti x \<and> se_revokedAt x = None \<and> av_now env < se_expiresAt x \<and> getUserEmail (se_userId x) s = Inr email"
proof -
  obtain sub sid jti where v: "av_verifyRefresh env token = Some (sub, sid, jti)"
    using assms by (cases "av_verifyRefresh env token") (auto simp: checkRefresh_def)
  have "session_by_id sid s = Some x \<and> se_userId x = sub \<and> refresh_matches env jti x \<and> se_revokedAt x = None \<and>
      av_now env < se_expiresAt x \<and> getUserEmail (se_userId x) s = Inr email"
    using assms by (auto simp: checkRefresh_def v ebind_Inr_iff require_Inr_iff orThrow_Inr_iff)
  moreover from this have "se_id x = sid" by (auto simp: session_by_id_def dest: tfind_SomeD)
  ultimately show ?thesis using v by blast
qed

lemma session_row:
  assumes "tkeyed se_id t" and "tfind (\<lambda>x. se_id x = k) t = Some x" and "r \<in> set (rows t)" and "se_id r = k"
  shows "r = x"
  by (rule tkeyed_inj [OF assms(1,3)]) (use assms(4) tfind_SomeD [OF assms(2)] in simp_all)

lemma session_rotated:
  assumes "tkeyed se_id t" and "tfind (\<lambda>x. se_id x = k) t = Some x" and "rotatable now uid k h x"
  shows "tfind (\<lambda>x. se_id x = k) (tupdate (rotatable now uid k h) (rotateSession env) t) = Some (rotateSession env x)"
proof -
  have "rotatable now uid k h r \<longleftrightarrow> se_id r = k" if r: "r \<in> set (rows t)" for r
  proof
    assume "se_id r = k"
    with assms(1,2) r have "r = x" by (rule session_row)
    then show "rotatable now uid k h r" using assms(3) by simp
  qed (simp add: rotatable_def)
  then have "tupdate (rotatable now uid k h) (rotateSession env) t = tupdate (\<lambda>x. se_id x = k) (rotateSession env) t"
    by (auto simp: tupdate_def intro: map_cong)
  then show ?thesis using assms(2) tfind_SomeD [OF assms(2)] by (simp add: tfind_tupdate rotateSession_def)
qed

text \<open>
  (C38) A refresh token is exchanged once: after the exchange the session carries the hash of a
  new token, the old token is refused, and a second exchange that had already passed its checks
  with the old token loses in the update.
\<close>

theorem refresh_rotates:
  assumes "refreshToken env token s = (Inr v, s')" and "av_verifyRefresh env token = Some (uid, sid, Some j)" and "j \<noteq> []"
    and "tkeyed se_id (sessions (access s))" and "av_sha env (av_refreshId env) \<noteq> av_sha env j" and "av_sha env j \<noteq> []"
    and "av_verifyRefresh env' token = av_verifyRefresh env token" and "av_sha env' = av_sha env"
  shows "tv_sessionId v = sid \<and> refreshToken env' token s' = (Inl (Unauthorized ''Session has expired or been revoked.''), s') \<and>
    issueTokens env' uid email (Some (sid, av_sha env j)) s' = (Inl (Unauthorized ''Refresh token was already rotated or revoked.''), s')"
proof -
  obtain x e where ck: "checkRefresh env token s = Inr (x, e)" and i: "issueTokens env (se_userId x) e (Some (se_id x, se_sessionTokenHash x)) s = (Inr v, s')"
    using assms(1) by (auto simp: refreshToken_def split: sum.splits)
  have x: "se_userId x = uid" "session_by_id sid s = Some x" "se_id x = sid" "se_sessionTokenHash x = av_sha env j"
      "se_revokedAt x = None" "av_now env < se_expiresAt x"
    using checkRefresh_ok [OF ck] assms(2,3) by (auto simp: refresh_matches_def truthy_def)
  have o: "tv_sessionId v = sid" "sessions (access s') = tupdate (rotatable (av_now env) uid sid (av_sha env j)) (rotateSession env) (sessions (access s))"
    using issueTokens_ok [OF i] openSession_rotated x by auto
  have "rotatable (av_now env) uid sid (av_sha env j) x" using x by (simp add: rotatable_def)
  then have s': "session_by_id sid s' = Some (rotateSession env x)"
    using session_rotated [OF assms(4) x(2) [unfolded session_by_id_def]] by (simp add: session_by_id_def o(2))
  have "checkRefresh env' token s' = Inl (Unauthorized ''Session has expired or been revoked.'')"
    using assms(2,3,5,7,8) by (simp add: checkRefresh_def s' refresh_matches_def truthy_def rotateSession_def require_def)
  then have r: "refreshToken env' token s' = (Inl (Unauthorized ''Session has expired or been revoked.''), s')"
    by (simp add: refreshToken_def)
  have "\<not> rotatable (av_now env') uid sid (av_sha env j) r" if "r \<in> set (rows (sessions (access s')))" for r
  proof
    assume q: "rotatable (av_now env') uid sid (av_sha env j) r"
    have "tkeyed se_id (sessions (access s'))" unfolding o(2) using assms(4) by (simp add: session_table.update_keyed rotateSession_def)
    then have "r = rotateSession env x"
      by (rule session_row [OF _ s' [unfolded session_by_id_def] that]) (use q in \<open>simp add: rotatable_def\<close>)
    then show False using q assms(5,6) by (simp add: rotatable_def rotateSession_def)
  qed
  then have "tcount (rotatable (av_now env') uid sid (av_sha env j)) (sessions (access s')) = 0"
    by (simp add: tcount_zero_iff tfind_None_iff)
  then show ?thesis using o(1) r by (simp add: issueTokens_def openSession_def hbind_def)
qed

lemma guard_sessions:
  assumes "av_verifyAccess env t = Some (uid, Some k)" and "k \<noteq> 0" and "t \<noteq> []"
    and "\<And>x. session_by_id k s = Some x \<Longrightarrow> se_userId x = uid \<Longrightarrow> se_revokedAt x \<noteq> None"
  shows "\<exists>m. jwtGuard env False False (Some t) authorization s = (Inl (Unauthorized m), s)"
proof (cases "getUserEmail uid s")
  case (Inl e)
  then obtain m where "e = Unauthorized m" by (auto simp: getUserEmail_def split: option.splits if_splits)
  then show ?thesis using assms(1,3) Inl
    by (simp add: jwtGuard_def request_token_def truthy_def hcatch_def authenticate_def hbind_def)
next
  case (Inr e)
  then show ?thesis using assms
    by (cases "session_by_id k s")
      (auto simp: jwtGuard_def request_token_def truthy_def truthy_id_def hcatch_def authenticate_def hbind_def)
qed

lemma revoked_after:
  assumes "tfind (\<lambda>x. se_id x = k) (sessions (access (revokeSessions now uid s))) = Some x"
  shows "se_userId x = uid \<longrightarrow> se_revokedAt x \<noteq> None"
proof -
  have "x \<in> set (rows (tupdate (\<lambda>x. se_userId x = uid \<and> se_revokedAt x = None) (\<lambda>x. x\<lparr>se_revokedAt := Some now\<rparr>) (sessions (access s))))"
    using tfind_SomeD [OF assms] by (simp add: revokeSessions_def updateSession_def)
  then obtain r where "x = (if se_userId r = uid \<and> se_revokedAt r = None then r\<lparr>se_revokedAt := Some now\<rparr> else r)"
    unfolding rows_table set_map by blast
  then show ?thesis by (cases "se_userId r = uid \<and> se_revokedAt r = None") auto
qed

text \<open>
  (C39) A password is reset only with a code for the account's address, and a reset ends every
  session of the user at once: no refresh token and no access token of an old session is
  accepted afterwards.
\<close>

theorem reset_ends_sessions:
  assumes "resetPassword env rawEmail otp password s = (Inr (), s')"
  shows "\<exists>u c. user_by_email (normalEmail rawEmail) s = Some u \<and> u_status u = ACTIVE \<and>
    current_challenge (av_now env) (u_id u) (normalEmail rawEmail) ''PASSWORD_RESET'' s = Some c \<and>
    hashOtp env (ot_challengeKey c) otp = ot_codeHash c \<and> ot_attempts c < ot_maxAttempts c \<and>
    user_by_email (normalEmail rawEmail) s' = Some (u\<lparr>u_passwordHash := Some (av_bcrypt env password)\<rparr>) \<and>
    (av_verifyRefresh env' token = Some (u_id u, sid, jti) \<longrightarrow>
       refreshToken env' token s' = (Inl (Unauthorized ''Session has expired or been revoked.''), s')) \<and>
    (av_verifyAccess env' cookie = Some (u_id u, Some k) \<and> k \<noteq> 0 \<and> cookie \<noteq> [] \<longrightarrow>
       (\<exists>m. jwtGuard env' False False (Some cookie) None s' = (Inl (Unauthorized m), s')))"
proof -
  let ?email = "normalEmail rawEmail"
  obtain u s1 where u: "user_by_email ?email s = Some u" "u_status u = ACTIVE"
    and c1: "consumeOtp env (u_id u) ?email ''PASSWORD_RESET'' otp s = (Inr (), s1)"
    and s': "s' = revokeSessions (av_now env) (u_id u) (updateUser (u_id u) (\<lambda>u. u\<lparr>u_passwordHash := Some (av_bcrypt env password)\<rparr>) s1)"
    using assms by (auto simp: resetPassword_def Let_def hbind_def hmodify_def split: option.splits if_splits prod.splits sum.splits)
  obtain c where c: "current_challenge (av_now env) (u_id u) ?email ''PASSWORD_RESET'' s = Some c" "ot_attempts c < ot_maxAttempts c"
    "hashOtp env (ot_challengeKey c) otp = ot_codeHash c" "s1 = deleteChallenges (\<lambda>x. ot_id x = ot_id c) s"
    by (rule consumeOtp_ok [OF c1])
  have us: "users s' = tupdate (\<lambda>x. u_id x = u_id u) (\<lambda>u. u\<lparr>u_passwordHash := Some (av_bcrypt env password)\<rparr>) (users s)"
    by (simp add: s' c(4) revokeSessions_def updateSession_def updateUser_def deleteChallenges_def)
  have "user_by_email ?email s' = Some (u\<lparr>u_passwordHash := Some (av_bcrypt env password)\<rparr>)"
    using u(1) unfolding user_by_email_def us by (subst tfind_tupdate) simp_all
  moreover have r: "se_userId x = u_id u \<longrightarrow> se_revokedAt x \<noteq> None" if "session_by_id k s' = Some x" for k x
    by (rule revoked_after) (use that in \<open>simp add: session_by_id_def s'\<close>)
  moreover have "refreshToken env' token s' = (Inl (Unauthorized ''Session has expired or been revoked.''), s')"
    if "av_verifyRefresh env' token = Some (u_id u, sid, jti)"
    using r [of sid] that by (cases "session_by_id sid s'") (auto simp: refreshToken_def checkRefresh_def require_def)
  moreover have "\<exists>m. jwtGuard env' False False (Some cookie) None s' = (Inl (Unauthorized m), s')"
    if "av_verifyAccess env' cookie = Some (u_id u, Some k)" "k \<noteq> 0" "cookie \<noteq> []"
    by (rule guard_sessions [OF that]) (use r in blast)
  ultimately show ?thesis using u c by blast
qed

lemma guard_lets_in:
  assumes "av_verifyAccess env t = Some (u_id u, Some k)" and "k \<noteq> 0" and "t \<noteq> []" and "user_by_id (u_id u) s = Some u" and "u_status u = ACTIVE"
    and "session_by_id k s = Some x" and "se_userId x = u_id u" and "se_revokedAt x = None" and "av_now env < se_expiresAt x"
  shows "\<exists>cx s2. jwtGuard env False False (Some t) authorization s = (Inr (Some (cx, Some k)), s2) \<and> uc_id cx = u_id u"
proof -
  let ?s = "updateSession (\<lambda>y. se_id y = se_id x) (\<lambda>y. y\<lparr>se_lastSeenAt := av_now env\<rparr>) s"
  have "user_by_id (u_id u) ?s = Some u" using assms(4) by (simp add: user_by_id_def updateSession_def)
  then obtain cx where cx: "buildUserContext (av_now env) (u_id u) ?s = Inr cx" "uc_id cx = u_id u"
    by (auto simp: buildUserContext_def user_by_id_def Let_def)
  then show ?thesis using assms
    by (simp add: jwtGuard_def request_token_def truthy_def truthy_id_def hcatch_def authenticate_def hbind_def getUserEmail_def hreturn_def)
qed

text \<open>
  (C40) Logging in takes the password of an active account with a verified address, and the
  access token it hands out authenticates the requests of that user until the session expires
  or the user logs out, whichever comes first.
\<close>

theorem login_authenticates:
  assumes "login env rawEmail password s = (Inr v, s')"
    and "tkeyed u_id (users s)" and "tkeyed se_id (sessions (access s))" and "next_id (sessions (access s)) \<noteq> 0"
    and "av_verifyAccess env' (tv_accessToken v) = Some (uc_id (tv_user v), Some (tv_sessionId v))" and "tv_accessToken v \<noteq> []"
    and "av_now env' < av_now env + refreshTokenTtlMs env"
  shows "\<exists>u h. user_by_email (normalEmail rawEmail) s = Some u \<and> u_passwordHash u = Some h \<and> av_compare env password h \<and>
    u_status u = ACTIVE \<and> u_isEmailVerified u \<and>
    (\<exists>cx s2. jwtGuard env' False False (Some (tv_accessToken v)) None s' = (Inr (Some (cx, Some (tv_sessionId v))), s2) \<and> uc_id cx = u_id u) \<and>
    (\<exists>m. fst (jwtGuard env' False False (Some (tv_accessToken v)) None (auth_logout now (tv_sessionId v) s')) = Inl (Unauthorized m))"
proof -
  obtain u h where u: "user_by_email (normalEmail rawEmail) s = Some u" "u_passwordHash u = Some h" "av_compare env password h"
      "u_status u = ACTIVE" "u_isEmailVerified u" and i: "issueTokens env (u_id u) (u_email u) None s = (Inr v, s')"
    using assms(1) by (auto simp: login_def Let_def truthy_def hbind_def hthrow_def split: option.splits if_splits prod.splits sum.splits)
  let ?k = "tv_sessionId v"
  note i = issueTokens_ok [OF i]
  then have o: "?k = next_id (sessions (access s))" "sessions (access s') = tinsert (new_session env (u_id u)) (sessions (access s))" "users s' = users s"
    using openSession_new [of env "u_id u" s "?k" s'] by blast+
  have f: "tfind (\<lambda>x. se_id x = ?k) (sessions (access s)) = None" unfolding o(1) by (rule session_table.fresh_not_found [OF assms(3)])
  have x: "session_by_id ?k s' = Some (new_session env (u_id u) ?k)"
    unfolding session_by_id_def o(2) using f by (simp add: tfind_tinsert o(1) new_session_def)
  have v: "av_verifyAccess env' (tv_accessToken v) = Some (u_id u, Some ?k)" using assms(5) i by simp
  have uid: "user_by_id (u_id u) s' = Some u"
    using u(1) assms(2) unfolding user_by_id_def user_by_email_def o(3) by (auto dest!: tfind_SomeD intro: user_table.find_unique)
  have k: "?k \<noteq> 0" using assms(4) o(1) by simp
  have a: "\<exists>cx s2. jwtGuard env' False False (Some (tv_accessToken v)) None s' = (Inr (Some (cx, Some ?k)), s2) \<and> uc_id cx = u_id u"
    by (rule guard_lets_in [OF v k assms(6) uid u(4) x]) (use assms(7) in \<open>simp_all add: new_session_def\<close>)
  have "session_by_id ?k (auth_logout now ?k s') = Some (new_session env (u_id u) ?k\<lparr>se_revokedAt := Some now\<rparr>)"
    using x unfolding session_by_id_def auth_logout_def updateSession_def by (simp add: tfind_tupdate new_session_def)
  then have "\<exists>m. jwtGuard env' False False (Some (tv_accessToken v)) None (auth_logout now ?k s') = (Inl (Unauthorized m), auth_logout now ?k s')"
    by (intro guard_sessions [OF v k assms(6)]) auto
  then obtain m where "jwtGuard env' False False (Some (tv_accessToken v)) None (auth_logout now ?k s') = (Inl (Unauthorized m), auth_logout now ?k s')" ..
  then show ?thesis using u a by auto
qed

section \<open>Google accounts\<close>

lemma createSession_active:
  assumes "createSessionForUser env uid s = (Inr v, s')"
  shows "\<exists>u. user_by_id uid s = Some u \<and> u_id u = uid \<and> u_status u = ACTIVE \<and> uc_id (tv_user v) = uid \<and> users s' = users s \<and>
    oauthAccounts (access s') = oauthAccounts (access s)"
proof -
  obtain e where e: "getUserEmail uid s = Inr e" and i: "issueTokens env uid e None s = (Inr v, s')"
    using assms by (auto simp: createSessionForUser_def split: sum.splits)
  obtain u where "user_by_id uid s = Some u" "u_status u = ACTIVE" using e by (auto simp: getUserEmail_def split: option.splits if_splits)
  moreover have "openSession env uid None s = (Inr (tv_sessionId v), s')" "uc_id (tv_user v) = uid" using issueTokens_ok [OF i] by auto
  moreover from this have "users s' = users s \<and> oauthAccounts (access s') = oauthAccounts (access s)"
    by (auto simp: openSession_def Let_def split: if_splits)
  ultimately show ?thesis by (auto simp: user_by_id_def dest: tfind_SomeD)
qed

lemma linkAccount_ok:
  assumes "linkAccount p email s = Inr (u, s')"
  shows "u_email u = email \<and> u_status u = ACTIVE \<and> u_isEmailVerified u \<and> u \<in> set (rows (users s')) \<and>
    (\<exists>oa \<in> set (rows (oauthAccounts (access s'))). oa_userId oa = u_id u \<and> oa_provider oa = ''GOOGLE'') \<and>
    (user_by_email email s = None \<longrightarrow> google_account (gc_sub p) s = None \<longrightarrow> u_id u = next_id (users s))"
proof -
  define pick where "pick = (case user_by_email email s of
      None \<Rightarrow> createUser (new_user email None (gc_given_name p) (gc_family_name p) None True) s
    | Some u \<Rightarrow> if u_isEmailVerified u then (u, s)
        else let f = (\<lambda>u. u\<lparr>u_isEmailVerified := True, u_firstName := (case u_firstName u of None \<Rightarrow> gc_given_name p | v \<Rightarrow> v),
               u_lastName := (case u_lastName u of None \<Rightarrow> gc_family_name p | v \<Rightarrow> v)\<rparr>)
             in (f u, updateUser (u_id u) f s))"
  obtain a s1 where pick: "pick = (a, s1)" by (cases pick)
  have l: "linkAccount p email s = require (u_status a = ACTIVE) (Unauthorized ''Account is not active.'') (
      if tfind (\<lambda>oa. oa_userId oa = u_id a \<and> oa_provider oa = ''GOOGLE'') (oauthAccounts (access s1)) \<noteq> None then Inr (a, s1)
      else Inr (a, onAccess (\<lambda>t. t\<lparr>oauthAccounts := tinsert (\<lambda>i. \<lparr>oa_id = i, oa_userId = u_id a, oa_provider = ''GOOGLE'',
        oa_providerAccountId = gc_sub p\<rparr>) (oauthAccounts t)\<rparr>) s1))"
    unfolding linkAccount_def pick_def [symmetric] pick by simp
  have a: "u_email a = email \<and> u_isEmailVerified a \<and> a \<in> set (rows (users s1)) \<and> (user_by_email email s = None \<longrightarrow> u_id a = next_id (users s))"
  proof (cases "user_by_email email s")
    case None
    then show ?thesis using pick by (auto simp: pick_def createUser_def Let_def new_user_def split: option.splits)
  next
    case (Some b)
    then have b: "b \<in> set (rows (users s))" "u_email b = email" by (auto simp: user_by_email_def dest: tfind_SomeD)
    show ?thesis
    proof (cases "u_isEmailVerified b")
      case True
      then show ?thesis using pick Some b by (simp add: pick_def)
    next
      case False
      define f :: "user \<Rightarrow> user" where "f = (\<lambda>u. u\<lparr>u_isEmailVerified := True, u_firstName := (case u_firstName u of None \<Rightarrow> gc_given_name p | v \<Rightarrow> v),
               u_lastName := (case u_lastName u of None \<Rightarrow> gc_family_name p | v \<Rightarrow> v)\<rparr>)"
      have "a = f b" "s1 = updateUser (u_id b) f s" using pick Some False by (simp_all add: pick_def f_def Let_def)
      moreover have "f b \<in> set (rows (users (updateUser (u_id b) f s)))" using b(1) by (force simp: updateUser_def)
      moreover have "u_email (f b) = u_email b" "u_isEmailVerified (f b)" by (simp_all add: f_def)
      ultimately show ?thesis using Some b(2) by simp
    qed
  qed
  show ?thesis
  proof (cases "tfind (\<lambda>oa. oa_userId oa = u_id a \<and> oa_provider oa = ''GOOGLE'') (oauthAccounts (access s1)) = None")
    case True
    then show ?thesis using assms a unfolding l by (auto simp: require_Inr_iff)
  next
    case False
    then obtain oa where "tfind (\<lambda>oa. oa_userId oa = u_id a \<and> oa_provider oa = ''GOOGLE'') (oauthAccounts (access s1)) = Some oa" by blast
    then show ?thesis using assms a False tfind_SomeD unfolding l by (fastforce simp: require_Inr_iff)
  qed
qed

text \<open>
  Signing in with Google takes a token that Google issued for this client about a verified
  address, and opens a session only for an active user: the one the Google account is linked
  to, or else the one with that very address, who has a linked Google account afterwards.
\<close>

theorem google_session_owner:
  assumes "google_signIn env audience payload s = (Inr v, s')"
  shows "\<exists>p u. payload = Some p \<and> gc_email_verified p \<and> audience \<in> set (gc_aud p) \<and> u \<in> set (rows (users s')) \<and>
    u_id u = uc_id (tv_user v) \<and> u_status u = ACTIVE \<and>
    ((\<exists>oa \<in> set (rows (oauthAccounts (access s))). oa_provider oa = ''GOOGLE'' \<and> oa_providerAccountId oa = gc_sub p \<and> oa_userId oa = u_id u) \<or>
     google_account (gc_sub p) s = None \<and> (\<exists>w \<in> set (rows (users s')). u_id w = u_id u \<and> u_email w = normalEmail (the (gc_email p)) \<and> u_isEmailVerified w) \<and>
     (\<exists>oa \<in> set (rows (oauthAccounts (access s'))). oa_provider oa = ''GOOGLE'' \<and> oa_userId oa = u_id u))"
proof -
  obtain p where ck: "google_checks audience payload = Inr p" using assms by (auto simp: google_signIn_def split: sum.splits)
  then have p: "payload = Some p" "gc_email_verified p" "audience \<in> set (gc_aud p)"
    by (auto simp: google_checks_def ebind_Inr_iff require_Inr_iff orThrow_Inr_iff)
  show ?thesis
  proof (cases "google_account (gc_sub p) s")
    case (Some oa)
    then obtain u where "user_by_id (oa_userId oa) s = Some u" "createSessionForUser env (u_id u) s = (Inr v, s')"
      using assms by (auto simp: google_signIn_def ck split: option.splits if_splits)
    then obtain w where "user_by_id (u_id u) s = Some w" "u_id w = u_id u" "u_status w = ACTIVE" "uc_id (tv_user v) = u_id u"
        "users s' = users s" "u_id u = oa_userId oa"
      using createSession_active by (fastforce simp: user_by_id_def dest: tfind_SomeD)
    moreover have "oa \<in> set (rows (oauthAccounts (access s))) \<and> oa_provider oa = ''GOOGLE'' \<and> oa_providerAccountId oa = gc_sub p"
      using tfind_SomeD [OF Some [unfolded google_account_def]] by simp
    moreover have "w \<in> set (rows (users s'))" using calculation(1,5) by (auto simp: user_by_id_def dest: tfind_SomeD)
    ultimately show ?thesis using p by (intro exI [of _ p] exI [of _ w]) auto
  next
    case None
    then obtain b s1 where b: "linkAccount p (normalEmail (the (gc_email p))) s = Inr (b, s1)" "createSessionForUser env (u_id b) s1 = (Inr v, s')"
      using assms by (auto simp: google_signIn_def ck hbind_def transaction_def split: sum.splits prod.splits)
    note l = linkAccount_ok [OF b(1)]
    obtain w where w: "user_by_id (u_id b) s1 = Some w" "u_id w = u_id b" "u_status w = ACTIVE" "uc_id (tv_user v) = u_id b"
        "users s' = users s1" "oauthAccounts (access s') = oauthAccounts (access s1)"
      using createSession_active [OF b(2)] by blast
    then have "w \<in> set (rows (users s'))" by (auto simp: user_by_id_def dest: tfind_SomeD)
    then show ?thesis using p None l w by (intro exI [of _ p] exI [of _ w]) auto
  qed
qed

section \<open>Examples\<close>

definition auth_example :: auth_env where
  "auth_example = \<lparr>av_now = 10, av_compare = (\<lambda>p h. h = ''h:'' @ p), av_bcrypt = (\<lambda>p. ''h:'' @ p), av_sha = (\<lambda>x. ''#'' @ x),
     av_refreshId = ''r2'', av_signAccess = (\<lambda>_ _ _. ''acc''), av_signRefresh = (\<lambda>_ _ r. r), av_verifyRefresh = (\<lambda>_. Some (1, 3, Some ''r1'')),
     av_verifyAccess = (\<lambda>_. Some (1, Some 4)), av_refreshTtl = None, av_otp = ''654321'', av_challengeKey = ''k2'', av_pepper = ''p'',
     av_otpTtlMinutes = 10, av_cooldownSeconds = 60, av_maxAttempts = 5, av_parsePhone = Inr, av_mail = None\<rparr>"

definition reset_code :: otp_challenge where
  "reset_code = \<lparr>ot_id = 1, ot_userId = 1, ot_purpose = ''PASSWORD_RESET'', ot_target = ''ada@x'', ot_challengeKey = ''k'',
     ot_codeHash = ''#p:k:123456'', ot_expiresAt = 1000, ot_attempts = 0, ot_maxAttempts = 2\<rparr>"

definition auth_db :: db where
  "auth_db = access_db\<lparr>users := \<lparr>rows = [ada\<lparr>u_passwordHash := Some ''h:pw''\<rparr>], next_id = 2\<rparr>,
     access := (access access_db)\<lparr>otpChallenges := \<lparr>rows = [reset_code], next_id = 2\<rparr>,
       sessions := \<lparr>rows = [\<lparr>se_id = 3, se_userId = 1, se_sessionTokenHash = ''#r1'', se_refreshRotatedAt = Some 0, se_ipAddress = None,
         se_userAgent = None, se_lastSeenAt = 0, se_expiresAt = 1000, se_revokedAt = None\<rparr>], next_id = 4\<rparr>\<rparr>\<rparr>"

lemma auth_db_code: "sole_challenge 1 ''PASSWORD_RESET'' reset_code auth_db"
  by (simp add: sole_challenge_def auth_db_def reset_code_def tkeyed_def)

abbreviation "two_guesses \<equiv> [(20, ''111111''), (30, ''222222'')] :: (time \<times> string) list"
abbreviation "guessed_db \<equiv> fold (\<lambda>(t, g) s. snd (consumeOtp (auth_example\<lparr>av_now := t\<rparr>) 1 ''ada@x'' ''PASSWORD_RESET'' g s)) two_guesses auth_db"

theorem otp_lockout_witness:
  "isl (fst (consumeOtp auth_example 1 ''ada@x'' ''PASSWORD_RESET'' ''123456'' guessed_db)) \<and>
   \<not> isl (fst (consumeOtp auth_example 1 ''ada@x'' ''PASSWORD_RESET'' ''123456'' auth_db))"
proof -
  have a: "ot_target reset_code = ''ada@x''" "ot_attempts reset_code \<le> ot_maxAttempts reset_code"
    "\<forall>(t, g) \<in> set two_guesses. t < ot_expiresAt reset_code \<and> hashOtp auth_example (ot_challengeKey reset_code) g \<noteq> ot_codeHash reset_code"
    "ot_maxAttempts reset_code \<le> ot_attempts reset_code + length two_guesses"
    by (simp_all add: reset_code_def hashOtp_def auth_example_def)
  have "\<not> isl (fst (consumeOtp auth_example 1 ''ada@x'' ''PASSWORD_RESET'' ''123456'' auth_db))" by code_simp
  then show ?thesis using otp_lockout [OF auth_db_code a refl, of auth_example "''ada@x''" "''123456''"] by blast
qed

abbreviation "consumed \<equiv> consumeOtp auth_example 1 ''ada@x'' ''PASSWORD_RESET'' ''123456'' auth_db"

theorem otp_single_use_witness:
  "consumeOtp auth_example 1 ''ada@x'' ''PASSWORD_RESET'' ''123456'' (snd consumed) =
     (Inl (BadRequest ''OTP is invalid or has expired.''), snd consumed)"
proof -
  have "fst consumed = Inr ()" by code_simp
  then have "consumed = (Inr (), snd consumed)" by (metis prod.collapse)
  from otp_single_use [OF auth_db_code this] show ?thesis by blast
qed

abbreviation "refreshed \<equiv> refreshToken auth_example ''r1'' auth_db"

theorem refresh_rotates_witness:
  "tv_sessionId (projr (fst refreshed)) = 3 \<and>
   refreshToken auth_example ''r1'' (snd refreshed) = (Inl (Unauthorized ''Session has expired or been revoked.''), snd refreshed)"
proof -
  have "\<not> isl (fst refreshed)" by code_simp
  then have run: "refreshed = (Inr (projr (fst refreshed)), snd refreshed)" by (metis prod.collapse sum.collapse(2))
  have v: "av_verifyRefresh auth_example ''r1'' = Some (1, 3, Some ''r1'')" and j: "''r1'' \<noteq> ([]::string)"
    and h: "av_sha auth_example (av_refreshId auth_example) \<noteq> av_sha auth_example ''r1''" "av_sha auth_example ''r1'' \<noteq> []"
    by (simp_all add: auth_example_def)
  have k: "tkeyed se_id (sessions (access auth_db))" by (simp add: auth_db_def tkeyed_def)
  from refresh_rotates [OF run v j k h refl refl] show ?thesis by blast
qed

abbreviation "reset \<equiv> resetPassword auth_example ''Ada@X'' ''123456'' ''new'' auth_db"

theorem reset_ends_sessions_witness:
  "refreshToken auth_example ''r1'' (snd reset) = (Inl (Unauthorized ''Session has expired or been revoked.''), snd reset) \<and>
   map_option u_passwordHash (user_by_email ''ada@x'' (snd reset)) = Some (Some ''h:new'')"
proof -
  have "fst reset = Inr ()" and e: "normalEmail ''Ada@X'' = ''ada@x''"
    and a: "map_option u_id (user_by_email ''ada@x'' auth_db) = Some 1" by code_simp+
  then have run: "reset = (Inr (), snd reset)" by (metis prod.collapse)
  have v: "av_verifyRefresh auth_example ''r1'' = Some (1, 3, Some ''r1'')" and b: "av_bcrypt auth_example ''new'' = ''h:new''"
    by (simp_all add: auth_example_def)
  from reset_ends_sessions [OF run, of auth_example "''r1''" 3 "Some ''r1''" "''acc''" 4] a v b show ?thesis
    unfolding e by fastforce
qed

abbreviation "logged_in \<equiv> login auth_example '' ada@x'' ''pw'' auth_db"

theorem login_authenticates_witness:
  "\<exists>cx s2. jwtGuard auth_example False False (Some ''acc'') None (snd logged_in) = (Inr (Some (cx, Some 4)), s2) \<and> uc_id cx = 1"
proof -
  define v where "v = projr (fst logged_in)"
  have "\<not> isl (fst logged_in)" and t: "tv_accessToken v = ''acc''" "tv_sessionId v = 4" "uc_id (tv_user v) = 1"
    and n: "av_now auth_example < av_now auth_example + refreshTokenTtlMs auth_example" 
    and a: "map_option u_id (user_by_email (normalEmail '' ada@x'') auth_db) = Some 1"
    unfolding v_def by code_simp+
  from this(1) have run: "logged_in = (Inr v, snd logged_in)" unfolding v_def by (metis prod.collapse sum.collapse(2))
  have k: "tkeyed u_id (users auth_db)" "tkeyed se_id (sessions (access auth_db))" "next_id (sessions (access auth_db)) \<noteq> 0"
    by (simp_all add: auth_db_def tkeyed_def ada_def)
  have ver: "av_verifyAccess auth_example (tv_accessToken v) = Some (uc_id (tv_user v), Some (tv_sessionId v))" "tv_accessToken v \<noteq> []"
    by (simp_all add: t auth_example_def)
  obtain u cx s2 where "user_by_email (normalEmail '' ada@x'') auth_db = Some u"
      "jwtGuard auth_example False False (Some (tv_accessToken v)) None (snd logged_in) = (Inr (Some (cx, Some (tv_sessionId v))), s2)" "uc_id cx = u_id u"
    using login_authenticates [OF run k ver n] by blast
  then show ?thesis using a t by auto
qed

definition google_example :: google_claims where
  "google_example = \<lparr>gc_sub = ''g1'', gc_email = Some ''ada@x'', gc_email_verified = True, gc_given_name = None, gc_family_name = None,
     gc_iss = Some ''accounts.google.com'', gc_aud = [''app'']\<rparr>"

abbreviation "google_run \<equiv> google_signIn auth_example ''app'' (Some google_example) auth_db"

theorem google_session_owner_witness:
  "\<exists>u \<in> set (rows (users (snd google_run))). u_id u = uc_id (tv_user (projr (fst google_run))) \<and> u_status u = ACTIVE"
proof -
  have "\<not> isl (fst google_run)" by code_simp
  then have "google_run = (Inr (projr (fst google_run)), snd google_run)" by (metis prod.collapse sum.collapse(2))
  from google_session_owner [OF this] show ?thesis by blast
qed

end
