(* ===== verification/Lifecycle.thy ===== *)
theory Lifecycle
  imports Scanning Payments
begin

text \<open>
  The orders of the whole system against an abstract machine.  The abstract machine is a book
  that holds a status for each order; it knows two steps: an order is placed, and an order moves
  along the table of \<^verbatim>\<open>src/orders/order-status.ts\<close>.  Every transaction of the checkout, the payments,
  the orders, the scanning and the delivery component simulates steps of the book.
\<close>

section \<open>Simulation\<close>

text \<open>
  The interface of a refinement: a concrete step that keeps the invariant is matched by abstract
  steps between the views of its states.
\<close>

locale simulation =
  fixes step :: "'s \<Rightarrow> 's \<Rightarrow> bool" and astep :: "'a \<Rightarrow> 'a \<Rightarrow> bool" and view :: "'s \<Rightarrow> 'a" and inv :: "'s \<Rightarrow> bool"
  assumes keeps: "step s t \<Longrightarrow> inv s \<Longrightarrow> inv t"
    and simulates: "step s t \<Longrightarrow> inv s \<Longrightarrow> rtranclp astep (view s) (view t)"
begin

lemma run_simulates:
  assumes "rtranclp step s t" and "inv s"
  shows "inv t \<and> rtranclp astep (view s) (view t)"
  using assms
proof (induction rule: rtranclp_induct)
  case (step t u)
  then show ?case using keeps simulates by (meson rtranclp_trans)
qed simp

lemma abstract_invariant:
  assumes "rtranclp step s t" and "inv s" and "P (view s)" and "\<And>a b. astep a b \<Longrightarrow> P a \<Longrightarrow> P b"
  shows "P (view t)"
proof -
  have "rtranclp astep (view s) (view t)" using run_simulates [OF assms(1,2)] ..
  then show ?thesis using assms(3) by (induction rule: rtranclp_induct) (auto intro: assms(4))
qed

end

section \<open>The book of orders\<close>

type_synonym book = "nat \<Rightarrow> order_status option"

inductive book_step :: "book \<Rightarrow> book \<Rightarrow> bool" where
  place: "b k = None \<Longrightarrow> book_step b (b(k \<mapsto> ORDER_RECEIVED))"
| advance: "b k = Some x \<Longrightarrow> canTransitionOrder x y \<Longrightarrow> book_step b (b(k \<mapsto> y))"

inductive_cases book_stepE: "book_step b c"

definition book_of :: "db \<Rightarrow> book" where
  "book_of s = (\<lambda>k. status_of k s)"

lemma path_steps:
  "status_path ORDER_STATUS_TRANSITIONS x ys \<Longrightarrow> b k = Some x \<Longrightarrow> rtranclp book_step b (b(k \<mapsto> last (x # ys)))"
proof (induction ys arbitrary: b x)
  case Nil
  then show ?case by (simp add: fun_upd_idem)
next
  case (Cons y ys)
  have "canTransitionOrder x y" using Cons.prems(1) by (simp add: canTransitionOrder_def)
  then have "book_step b (b(k \<mapsto> y))" by (rule advance [where b = b and k = k, OF Cons.prems(2)])
  moreover have "rtranclp book_step (b(k \<mapsto> y)) ((b(k \<mapsto> y))(k \<mapsto> last (y # ys)))" using Cons.prems by (intro Cons.IH) simp_all
  ultimately have "rtranclp book_step b ((b(k \<mapsto> y))(k \<mapsto> last (y # ys)))" by (rule converse_rtranclp_into_rtranclp)
  moreover have "(b(k \<mapsto> y))(k \<mapsto> last (y # ys)) = b(k \<mapsto> last (x # y # ys))" by simp
  ultimately show ?case by (simp only:)
qed

text \<open>One key of the book after some steps: unchanged, or along a path that may begin with its placing.\<close>

definition key_moves :: "order_status option \<Rightarrow> order_status option \<Rightarrow> bool" where
  "key_moves x y \<longleftrightarrow> x = y \<or>
     (\<exists>ys. status_path ORDER_STATUS_TRANSITIONS (case_option ORDER_RECEIVED id x) ys \<and> y = Some (last (case_option ORDER_RECEIVED id x # ys)))"

lemma key_steps:
  assumes "key_moves (b k) y" and "y \<noteq> b k"
  shows "rtranclp book_step b (b(k := y))"
proof -
  obtain ys where ys: "status_path ORDER_STATUS_TRANSITIONS (case_option ORDER_RECEIVED id (b k)) ys"
    "y = Some (last (case_option ORDER_RECEIVED id (b k) # ys))"
    using assms by (auto simp: key_moves_def)
  show ?thesis
  proof (cases "b k")
    case None
    have "rtranclp book_step (b(k \<mapsto> ORDER_RECEIVED)) ((b(k \<mapsto> ORDER_RECEIVED))(k \<mapsto> last (ORDER_RECEIVED # ys)))"
        by (rule path_steps) (use ys None in simp_all)
    moreover have "book_step b (b(k \<mapsto> ORDER_RECEIVED))" using None by (rule place)
    ultimately have "rtranclp book_step b ((b(k \<mapsto> ORDER_RECEIVED))(k \<mapsto> last (ORDER_RECEIVED # ys)))"
      by (metis converse_rtranclp_into_rtranclp)
    moreover have "(b(k \<mapsto> ORDER_RECEIVED))(k \<mapsto> last (ORDER_RECEIVED # ys)) = b(k := y)" using ys(2) None by simp
    ultimately show ?thesis by (simp only:)
  next
    case (Some x)
    then show ?thesis using path_steps [of x ys b k] ys by simp
  qed
qed

lemma keys_steps:
  assumes "finite D" and "\<And>k. k \<in> D \<Longrightarrow> key_moves (b k) (c k) \<and> c k \<noteq> b k" and "\<And>k. k \<notin> D \<Longrightarrow> c k = b k"
  shows "rtranclp book_step b c"
  using assms
proof (induction D arbitrary: c rule: finite_induct)
  case empty
  then have "c = b" by auto
  then show ?case by simp
next
  case (insert k D)
  let ?c = "c(k := b k)"
  have "rtranclp book_step b ?c" by (rule insert.IH) (use insert in auto)
  moreover have "rtranclp book_step ?c (?c(k := c k))" by (rule key_steps) (use insert.prems in auto)
  ultimately show ?case by simp
qed

lemma book_finite: "finite (dom (book_of s))"
proof (rule finite_subset)
  show "dom (book_of s) \<subseteq> o_id ` set (rows (orders s))"
    by (auto simp: book_of_def status_of_def dest: tfind_SomeD)
qed simp

lemma keys_simulate:
  assumes "\<And>k. key_moves (status_of k s) (status_of k t)"
  shows "rtranclp book_step (book_of s) (book_of t)"
proof (rule keys_steps)
  let ?D = "{k. book_of t k \<noteq> book_of s k}"
  show "finite ?D"
  proof (rule finite_subset)
    show "?D \<subseteq> dom (book_of s) \<union> dom (book_of t)" by (auto simp: dom_def) (metis option.exhaust)
  qed (simp add: book_finite)
  show "key_moves (book_of s k) (book_of t k) \<and> book_of t k \<noteq> book_of s k" if "k \<in> ?D" for k
    using that assms [of k] by (simp add: book_of_def)
qed simp

section \<open>What a transaction may do to the orders\<close>

text \<open>The rows stay, under their identifiers.\<close>

definition ids_kept :: "db \<Rightarrow> db \<Rightarrow> bool" where
  "ids_kept s s' \<longleftrightarrow> map o_id (rows (orders s')) = map o_id (rows (orders s)) \<and> next_id (orders s') = next_id (orders s)"

definition orders_keyed :: "db \<Rightarrow> bool" where
  "orders_keyed s \<longleftrightarrow> tkeyed o_id (orders s)"

text \<open>A step of the system: the rows stay and move along the table, or rows are added.\<close>

definition evolves :: "db \<Rightarrow> db \<Rightarrow> bool" where
  "evolves s s' \<longleftrightarrow> (orders_keyed s \<longrightarrow> orders_keyed s' \<and> (\<forall>k. key_moves (status_of k s) (status_of k s')))"

lemma status_None_iff: "status_of k s = None \<longleftrightarrow> k \<notin> o_id ` set (rows (orders s))"
  by (auto simp: status_of_def tfind_None_iff)

lemma evolves_moves:
  assumes "orders_keyed s \<Longrightarrow> order_moves s s'" and "ids_kept s s'"
  shows "evolves s s'"
  unfolding evolves_def
proof (intro impI conjI allI)
  assume k: "orders_keyed s"
  have ids: "map o_id (rows (orders s')) = map o_id (rows (orders s))" using assms(2) by (simp add: ids_kept_def)
  have "o_id ` set (rows (orders s')) = o_id ` set (rows (orders s))" using arg_cong [OF ids, of set] by simp
  moreover have "\<forall>x \<in> o_id ` set (rows (orders s)). x < next_id (orders s)" using k by (simp add: orders_keyed_def tkeyed_def)
  ultimately have "\<forall>x \<in> o_id ` set (rows (orders s')). x < next_id (orders s')" using assms(2) by (simp add: ids_kept_def)
  then show "orders_keyed s'" using k ids by (simp add: orders_keyed_def tkeyed_def)
  fix j
  have same: "o_id ` set (rows (orders s')) = o_id ` set (rows (orders s))" using arg_cong [OF ids, of set] by simp
  show "key_moves (status_of j s) (status_of j s')"
  proof (cases "status_of j s")
    case None
    then have "status_of j s' = None"
      by (simp add: status_None_iff same)
    then show ?thesis using None by (simp add: key_moves_def)
  next
    case (Some a)
    then show ?thesis using assms(1) [OF k] unfolding order_moves_def key_moves_def by fastforce
  qed
qed

lemma ids_kept_refl [simp]: "ids_kept s s"
  by (simp add: ids_kept_def)

lemma ids_kept_trans: "ids_kept s t \<Longrightarrow> ids_kept t u \<Longrightarrow> ids_kept s u"
  by (simp add: ids_kept_def)

lemma ids_kept_orders: "orders s' = orders s \<Longrightarrow> ids_kept s s'"
  by (simp add: ids_kept_def)

lemma ids_kept_tupdate: "orders s' = tupdate P f (orders s) \<Longrightarrow> (\<And>x. o_id (f x) = o_id x) \<Longrightarrow> ids_kept s s'"
  unfolding ids_kept_def by (simp del: rows_table) (rule tupdate_column, simp)

lemma ids_kept_set: "orders s' = orders (setOrderStatus now k st s) \<Longrightarrow> ids_kept s s'"
  unfolding setOrderStatus_def by (rule ids_kept_tupdate [of _ "\<lambda>x. o_id x = k" "\<lambda>x. x\<lparr>o_currentStatus := st, o_updatedAt := now\<rparr>"]) simp_all

lemma evolves_orders: "orders s' = orders s \<Longrightarrow> evolves s s'"
  by (intro evolves_moves order_moves_orders ids_kept_orders)

section \<open>The transactions, one by one\<close>

text \<open>Paying for and releasing a checkout.\<close>

lemma confirmOrder_next:
  assumes "confirmOrder cfg now u ord s = Inr s'"
  shows "ids_kept s s'"
proof (cases "o_currentStatus ord = ORDER_RECEIVED")
  case True
  define t where "t = pushHistory (o_id ord) ORDER_RECEIVED CONFIRMED None (Some ''Payment or approved financing confirmed.'')
    (setOrderStatus now (o_id ord) CONFIRMED s)"
  obtain s1 where t: "settleOrder cfg (o_id ord) t = Inr s1" and s': "s' = upsertConfirmation now (o_id ord) u s1"
    using assms True by (auto simp: confirmOrder_def ebind_Inr_iff t_def)
  have "orders s' = orders s1" "orders t = orders (setOrderStatus now (o_id ord) CONFIRMED s)"
    by (simp_all add: s' upsertConfirmation_def t_def pushHistory_def)
  then have "orders s' = orders (setOrderStatus now (o_id ord) CONFIRMED s)"
    using settlement_frameD(1) [OF settleOrder_frame [OF t]] by simp
  then show ?thesis by (rule ids_kept_set)
next
  case False
  then have "orders s' = orders s" using assms by (auto simp: confirmOrder_def ebind_Inr_iff upsertConfirmation_def split: if_splits)
  then show ?thesis by (rule ids_kept_orders)
qed

lemma eiter_ids:
  assumes "eiter f xs s = Inr s'" and "\<And>x s t. f x s = Inr t \<Longrightarrow> ids_kept s t"
  shows "ids_kept s s'"
  using assms(1)
proof (induction xs arbitrary: s)
  case (Cons x xs)
  then show ?case by (auto simp: ebind_Inr_iff intro: ids_kept_trans assms(2))
qed simp

lemma completeGroup_evolves:
  assumes "completeGroup cfg now gid s = Inr s'"
  shows "evolves s s'"
  using assms
proof (cases rule: completeGroup_cases)
  case noop
  then show ?thesis by (intro evolves_orders) simp
next
  case (run g ords s1 s2)
  note found = groupOrders_found [OF run(2)]
  have c: "\<forall>ord \<in> set ords. \<exists>cur. tfind (\<lambda>x. o_id x = o_id ord) (orders s) = Some cur \<and> o_orderNumber cur = o_orderNumber ord"
    using found by blast
  have st: "status_of j s1 = (if \<exists>ord \<in> set ords. j = o_id ord \<and> o_currentStatus ord = ORDER_RECEIVED
      then map_option (\<lambda>_. CONFIRMED) (status_of j s) else status_of j s)" for j
    using confirm_all [OF run(4) c, of j] by simp
  have o2: "orders s' = orders s1" using emptyCart_frame [OF run(5)] by (auto simp: cart_frame_def run(6))
  have "order_moves s s'"
    unfolding order_moves_def
  proof (intro allI impI)
    fix k a assume k: "status_of k s = Some a"
    let ?P = "\<exists>ord \<in> set ords. k = o_id ord \<and> o_currentStatus ord = ORDER_RECEIVED"
    have "status_of k s' = status_of k s1" by (simp add: status_of_def o2)
    then have s'k: "status_of k s' = (if ?P then Some CONFIRMED else Some a)" by (simp only: st k option.map)
    show "\<exists>ys. status_path ORDER_STATUS_TRANSITIONS a ys \<and> status_of k s' = Some (last (a # ys))"
    proof (cases ?P)
      case True
      then obtain ord where "ord \<in> set ords" "k = o_id ord" "o_currentStatus ord = ORDER_RECEIVED" by blast
      then have "a = ORDER_RECEIVED" using found k by (simp add: status_of_def)
      then show ?thesis using True s'k by (intro exI [of _ "[CONFIRMED]"]) simp
    next
      case False
      then have "status_of k s' = Some a" by (simp only: s'k if_False)
      then show ?thesis by (intro exI [of _ "[]"]) simp
    qed
  qed
  moreover have "ids_kept s s1" by (rule eiter_ids [OF run(4)]) (rule confirmOrder_next)
  then have "ids_kept s s'" using ids_kept_orders [OF o2] by (rule ids_kept_trans)
  ultimately show ?thesis by (rule evolves_moves)
qed

lemma releaseOrder_next: "releaseOrder now x s = Inr s' \<Longrightarrow> ids_kept s s'"
  by (cases x) (auto simp: releaseOrder_def tx_simps pushHistory_def cancelFulfilment_def
      elim!: restock_frame intro!: ids_kept_set [of s' now "o_id (fst x)" CANCELLED] simp: setOrderStatus_def)

lemma failGroup_evolves:
  assumes "failGroup now gid s = Inr s'"
  shows "evolves s s'"
proof -
  obtain g ords where g: "tfind (\<lambda>g. g_id g = gid) (groups s) = Some g" "groupOrders gid s = Inr ords"
    using assms by (auto simp: failGroup_def tx_simps)
  show ?thesis
  proof (cases "g_status g = P_FAILED")
    case True
    then show ?thesis using assms g by (intro evolves_orders) (simp add: failGroup_def)
  next
    case False
    obtain s1 where r: "eiter (releaseOrder now) (map (\<lambda>x. (x, order_lines (o_id x) s)) ords) s = Inr s1" and o': "orders s' = orders s1"
      by (rule failGroup_steps [OF assms g(1) False g(2)]) simp
    note found = groupOrders_found [OF g(2)]
    have a: "status_of j s1 = (if j \<in> o_id ` set ords then map_option (\<lambda>_. CANCELLED) (status_of j s) else status_of j s)"
        and b: "\<forall>x \<in> set ords. o_currentStatus x = ORDER_RECEIVED" for j
      using release_all [OF r, of undefined j] by (simp_all add: image_image)
    have "order_moves s s'"
      unfolding order_moves_def
    proof (intro allI impI)
      fix k a' assume k: "status_of k s = Some a'"
      have "status_of k s' = status_of k s1" by (simp add: status_of_def o')
      then have s'k: "status_of k s' = (if k \<in> o_id ` set ords then Some CANCELLED else Some a')" by (simp only: a k option.map)
      show "\<exists>ys. status_path ORDER_STATUS_TRANSITIONS a' ys \<and> status_of k s' = Some (last (a' # ys))"
      proof (cases "k \<in> o_id ` set ords")
        case True
        then obtain ord where "ord \<in> set ords" "k = o_id ord" by blast
        then have "a' = ORDER_RECEIVED" using found b k by (simp add: status_of_def)
        then show ?thesis using True s'k by (intro exI [of _ "[CANCELLED]"]) simp
      next
        case False
        then have "status_of k s' = Some a'" by (simp only: s'k if_False)
        then show ?thesis by (intro exI [of _ "[]"]) simp
      qed
    qed
    moreover have "ids_kept s s1" by (rule eiter_ids [OF r]) (rule releaseOrder_next)
    then have "ids_kept s s'" using ids_kept_orders [OF o'] by (rule ids_kept_trans)
    ultimately show ?thesis by (rule evolves_moves)
  qed
qed

text \<open>Placing orders.\<close>

definition placed :: "db \<Rightarrow> db \<Rightarrow> bool" where
  "placed s s' \<longleftrightarrow> orders_keyed s' \<and> next_id (orders s) \<le> next_id (orders s') \<and>
     (\<exists>ords. rows (orders s') = rows (orders s) @ ords \<and> (\<forall>x \<in> set ords. next_id (orders s) \<le> o_id x \<and> o_currentStatus x = ORDER_RECEIVED))"

lemma placed_refl: "orders_keyed s \<Longrightarrow> orders s' = orders s \<Longrightarrow> placed s s'"
  by (simp add: placed_def orders_keyed_def)

lemma placed_trans: "placed s t \<Longrightarrow> placed t u \<Longrightarrow> placed s u"
  unfolding placed_def by (elim conjE exE) (auto 4 3)

lemma reserveItem_orders: "reserveItem item s = Inr s' \<Longrightarrow> orders s' = orders s"
  by (auto simp: reserveItem_def require_Inr_iff)

lemma createLines_orders: "orders (createLines oid items s) = orders s"
  using createLines_items [of oid items s] by (elim exE) simp

lemma createOrder_placed:
  assumes "createOrder env u q ord s = Inr (row, s')" and "orders_keyed s"
  shows "placed s s'"
proof -
  obtain s1 user where r: "eiter reserveItem (qo_items ord) s = Inr s1" and o': "orders s' = tinsert (new_order env user q ord) (orders s1)"
    using assms(1) by (auto simp: createOrder_def createFulfilment_def createLines_orders Let_def tx_simps)
  have "orders s1 = orders s" by (rule eiter_frame [OF r]) (rule reserveItem_orders)
  moreover have "o_id (new_order env user q ord i) = i" "o_currentStatus (new_order env user q ord i) = ORDER_RECEIVED" for i
    by (simp_all add: new_order_def Let_def)
  ultimately show ?thesis using assms(2) by (simp add: placed_def orders_keyed_def o' order_table.insert_keyed)
qed

lemma createOrders_placed:
  assumes "createOrders env u q s = Inr (ords, s')" and "orders_keyed s"
  shows "placed s s'"
proof -
  let ?f = "\<lambda>ord (created, t). ebind (createOrder env u q ord t) (\<lambda>(row, t'). Inr (created @ [row], t'))"
  have "placed t s'" if "eiter ?f qos (acc, t) = Inr (ords, s')" "orders_keyed t" for qos acc t
    using that
  proof (induction qos arbitrary: acc t)
    case Nil
    then show ?case by (simp add: placed_refl)
  next
    case (Cons qo qos)
    from Cons.prems(1) obtain row t' where c: "createOrder env u q qo t = Inr (row, t')"
      and r: "eiter ?f qos (acc @ [row], t') = Inr (ords, s')" by (auto simp: ebind_Inr_iff)
    note p = createOrder_placed [OF c Cons.prems(2)]
    then have "placed t' s'" by (intro Cons.IH [OF r]) (simp add: placed_def)
    with p show ?case by (rule placed_trans)
  qed
  then show ?thesis using assms by (simp add: createOrders_def)
qed

lemma placed_evolves:
  assumes "orders_keyed s \<Longrightarrow> placed s t"
  shows "evolves s t"
  unfolding evolves_def
proof (intro impI conjI allI)
  assume k: "orders_keyed s"
  then obtain ords where p: "orders_keyed t" "rows (orders t) = rows (orders s) @ ords"
    "\<forall>x \<in> set ords. next_id (orders s) \<le> o_id x \<and> o_currentStatus x = ORDER_RECEIVED"
    using assms by (auto simp: placed_def)
  show "orders_keyed t" by (rule p(1))
  fix j
  show "key_moves (status_of j s) (status_of j t)"
  proof (cases "status_of j s")
    case (Some a)
    then obtain x where "List.find (\<lambda>x. o_id x = j) (rows (orders s)) = Some x" "o_currentStatus x = a"
      by (auto simp: status_of_def tfind_def)
    then have "status_of j t = Some a" by (simp add: status_of_def tfind_def p(2) find_append)
    then show ?thesis by (simp add: key_moves_def Some)
  next
    case None
    then have "List.find (\<lambda>x. o_id x = j) (rows (orders s)) = None" by (simp add: status_of_def tfind_def)
    then have t: "status_of j t = map_option o_currentStatus (List.find (\<lambda>x. o_id x = j) ords)"
      by (simp add: status_of_def tfind_def p(2) find_append)
    show ?thesis
    proof (cases "List.find (\<lambda>x. o_id x = j) ords")
      case (Some x)
      then have "x \<in> set ords" by (auto simp: find_Some_iff)
      then show ?thesis using Some t p(3) None by (auto simp: key_moves_def intro!: exI [of _ "[]"])
    qed (simp add: key_moves_def t None)
  qed
qed

lemma key_moves_trans: "key_moves x y \<Longrightarrow> key_moves y z \<Longrightarrow> key_moves x z"
proof -
  assume a: "key_moves x y" and b: "key_moves y z"
  show ?thesis
  proof (cases "x = y \<or> y = z")
    case False
    let ?x = "case_option ORDER_RECEIVED id x"
    obtain ys where ys: "status_path ORDER_STATUS_TRANSITIONS ?x ys" "y = Some (last (?x # ys))"
      using a False by (auto simp: key_moves_def)
    then obtain zs where zs: "status_path ORDER_STATUS_TRANSITIONS (last (?x # ys)) zs" "z = Some (last (last (?x # ys) # zs))"
      using b False by (auto simp: key_moves_def)
    have "last (?x # ys @ zs) = last (last (?x # ys) # zs)" by (cases zs) simp_all
    then have "status_path ORDER_STATUS_TRANSITIONS ?x (ys @ zs) \<and> z = Some (last (?x # ys @ zs))"
      using ys zs by (simp add: order_machine.path_append)
    then show ?thesis unfolding key_moves_def by blast
  qed (use a b in auto)
qed

lemma evolves_trans: "evolves s t \<Longrightarrow> evolves t u \<Longrightarrow> evolves s u"
  unfolding evolves_def by (blast intro: key_moves_trans)

lemma payImmediately_evolves:
  assumes "payImmediately env u q m a gid s = Inr s'"
  shows "evolves s s'"
proof -
  define ref where "ref = (case a of Some a \<Rightarrow> ''BNPL-'' @ show_nat a | None \<Rightarrow> ''WALLET-'' @ show_nat gid)"
  obtain s1 pay s2 where d: "(if m = WALLET then debitCheckout u (q_total q) gid ref s else Inr s) = Inr s1"
    and p: "createPayment (q_total q) (q_currency q) P_PAID m MANUAL ref None None no_meta (ce_now env) s1 = Inr (pay, s2)"
    and c: "completeGroup (ce_cfg env) (ce_now env) gid
      (s2\<lparr>groups := tupdate (\<lambda>g. g_id g = gid) (\<lambda>g. g\<lparr>g_paymentId := Some (pay_id pay)\<rparr>) (groups s2)\<rparr>) = Inr s'"
    using assms unfolding payImmediately_def ref_def [symmetric] Let_def by (elim ebindE) (auto elim: ebindE)
  have "orders s1 = orders s" using d
    by (auto simp: debitCheckout_def debitWallet_def createWalletTx_def tx_simps Let_def split: if_splits)
  moreover have "orders s2 = orders s1" using p by (auto simp: createPayment_def require_Inr_iff Let_def)
  ultimately have "evolves s (s2\<lparr>groups := tupdate (\<lambda>g. g_id g = gid) (\<lambda>g. g\<lparr>g_paymentId := Some (pay_id pay)\<rparr>) (groups s2)\<rparr>)"
    by (intro evolves_orders) simp
  then show ?thesis using completeGroup_evolves [OF c] by (rule evolves_trans)
qed

lemma checkout_evolves:
  assumes "createInTransaction env u inp credit s = Inr (g, s')"
  shows "evolves s s'"
proof -
  obtain cart s1 where l: "lock u s = Inr (cart, s1)"
    and r: "s' = s1 \<or> createFresh env u (c_id cart) inp credit s1 = Inr (g, s')"
    using assms by (auto simp: createInTransaction_def tx_simps split: option.splits)
  have s1: "orders s1 = orders s" using lock_frame [OF l] by auto
  have "evolves s1 s'" if c: "createFresh env u (c_id cart) inp credit s1 = Inr (g, s')"
  proof -
    define m where "m = (case credit of Some (m, _, _) \<Rightarrow> m | None \<Rightarrow> checkoutMethod inp)"
    obtain q ords s2 where o: "createOrders env u q s1 = Inr (ords, s2)"
      and rest: "(let (gid, s3) = createGroup u (c_id cart) inp q m ords s2
          in ebind (if m = WALLET \<or> credit \<noteq> None then payImmediately env u q m (map_option (snd \<circ> snd) credit) gid s3 else Inr s3) (\<lambda>s4.
             ebind (orThrow (tfind (\<lambda>g. g_id g = gid) (groups s4)) RecordNotFound) (\<lambda>g. Inr (g, s4)))) = Inr (g, s')"
      using c unfolding createFresh_def m_def [symmetric] Let_def by (elim ebindE) (auto simp: require_Inr_iff elim!: ebindE)
    obtain gid s3 where g: "(gid, s3) = createGroup u (c_id cart) inp q m ords s2"
      by (cases "createGroup u (c_id cart) inp q m ords s2") auto
    then have p: "s' = s3 \<or> payImmediately env u q m (map_option (snd \<circ> snd) credit) gid s3 = Inr s'"
      using rest by (auto simp: ebind_Inr_iff orThrow_Inr_iff g [symmetric] split: if_splits)
    have "orders s3 = orders s2" using g createAllocations_rows [of gid ords "s2\<lparr>groups := tinsert (new_group u (c_id cart) inp q m) (groups s2)\<rparr>"]
      by (auto simp: createGroup_def Let_def)
    then have "evolves s2 s3" by (rule evolves_orders)
    moreover have "evolves s1 s2" by (rule placed_evolves) (rule createOrders_placed [OF o])
    moreover have "evolves s3 s'" using p payImmediately_evolves evolves_orders [of s3 s3] by blast
    ultimately show ?thesis by (blast intro: evolves_trans)
  qed
  then have "evolves s1 s'" using r evolves_orders [of s1 s1] by blast
  then show ?thesis using evolves_orders [OF s1] by (rule evolves_trans [rotated])
qed

text \<open>The store, the staff and the customer.\<close>

lemma evolves_set:
  assumes "tfind (\<lambda>x. o_id x = oid) (orders s) = Some ord" and "canTransitionOrder (o_currentStatus ord) b"
    and "orders s' = orders (setOrderStatus now oid b s)"
  shows "evolves s s'"
  by (intro evolves_moves setOrderStatus_moves [OF assms] ids_kept_set [OF assms(3)])

lemma prepare_evolves: "evolves s (snd (setStatus push cfg now actor oid st reason s))"
proof (cases "status_guards actor oid st s")
  case (Inr ord)
  show ?thesis
  proof (rule evolves_set)
    show "tfind (\<lambda>x. o_id x = oid) (orders s) = Some ord" "canTransitionOrder (o_currentStatus ord) st"
      using Inr by (auto simp: status_guards_def tx_simps)
    show "orders (snd (setStatus push cfg now actor oid st reason s)) = orders (setOrderStatus now oid st s)"
      using Inr by (auto simp: setStatus_def Let_def hbind_def hmodify_def hreturn_def pushHistory_def split: sum.split prod.split
          dest!: arg_cong [of "notifyUser _ _ _ _ _ _" _ "\<lambda>p. orders (snd p)"] arg_cong [of "notifyAvailableRidersForOrder _ _ _ _ _" _ "\<lambda>p. orders (snd p)"])
  qed
qed (simp add: setStatus_def evolves_orders)

lemma packing_evolves: "evolves s (snd (completePacking push cfg now actor sid oid s))"
proof (rule evolves_moves [OF completePacking_moves])
  show "ids_kept s (snd (completePacking push cfg now actor sid oid s))"
  proof (cases "packing_guards actor sid oid s")
    case (Inr p)
    have "orders (snd (completePacking push cfg now actor sid oid s)) = orders (setOrderStatus now oid READY_FOR_PICKUP s)"
      using Inr by (cases p) (auto simp: completePacking_def hbind_def hmodify_def hreturn_def pushHistory_def split: sum.split prod.split
          dest!: arg_cong [of "notifyUser _ _ _ _ _ _" _ "\<lambda>p. orders (snd p)"] arg_cong [of "notifyAvailableRidersForOrder _ _ _ _ _" _ "\<lambda>p. orders (snd p)"])
    then show ?thesis by (rule ids_kept_set)
  qed (simp add: completePacking_def)
qed

lemma intervention_evolves:
  assumes "interveneInTransaction now oid staff st reason s = Inr (x, s')"
  shows "evolves s s'"
proof (rule evolves_moves [OF intervene_moves [OF assms]])
  obtain ord rewards s1 where o: "tfind (\<lambda>x. o_id x = oid) (orders s) = Some ord"
    and r: "(if st = COMPLETED
            then ebind (completeOrder now ord None (''Staff intervention: '' @ reason) s) (\<lambda>(rewards, s1). Inr (Some rewards, s1))
            else Inr (None, pushHistory oid (o_currentStatus ord) st None (Some (''Staff intervention: '' @ reason))
                   (setOrderStatus now oid st s))) = Inr (rewards, s1)" and s': "orders s' = orders s1"
    using assms unfolding interveneInTransaction_def Let_def
    by (elim ebindE) (auto simp: require_Inr_iff orThrow_Inr_iff audit_def elim!: ebindE)
  have "o_id ord = oid" using o by (auto dest: tfind_SomeD)
  then have "orders s' = orders (setOrderStatus now oid st s)"
    using r s' by (cases "st = COMPLETED") (auto simp: pushHistory_def dest!: completeOrder_tables(1) elim!: ebindE)
  then show "ids_kept s s'" by (rule ids_kept_set)
qed

lemma cancellation_evolves:
  assumes "cancelInTransaction now u oid reason s = Inr (x, s')"
  shows "evolves s s'"
proof (rule evolves_moves)
  show "order_moves s s'" if "orders_keyed s" using cancel_moves [OF assms] that by (simp add: orders_keyed_def)
  obtain ord s1 pid kl and al :: allocation and g :: payment_group where c: "withdrawOrder now u ord reason s = Inr s1"
    "refundCancelled u ord reason pid (al_amount al) (g_paymentMethod g = WALLET) kl s1 = Inr (x, s')"
    by (rule cancel_steps [OF assms]) (rule that)
  have "orders s' = orders (setOrderStatus now (o_id ord) CANCELLED s)"
    using refundCancelled_orders [OF c(2)] withdrawOrder_effect(4) [OF c(1)] by simp
  then show "ids_kept s s'" by (rule ids_kept_set)
qed

text \<open>The rider.\<close>

lemma claim_evolves:
  assumes "claimInTransaction cfg now rider did offer s = Inr (d, s')"
  shows "evolves s s'"
proof -
  obtain current :: delivery where o': "orders s' = tupdate (\<lambda>x. o_id x = d_orderId current \<and> o_currentStatus x = READY_FOR_PICKUP)
       (\<lambda>x. x\<lparr>o_currentStatus := RIDER_ASSIGNED, o_updatedAt := now\<rparr>) (orders s)"
    by (rule claim_effect [OF assms]) (rule that)
  show ?thesis
    by (intro evolves_moves order_moves_tupdate [OF o'] ids_kept_tupdate [OF o']) (auto simp: canTransitionOrder_def)
qed

lemma report_evolves:
  assumes "updateStatus name now rider did st loc note s = Inr s'"
  shows "evolves s s'"
proof -
  obtain d ord where g: "tfind (\<lambda>d. d_id d = did) (deliveries s) = Some d" "order_of d s = Some ord"
    using assms by (auto simp: updateStatus_def ebind_Inr_iff orThrow_Inr_iff)
  let ?b = "the (synchronized_status st)"
  have r: "orders s' = orders s \<or> canTransitionOrder (o_currentStatus ord) ?b \<and> orders s' = orders (setOrderStatus now (d_orderId d) ?b s)"
    using assms g by (simp add: updateStatus_def Let_def require_Inr_iff)
      (auto simp: pushHistory_def setOrderStatus_def split: if_splits)
  show ?thesis
  proof (cases "orders s' = orders s")
    case False
    then show ?thesis using r g(2) by (intro evolves_set [of "d_orderId d" s ord ?b]) (simp_all add: order_of_def)
  qed (rule evolves_orders)
qed

lemma pickup_evolves:
  assumes "confirmPickup hash now rider oid payload s = Inr (rs, s')"
  shows "evolves s s'"
proof -
  obtain ord s1 and d :: delivery and q :: qr_credential where p: "tfind (\<lambda>x. o_id x = oid) (orders s) = Some ord" "o_currentStatus ord \<in> {READY_FOR_PICKUP, RIDER_ASSIGNED}"
    "consumeCredential now (qc_id q) rider s = Inr s1"
    "s' = pushHistory oid (o_currentStatus ord) PICKED_UP (Some rider) (Some ''Rider QR and product checklist verified.'')
       (setOrderStatus now oid PICKED_UP s1\<lparr>deliveries := tupdate (\<lambda>d. d_orderId d = oid)
         (\<lambda>d. d\<lparr>d_status := D_PICKED_UP, d_pickedUpAt := Some now\<rparr>) (deliveries s1)\<rparr>)"
    by (rule confirmPickup_cases [OF assms]) (rule that)
  obtain x where "s1 = s\<lparr>qrCredentials := x\<rparr>" using consumeCredential_frame [OF p(3)] by blast
  then have "orders s' = orders (setOrderStatus now oid PICKED_UP s)" by (simp add: p(4) pushHistory_def setOrderStatus_def)
  then show ?thesis using p(1,2) by (intro evolves_set) (auto simp: canTransitionOrder_def)
qed

lemma handover_evolves:
  assumes "delivery_guards hash now rider oid payload s = Inr (ord, d, q)" and "deliverInTransaction now rider ord d q s = Inr (x, s')"
  shows "evolves s s'"
proof (rule evolves_moves)
  obtain cash points where x: "x = (cash, points)" by (cases x)
  have g: "tfind (\<lambda>x. o_id x = o_id ord) (orders s) = Some ord" "order_delivery (o_id ord) s = Some d" "o_currentStatus ord = OUT_FOR_DELIVERY"
    using assms(1) by (auto simp: delivery_guards_def riderOrder_def tx_simps split: option.splits dest: tfind_SomeD intro: tfind_key)
  show "order_moves s s'" by (rule deliverInTransaction_effect(2) [OF assms(2) [unfolded x] g(1,3,2)])
  obtain s1 s2 s3 where c: "consumeCredential now (qc_id q) rider s = Inr s1"
    "progressDelivery now (o_id ord) DELIVERED (\<lambda>d. d\<lparr>d_status := D_DELIVERED, d_deliveredAt := Some now\<rparr>) s1 = Inr s2"
    "releaseRiderEarning (d_id d) s2 = Inr s3"
    "completeOrder now (ord\<lparr>o_currentStatus := DELIVERED\<rparr>) None ''System completed the order after customer QR verification.''
       (pushHistory (o_id ord) (o_currentStatus ord) DELIVERED (Some rider) (Some ''Customer delivery QR verified.'') s3) = Inr (x, s')"
    using assms(2) unfolding deliverInTransaction_def by (auto elim!: ebindE)
  obtain y where "s1 = s\<lparr>qrCredentials := y\<rparr>" using consumeCredential_frame [OF c(1)] by blast
  then have o1: "orders s1 = orders s" by simp
  have o2: "orders s2 = orders (setOrderStatus now (o_id ord) DELIVERED s1)" using c(2) by (auto simp: progressDelivery_def require_Inr_iff setOrderStatus_def)
  have o3: "orders s3 = orders s2" by (rule settlement_frameD(1) [OF releaseRiderEarning_frame(1) [OF c(3)]])
  have o4: "orders s' = orders (setOrderStatus now (o_id ord) COMPLETED s3)"
    using completeOrder_tables(1) [OF c(4)] by (simp add: pushHistory_def setOrderStatus_def)
  show "ids_kept s s'"
    using ids_kept_orders [OF o1] ids_kept_set [OF o2] ids_kept_orders [OF o3] ids_kept_set [OF o4] by (blast intro: ids_kept_trans)
qed

section \<open>The system refines the book\<close>

text \<open>
  The transactions that write orders, one rule per transaction, and every other transaction, which
  leaves the order table alone.
\<close>

inductive order_step :: "db \<Rightarrow> db \<Rightarrow> bool" where
  checkout: "createInTransaction env u inp credit s = Inr (g, s') \<Longrightarrow> order_step s s'"
| pay: "completeGroup cfg now gid s = Inr s' \<Longrightarrow> order_step s s'"
| release: "failGroup now gid s = Inr s' \<Longrightarrow> order_step s s'"
| prepare: "order_step s (snd (setStatus push cfg' now actor oid st reason s))"
| pack: "order_step s (snd (completePacking push cfg' now actor sid oid s))"
| intervene: "interveneInTransaction now oid staff st why s = Inr (r, s') \<Longrightarrow> order_step s s'"
| cancel: "cancelInTransaction now u oid why s = Inr (c, s') \<Longrightarrow> order_step s s'"
| claim: "claimInTransaction cfg' now rider did offer s = Inr (d, s') \<Longrightarrow> order_step s s'"
| report: "updateStatus name now rider did ds loc note s = Inr s' \<Longrightarrow> order_step s s'"
| pickup: "confirmPickup hash now rider oid payload s = Inr (rs, s') \<Longrightarrow> order_step s s'"
| handover: "delivery_guards hash now rider oid payload s = Inr (ord, d, q) \<Longrightarrow> deliverInTransaction now rider ord d q s = Inr (x, s') \<Longrightarrow> order_step s s'"
| other: "orders s' = orders s \<Longrightarrow> order_step s s'"

lemma order_step_evolves: "order_step s t \<Longrightarrow> evolves s t"
  by (cases rule: order_step.cases)
    (auto intro: checkout_evolves completeGroup_evolves failGroup_evolves prepare_evolves packing_evolves intervention_evolves
      cancellation_evolves claim_evolves report_evolves pickup_evolves handover_evolves evolves_orders)

interpretation order_book: simulation order_step book_step book_of orders_keyed
proof
  fix s t assume "order_step s t" "orders_keyed s"
  then have e: "orders_keyed t" "\<And>k. key_moves (status_of k s) (status_of k t)"
    using order_step_evolves by (auto simp: evolves_def)
  show "orders_keyed t" by (rule e(1))
  show "rtranclp book_step (book_of s) (book_of t)" by (rule keys_simulate) (rule e(2))
qed


text \<open>What the book keeps, the system keeps.\<close>

lemma book_terminal: "book_step b c \<Longrightarrow> b k = Some x \<Longrightarrow> order_terminal x \<Longrightarrow> c k = Some x"
  by (erule book_stepE) (auto simp: canTransitionOrder_def order_machine.terminal_succs)

lemma book_left_store:
  "book_step b c \<Longrightarrow> (\<exists>x. b k = Some x \<and> \<not> at_store x) \<Longrightarrow> (\<exists>x. c k = Some x \<and> \<not> at_store x)"
  by (erule book_stepE) (auto simp: canTransitionOrder_def dest: at_store_not_reentered [of _ "[_]", simplified])


text \<open>
  One transaction is not a step of the book and therefore not a rule above: confirming a delivery
  with the delivery code writes \<open>DELIVERED\<close> whatever the status of the order was.
\<close>

lemma code_writes_delivered:
  assumes "verify_code hash push now did code actor s = (Inr (), s')"
  shows "\<exists>d. tfind (\<lambda>d. d_id d = did) (deliveries s) = Some d \<and> status_of (d_orderId d) s' = Some DELIVERED"
proof -
  obtain d ord h where g: "code_guards now did actor s = Inr (d, ord, h)"
    and n: "notifyUser push (o_userId ord) ''DELIVERY_COMPLETED'' ''Delivery completed'' None (confirm_code now did (d_orderId d) s) = (Inr (), s')"
    using assms by (auto simp: verify_code_def split: sum.splits if_splits)
  have d: "tfind (\<lambda>d. d_id d = did) (deliveries s) = Some d" "order_of d s = Some ord"
    using g by (auto simp: code_guards_def tx_simps split: option.splits)
  have "orders s' = orders (confirm_code now did (d_orderId d) s)"
    using arg_cong [OF n, of "\<lambda>p. orders (snd p)"] by simp
  then have "status_of (d_orderId d) s' = status_of (d_orderId d) (setOrderStatus now (d_orderId d) DELIVERED s)"
    by (simp add: status_of_def confirm_code_def setOrderStatus_def)
  then show ?thesis using d by (simp add: status_of_setOrderStatus) (auto simp: order_of_def status_of_def)
qed

section \<open>Examples\<close>

text \<open>The paid order of the example is cancelled, and a second request changes nothing any more.\<close>

lemma cancelled_step:
  "order_step paid_db (snd (projr cancelled_order))" "status_of 5 paid_db = Some CONFIRMED"
  "status_of 5 (snd (projr cancelled_order)) = Some CANCELLED"
proof -
  have "\<not> isl cancelled_order" and s: "status_of 5 paid_db = Some CONFIRMED" "status_of 5 (snd (projr cancelled_order)) = Some CANCELLED"
    by code_simp+
  from this(1) have "cancelled_order = Inr (fst (projr cancelled_order), snd (projr cancelled_order))" by (cases cancelled_order) auto
  then show "order_step paid_db (snd (projr cancelled_order))" by (rule order_step.cancel)
  show "status_of 5 paid_db = Some CONFIRMED" "status_of 5 (snd (projr cancelled_order)) = Some CANCELLED" by (fact s)+
qed

lemma paid_keyed: "orders_keyed paid_db"
  by (simp add: paid_db_def orders_keyed_def tkeyed_def settled_order_def)



end
