(* ===== verification/Spec2Isabelle.thy ===== *)
theory Spec2Isabelle
  imports Payments Wallets Klump Staff Auth Lifecycle
begin

text \<open>
  A verification development for the Purse Superstore backend, a marketplace server written in
  TypeScript on NestJS and Prisma: carts, checkout, payments over Paystack and Klump, wallets,
  settlements, deliveries by riders, refunds, rewards, and the accounts of customers and staff.
  Every definition is translated from the code; paths below are relative to the source
  directory of the server.

  \<^bold>\<open>The program and its state.\<close>  The services keep everything in one relational database and
  a key store for rate limits and one-time codes.  Theory Schema has one record per table
  (\<^verbatim>\<open>prisma/schema.prisma\<close>), with the columns that some modelled condition or write uses, and the record
  \<open>db\<close> of all tables; less central tables are grouped in the sub-records \<open>access\<close>, \<open>fleet\<close> and
  \<open>lending\<close>.  A table (theory Prelude) is a list of rows in the order of creation with the next
  identifier.  A function that runs inside a database transaction is a \<open>tx\<close>: it takes the
  database and returns a value with the new database, or an exception, whereupon nothing is
  written.  A request that is not one transaction is a \<open>handler\<close>: it returns its result and the
  database, so that what it wrote before it failed stays written.  Each HTTP exception is a
  constructor of \<open>exn\<close> with the message of the source; identifiers and amounts that the source
  renders into a message are left out of it.  \<open>findUniqueOrThrow\<close> and \<open>update\<close> on a missing row
  give \<open>RecordNotFound\<close>, a unique column that already holds the value gives \<open>UniqueViolation\<close>.

  \<^bold>\<open>Numbers and time.\<close>  Amounts are decimals of the library decimal.js in the code and exact rationals
  here: sums and products of two-decimal columns are exact in both, and rounding to two decimals
  is written out (theory Money).  Where the code divides, the quotient of the library is a
  parameter \<open>dv\<close>, which the bounds assume to be near the true quotient (\<open>near_quotient\<close>).  Times
  are milliseconds as integers; \<open>now\<close> is an argument.  Distances are reals.

  \<^bold>\<open>What stands for code outside the repository.\<close>  Identifiers, codes and random values, SHA-256, HMAC,
  bcrypt, signed tokens, the document cipher, the network answers of Paystack, Klump and the
  identity providers, push and mail delivery, and the parser of telephone numbers are arguments:
  fields of the environment records \<open>pay_env\<close>, \<open>checkout_env\<close>, \<open>bnpl_env\<close>, \<open>klump_env\<close>, \<open>staff_env\<close>
  and \<open>auth_env\<close>, or plain parameters.  What a theorem needs of them is a hypothesis of the theorem,
  and its witness instantiates the parameter.

  \<^bold>\<open>The theories.\<close>
  \<^item> Prelude: exceptions, results, loops that stop at an error, tables, and the generic
    interfaces \<open>keyed_table\<close>, \<open>tx_system\<close> (runs of transactions), \<open>status_machine\<close> and \<open>ranked_machine\<close>.  Strings, Money: \<^verbatim>\<open>src/common/money.ts\<close> and the string methods.
    Handlers: \<open>try ... catch\<close> and the statements of handlers, with \<open>hkeeps\<close> for what they keep.
  \<^item> Statuses: the tables of \<^verbatim>\<open>src/orders/order-status.ts\<close> and of the deliveries.
  \<^item> Notifications: \<^verbatim>\<open>src/notifications/notifications.service.ts\<close> and \<^verbatim>\<open>push-notifications.service.ts\<close>,
    preferences, the inbox and the outbox of order confirmations.
  \<^item> Cart, Quote, Checkout: \<^verbatim>\<open>src/cart\<close> and \<^verbatim>\<open>src/checkout\<close>.  The cart keeps its totals; the quote prices the
    cart with coupon, voucher and delivery; the checkout reserves stock, creates orders and a
    payment group, and pays at once from the wallet or an approved credit.
  \<^item> Ledger, Settlements, PaymentGroups: wallets of customers and stores with the locale \<open>ledger\<close>
    (a balance is the sum of its transactions); \<^verbatim>\<open>src/settlements/settlements.service.ts\<close>; completing and
    releasing a payment group (\<open>completeGroup\<close>, \<open>failGroup\<close> of \<^verbatim>\<open>src/payments/payments.service.ts\<close>).
  \<^item> Paystack, Funding, Refunds, Payments: the provider's client and the rest of
    \<^verbatim>\<open>src/payments/payments.service.ts\<close>: initialization, verification, webhook, top-ups, withdrawals,
    refunds, reconciliation, repayments.
  \<^item> Rewards: \<^verbatim>\<open>src/orders/complete-order.ts\<close>, \<^verbatim>\<open>src/rewards\<close>, \<^verbatim>\<open>src/referrals\<close>.
  \<^item> Riders, Delivery: \<^verbatim>\<open>src/riders\<close>, \<^verbatim>\<open>src/delivery\<close> and the rider decisions of \<^verbatim>\<open>src/admin/admin.service.ts\<close>.
  \<^item> Orders, Scanning: \<^verbatim>\<open>src/orders/orders.service.ts\<close>, the staff intervention of
    \<^verbatim>\<open>src/admin/admin.service.ts\<close>, and \<^verbatim>\<open>src/scanning/scanning.service.ts\<close>.
  \<^item> Wallets: the wallets of stores and riders (\<^verbatim>\<open>src/stores/store-wallet.service.ts\<close>,
    \<^verbatim>\<open>src/riders/rider-wallet.service.ts\<close>).
  \<^item> Bnpl, Klump: \<^verbatim>\<open>src/bnpl\<close>.
  \<^item> Access, Staff, Auth: \<^verbatim>\<open>src/rbac\<close>, \<^verbatim>\<open>src/approvals\<close>, \<^verbatim>\<open>src/common/permission.guard.ts\<close>, \<^verbatim>\<open>src/staff\<close> and
    \<^verbatim>\<open>src/auth\<close>.
  \<^item> Lifecycle: the transactions of checkout, payments, orders, scanning and delivery together, as the
    step relation \<open>order_step\<close>, refine the abstract book of orders \<open>book_step\<close>.

  \<^bold>\<open>How the parts interact.\<close>  Checkout, Payments and Bnpl meet in the payment group: Checkout creates
  it, Payments and Klump complete or release it, and completing it settles the orders
  (Settlements) and queues their confirmations (Notifications).  Orders and Scanning move a
  confirmed order on; Delivery moves order and delivery together when a rider claims it; the
  customer's code completes it (Scanning), which releases the rider's fee (Settlements) and earns
  the rewards (Rewards).  Cancelling an order (Orders) undoes stock, settlement and payment
  (Refunds).  All of them write \<open>orders\<close>, and Lifecycle shows that together they respect the order table.

  \<^bold>\<open>What the lemmas show.\<close>  Frames say which tables a step leaves alone; effects say what it did to the
  rows; \<open>..._cases\<close> and \<open>..._steps\<close> take a run apart.  On these rest the properties: money is moved
  exactly and once (top-ups, settlements, refunds, withdrawals, checkout debits, instalments), stock is
  reserved and restored exactly, guards admit exactly whom they should (permissions, staff, sessions,
  riders, codes), invariants hold over every sequence of requests (\<open>run_ops\<close>), and the order and delivery
  life cycles are respected.  Concurrency appears where the code defends against it: conditional updates are
  modelled with their condition and count, and the lemmas about two interleaved requests
  state what the condition achieves or, in \<open>interleaved_decisions\<close>, what its absence permits.

  \<^bold>\<open>Bounds and termination.\<close>  Every definition is a total function by structural recursion or on a decreasing
  measure; there is no fuel.  Loops over rows are folds over the rows read before the loop, as in
  the code.

  \<^bold>\<open>Not modelled.\<close>  HTTP controllers and socket gateways, which only declare routes and call the services
  (the two webhook controllers that decide something are modelled); input validation by decorators;
  read-only search and home pages (\<^verbatim>\<open>src/marketplace\<close>, dashboards of \<^verbatim>\<open>src/admin\<close>); the plain records of
  \<^verbatim>\<open>src/catalog\<close>, \<^verbatim>\<open>src/stores\<close>, \<^verbatim>\<open>src/vendors\<close>, \<^verbatim>\<open>src/users\<close>, \<^verbatim>\<open>src/reviews\<close>, \<^verbatim>\<open>src/support\<close> and
  \<^verbatim>\<open>src/chats\<close>; marketing campaigns; passkeys, whose behaviour is the WebAuthn library's; the clients of the
  identity providers; mail templates, logging, health checks and start-up.  Of the modelled
  services, listings with free-text search, socket broadcasts and log lines are left out.
\<close>

end
